(* ===== verification/Prelude.thy ===== *)
theory Prelude
  imports Main "HOL-Library.Char_ord" "HOL-Library.List_Lexorder"
begin

text \<open>
  The prelude of the development: Python's exceptions as a datatype, the
  computations of the panel as state-passing functions that may raise, the
  loops the code writes over querysets, and the two calculi the other theories
  reason with.  Both are about all exits of a computation, normal and
  exceptional:
  \<^item> \<open>steps R m\<close>: whatever \<open>m\<close> does, the state it was called in and the state it
    leaves are related by \<open>R\<close>.  The locale \<open>effect\<close> proves the rules of every
    combinator once, for any reflexive and transitive \<open>R\<close>; a frame condition
    (\<open>R s t\<close> is \<open>db t = db s\<close>) and an invariant (\<open>R s t\<close> is \<open>I s \<longrightarrow> I t\<close>) are
    two instances of it.
  \<^item> \<open>hoare P m Q X\<close>: from a state in \<open>P\<close>, a normal exit with result \<open>x\<close> satisfies
    \<open>Q x\<close> and an exception \<open>e\<close> leaves a state in \<open>X e\<close>.
\<close>

named_theorems py_simps \<open>how the combinators run on a state\<close>
named_theorems steps_intro \<open>introduction rules of the effect calculus\<close>


section \<open>Exceptions and computations\<close>

text \<open>
  The exceptions that the code raises itself or that it can receive.  The
  argument is \<open>str(e)\<close> where the code shows it to a user.  The last constructor
  stands for every other exception a third-party library raises.
\<close>

datatype exn =
    AccountError string
  | ShadowLinkError string
  | CommandError string
  | ValueError string
  | OverflowError string
  | IntegrityError string
  | DataError string
  | ProtectedError string
  | DatabaseError string
  | DoesNotExist string
  | Http404 string
  | ValidationError string
  | RequestsConnectionError string
  | RequestsTimeout string
  | RequestsHTTPError nat string
  | OtherError string

type_synonym ('s, 'a) py = "'s \<Rightarrow> (exn + 'a) \<times> 's"

definition py_return :: "'a \<Rightarrow> ('s, 'a) py" where
  "py_return x s = (Inr x, s)"

definition py_raise :: "exn \<Rightarrow> ('s, 'a) py" where
  "py_raise e s = (Inl e, s)"

definition py_bind :: "('s, 'a) py \<Rightarrow> ('a \<Rightarrow> ('s, 'b) py) \<Rightarrow> ('s, 'b) py" where
  "py_bind m f s = (case m s of (Inl e, t) \<Rightarrow> (Inl e, t) | (Inr x, t) \<Rightarrow> f x t)"

definition py_then :: "('s, 'a) py \<Rightarrow> ('s, 'b) py \<Rightarrow> ('s, 'b) py" where
  "py_then m k = py_bind m (\<lambda>_. k)"

text \<open>\<open>try: m except Exception as e: h e\<close>; a narrower \<open>except\<close> re-raises in \<open>h\<close>.\<close>

definition py_try :: "('s, 'a) py \<Rightarrow> (exn \<Rightarrow> ('s, 'a) py) \<Rightarrow> ('s, 'a) py" where
  "py_try m h s = (case m s of (Inl e, t) \<Rightarrow> h e t | (Inr x, t) \<Rightarrow> (Inr x, t))"

text \<open>\<open>try: m finally: c\<close>: \<open>c\<close> runs on both exits and the exception goes on.\<close>

definition py_finally :: "('s, 'a) py \<Rightarrow> ('s, unit) py \<Rightarrow> ('s, 'a) py" where
  "py_finally m c s =
     (case m s of (r, t) \<Rightarrow> (case c t of (Inl e, u) \<Rightarrow> (Inl e, u) | (Inr _, u) \<Rightarrow> (r, u)))"

definition py_get :: "('s \<Rightarrow> 'a) \<Rightarrow> ('s, 'a) py" where
  "py_get f s = (Inr (f s), s)"

definition py_modify :: "('s \<Rightarrow> 's) \<Rightarrow> ('s, unit) py" where
  "py_modify f s = (Inr (), f s)"

definition py_when :: "bool \<Rightarrow> ('s, unit) py \<Rightarrow> ('s, unit) py" where
  "py_when b m = (if b then m else py_return ())"

text \<open>\<open>for x in xs: m x\<close>.\<close>

fun py_for :: "'a list \<Rightarrow> ('a \<Rightarrow> ('s, unit) py) \<Rightarrow> ('s, unit) py" where
  "py_for [] m = py_return ()"
| "py_for (x # xs) m = py_then (m x) (py_for xs m)"

text \<open>\<open>for x in xs: acc = m acc x\<close>.\<close>

fun py_fold :: "('b \<Rightarrow> 'a \<Rightarrow> ('s, 'b) py) \<Rightarrow> 'b \<Rightarrow> 'a list \<Rightarrow> ('s, 'b) py" where
  "py_fold m acc [] = py_return acc"
| "py_fold m acc (x # xs) = py_bind (m acc x) (\<lambda>acc'. py_fold m acc' xs)"

text \<open>
  The loop that the tasks and the admin actions share:
  \<^verbatim>\<open>
    count = 0
    for x in xs:
        try:
            m(x)
            count += 1
        except Exception:
            pass          # or a log line
    return count
  \<close>
\<close>

definition best_effort :: "('a \<Rightarrow> ('s, unit) py) \<Rightarrow> 'a list \<Rightarrow> ('s, nat) py" where
  "best_effort m xs =
     py_fold (\<lambda>count x. py_try (py_then (m x) (py_return (count + 1))) (\<lambda>_. py_return count)) 0 xs"


section \<open>Running a computation\<close>

lemma py_return_run [py_simps]: "py_return x s = (Inr x, s)"
  by (simp add: py_return_def)

lemma py_raise_run [py_simps]: "py_raise e s = (Inl e, s)"
  by (simp add: py_raise_def)

lemma py_get_run [py_simps]: "py_get f s = (Inr (f s), s)"
  by (simp add: py_get_def)

lemma py_modify_run [py_simps]: "py_modify f s = (Inr (), f s)"
  by (simp add: py_modify_def)

lemma py_bind_Inr [py_simps]: "m s = (Inr x, t) \<Longrightarrow> py_bind m f s = f x t"
  by (simp add: py_bind_def)

lemma py_bind_Inl [py_simps]: "m s = (Inl e, t) \<Longrightarrow> py_bind m f s = (Inl e, t)"
  by (simp add: py_bind_def)

lemma py_then_Inr [py_simps]: "m s = (Inr x, t) \<Longrightarrow> py_then m k s = k t"
  by (simp add: py_then_def py_bind_def)

lemma py_then_Inl [py_simps]: "m s = (Inl e, t) \<Longrightarrow> py_then m k s = (Inl e, t)"
  by (simp add: py_then_def py_bind_def)

lemma py_try_Inr [py_simps]: "m s = (Inr x, t) \<Longrightarrow> py_try m h s = (Inr x, t)"
  by (simp add: py_try_def)

lemma py_try_Inl [py_simps]: "m s = (Inl e, t) \<Longrightarrow> py_try m h s = h e t"
  by (simp add: py_try_def)

lemma py_bind_return [simp]: "py_bind (py_return x) f = f x"
  by (simp add: py_bind_def py_return_def fun_eq_iff)

lemma py_bind_raise [simp]: "py_bind (py_raise e) f = py_raise e"
  by (simp add: py_bind_def py_raise_def fun_eq_iff)

lemma py_return_bind [simp]: "py_bind m py_return = m"
  by (auto simp: py_bind_def py_return_def fun_eq_iff split: prod.splits sum.splits)

lemma py_bind_assoc: "py_bind (py_bind m f) g = py_bind m (\<lambda>x. py_bind (f x) g)"
  by (auto simp: py_bind_def fun_eq_iff split: prod.splits sum.splits)

lemma py_then_return [simp]: "py_then (py_return x) k = k"
  by (simp add: py_then_def)

lemma py_when_simps [simp]: "py_when True m = m" "py_when False m = py_return ()"
  by (simp_all add: py_when_def)

lemma py_try_return [simp]: "py_try (py_return x) h = py_return x"
  by (simp add: py_try_def py_return_def fun_eq_iff)

lemma py_try_raise [simp]: "py_try (py_raise e) h = h e"
  by (simp add: py_try_def py_raise_def fun_eq_iff)

text \<open>An exit of a sequence is an exit of its first part or of what follows it.\<close>

lemma py_bind_cases:
  assumes "py_bind m f s = (r, u)"
  obtains (raised) e where "m s = (Inl e, u)" "r = Inl e"
  | (ran) x t where "m s = (Inr x, t)" "f x t = (r, u)"
  using assms by (cases "m s"; cases "fst (m s)") (auto simp: py_bind_def)

lemma py_bind_InrE:
  assumes "py_bind m f s = (Inr y, u)"
  obtains x t where "m s = (Inr x, t)" "f x t = (Inr y, u)"
  using assms by (rule py_bind_cases) auto

lemma py_then_InrE:
  assumes "py_then m k s = (Inr y, u)"
  obtains x t where "m s = (Inr x, t)" "k t = (Inr y, u)"
  using assms unfolding py_then_def by (rule py_bind_InrE)


section \<open>Effects: a relation between the state before and after\<close>

definition steps :: "('s \<Rightarrow> 's \<Rightarrow> bool) \<Rightarrow> ('s, 'a) py \<Rightarrow> bool" where
  "steps R m \<longleftrightarrow> (\<forall>s. R s (snd (m s)))"

lemma stepsI: "(\<And>s. R s (snd (m s))) \<Longrightarrow> steps R m"
  by (simp add: steps_def)

lemma stepsD: "steps R m \<Longrightarrow> R s (snd (m s))"
  by (simp add: steps_def)

lemma steps_run: "steps R m \<Longrightarrow> m s = (r, t) \<Longrightarrow> R s t"
  by (metis snd_conv stepsD)

lemma steps_mono: "steps R m \<Longrightarrow> (\<And>s t. R s t \<Longrightarrow> S s t) \<Longrightarrow> steps S m"
  by (simp add: steps_def)

locale effect =
  fixes R :: "'s \<Rightarrow> 's \<Rightarrow> bool"
  assumes R_refl: "R s s"
    and R_trans: "R s t \<Longrightarrow> R t u \<Longrightarrow> R s u"
begin

lemma steps_return [steps_intro]: "steps R (py_return x)"
  by (simp add: steps_def R_refl py_return_def)

lemma steps_raise [steps_intro]: "steps R (py_raise e)"
  by (simp add: steps_def R_refl py_raise_def)

lemma steps_get [steps_intro]: "steps R (py_get f)"
  by (simp add: steps_def R_refl py_get_def)

lemma steps_modify: "(\<And>s. R s (f s)) \<Longrightarrow> steps R (py_modify f)"
  by (simp add: steps_def py_modify_def)

lemma steps_bind [steps_intro]:
  assumes "steps R m" and "\<And>x. steps R (f x)"
  shows "steps R (py_bind m f)"
proof (rule stepsI)
  fix s
  show "R s (snd (py_bind m f s))"
  proof (cases "m s")
    case (Pair r t)
    then have "R s t" by (rule steps_run [OF assms(1)])
    with Pair assms(2) show ?thesis
      by (cases r) (auto simp: py_bind_def intro: R_trans stepsD)
  qed
qed

lemma steps_then [steps_intro]: "steps R m \<Longrightarrow> steps R k \<Longrightarrow> steps R (py_then m k)"
  unfolding py_then_def by (rule steps_bind)

lemma steps_try [steps_intro]:
  assumes "steps R m" and "\<And>e. steps R (h e)"
  shows "steps R (py_try m h)"
proof (rule stepsI)
  fix s
  show "R s (snd (py_try m h s))"
  proof (cases "m s")
    case (Pair r t)
    then have "R s t" by (rule steps_run [OF assms(1)])
    with Pair assms(2) show ?thesis
      by (cases r) (auto simp: py_try_def intro: R_trans stepsD)
  qed
qed

lemma steps_finally [steps_intro]:
  assumes "steps R m" and "steps R c"
  shows "steps R (py_finally m c)"
proof (rule stepsI)
  fix s
  obtain r t where rt: "m s = (r, t)" by (cases "m s")
  obtain q u where qu: "c t = (q, u)" by (cases "c t")
  have "R s u"
    using steps_run [OF assms(1) rt] steps_run [OF assms(2) qu] by (rule R_trans)
  with rt qu show "R s (snd (py_finally m c s))"
    by (cases q) (simp_all add: py_finally_def)
qed

lemma steps_when [steps_intro]: "(b \<Longrightarrow> steps R m) \<Longrightarrow> steps R (py_when b m)"
  by (simp add: py_when_def steps_return)

lemma steps_if [steps_intro]:
  "(b \<Longrightarrow> steps R m) \<Longrightarrow> (\<not> b \<Longrightarrow> steps R k) \<Longrightarrow> steps R (if b then m else k)"
  by simp

lemma steps_case_option [steps_intro]:
  "(v = None \<Longrightarrow> steps R m) \<Longrightarrow> (\<And>x. v = Some x \<Longrightarrow> steps R (f x)) \<Longrightarrow>
   steps R (case v of None \<Rightarrow> m | Some x \<Rightarrow> f x)"
  by (cases v) simp_all

lemma steps_case_sum [steps_intro]:
  "(\<And>e. v = Inl e \<Longrightarrow> steps R (g e)) \<Longrightarrow> (\<And>x. v = Inr x \<Longrightarrow> steps R (f x)) \<Longrightarrow>
   steps R (case v of Inl e \<Rightarrow> g e | Inr x \<Rightarrow> f x)"
  by (cases v) simp_all

lemma steps_case_list [steps_intro]:
  "(v = [] \<Longrightarrow> steps R m) \<Longrightarrow> (\<And>x xs. v = x # xs \<Longrightarrow> steps R (f x xs)) \<Longrightarrow>
   steps R (case v of [] \<Rightarrow> m | x # xs \<Rightarrow> f x xs)"
  by (cases v) simp_all

lemma steps_case_prod [steps_intro]:
  "(\<And>a b. v = (a, b) \<Longrightarrow> steps R (f a b)) \<Longrightarrow> steps R (case v of (a, b) \<Rightarrow> f a b)"
  by (cases v) simp

lemma steps_let [steps_intro]: "steps R (f v) \<Longrightarrow> steps R (let x = v in f x)"
  by (simp add: Let_def)

lemma steps_for [steps_intro]: "(\<And>x. steps R (m x)) \<Longrightarrow> steps R (py_for xs m)"
  by (induction xs) (simp_all add: steps_return steps_then)

lemma steps_fold [steps_intro]: "(\<And>acc x. steps R (m acc x)) \<Longrightarrow> steps R (py_fold m acc xs)"
  by (induction xs arbitrary: acc) (simp_all add: steps_return steps_bind)

lemma steps_best_effort [steps_intro]: "(\<And>x. steps R (m x)) \<Longrightarrow> steps R (best_effort m xs)"
  unfolding best_effort_def
  by (rule steps_fold, rule steps_try, rule steps_then) (simp_all add: steps_return)

end


section \<open>Pre- and postconditions\<close>

definition hoare ::
  "('s \<Rightarrow> bool) \<Rightarrow> ('s, 'a) py \<Rightarrow> ('a \<Rightarrow> 's \<Rightarrow> bool) \<Rightarrow> (exn \<Rightarrow> 's \<Rightarrow> bool) \<Rightarrow> bool" where
  "hoare P m Q X \<longleftrightarrow>
     (\<forall>s. P s \<longrightarrow> (case m s of (Inl e, t) \<Rightarrow> X e t | (Inr x, t) \<Rightarrow> Q x t))"

lemma hoareI:
  assumes "\<And>s x t. P s \<Longrightarrow> m s = (Inr x, t) \<Longrightarrow> Q x t"
    and "\<And>s e t. P s \<Longrightarrow> m s = (Inl e, t) \<Longrightarrow> X e t"
  shows "hoare P m Q X"
  using assms by (auto simp: hoare_def split: prod.splits sum.splits)

lemma hoare_Inr: "hoare P m Q X \<Longrightarrow> P s \<Longrightarrow> m s = (Inr x, t) \<Longrightarrow> Q x t"
  by (force simp: hoare_def)

lemma hoare_Inl: "hoare P m Q X \<Longrightarrow> P s \<Longrightarrow> m s = (Inl e, t) \<Longrightarrow> X e t"
  by (force simp: hoare_def)

lemma hoare_weaken:
  "hoare P m Q X \<Longrightarrow> (\<And>s. P' s \<Longrightarrow> P s) \<Longrightarrow> (\<And>x s. Q x s \<Longrightarrow> Q' x s) \<Longrightarrow>
   (\<And>e s. X e s \<Longrightarrow> X' e s) \<Longrightarrow> hoare P' m Q' X'"
  by (rule hoareI) (blast dest: hoare_Inr hoare_Inl)+

lemma hoare_bind:
  assumes "hoare P m B X" and "\<And>x. hoare (B x) (f x) Q X"
  shows "hoare P (py_bind m f) Q X"
proof (rule hoareI)
  fix s y u
  assume P: "P s" and "py_bind m f s = (Inr y, u)"
  then obtain x t where "m s = (Inr x, t)" "f x t = (Inr y, u)"
    by (blast elim: py_bind_InrE)
  with assms P show "Q y u" by (blast dest: hoare_Inr)
next
  fix s e u
  assume P: "P s" and run: "py_bind m f s = (Inl e, u)"
  from run show "X e u"
  proof (cases rule: py_bind_cases)
    case (raised e')
    with assms(1) P show ?thesis by (auto dest: hoare_Inl)
  next
    case (ran x t)
    with assms P show ?thesis by (blast dest: hoare_Inr hoare_Inl)
  qed
qed

lemma hoare_then:
  "hoare P m (\<lambda>_. B) X \<Longrightarrow> hoare B k Q X \<Longrightarrow> hoare P (py_then m k) Q X"
  unfolding py_then_def by (rule hoare_bind)

lemma hoare_try:
  assumes "hoare P m Q B" and "\<And>e. hoare (B e) (h e) Q X"
  shows "hoare P (py_try m h) Q X"
proof (rule hoareI)
  fix s x t
  assume "P s" and "py_try m h s = (Inr x, t)"
  with assms show "Q x t"
    by (auto simp: py_try_def split: prod.splits sum.splits dest: hoare_Inr hoare_Inl)
next
  fix s e t
  assume "P s" and "py_try m h s = (Inl e, t)"
  with assms show "X e t"
    by (auto simp: py_try_def split: prod.splits sum.splits dest: hoare_Inl)
qed

lemma hoare_return: "(\<And>s. P s \<Longrightarrow> Q x s) \<Longrightarrow> hoare P (py_return x) Q X"
  by (simp add: hoare_def py_return_def)

lemma hoare_raise: "(\<And>s. P s \<Longrightarrow> X e s) \<Longrightarrow> hoare P (py_raise e) Q X"
  by (simp add: hoare_def py_raise_def)

lemma hoare_steps:
  assumes "steps R m"
  shows "hoare (\<lambda>s. s = s0) m (\<lambda>_ t. R s0 t) (\<lambda>_ t. R s0 t)"
  by (rule hoareI) (auto dest: steps_run [OF assms])


section \<open>The best-effort loop\<close>

text \<open>
  The loop never raises, and its count is the number of elements whose body
  returned; both hold whatever the body does.
\<close>

lemma py_fold_try_returns:
  "(\<And>acc x s. \<exists>acc' t. m acc x s = (Inr acc', t)) \<Longrightarrow> \<exists>r t. py_fold m acc xs s = (Inr r, t)"
proof (induction xs arbitrary: acc s)
  case Nil
  then show ?case by (simp add: py_return_def)
next
  case (Cons x xs)
  then obtain acc' t where "m acc x s = (Inr acc', t)" by blast
  with Cons show ?case by (simp add: py_bind_Inr)
qed

lemma best_effort_step_returns:
  "\<exists>acc' t. py_try (py_then (m x) (py_return (acc + 1))) (\<lambda>_. py_return acc) s = (Inr acc', t)"
  by (auto simp: py_return_def py_try_def py_then_def py_bind_def split: prod.splits sum.splits)

lemma best_effort_returns: "\<exists>n t. best_effort m xs s = (Inr n, t)"
  unfolding best_effort_def
  by (rule py_fold_try_returns) (rule best_effort_step_returns)

text \<open>A loop that catches what its body raises returns, with every invariant of the body.\<close>

lemma guarded_loop:
  assumes "\<And>x s. x \<in> set xs \<Longrightarrow> I s \<Longrightarrow> I (snd (m x s))" and "I s"
  shows "\<exists>t. py_for xs (\<lambda>x. py_try (m x) (\<lambda>_. py_return ())) s = (Inr (), t) \<and> I t"
  using assms
proof (induction xs arbitrary: s)
  case Nil
  then show ?case by (simp add: py_return_def)
next
  case (Cons x xs)
  have "py_try (m x) (\<lambda>_. py_return ()) s = (Inr (), snd (m x s))"
    by (cases "m x s"; cases "fst (m x s)") (auto simp: py_try_def py_return_def)
  with Cons.IH [of "snd (m x s)"] Cons.prems show ?case by (simp add: py_then_def py_bind_def)
qed

text \<open>A loop whose body may raise: what holds before each element holds at the end of the loop's run.\<close>

lemma for_invariant:
  assumes "\<And>x xs s r t. Q (x # xs) s \<Longrightarrow> f x s = (r, t) \<Longrightarrow> Z t \<and> (\<not> isl r \<longrightarrow> Q xs t)"
    and "Q xs s" and "Z s"
  shows "Z (snd (py_for xs f s))"
  using assms(2,3)
proof (induction xs arbitrary: s)
  case Nil
  then show ?case by (simp add: py_return_def)
next
  case (Cons x xs)
  obtain r t where run: "f x s = (r, t)" by (cases "f x s")
  with assms(1) Cons.prems(1) have "Z t" "\<not> isl r \<longrightarrow> Q xs t" by blast+
  with Cons.IH [of t] run show ?case by (cases r) (auto simp: py_then_def py_bind_def)
qed


text \<open>What holds on every exit of a sequence.\<close>

lemma bind_exit:
  assumes "\<And>e t. m s = (Inl e, t) \<Longrightarrow> P t" and "\<And>x u. m s = (Inr x, u) \<Longrightarrow> P (snd (f x u))"
  shows "P (snd (py_bind m f s))"
  using assms by (cases "m s"; cases "fst (m s)") (auto simp: py_bind_def)

lemma then_exit:
  assumes "\<And>e t. m s = (Inl e, t) \<Longrightarrow> P t" and "\<And>x u. m s = (Inr x, u) \<Longrightarrow> P (snd (k u))"
  shows "P (snd (py_then m k s))"
  using assms unfolding py_then_def by (rule bind_exit)

lemma best_effort_fold_bound:
  assumes "py_fold (\<lambda>count x. py_try (py_then (m x) (py_return (count + 1))) (\<lambda>_. py_return count))
             acc xs s = (Inr n, t)"
  shows "acc \<le> n \<and> n \<le> acc + length xs"
  using assms
proof (induction xs arbitrary: acc s)
  case Nil
  then show ?case by (simp add: py_return_def)
next
  case (Cons x xs)
  from Cons.prems obtain acc' u
    where body: "py_try (py_then (m x) (py_return (acc + 1))) (\<lambda>_. py_return acc) s = (Inr acc', u)"
      and rest: "py_fold (\<lambda>count x. py_try (py_then (m x) (py_return (count + 1)))
                   (\<lambda>_. py_return count)) acc' xs u = (Inr n, t)"
    unfolding py_fold.simps by (rule py_bind_InrE)
  from body have "acc' = acc \<or> acc' = acc + 1"
    by (auto simp: py_return_def py_try_def py_then_def py_bind_def split: prod.splits sum.splits)
  with Cons.IH [OF rest] show ?case by auto
qed

lemma best_effort_bound: "best_effort m xs s = (Inr n, t) \<Longrightarrow> n \<le> length xs"
  unfolding best_effort_def by (drule best_effort_fold_bound) simp


section \<open>Lists\<close>

lemma distinct_map_replace:
  "distinct (map f xs) \<Longrightarrow> (\<And>x. x \<in> set xs \<Longrightarrow> f (g x) = f x) \<Longrightarrow> distinct (map f (map g xs))"
  by (simp add: comp_def cong: map_cong)

lemma find_SomeD: "find P xs = Some x \<Longrightarrow> x \<in> set xs \<and> P x"
  by (auto simp: find_Some_iff)

lemma find_NoneD: "find P xs = None \<Longrightarrow> x \<in> set xs \<Longrightarrow> \<not> P x"
  by (auto simp: find_None_iff)

lemma distinct_map_eqD:
  "distinct (map f xs) \<Longrightarrow> x \<in> set xs \<Longrightarrow> y \<in> set xs \<Longrightarrow> f x = f y \<Longrightarrow> x = y"
  by (auto simp: distinct_map inj_on_def)

lemma find_key:
  "distinct (map f xs) \<Longrightarrow> x \<in> set xs \<Longrightarrow> find (\<lambda>y. f y = f x) xs = Some x"
  by (induction xs) (auto simp: image_iff)

lemma find_append: "find P (xs @ ys) = (case find P xs of None \<Rightarrow> find P ys | Some x \<Rightarrow> Some x)"
  by (induction xs) auto

text \<open>Rewriting the row with a given key: the row found, and the keys kept distinct.\<close>

definition replace_key :: "('r \<Rightarrow> 'k) \<Rightarrow> 'k \<Rightarrow> ('r \<Rightarrow> 'r) \<Rightarrow> 'r list \<Rightarrow> 'r list" where
  "replace_key f i g xs = map (\<lambda>a. if f a = i then g a else a) xs"

lemma find_replace_key:
  assumes "\<And>a. f (g a) = f a"
  shows "find (\<lambda>r. f r = j) (replace_key f i g xs) =
         map_option (\<lambda>a. if f a = i then g a else a) (find (\<lambda>r. f r = j) xs)"
  by (induction xs) (auto simp: replace_key_def assms)

lemma keys_replace_key: "(\<And>a. f (g a) = f a) \<Longrightarrow> map f (replace_key f i g xs) = map f xs"
  by (simp add: replace_key_def)

lemma in_replace_key:
  "y \<in> set (replace_key f i g xs) \<Longrightarrow>
   (y \<in> set xs \<and> f y \<noteq> i) \<or> (\<exists>x \<in> set xs. f x = i \<and> y = g x)"
  by (auto simp: replace_key_def split: if_splits)

lemma replace_key_absent: "i \<notin> f ` set xs \<Longrightarrow> replace_key f i g xs = xs"
  by (auto simp: replace_key_def intro!: map_idI)

lemma distinct_replace_key:
  assumes "distinct (map f xs)" "distinct (map k xs)"
    and "\<And>x y. x \<in> set xs \<Longrightarrow> f x = i \<Longrightarrow> y \<in> set xs \<Longrightarrow> f y \<noteq> i \<Longrightarrow> k (g x) \<noteq> k y"
  shows "distinct (map k (replace_key f i g xs))"
  using assms
proof (induction xs)
  case Nil
  then show ?case by (simp add: replace_key_def)
next
  case (Cons x xs)
  have IH: "distinct (map k (replace_key f i g xs))"
    using Cons.prems by (intro Cons.IH) auto
  show ?case
  proof (cases "f x = i")
    case True
    with Cons.prems(1) have rest: "replace_key f i g xs = xs"
      by (intro replace_key_absent) auto
    have "k (g x) \<noteq> k y" if "y \<in> set xs" for y
      using Cons.prems(1,3) True that by (auto simp: image_iff)
    with True rest Cons.prems show ?thesis by (auto simp: replace_key_def)
  next
    case False
    have neq: "k x \<noteq> k y" if "y \<in> set (replace_key f i g xs)" for y
      using in_replace_key [OF that] False Cons.prems(2,3) by (auto simp: image_iff) metis
    have head: "replace_key f i g (x # xs) = x # replace_key f i g xs"
      using False by (simp add: replace_key_def)
    show ?thesis unfolding head using IH neq by auto
  qed
qed

end
