(* ===== verification/PyText.thy ===== *)
theory PyText
  imports Prelude
begin

text \<open>
  The text operations of Python's standard library that the panel uses.  A
  \<^typ>\<open>char\<close> is a code point below 256, so the model covers text in the Latin-1
  range; the character classes below are Python's on that range
  (\<open>str.isspace\<close>, \<open>str.isdigit\<close>, the line boundaries of \<open>str.splitlines\<close>).
  A text with other code points is outside the model.
\<close>

section \<open>Characters\<close>

abbreviation code :: "char \<Rightarrow> nat" where
  "code c \<equiv> of_char c"

definition is_space :: "char \<Rightarrow> bool" where
  "is_space c \<longleftrightarrow> code c \<in> {9, 10, 11, 12, 13, 28, 29, 30, 31, 32, 133, 160}"

definition is_decimal :: "char \<Rightarrow> bool" where
  "is_decimal c \<longleftrightarrow> 48 \<le> code c \<and> code c \<le> 57"

text \<open>\<open>str.isdigit\<close> also accepts the superscripts two, three and one, which \<open>int\<close> rejects.\<close>

definition is_digit :: "char \<Rightarrow> bool" where
  "is_digit c \<longleftrightarrow> is_decimal c \<or> code c \<in> {178, 179, 185}"

definition is_line_break :: "char \<Rightarrow> bool" where
  "is_line_break c \<longleftrightarrow> code c \<in> {10, 11, 12, 13, 28, 29, 30, 133}"

definition lower_char :: "char \<Rightarrow> char" where
  "lower_char c =
     (let n = code c
      in if (65 \<le> n \<and> n \<le> 90) \<or> (192 \<le> n \<and> n \<le> 222 \<and> n \<noteq> 215) then char_of (n + 32) else c)"

abbreviation newline :: char where "newline \<equiv> CHR 0x0A"
abbreviation squote :: char where "squote \<equiv> CHR 0x27"
abbreviation dquote :: char where "dquote \<equiv> CHR 0x22"
abbreviation backslash :: char where "backslash \<equiv> CHR 0x5C"


section \<open>Trimming, splitting and joining\<close>

definition py_lstrip :: "string \<Rightarrow> string" where
  "py_lstrip = dropWhile is_space"

definition py_rstrip :: "string \<Rightarrow> string" where
  "py_rstrip s = rev (dropWhile is_space (rev s))"

definition py_strip :: "string \<Rightarrow> string" where
  "py_strip s = py_rstrip (py_lstrip s)"

definition py_lower :: "string \<Rightarrow> string" where
  "py_lower = map lower_char"

text \<open>\<open>s.split()\<close>: the maximal runs of characters that are not white space.\<close>

function py_split :: "string \<Rightarrow> string list" where
  "py_split s =
     (case py_lstrip s of
        [] \<Rightarrow> []
      | c # cs \<Rightarrow> takeWhile (\<lambda>x. \<not> is_space x) (c # cs)
                    # py_split (dropWhile (\<lambda>x. \<not> is_space x) (c # cs)))"
  by pat_completeness auto
termination
proof (relation "measure length")
  fix s :: string and c cs
  assume eq: "py_lstrip s = c # cs"
  then have "\<not> is_space c"
    by (auto simp: py_lstrip_def dropWhile_eq_Cons_conv)
  then have "length (dropWhile (\<lambda>x. \<not> is_space x) (c # cs)) \<le> length cs"
    by (simp add: length_dropWhile_le)
  also have "length cs < length s"
    using eq length_dropWhile_le [of is_space s] by (simp add: py_lstrip_def)
  finally show "(dropWhile (\<lambda>x. \<not> is_space x) (c # cs), s) \<in> measure length" by simp
qed simp

declare py_split.simps [simp del]

text \<open>\<open>s.split(None, n)\<close>: at most \<open>n\<close> splits, the rest of the text in the last part.\<close>

fun py_split_max :: "nat \<Rightarrow> string \<Rightarrow> string list" where
  "py_split_max 0 s = (let r = py_rstrip (py_lstrip s) in if r = [] then [] else [py_lstrip s])"
| "py_split_max (Suc n) s =
     (case py_lstrip s of
        [] \<Rightarrow> []
      | c # cs \<Rightarrow> takeWhile (\<lambda>x. \<not> is_space x) (c # cs)
                    # py_split_max n (dropWhile (\<lambda>x. \<not> is_space x) (c # cs)))"

text \<open>\<open>s.splitlines()\<close>; a carriage return and the line feed after it are one boundary.\<close>

fun py_splitlines_from :: "string \<Rightarrow> string \<Rightarrow> string list" where
  "py_splitlines_from cur [] = (if cur = [] then [] else [rev cur])"
| "py_splitlines_from cur [c] =
     (if is_line_break c then [rev cur] else [rev (c # cur)])"
| "py_splitlines_from cur (c # d # cs) =
     (if c = CHR 0x0D \<and> d = newline then rev cur # py_splitlines_from [] cs
      else if is_line_break c then rev cur # py_splitlines_from [] (d # cs)
      else py_splitlines_from (c # cur) (d # cs))"

definition py_splitlines :: "string \<Rightarrow> string list" where
  "py_splitlines s = py_splitlines_from [] s"

fun py_join :: "string \<Rightarrow> string list \<Rightarrow> string" where
  "py_join sep [] = []"
| "py_join sep [x] = x"
| "py_join sep (x # y # ys) = x @ sep @ py_join sep (y # ys)"

text \<open>\<open>s.replace(c, r)\<close> for a one-character \<open>c\<close>.\<close>

definition py_replace_char :: "char \<Rightarrow> string \<Rightarrow> string \<Rightarrow> string" where
  "py_replace_char c r s = concat (map (\<lambda>x. if x = c then r else [x]) s)"

fun starts_with :: "string \<Rightarrow> string \<Rightarrow> bool" where
  "starts_with p s = (take (length p) s = p)"

text \<open>\<open>p in s\<close>.\<close>

fun contains :: "string \<Rightarrow> string \<Rightarrow> bool" where
  "contains p [] = (p = [])"
| "contains p (c # cs) = (starts_with p (c # cs) \<or> contains p cs)"

text \<open>\<open>s.rsplit(c, 1)[0]\<close>: the text before the last \<open>c\<close>, all of it when there is none.\<close>

definition rsplit_head :: "char \<Rightarrow> string \<Rightarrow> string" where
  "rsplit_head c s =
     (if c \<in> set s then rev (tl (dropWhile (\<lambda>x. x \<noteq> c) (rev s))) else s)"


section \<open>Numbers as text\<close>

fun show_nat :: "nat \<Rightarrow> string" where
  "show_nat n = (if n < 10 then [char_of (48 + n)] else show_nat (n div 10) @ [char_of (48 + n mod 10)])"

declare show_nat.simps [simp del]

definition show_int :: "int \<Rightarrow> string" where
  "show_int i = (if i < 0 then ''-'' @ show_nat (nat (- i)) else show_nat (nat i))"

text \<open>\<open>format(n, "03d")\<close> for a number that is not negative, and its general width.\<close>

definition zero_pad :: "nat \<Rightarrow> string \<Rightarrow> string" where
  "zero_pad w s = replicate (w - length s) (CHR ''0'') @ s"

definition digits_value :: "string \<Rightarrow> nat" where
  "digits_value s = foldl (\<lambda>v c. 10 * v + (code c - 48)) 0 s"

text \<open>Underscores may stand between two digits; \<open>None\<close> when one stands elsewhere.\<close>

fun drop_underscores :: "bool \<Rightarrow> string \<Rightarrow> string option" where
  "drop_underscores after_digit [] = Some []"
| "drop_underscores after_digit (c # cs) =
     (if c = CHR ''_''
      then (case cs of
              [] \<Rightarrow> None
            | d # _ \<Rightarrow> if after_digit \<and> is_decimal d then drop_underscores False cs else None)
      else map_option (Cons c) (drop_underscores (is_decimal c) cs))"

text \<open>
  \<open>int(s)\<close>: white space around it, a sign, decimal digits; more than 4300 digits
  are refused, as Python does by default.
\<close>

definition py_int :: "string \<Rightarrow> exn + int" where
  "py_int s =
     (let t = py_strip s;
          (neg, body) = (case t of
             [] \<Rightarrow> (False, [])
           | c # cs \<Rightarrow> if c = CHR ''-'' then (True, cs)
                       else if c = CHR ''+'' then (False, cs) else (False, c # cs))
      in case drop_underscores False body of
           None \<Rightarrow> Inl (ValueError ''invalid literal for int()'')
         | Some ds \<Rightarrow>
             if ds = [] \<or> \<not> list_all is_decimal ds \<or> length ds > 4300
             then Inl (ValueError ''invalid literal for int()'')
             else Inr (if neg then - int (digits_value ds) else int (digits_value ds)))"

text \<open>\<open>s.isdigit()\<close>: not empty and digits only.\<close>

definition py_isdigit :: "string \<Rightarrow> bool" where
  "py_isdigit s \<longleftrightarrow> s \<noteq> [] \<and> list_all is_digit s"


section \<open>Facts\<close>

lemma code_char_of [simp]: "n < 256 \<Longrightarrow> code (char_of (n :: nat)) = n"
  by (simp only: of_char_of mod_less)

lemma show_nat_nonempty [simp]: "show_nat n \<noteq> []"
  by (subst show_nat.simps) simp

lemma is_decimal_char_of: "d < 10 \<Longrightarrow> is_decimal (char_of (48 + d :: nat))"
  by (simp only: is_decimal_def code_char_of) simp

lemma show_nat_decimal: "list_all is_decimal (show_nat n)"
proof (induction n rule: show_nat.induct)
  case (1 n)
  then show ?case
    by (subst show_nat.simps) (auto simp: is_decimal_char_of)
qed

lemma digits_value_snoc: "digits_value (s @ [c]) = 10 * digits_value s + (code c - 48)"
  by (simp add: digits_value_def)

lemma digits_value_show_nat [simp]: "digits_value (show_nat n) = n"
proof (induction n rule: show_nat.induct)
  case (1 n)
  show ?case
  proof (cases "n < 10")
    case True
    then show ?thesis by (subst show_nat.simps) (simp add: digits_value_def)
  next
    case False
    with 1 show ?thesis by (subst show_nat.simps) (simp add: digits_value_snoc)
  qed
qed

lemma is_decimal_no_space: "is_decimal c \<Longrightarrow> \<not> is_space c"
  by (auto simp: is_decimal_def is_space_def)

lemma strip_id:
  assumes "s \<noteq> []" "\<not> is_space (hd s)" "\<not> is_space (last s)"
  shows "py_strip s = s"
proof -
  have "py_lstrip s = s"
    using assms by (cases s) (simp_all add: py_lstrip_def)
  moreover have "dropWhile is_space (rev s) = rev s"
    using assms by (cases "rev s") (auto simp: last_rev hd_rev [symmetric])
  ultimately show ?thesis by (simp add: py_strip_def py_rstrip_def)
qed

lemma drop_underscores_decimal: "list_all is_decimal s \<Longrightarrow> drop_underscores b s = Some s"
  by (induction s arbitrary: b) (auto simp: is_decimal_def)

lemma show_int_edges:
  "show_int i \<noteq> []" "\<not> is_space (hd (show_int i))" "\<not> is_space (last (show_int i))"
proof -
  have dec: "\<not> is_space c" if "c \<in> set (show_nat n)" for c n
    using that show_nat_decimal [of n] by (auto simp: list_all_iff is_decimal_no_space)
  show "show_int i \<noteq> []" by (simp add: show_int_def)
  have minus: "\<not> is_space CHR ''-''" by (simp add: is_space_def)
  show "\<not> is_space (hd (show_int i))"
    using minus dec [OF hd_in_set [OF show_nat_nonempty]] by (simp add: show_int_def)
  show "\<not> is_space (last (show_int i))"
    using dec [OF last_in_set [OF show_nat_nonempty]] by (simp add: show_int_def)
qed

text \<open>Printing a number and reading it back with \<open>int\<close> is the identity.\<close>

lemma py_int_show_int:
  assumes "length (show_int i) \<le> 4300"
  shows "py_int (show_int i) = Inr i"
proof (cases "i < 0")
  case True
  then have eq: "show_int i = CHR ''-'' # show_nat (nat (- i))" by (simp add: show_int_def)
  with assms have "length (show_nat (nat (- i))) \<le> 4300" by simp
  moreover have "py_strip (show_int i) = show_int i" by (rule strip_id [OF show_int_edges])
  ultimately show ?thesis
    using True unfolding py_int_def eq
    by (simp add: drop_underscores_decimal [OF show_nat_decimal] show_nat_decimal)
next
  case False
  then have eq: "show_int i = show_nat (nat i)" by (simp add: show_int_def)
  obtain c cs where c: "show_nat (nat i) = c # cs" by (cases "show_nat (nat i)") auto
  with show_nat_decimal [of "nat i"] have "c \<noteq> CHR ''-''" "c \<noteq> CHR ''+''"
    by (auto simp: is_decimal_def)
  moreover have "drop_underscores False (c # cs) = Some (show_nat (nat i))"
    using drop_underscores_decimal [OF show_nat_decimal, of False "nat i"] by (simp only: c)
  moreover have "py_strip (show_int i) = show_int i" by (rule strip_id [OF show_int_edges])
  ultimately show ?thesis
    using assms False show_nat_decimal [of "nat i"]
    unfolding py_int_def eq
    by (simp only: c list.case if_False Let_def prod.case option.case)
       (simp flip: c)
qed

lemma py_isdigit_decimal: "s \<noteq> [] \<Longrightarrow> list_all is_decimal s \<Longrightarrow> py_isdigit s"
  by (auto simp: py_isdigit_def is_digit_def list_all_iff)

lemma split_no_space: "s \<noteq> [] \<Longrightarrow> list_all (\<lambda>c. \<not> is_space c) s \<Longrightarrow> py_split s = [s]"
proof -
  assume s: "s \<noteq> []" "list_all (\<lambda>c. \<not> is_space c) s"
  then obtain c cs where cs: "s = c # cs" by (cases s) auto
  with s have "takeWhile (\<lambda>x. \<not> is_space x) s = s" "dropWhile (\<lambda>x. \<not> is_space x) s = []"
    by (auto simp: takeWhile_eq_all_conv list_all_iff)
  moreover have "py_lstrip s = s" using s cs by (simp add: py_lstrip_def)
  moreover have "py_split [] = []" by (subst py_split.simps) (simp add: py_lstrip_def)
  ultimately show ?thesis using cs by (subst py_split.simps) simp
qed

end
