(* ===== verification/PyTime.thy ===== *)
theory PyTime
  imports PyText
begin

text \<open>
  The part of Python's \<open>datetime\<close> that the panel uses.  An aware \<open>datetime\<close> in UTC
  (the settings have \<open>USE_TZ = True\<close> and \<open>TIME_ZONE = "UTC"\<close>) is the number of
  microseconds since the epoch; \<open>timedelta(days=n)\<close> is \<open>n\<close> days, and both ranges
  of Python are kept: a delta of more than 999999999 days and a date outside the
  years 1 to 9999 raise \<open>OverflowError\<close>.  The calendar is the algorithm of the
  standard library (\<open>_ord2ymd\<close>), and it is proved to be the inverse of the day
  count, with the month and the day in range.
\<close>

type_synonym datetime = int

definition day_us :: int where
  "day_us = 86400 * 1000000"

text \<open>The ordinal of 1970-01-01; day 1 is 0001-01-01.\<close>

definition epoch_ordinal :: int where
  "epoch_ordinal = 719163"

definition min_datetime :: datetime where
  "min_datetime = (1 - epoch_ordinal) * day_us"

definition max_datetime :: datetime where
  "max_datetime = (3652060 - epoch_ordinal) * day_us - 1"

definition datetime_ok :: "datetime \<Rightarrow> bool" where
  "datetime_ok t \<longleftrightarrow> min_datetime \<le> t \<and> t \<le> max_datetime"

text \<open>\<open>t + timedelta(days=n)\<close>.\<close>

definition add_days :: "datetime \<Rightarrow> int \<Rightarrow> exn + datetime" where
  "add_days t n =
     (if \<bar>n\<bar> > 999999999 then Inl (OverflowError ''days out of range'')
      else if datetime_ok (t + n * day_us) then Inr (t + n * day_us)
      else Inl (OverflowError ''date value out of range''))"

text \<open>\<open>(a - b).days\<close>: rounded down.\<close>

definition delta_days :: "datetime \<Rightarrow> datetime \<Rightarrow> int" where
  "delta_days a b = (a - b) div day_us"


section \<open>The calendar\<close>

definition is_leap :: "int \<Rightarrow> bool" where
  "is_leap y \<longleftrightarrow> y mod 4 = 0 \<and> (y mod 100 \<noteq> 0 \<or> y mod 400 = 0)"

definition days_before_year :: "int \<Rightarrow> int" where
  "days_before_year year = (let y = year - 1 in y * 365 + y div 4 - y div 100 + y div 400)"

definition days_in_month_table :: "int list" where
  "days_in_month_table = [-1, 31, 28, 31, 30, 31, 30, 31, 31, 30, 31, 30, 31]"

definition days_before_month_table :: "int list" where
  "days_before_month_table = [-1, 0, 31, 59, 90, 120, 151, 181, 212, 243, 273, 304, 334]"

definition days_in_month :: "bool \<Rightarrow> int \<Rightarrow> int" where
  "days_in_month leap m = days_in_month_table ! nat m + (if m = 2 \<and> leap then 1 else 0)"

definition days_before_month :: "bool \<Rightarrow> int \<Rightarrow> int" where
  "days_before_month leap m = days_before_month_table ! nat m + (if m > 2 \<and> leap then 1 else 0)"

definition ymd2ord :: "int \<times> int \<times> int \<Rightarrow> int" where
  "ymd2ord = (\<lambda>(y, m, d). days_before_year y + days_before_month (is_leap y) m + d)"

definition month_day :: "bool \<Rightarrow> int \<Rightarrow> int \<times> int" where
  "month_day leap n =
     (let month = (n + 50) div 32;
          preceding = days_before_month leap month
      in if preceding > n
         then (month - 1, n - (preceding - days_in_month leap (month - 1)) + 1)
         else (month, n - preceding + 1))"

definition ord2ymd :: "int \<Rightarrow> int \<times> int \<times> int" where
  "ord2ymd ord =
     (let n = ord - 1;
          n400 = n div 146097; n = n mod 146097;
          n100 = n div 36524; n = n mod 36524;
          n4 = n div 1461; n = n mod 1461;
          n1 = n div 365; n = n mod 365;
          year = n400 * 400 + 1 + n100 * 100 + n4 * 4 + n1
      in if n1 = 4 \<or> n100 = 4 then (year - 1, 12, 31)
         else (let leap = (n1 = 3 \<and> (n4 \<noteq> 24 \<or> n100 = 3))
               in case month_day leap n of (month, day) \<Rightarrow> (year, month, day)))"

text \<open>\<open>t.strftime("%Y-%m-%d")\<close>; glibc does not pad the year.\<close>

definition ordinal_of :: "datetime \<Rightarrow> int" where
  "ordinal_of t = t div day_us + epoch_ordinal"

definition two_digits :: "int \<Rightarrow> string" where
  "two_digits n = zero_pad 2 (show_nat (nat n))"

definition strftime_ymd :: "datetime \<Rightarrow> string" where
  "strftime_ymd t =
     (case ord2ymd (ordinal_of t) of
        (y, m, d) \<Rightarrow> show_int y @ ''-'' @ two_digits m @ ''-'' @ two_digits d)"

text \<open>\<open>format(t, "%Y-%m-%d %H:%M")\<close>.\<close>

definition strftime_ymd_hm :: "datetime \<Rightarrow> string" where
  "strftime_ymd_hm t =
     (let minutes = (t mod day_us) div (60 * 1000000)
      in strftime_ymd t @ '' '' @ two_digits (minutes div 60) @ '':'' @ two_digits (minutes mod 60))"


section \<open>Facts\<close>

lemma add_days_Inr: "add_days t n = Inr u \<Longrightarrow> u = t + n * day_us \<and> datetime_ok u"
  by (auto simp: add_days_def split: if_splits)

lemma add_days_overflow: "add_days t n = Inl e \<Longrightarrow> \<exists>msg. e = OverflowError msg"
  by (auto simp: add_days_def split: if_splits)

lemma day_us_pos [simp]: "0 < day_us"
  by (simp add: day_us_def)

lemmas month_tables =
  days_in_month_def days_in_month_table_def days_before_month_def days_before_month_table_def

lemma month_day_ok:
  assumes n: "0 \<le> n" "n < 365" and md: "month_day leap n = (m, d)"
  shows "1 \<le> m \<and> m \<le> 12 \<and> 1 \<le> d \<and> d \<le> days_in_month leap m \<and>
         days_before_month leap m + d = n + 1"
proof -
  define k where "k = (n + 50) div 32"
  have bounds: "32 * k \<le> n + 50" "n + 50 < 32 * k + 32" by (simp_all add: k_def)
  with n have "1 \<le> k" "k \<le> 12" by linarith+
  then have "k \<in> set [1..12]" by simp
  then have "k = 1 \<or> k = 2 \<or> k = 3 \<or> k = 4 \<or> k = 5 \<or> k = 6 \<or> k = 7 \<or> k = 8 \<or> k = 9 \<or>
      k = 10 \<or> k = 11 \<or> k = 12" by (simp add: upto_rec1 del: set_upto)
  with n bounds md show ?thesis
    unfolding month_day_def k_def [symmetric] Let_def
    by (elim disjE) (cases leap; auto simp: month_tables split: if_splits)+
qed

text \<open>The algorithm of the standard library inverts the day count.\<close>

lemma div_steps:
  fixes a b c d e :: int
  assumes "0 \<le> b" "b \<le> 3" "0 \<le> c" "c \<le> 24" "0 \<le> d" "d \<le> 3"
  shows "(400 * a + 100 * b + 4 * c + d) div 4 = 100 * a + 25 * b + c"
    and "(400 * a + 100 * b + 4 * c + d) div 100 = 4 * a + b"
    and "(400 * a + 100 * b + 4 * c + d) div 400 = a"
proof -
  show "(400 * a + 100 * b + 4 * c + d) div 4 = 100 * a + 25 * b + c"
    by (rule int_div_pos_eq [where r = d]) (use assms in simp_all)
  show "(400 * a + 100 * b + 4 * c + d) div 100 = 4 * a + b"
    by (rule int_div_pos_eq [where r = "4 * c + d"]) (use assms in simp_all)
  show "(400 * a + 100 * b + 4 * c + d) div 400 = a"
    by (rule int_div_pos_eq [where r = "100 * b + 4 * c + d"]) (use assms in simp_all)
qed

lemma days_before_year_eq:
  assumes "0 \<le> b" "b \<le> 3" "0 \<le> c" "c \<le> 24" "0 \<le> d" "d \<le> 3"
  shows "days_before_year (400 * a + 100 * b + 4 * c + d + 1) = 146097 * a + 36524 * b + 1461 * c + 365 * d"
  using div_steps [OF assms, of a] by (simp add: days_before_year_def)

lemma mod_zero_iff_top:
  fixes x k q :: int
  assumes "1 \<le> x" "x \<le> k"
  shows "(x + k * q) mod k = 0 \<longleftrightarrow> x = k"
  using assms by (cases "x = k") auto

lemma is_leap_eq:
  assumes "0 \<le> b" "b \<le> 3" "0 \<le> c" "c \<le> 24" "0 \<le> d" "d \<le> 3"
  shows "is_leap (400 * a + 100 * b + 4 * c + d + 1) \<longleftrightarrow> d = 3 \<and> (c \<noteq> 24 \<or> b = 3)"
proof -
  let ?y = "400 * a + 100 * b + 4 * c + d + 1"
  have m4: "?y mod 4 = 0 \<longleftrightarrow> d = 3"
    using mod_zero_iff_top [of "d + 1" 4 "100 * a + 25 * b + c"] assms by (simp add: algebra_simps)
  have m100: "?y mod 100 = 0 \<longleftrightarrow> c = 24 \<and> d = 3"
    using mod_zero_iff_top [of "4 * c + d + 1" 100 "4 * a + b"] assms by (simp add: algebra_simps) linarith
  have m400: "?y mod 400 = 0 \<longleftrightarrow> b = 3 \<and> c = 24 \<and> d = 3"
    using mod_zero_iff_top [of "100 * b + 4 * c + d + 1" 400 a] assms by (simp add: algebra_simps) linarith
  show ?thesis unfolding is_leap_def m4 m100 m400 by blast
qed

theorem ord2ymd_inverse:
  "case ord2ymd ord of (y, m, d) \<Rightarrow>
     ymd2ord (y, m, d) = ord \<and> 1 \<le> m \<and> m \<le> 12 \<and> 1 \<le> d \<and> d \<le> days_in_month (is_leap y) m"
proof -
  define n where "n = ord - 1"
  define a where "a = n div 146097"
  define n' where "n' = n mod 146097"
  define b where "b = n' div 36524"
  define n'' where "n'' = n' mod 36524"
  define c where "c = n'' div 1461"
  define n3 where "n3 = n'' mod 1461"
  define d where "d = n3 div 365"
  define r where "r = n3 mod 365"
  have n'_range: "0 \<le> n'" "n' \<le> 146096" by (simp_all add: n'_def flip: zle_diff1_eq)
  have n: "n = 146097 * a + n'" by (simp add: a_def n'_def)
  have n': "n' = 36524 * b + n''" by (simp add: b_def n''_def)
  have n'': "n'' = 1461 * c + n3" by (simp add: c_def n3_def)
  have n3: "n3 = 365 * d + r" by (simp add: d_def r_def)
  have r: "0 \<le> r" "r < 365" by (simp_all add: r_def)
  have n''_range: "0 \<le> n''" "n'' < 36524" by (simp_all add: n''_def)
  have n3_range: "0 \<le> n3" "n3 < 1461" by (simp_all add: n3_def)
  have b: "0 \<le> b" "b \<le> 4" using n' n'_range n''_range by linarith+
  have c: "0 \<le> c" "c \<le> 24" using n'' n''_range n3_range by linarith+
  have d: "0 \<le> d" "d \<le> 4" using n3 n3_range r by linarith+
  have ord: "ord = 146097 * a + 36524 * b + 1461 * c + 365 * d + r + 1"
    using n n' n'' n3 by (simp add: n_def)
  have eq: "ord2ymd ord =
      (if d = 4 \<or> b = 4 then (400 * a + 100 * b + 4 * c + d, 12, 31)
       else case month_day (d = 3 \<and> (c \<noteq> 24 \<or> b = 3)) r of
              (m, e) \<Rightarrow> (400 * a + 100 * b + 4 * c + d + 1, m, e))"
    by (simp add: ord2ymd_def Let_def algebra_simps
        flip: n_def a_def n'_def b_def n''_def c_def n3_def d_def r_def)
  consider (year_end) "b = 4" | (cycle_end) "b \<le> 3" "d = 4" | (inside) "b \<le> 3" "d \<le> 3"
    using b d by linarith
  then show ?thesis
  proof cases
    case year_end
    then have z: "c = 0" "d = 0" "r = 0"
      using n' n'' n3 n'_range c d r by linarith+
    have y: "400 * a + 100 * b + 4 * c + d = 400 * a + 100 * 3 + 4 * 24 + 3 + 1"
      using year_end z by simp
    show ?thesis
      using year_end z days_before_year_eq [of 3 24 3 a] is_leap_eq [of 3 24 3 a]
      unfolding eq y by (simp add: ord ymd2ord_def month_tables)
  next
    case cycle_end
    then have z: "r = 0" "c \<le> 23"
      using n'' n''_range n3 n3_range r by linarith+
    have y: "400 * a + 100 * b + 4 * c + d = 400 * a + 100 * b + 4 * c + 3 + 1"
      using cycle_end by simp
    show ?thesis
      using cycle_end z b c days_before_year_eq [of b c 3 a] is_leap_eq [of b c 3 a]
      unfolding eq y by (simp add: ord ymd2ord_def month_tables)
  next
    case inside
    obtain m e where md: "month_day (d = 3 \<and> (c \<noteq> 24 \<or> b = 3)) r = (m, e)"
      by (rule prod.exhaust)
    have leap: "is_leap (400 * a + 100 * b + 4 * c + d + 1) = (d = 3 \<and> (c \<noteq> 24 \<or> b = 3))"
      by (rule is_leap_eq) (use b c d inside in simp_all)
    have dby: "days_before_year (400 * a + 100 * b + 4 * c + d + 1) =
        146097 * a + 36524 * b + 1461 * c + 365 * d"
      by (rule days_before_year_eq) (use b c d inside in simp_all)
    have "ord2ymd ord = (400 * a + 100 * b + 4 * c + d + 1, m, e)"
      using inside md by (simp add: eq)
    then show ?thesis
      using month_day_ok [OF r md] by (simp add: ymd2ord_def leap dby ord)
  qed
qed

end
