(* ===== verification/PyFloat.thy ===== *)
theory PyFloat
  imports Complex_Main "HOL-Library.Log_Nat" PyText
begin

text \<open>
  Python's \<open>float\<close>, as far as the panel uses it: reading one from text, dividing
  two integers, \<open>round(x, 6)\<close>, comparison and truncation.  A finite float is the
  rational number it stands for; every operation rounds its exact result to the
  nearest double, half to even, as IEEE 754 and CPython do.
\<close>

section \<open>Rounding\<close>

definition round_half_even :: "rat \<Rightarrow> int" where
  "round_half_even x =
     (let f = \<lfloor>x\<rfloor>; r = x - of_int f
      in if r < 1 / 2 then f else if r > 1 / 2 then f + 1 else if even f then f else f + 1)"

text \<open>The exponent \<open>e\<close> with \<open>2 ^ e \<le> x < 2 ^ (e + 1)\<close>, for a positive \<open>x\<close>.\<close>

definition ilog2 :: "rat \<Rightarrow> int" where
  "ilog2 x =
     (case quotient_of x of (p, q) \<Rightarrow>
        let e = bitlen p - bitlen q in if power_int 2 e \<le> x then e else e - 1)"

text \<open>The position of the last bit of a double of this size; subnormals stop at \<open>-1074\<close>.\<close>

definition last_bit :: "rat \<Rightarrow> int" where
  "last_bit x = max (ilog2 x - 52) (- 1074)"

definition round_pos :: "rat \<Rightarrow> rat" where
  "round_pos x =
     of_int (round_half_even (x / power_int 2 (last_bit x))) * power_int 2 (last_bit x)"

definition round_double :: "rat \<Rightarrow> rat" where
  "round_double x = (if x = 0 then 0 else if x < 0 then - round_pos (- x) else round_pos x)"


section \<open>Floats\<close>

datatype pyfloat = Fin rat | PosInf | NegInf | NaN

definition double_max :: rat where
  "double_max = power_int 2 1024"

definition to_float :: "rat \<Rightarrow> pyfloat" where
  "to_float x =
     (let r = round_double x
      in if r \<ge> double_max then PosInf else if r \<le> - double_max then NegInf else Fin r)"

fun float_gt :: "pyfloat \<Rightarrow> pyfloat \<Rightarrow> bool" where
  "float_gt (Fin x) (Fin y) = (x > y)"
| "float_gt PosInf (Fin y) = True"
| "float_gt PosInf NegInf = True"
| "float_gt (Fin x) NegInf = True"
| "float_gt _ _ = False"

text \<open>\<open>int(x)\<close>: truncation; it refuses what is not finite.\<close>

fun float_int :: "pyfloat \<Rightarrow> exn + int" where
  "float_int (Fin x) = Inr (if x < 0 then \<lceil>x\<rceil> else \<lfloor>x\<rfloor>)"
| "float_int NaN = Inl (ValueError ''cannot convert float NaN to integer'')"
| "float_int _ = Inl (OverflowError ''cannot convert float infinity to integer'')"

text \<open>\<open>a / b\<close> for two integers, the second one positive here.\<close>

definition int_div_float :: "int \<Rightarrow> int \<Rightarrow> exn + rat" where
  "int_div_float a b =
     (let r = round_double (of_int a / of_int b)
      in if \<bar>r\<bar> \<ge> double_max then Inl (OverflowError ''integer division result too large for a float'')
         else Inr r)"

text \<open>\<open>round(x, 6)\<close>.\<close>

definition round6 :: "rat \<Rightarrow> rat" where
  "round6 x = round_double (of_int (round_half_even (x * 10 ^ 6)) / 10 ^ 6)"


section \<open>Reading a float\<close>

definition float_error :: exn where
  "float_error = ValueError ''could not convert string to float''"

definition parse_sign :: "string \<Rightarrow> bool \<times> string" where
  "parse_sign s =
     (case s of
        [] \<Rightarrow> (False, [])
      | c # cs \<Rightarrow> if c = CHR ''-'' then (True, cs) else if c = CHR ''+'' then (False, cs) else (False, s))"

definition parse_exponent :: "string \<Rightarrow> int option" where
  "parse_exponent s =
     (case s of
        [] \<Rightarrow> Some 0
      | c # cs \<Rightarrow>
          if c = CHR ''e'' \<or> c = CHR ''E''
          then (case parse_sign cs of (neg, ds) \<Rightarrow>
                  if ds \<noteq> [] \<and> list_all is_decimal ds
                  then Some (if neg then - int (digits_value ds) else int (digits_value ds))
                  else None)
          else None)"

definition parse_decimal :: "string \<Rightarrow> rat option" where
  "parse_decimal s =
     (let ip = takeWhile is_decimal s;
          rest = dropWhile is_decimal s;
          (fp, rest') = (case rest of
             [] \<Rightarrow> ([], [])
           | c # cs \<Rightarrow> if c = CHR ''.'' then (takeWhile is_decimal cs, dropWhile is_decimal cs)
                       else ([], rest))
      in if ip @ fp = [] then None
         else map_option
                (\<lambda>e. of_nat (digits_value (ip @ fp)) * power_int 10 (e - int (length fp)))
                (parse_exponent rest'))"

definition py_float :: "string \<Rightarrow> exn + pyfloat" where
  "py_float s =
     (case drop_underscores False (py_strip s) of
        None \<Rightarrow> Inl float_error
      | Some t \<Rightarrow>
          (case parse_sign t of (neg, body) \<Rightarrow>
             if py_lower body = ''inf'' \<or> py_lower body = ''infinity''
             then Inr (if neg then NegInf else PosInf)
             else if py_lower body = ''nan'' then Inr NaN
             else (case parse_decimal body of
                     None \<Rightarrow> Inl float_error
                   | Some x \<Rightarrow> Inr (to_float (if neg then - x else x)))))"


section \<open>Facts\<close>

lemma round_half_even_of_int [simp]: "round_half_even (of_int k) = k"
  by (simp add: round_half_even_def)

lemma round_half_even_bounds: "of_int (round_half_even x) \<le> x + 1 / 2" "x - 1 / 2 \<le> of_int (round_half_even x)"
  unfolding round_half_even_def Let_def by (auto simp: not_less) linarith+

lemma round_half_even_mono:
  assumes "x \<le> y" shows "round_half_even x \<le> round_half_even y"
proof (rule ccontr)
  assume "\<not> round_half_even x \<le> round_half_even y"
  then have gap: "(of_int (round_half_even y) :: rat) + 1 \<le> of_int (round_half_even x)"
    by (metis add.commute int_le_real_less not_le of_int_1 of_int_add of_int_le_iff zless_imp_add1_zle)
  with assms round_half_even_bounds [of x] round_half_even_bounds [of y]
  have "x = y" by linarith
  with gap show False by simp
qed

lemma power_int_of_nat_diff:
  "0 \<le> n \<Longrightarrow> power_int (2 :: rat) n = of_int (2 ^ nat n)"
  by (simp add: power_int_def)

lemma bitlen_rat:
  assumes "0 < p"
  shows "power_int 2 (bitlen p - 1) \<le> (of_int p :: rat)" "(of_int p :: rat) < power_int 2 (bitlen p)"
proof -
  have "0 < bitlen p" using assms bitlen_eq_zero_iff [of p] bitlen_nonneg [of p] by linarith
  then have e: "power_int (2 :: rat) (bitlen p - 1) = of_int (2 ^ nat (bitlen p - 1))"
      "power_int (2 :: rat) (bitlen p) = of_int (2 ^ nat (bitlen p))"
    by (simp_all only: power_int_of_nat_diff)
  show "power_int 2 (bitlen p - 1) \<le> (of_int p :: rat)"
    unfolding e of_int_le_iff using bitlen_bounds [OF assms] by simp
  show "(of_int p :: rat) < power_int 2 (bitlen p)"
    unfolding e of_int_less_iff using bitlen_bounds [OF assms] by simp
qed

lemma ilog2_bounds:
  assumes "0 < x"
  shows "power_int 2 (ilog2 x) \<le> x \<and> x < power_int 2 (ilog2 x + 1)"
proof -
  obtain p q where pq: "quotient_of x = (p, q)" by (rule prod.exhaust)
  then have q: "0 < q" and x: "x = of_int p / of_int q"
    by (auto dest: quotient_of_denom_pos quotient_of_div)
  from assms x q have p: "0 < p" by (simp add: zero_less_divide_iff)
  let ?e = "bitlen p - bitlen q"
  have le: "x < power_int 2 (?e + 1)"
  proof -
    have "x < power_int 2 (bitlen p) / of_int q"
      using q bitlen_rat(2) [OF p] by (simp add: x divide_strict_right_mono)
    also have "\<dots> \<le> power_int 2 (bitlen p) / power_int 2 (bitlen q - 1)"
      using bitlen_rat(1) [OF q] q by (intro divide_left_mono) simp_all
    also have "\<dots> = power_int 2 (bitlen p - (bitlen q - 1))" by (simp add: power_int_diff)
    finally show ?thesis by (simp add: algebra_simps)
  qed
  have ge: "power_int 2 (?e - 1) \<le> x"
  proof -
    have "power_int 2 (?e - 1) = power_int 2 (bitlen p - 1) / (power_int 2 (bitlen q) :: rat)"
      by (simp add: power_int_diff [symmetric] algebra_simps)
    also have "\<dots> \<le> power_int 2 (bitlen p - 1) / of_int q"
      using bitlen_rat(2) [OF q] q by (intro divide_left_mono) simp_all
    also have "\<dots> \<le> x"
      using q bitlen_rat(1) [OF p] by (simp add: x divide_right_mono)
    finally show ?thesis .
  qed
  show ?thesis using le ge by (auto simp: ilog2_def pq Let_def)
qed

lemma ilog2_le:
  assumes "0 < x" "x < power_int 2 (k + 1)" shows "ilog2 x \<le> k"
proof (rule ccontr)
  assume "\<not> ilog2 x \<le> k"
  then have "power_int (2 :: rat) (k + 1) \<le> power_int 2 (ilog2 x)"
    by (intro power_int_increasing) simp_all
  with ilog2_bounds [OF assms(1)] assms(2) show False by linarith
qed

lemma ilog2_mono: "0 < x \<Longrightarrow> x \<le> y \<Longrightarrow> ilog2 x \<le> ilog2 y"
  using ilog2_bounds [of y] by (intro ilog2_le) auto

lemma power_int2_pos [simp]: "(0 :: rat) < power_int 2 k"
  by simp

lemma last_bit_mono: "0 < x \<Longrightarrow> x \<le> y \<Longrightarrow> last_bit x \<le> last_bit y"
  unfolding last_bit_def using ilog2_mono [of x y] by linarith

lemma last_bit_above: "0 < x \<Longrightarrow> x < power_int 2 (last_bit x + 53)"
proof -
  assume x: "0 < x"
  have "ilog2 x + 1 \<le> last_bit x + 53" by (simp add: last_bit_def)
  then have "power_int (2 :: rat) (ilog2 x + 1) \<le> power_int 2 (last_bit x + 53)"
    by (intro power_int_increasing) simp_all
  with ilog2_bounds [OF x] show ?thesis by linarith
qed

lemma round_pos_power2:
  assumes "0 \<le> k" shows "of_int (round_half_even (power_int 2 k)) = (power_int 2 k :: rat)"
proof -
  have "power_int (2 :: rat) k = of_int (2 ^ nat k)" using assms by (rule power_int_of_nat_diff)
  then show ?thesis by (simp only: round_half_even_of_int)
qed

lemma round_pos_mono:
  assumes x: "0 < x" and xy: "x \<le> y"
  shows "round_pos x \<le> round_pos y"
proof (cases "last_bit x = last_bit y")
  case True
  have "x / power_int 2 (last_bit y) \<le> y / power_int 2 (last_bit y)"
    using xy by (simp add: divide_right_mono)
  then have "(of_int (round_half_even (x / power_int 2 (last_bit y))) :: rat)
      \<le> of_int (round_half_even (y / power_int 2 (last_bit y)))"
    unfolding of_int_le_iff by (rule round_half_even_mono)
  then show ?thesis by (simp add: round_pos_def True mult_right_mono)
next
  case False
  let ?k = "last_bit x" and ?l = "last_bit y"
  from x xy have y: "0 < y" by simp
  from False last_bit_mono [OF x xy] have lt: "?k < ?l" by simp
  then have l: "?l = ilog2 y - 52" by (simp add: last_bit_def max_def split: if_splits)
  have "x / power_int 2 ?k \<le> power_int 2 53"
    using last_bit_above [OF x] by (simp add: divide_le_eq power_int_add algebra_simps)
  then have "round_half_even (x / power_int 2 ?k) \<le> round_half_even (power_int 2 53)"
    by (rule round_half_even_mono)
  then have "(of_int (round_half_even (x / power_int 2 ?k)) :: rat) \<le> power_int 2 53"
    using round_pos_power2 [of 53] by (metis of_int_le_iff zero_le_numeral)
  then have "round_pos x \<le> power_int 2 53 * power_int 2 ?k"
    unfolding round_pos_def by (rule mult_right_mono) simp
  also have "\<dots> = power_int 2 (?k + 53)" by (simp add: power_int_add)
  also have "\<dots> \<le> power_int 2 (?l + 52)" using lt by (intro power_int_increasing) simp_all
  also have "\<dots> = power_int 2 52 * power_int 2 ?l" by (simp add: power_int_add)
  also have "\<dots> \<le> round_pos y"
  proof -
    have "power_int 2 (?l + 52) \<le> y" using ilog2_bounds [OF y] by (simp add: l)
    then have "power_int 2 52 \<le> y / power_int 2 ?l"
      by (simp add: le_divide_eq power_int_add algebra_simps)
    then have "round_half_even (power_int 2 52) \<le> round_half_even (y / power_int 2 ?l)"
      by (rule round_half_even_mono)
    then have "power_int 2 52 \<le> (of_int (round_half_even (y / power_int 2 ?l)) :: rat)"
      using round_pos_power2 [of 52] by (metis of_int_le_iff zero_le_numeral)
    then show ?thesis unfolding round_pos_def by (rule mult_right_mono) simp
  qed
  finally show ?thesis .
qed

lemma round_pos_error:
  assumes "0 < x"
  shows "\<bar>round_pos x - x\<bar> \<le> power_int 2 (last_bit x) / 2"
proof -
  let ?u = "power_int 2 (last_bit x) :: rat"
  have "\<bar>of_int (round_half_even (x / ?u)) - x / ?u\<bar> \<le> (1 / 2 :: rat)"
    using round_half_even_bounds [of "x / ?u"] by linarith
  then have "\<bar>of_int (round_half_even (x / ?u)) - x / ?u\<bar> * ?u \<le> 1 / 2 * ?u"
    by (rule mult_right_mono) simp
  moreover have "\<bar>of_int (round_half_even (x / ?u)) - x / ?u\<bar> * ?u = \<bar>round_pos x - x\<bar>"
    by (simp add: round_pos_def abs_mult_pos left_diff_distrib)
  ultimately show ?thesis by simp
qed

lemma last_bit_below:
  assumes "0 < x" "x < power_int 2 (k + 1)" "- 1022 \<le> k"
  shows "last_bit x \<le> k - 52"
  using ilog2_le [OF assms(1,2)] assms(3) by (simp add: last_bit_def)

text \<open>Integers of up to 53 bits are doubles.\<close>

lemma round_pos_of_int:
  assumes "0 < n" "n < 2 ^ 53"
  shows "round_pos (of_int n) = of_int n"
proof -
  let ?x = "of_int n :: rat"
  have "?x < of_int (2 ^ 53)" using assms(2) by (simp only: of_int_less_iff)
  then have "?x < power_int 2 (52 + 1)" by simp
  with assms(1) have l: "last_bit ?x \<le> 0" using last_bit_below [of ?x 52] by simp
  then have u: "inverse (power_int 2 (last_bit ?x)) = (of_int (2 ^ nat (- last_bit ?x)) :: rat)"
    using power_int_of_nat_diff [of "- last_bit ?x"] by (simp add: power_int_minus)
  have "?x / power_int 2 (last_bit ?x) = of_int (n * 2 ^ nat (- last_bit ?x))"
    by (simp only: divide_inverse u of_int_mult)
  then have "of_int (round_half_even (?x / power_int 2 (last_bit ?x))) = ?x / power_int 2 (last_bit ?x)"
    by (simp only: round_half_even_of_int)
  then show ?thesis by (simp add: round_pos_def)
qed

lemma round_double_of_int: "0 \<le> n \<Longrightarrow> n < 2 ^ 53 \<Longrightarrow> round_double (of_int n) = of_int n"
  by (cases "n = 0") (simp_all add: round_double_def round_pos_of_int)

lemma round_pos_nonneg: "0 < x \<Longrightarrow> 0 \<le> round_pos x"
proof -
  assume "0 < x"
  then have "round_half_even 0 \<le> round_half_even (x / power_int 2 (last_bit x))"
    by (intro round_half_even_mono) simp
  moreover have "round_half_even 0 = 0" using round_half_even_of_int [of 0] by simp
  ultimately show ?thesis by (simp add: round_pos_def)
qed

lemma round_double_mono: "0 \<le> x \<Longrightarrow> x \<le> y \<Longrightarrow> round_double x \<le> round_double y"
  using round_pos_mono [of x y] round_pos_nonneg [of y]
  by (cases "x = 0"; cases "y = 0") (auto simp: round_double_def)

lemma round_double_nonneg: "0 \<le> x \<Longrightarrow> 0 \<le> round_double x"
  using round_double_mono [of 0 x] by (simp add: round_double_def)

text \<open>Below \<open>2 ^ (k + 1)\<close>, rounding moves a number by at most \<open>2 ^ (k - 53)\<close>.\<close>

lemma round_double_error:
  assumes "0 \<le> x" "x < power_int 2 (k + 1)" "- 1022 \<le> k"
  shows "\<bar>round_double x - x\<bar> \<le> power_int 2 (k - 53)"
proof (cases "x = 0")
  case True
  then show ?thesis by (simp add: round_double_def)
next
  case False
  with assms have x: "0 < x" by simp
  have "\<bar>round_double x - x\<bar> \<le> power_int 2 (last_bit x) / 2"
    using round_pos_error [OF x] x by (simp add: round_double_def)
  also have "\<dots> \<le> power_int 2 (k - 52) / 2"
    using last_bit_below [OF x assms(2,3)] by (simp add: power_int_increasing)
  also have "\<dots> = power_int 2 (k - 53)"
    using power_int_add [of "2 :: rat" "k - 53" 1] by simp
  finally show ?thesis .
qed

end
