(* ===== verification/Models.thy ===== *)
theory Models
  imports PyTime PyFloat
begin

text \<open>
  The data model of the panel: \<open>servers/models.py\<close>, \<open>plans/models.py\<close> and
  \<open>accounts/models.py\<close>, and the PostgreSQL database that holds it.  A model class
  is a record, a \<open>TextChoices\<close> class a datatype, a table the list of its rows in
  the order they were inserted, and a foreign key the id of the row it names.
  The database refuses a row that breaks a constraint the models declare
  (\<open>unique\<close>, \<open>unique_together\<close>, \<open>max_length\<close>, the range of a
  \<open>PositiveIntegerField\<close>, foreign keys), with the exception that Django raises
  then; \<open>db_wf\<close> is what these checks keep true.
\<close>

section \<open>The rows\<close>

type_synonym uuid = nat

datatype protocol = SSH | SHADOWLINK

fun protocol_value :: "protocol \<Rightarrow> string" where
  "protocol_value SSH = ''ssh''"
| "protocol_value SHADOWLINK = ''shadowlink''"

datatype server_status = SrvActive | SrvMaintenance | SrvFull | SrvDown

fun server_status_value :: "server_status \<Rightarrow> string" where
  "server_status_value SrvActive = ''active''"
| "server_status_value SrvMaintenance = ''maintenance''"
| "server_status_value SrvFull = ''full''"
| "server_status_value SrvDown = ''down''"

datatype account_status = Active | Suspended | Expired | Deleted

fun account_status_value :: "account_status \<Rightarrow> string" where
  "account_status_value Active = ''active''"
| "account_status_value Suspended = ''suspended''"
| "account_status_value Expired = ''expired''"
| "account_status_value Deleted = ''deleted''"

fun account_status_display :: "account_status \<Rightarrow> string" where
  "account_status_display Active = ''Active''"
| "account_status_display Suspended = ''Suspended''"
| "account_status_display Expired = ''Expired''"
| "account_status_display Deleted = ''Deleted''"

datatype audit_action =
  CREATE | DELETE | SUSPEND | ACTIVATE | EXTEND | EXPIRE | PASSWORD_RESET | REBALANCE

fun audit_action_value :: "audit_action \<Rightarrow> string" where
  "audit_action_value CREATE = ''create''"
| "audit_action_value DELETE = ''delete''"
| "audit_action_value SUSPEND = ''suspend''"
| "audit_action_value ACTIVATE = ''activate''"
| "audit_action_value EXTEND = ''extend''"
| "audit_action_value EXPIRE = ''expire''"
| "audit_action_value PASSWORD_RESET = ''password_reset''"
| "audit_action_value REBALANCE = ''rebalance''"

record server =
  srv_id :: nat
  srv_name :: string
  srv_ip_address :: string
  srv_ssh_port :: int
  srv_ssh_user :: string
  srv_ssh_key_path :: string
  srv_protocol_type :: protocol
  srv_status :: server_status
  srv_location :: string
  srv_max_users :: int
  srv_shadowlink_port :: int
  srv_shadowlink_ws_path :: string
  srv_shadowlink_domain :: string
  srv_shadowlink_bridge_port :: int
  srv_shadowlink_api_key :: string
  srv_cpu_usage :: pyfloat
  srv_ram_usage :: pyfloat
  srv_disk_usage :: pyfloat
  srv_uptime_seconds :: int
  srv_last_health_check :: "datetime option"
  srv_created_at :: datetime
  srv_updated_at :: datetime

text \<open>A price is a decimal with two places: the number of hundredths.\<close>

record plan =
  plan_id :: nat
  plan_name :: string
  plan_duration_days :: int
  plan_price_cents :: int
  plan_currency :: string
  plan_max_connections :: int
  plan_bandwidth_limit_gb :: int
  plan_is_active :: bool
  plan_description :: string
  plan_created_at :: datetime

record account =
  acc_id :: nat
  acc_username :: string
  acc_password_display :: string
  acc_server :: nat
  acc_plan :: "nat option"
  acc_protocol_type :: protocol
  acc_status :: account_status
  acc_expire_date :: datetime
  acc_max_connections :: int
  acc_bandwidth_limit_gb :: int
  acc_bandwidth_used_gb :: rat
  acc_access_token :: uuid
  acc_auth_token :: uuid
  acc_created_by :: "nat option"
  acc_note :: string
  acc_created_at :: datetime
  acc_updated_at :: datetime

record active_session =
  ses_id :: nat
  ses_account :: nat
  ses_pid :: int
  ses_client_ip :: "string option"
  ses_connected_since :: datetime

record audit_log =
  log_id :: nat
  log_action :: audit_action
  log_account :: "nat option"
  log_admin_user :: "nat option"
  log_detail :: string
  log_created_at :: datetime

text \<open>
  The database.  The last five components are the id sequences; PostgreSQL does
  not take a sequence back when a transaction is rolled back.
\<close>

record database =
  servers :: "server list"
  plans :: "plan list"
  accounts :: "account list"
  sessions :: "active_session list"
  logs :: "audit_log list"
  next_server :: nat
  next_plan :: nat
  next_account :: nat
  next_session :: nat
  next_log :: nat


section \<open>Lookups\<close>

definition db_server :: "database \<Rightarrow> nat \<Rightarrow> server option" where
  "db_server d i = find (\<lambda>r. srv_id r = i) (servers d)"

definition db_plan :: "database \<Rightarrow> nat \<Rightarrow> plan option" where
  "db_plan d i = find (\<lambda>r. plan_id r = i) (plans d)"

definition db_account :: "database \<Rightarrow> nat \<Rightarrow> account option" where
  "db_account d i = find (\<lambda>r. acc_id r = i) (accounts d)"


section \<open>Properties of the models\<close>

definition current_user_count :: "database \<Rightarrow> server \<Rightarrow> nat" where
  "current_user_count d srv =
     length (filter (\<lambda>a. acc_server a = srv_id srv \<and> acc_status a \<noteq> Deleted) (accounts d))"

definition is_available :: "database \<Rightarrow> server \<Rightarrow> bool" where
  "is_available d srv \<longleftrightarrow>
     srv_status srv = SrvActive \<and> int (current_user_count d srv) < srv_max_users srv"

definition is_shadowlink :: "server \<Rightarrow> bool" where
  "is_shadowlink srv \<longleftrightarrow> srv_protocol_type srv = SHADOWLINK"

definition server_str :: "server \<Rightarrow> string" where
  "server_str srv = srv_name srv @ '' ('' @ srv_ip_address srv @ '')''"

text \<open>\<open>str\<close> of a price with two decimal places.\<close>

definition price_str :: "int \<Rightarrow> string" where
  "price_str cents =
     (if cents < 0 then ''-'' else '''') @ show_int (\<bar>cents\<bar> div 100) @ ''.'' @
     zero_pad 2 (show_nat (nat (\<bar>cents\<bar> mod 100)))"

text \<open>
  \<open>Plan.__str__\<close>. An object that was just created still has the price it was given, an
  integer or a float, and not the decimal of the column.
\<close>

definition en_dash :: string where
  "en_dash = [CHR 0xE2, CHR 0x80, CHR 0x93]"

definition plan_str_with :: "string \<Rightarrow> plan \<Rightarrow> string" where
  "plan_str_with price p =
     plan_name p @ '' '' @ en_dash @ '' '' @ show_int (plan_duration_days p) @ ''d '' @ en_dash @ '' '' @
     price @ '' '' @ plan_currency p"

definition plan_str :: "plan \<Rightarrow> string" where
  "plan_str p = plan_str_with (price_str (plan_price_cents p)) p"

definition account_str :: "server \<Rightarrow> account \<Rightarrow> string" where
  "account_str srv a = acc_username a @ ''@'' @ srv_ip_address srv"

definition is_expired :: "datetime \<Rightarrow> account \<Rightarrow> bool" where
  "is_expired now a \<longleftrightarrow> acc_expire_date a \<le> now"

definition days_remaining :: "datetime \<Rightarrow> account \<Rightarrow> int" where
  "days_remaining now a = max 0 (delta_days (acc_expire_date a) now)"


section \<open>Constraints\<close>

definition pg_int_max :: int where
  "pg_int_max = 2147483647"

definition too_long :: "nat \<Rightarrow> string \<Rightarrow> bool" where
  "too_long n s \<longleftrightarrow> n < length s"

definition first_violation :: "(bool \<times> exn) list \<Rightarrow> exn option" where
  "first_violation checks = map_option snd (find fst checks)"

definition account_violation :: "database \<Rightarrow> account \<Rightarrow> exn option" where
  "account_violation d a =
     (let others = filter (\<lambda>r. acc_id r \<noteq> acc_id a) (accounts d)
      in first_violation
       [(too_long 32 (acc_username a), DataError ''username''),
        (too_long 128 (acc_password_display a), DataError ''password_display''),
        (pg_int_max < acc_max_connections a, DataError ''max_connections''),
        (pg_int_max < acc_bandwidth_limit_gb a, DataError ''bandwidth_limit_gb''),
        (acc_max_connections a < 0, IntegrityError ''max_connections''),
        (acc_bandwidth_limit_gb a < 0, IntegrityError ''bandwidth_limit_gb''),
        (list_ex (\<lambda>r. acc_username r = acc_username a \<and> acc_server r = acc_server a) others,
           IntegrityError ''username, server''),
        (list_ex (\<lambda>r. acc_access_token r = acc_access_token a) others, IntegrityError ''access_token''),
        (list_ex (\<lambda>r. acc_auth_token r = acc_auth_token a) others, IntegrityError ''auth_token''),
        (db_server d (acc_server a) = None, IntegrityError ''server''),
        (case acc_plan a of None \<Rightarrow> False | Some p \<Rightarrow> db_plan d p = None, IntegrityError ''plan'')])"

definition server_violation :: "database \<Rightarrow> server \<Rightarrow> exn option" where
  "server_violation d srv =
     (let others = filter (\<lambda>r. srv_id r \<noteq> srv_id srv) (servers d)
      in first_violation
       [(too_long 100 (srv_name srv), DataError ''name''),
        (too_long 64 (srv_ssh_user srv), DataError ''ssh_user''),
        (too_long 500 (srv_ssh_key_path srv), DataError ''ssh_key_path''),
        (too_long 120 (srv_location srv), DataError ''location''),
        (too_long 100 (srv_shadowlink_ws_path srv), DataError ''shadowlink_ws_path''),
        (too_long 255 (srv_shadowlink_domain srv), DataError ''shadowlink_domain''),
        (too_long 128 (srv_shadowlink_api_key srv), DataError ''shadowlink_api_key''),
        (list_ex (\<lambda>n. pg_int_max < n)
           [srv_ssh_port srv, srv_max_users srv, srv_shadowlink_port srv, srv_shadowlink_bridge_port srv],
           DataError ''integer out of range''),
        (srv_uptime_seconds srv < - (2 ^ 63) \<or> 2 ^ 63 \<le> srv_uptime_seconds srv, DataError ''uptime_seconds''),
        (list_ex (\<lambda>n. n < 0)
           [srv_ssh_port srv, srv_max_users srv, srv_shadowlink_port srv, srv_shadowlink_bridge_port srv],
           IntegrityError ''check constraint''),
        (list_ex (\<lambda>r. srv_name r = srv_name srv) others, IntegrityError ''name''),
        (list_ex (\<lambda>r. srv_ip_address r = srv_ip_address srv) others, IntegrityError ''ip_address'')])"

definition plan_violation :: "database \<Rightarrow> plan \<Rightarrow> exn option" where
  "plan_violation d p =
     (let others = filter (\<lambda>r. plan_id r \<noteq> plan_id p) (plans d)
      in first_violation
       [(too_long 100 (plan_name p), DataError ''name''),
        (too_long 5 (plan_currency p), DataError ''currency''),
        (list_ex (\<lambda>n. pg_int_max < n)
           [plan_duration_days p, plan_max_connections p, plan_bandwidth_limit_gb p],
           DataError ''integer out of range''),
        (10 ^ 10 \<le> \<bar>plan_price_cents p\<bar>, DataError ''price''),
        (list_ex (\<lambda>n. n < 0)
           [plan_duration_days p, plan_max_connections p, plan_bandwidth_limit_gb p],
           IntegrityError ''check constraint''),
        (list_ex (\<lambda>r. plan_name r = plan_name p) others, IntegrityError ''name'')])"

definition session_violation :: "(string \<Rightarrow> bool) \<Rightarrow> database \<Rightarrow> active_session \<Rightarrow> exn option" where
  "session_violation inet_ok d ses =
     (let others = filter (\<lambda>r. ses_id r \<noteq> ses_id ses) (sessions d)
      in first_violation
       [(pg_int_max < ses_pid ses \<or> ses_pid ses < - pg_int_max - 1, DataError ''pid''),
        (case ses_client_ip ses of None \<Rightarrow> False | Some ip \<Rightarrow> \<not> inet_ok ip, DataError ''client_ip''),
        (list_ex (\<lambda>r. ses_account r = ses_account ses \<and> ses_pid r = ses_pid ses) others,
           IntegrityError ''account, pid''),
        (db_account d (ses_account ses) = None, IntegrityError ''account'')])"

definition log_violation :: "database \<Rightarrow> audit_log \<Rightarrow> exn option" where
  "log_violation d l =
     first_violation
       [(case log_account l of None \<Rightarrow> False | Some a \<Rightarrow> db_account d a = None, IntegrityError ''account'')]"


section \<open>Statements\<close>

text \<open>
  A statement is a computation on the database alone.  An \<open>INSERT\<close> takes the
  next id of its table's sequence (\<open>nextval\<close>) whether it succeeds or not, and
  returns the row as it was written.
\<close>

definition insert_server :: "server \<Rightarrow> (database, server) py" where
  "insert_server r d =
     (let r' = r\<lparr>srv_id := next_server d\<rparr>; d' = d\<lparr>next_server := next_server d + 1\<rparr>
      in case server_violation d' r' of
           Some e \<Rightarrow> (Inl e, d') | None \<Rightarrow> (Inr r', d'\<lparr>servers := servers d' @ [r']\<rparr>))"

definition insert_plan :: "plan \<Rightarrow> (database, plan) py" where
  "insert_plan r d =
     (let r' = r\<lparr>plan_id := next_plan d\<rparr>; d' = d\<lparr>next_plan := next_plan d + 1\<rparr>
      in case plan_violation d' r' of
           Some e \<Rightarrow> (Inl e, d') | None \<Rightarrow> (Inr r', d'\<lparr>plans := plans d' @ [r']\<rparr>))"

definition insert_account :: "account \<Rightarrow> (database, account) py" where
  "insert_account r d =
     (let r' = r\<lparr>acc_id := next_account d\<rparr>; d' = d\<lparr>next_account := next_account d + 1\<rparr>
      in case account_violation d' r' of
           Some e \<Rightarrow> (Inl e, d') | None \<Rightarrow> (Inr r', d'\<lparr>accounts := accounts d' @ [r']\<rparr>))"

definition insert_session :: "(string \<Rightarrow> bool) \<Rightarrow> active_session \<Rightarrow> (database, active_session) py" where
  "insert_session inet_ok r d =
     (let r' = r\<lparr>ses_id := next_session d\<rparr>; d' = d\<lparr>next_session := next_session d + 1\<rparr>
      in case session_violation inet_ok d' r' of
           Some e \<Rightarrow> (Inl e, d') | None \<Rightarrow> (Inr r', d'\<lparr>sessions := sessions d' @ [r']\<rparr>))"

definition insert_log :: "audit_log \<Rightarrow> (database, audit_log) py" where
  "insert_log r d =
     (let r' = r\<lparr>log_id := next_log d\<rparr>; d' = d\<lparr>next_log := next_log d + 1\<rparr>
      in case log_violation d' r' of
           Some e \<Rightarrow> (Inl e, d') | None \<Rightarrow> (Inr r', d'\<lparr>logs := logs d' @ [r']\<rparr>))"

text \<open>
  \<open>UPDATE ... WHERE id = i\<close>, where \<open>g\<close> writes the columns that are saved.  Django
  raises when it was told which columns to write and no row has the id.
\<close>

definition no_row :: exn where
  "no_row = DatabaseError ''Save with update_fields did not affect any rows.''"

text \<open>
  \<open>save()\<close> of a whole object whose row is gone inserts the row again, under its number,
  which the sequence has given before.
\<close>

definition restore_server :: "server \<Rightarrow> (database, unit) py" where
  "restore_server r d =
     (if next_server d \<le> srv_id r \<or> db_server d (srv_id r) \<noteq> None then (Inl no_row, d)
      else case server_violation d r of
             Some e \<Rightarrow> (Inl e, d) | None \<Rightarrow> (Inr (), d\<lparr>servers := servers d @ [r]\<rparr>))"

definition update_account :: "nat \<Rightarrow> (account \<Rightarrow> account) \<Rightarrow> (database, unit) py" where
  "update_account i g d =
     (case db_account d i of
        None \<Rightarrow> (Inl no_row, d)
      | Some r \<Rightarrow>
          (case account_violation d (g r) of
             Some e \<Rightarrow> (Inl e, d)
           | None \<Rightarrow> (Inr (), d\<lparr>accounts := replace_key acc_id i g (accounts d)\<rparr>)))"

definition update_server :: "nat \<Rightarrow> (server \<Rightarrow> server) \<Rightarrow> (database, unit) py" where
  "update_server i g d =
     (case db_server d i of
        None \<Rightarrow> (Inl no_row, d)
      | Some r \<Rightarrow>
          (case server_violation d (g r) of
             Some e \<Rightarrow> (Inl e, d)
           | None \<Rightarrow> (Inr (), d\<lparr>servers := replace_key srv_id i g (servers d)\<rparr>)))"

definition update_plan :: "nat \<Rightarrow> (plan \<Rightarrow> plan) \<Rightarrow> (database, unit) py" where
  "update_plan i g d =
     (case db_plan d i of
        None \<Rightarrow> (Inl no_row, d)
      | Some r \<Rightarrow>
          (case plan_violation d (g r) of
             Some e \<Rightarrow> (Inl e, d)
           | None \<Rightarrow> (Inr (), d\<lparr>plans := replace_key plan_id i g (plans d)\<rparr>)))"

text \<open>
  Deleting a row, with the \<open>on_delete\<close> of the foreign keys that point to it:
  \<open>PROTECT\<close> for the server of an account, \<open>SET_NULL\<close> for its plan.
\<close>

definition delete_server :: "nat \<Rightarrow> (database, unit) py" where
  "delete_server i d =
     (if list_ex (\<lambda>a. acc_server a = i) (accounts d)
      then (Inl (ProtectedError ''Cannot delete some instances of model Server''), d)
      else (Inr (), d\<lparr>servers := filter (\<lambda>r. srv_id r \<noteq> i) (servers d)\<rparr>))"

definition forget_plan :: "nat \<Rightarrow> account \<Rightarrow> account" where
  "forget_plan i a = (if acc_plan a = Some i then a\<lparr>acc_plan := None\<rparr> else a)"

definition delete_plan :: "nat \<Rightarrow> (database, unit) py" where
  "delete_plan i d =
     (Inr (), d\<lparr>plans := filter (\<lambda>r. plan_id r \<noteq> i) (plans d),
                accounts := map (forget_plan i) (accounts d)\<rparr>)"

definition delete_sessions_of_server :: "nat \<Rightarrow> (database, unit) py" where
  "delete_sessions_of_server i d =
     (Inr (), d\<lparr>sessions := filter (\<lambda>ses. \<not> (case db_account d (ses_account ses) of
                  None \<Rightarrow> False | Some a \<Rightarrow> acc_server a = i)) (sessions d)\<rparr>)"

text \<open>\<open>ROLLBACK\<close>: the tables of the start of the transaction, the sequences of now.\<close>

definition rollback :: "database \<Rightarrow> database \<Rightarrow> database" where
  "rollback d0 d =
     d0\<lparr>next_server := next_server d, next_plan := next_plan d, next_account := next_account d,
        next_session := next_session d, next_log := next_log d\<rparr>"


section \<open>Well-formed databases\<close>

definition ids_ok :: "('r \<Rightarrow> nat) \<Rightarrow> nat \<Rightarrow> 'r list \<Rightarrow> bool" where
  "ids_ok f n rows \<longleftrightarrow> distinct (map f rows) \<and> (\<forall>r \<in> set rows. f r < n)"

definition account_ok :: "database \<Rightarrow> account \<Rightarrow> bool" where
  "account_ok d a \<longleftrightarrow>
     db_server d (acc_server a) \<noteq> None \<and>
     (case acc_plan a of None \<Rightarrow> True | Some p \<Rightarrow> db_plan d p \<noteq> None) \<and>
     length (acc_username a) \<le> 32 \<and> length (acc_password_display a) \<le> 128 \<and>
     0 \<le> acc_max_connections a \<and> acc_max_connections a \<le> pg_int_max \<and>
     0 \<le> acc_bandwidth_limit_gb a \<and> acc_bandwidth_limit_gb a \<le> pg_int_max"

definition accounts_ok :: "database \<Rightarrow> bool" where
  "accounts_ok d \<longleftrightarrow>
     ids_ok acc_id (next_account d) (accounts d) \<and>
     distinct (map (\<lambda>a. (acc_username a, acc_server a)) (accounts d)) \<and>
     distinct (map acc_access_token (accounts d)) \<and>
     distinct (map acc_auth_token (accounts d)) \<and>
     (\<forall>a \<in> set (accounts d). account_ok d a)"

definition servers_ok :: "database \<Rightarrow> bool" where
  "servers_ok d \<longleftrightarrow>
     ids_ok srv_id (next_server d) (servers d) \<and>
     distinct (map srv_name (servers d)) \<and> distinct (map srv_ip_address (servers d))"

definition plans_ok :: "database \<Rightarrow> bool" where
  "plans_ok d \<longleftrightarrow>
     ids_ok plan_id (next_plan d) (plans d) \<and> distinct (map plan_name (plans d))"

definition sessions_ok :: "database \<Rightarrow> bool" where
  "sessions_ok d \<longleftrightarrow>
     ids_ok ses_id (next_session d) (sessions d) \<and>
     distinct (map (\<lambda>r. (ses_account r, ses_pid r)) (sessions d)) \<and>
     (\<forall>r \<in> set (sessions d). db_account d (ses_account r) \<noteq> None)"

definition logs_ok :: "database \<Rightarrow> bool" where
  "logs_ok d \<longleftrightarrow>
     ids_ok log_id (next_log d) (logs d) \<and>
     (\<forall>r \<in> set (logs d). case log_account r of None \<Rightarrow> True | Some a \<Rightarrow> db_account d a \<noteq> None)"

definition db_wf :: "database \<Rightarrow> bool" where
  "db_wf d \<longleftrightarrow> servers_ok d \<and> plans_ok d \<and> accounts_ok d \<and> sessions_ok d \<and> logs_ok d"

definition empty_db :: database where
  "empty_db =
     \<lparr>servers = [], plans = [], accounts = [], sessions = [], logs = [],
      next_server = 1, next_plan = 1, next_account = 1, next_session = 1, next_log = 1\<rparr>"

end
