(* ===== verification/Integrity.thy ===== *)
theory Integrity
  imports Models
begin

text \<open>
  What the statements of the database do to it.  \<open>steps D m\<close> for a statement \<open>m\<close>
  and a relation \<open>D\<close> on databases says that the database before and the one after
  are related by \<open>D\<close> on every exit.  Three relations are followed through the
  whole program: \<open>wf_step\<close> (a well-formed database stays well-formed),
  \<open>log_step\<close> (the audit log is only appended to) and \<open>identity_step\<close> (no account
  row disappears, and its id, name, plan, protocol, tokens and creation data never
  change).  The locale \<open>statement_effect\<close> lists what a relation has to satisfy to
  be carried by every operation of the panel; each of the three is an
  interpretation of it.
\<close>

section \<open>Constraint checks\<close>

lemma first_violation_None [simp]:
  "first_violation cs = None \<longleftrightarrow> (\<forall>(b, e) \<in> set cs. \<not> b)"
  by (auto simp: first_violation_def find_None_iff)

lemma account_violation_None:
  assumes "account_violation d a = None"
  shows "account_ok d a"
    and "r \<in> set (accounts d) \<Longrightarrow> acc_id r \<noteq> acc_id a \<Longrightarrow>
      (acc_username r, acc_server r) \<noteq> (acc_username a, acc_server a) \<and>
      acc_access_token r \<noteq> acc_access_token a \<and> acc_auth_token r \<noteq> acc_auth_token a"
  using assms
  by (auto simp: account_violation_def account_ok_def too_long_def list_ex_iff split: option.splits)

lemma server_violation_None:
  assumes "server_violation d a = None"
    and "r \<in> set (servers d)" "srv_id r \<noteq> srv_id a"
  shows "srv_name r \<noteq> srv_name a \<and> srv_ip_address r \<noteq> srv_ip_address a"
  using assms by (auto simp: server_violation_def list_ex_iff)

lemma plan_violation_None:
  assumes "plan_violation d p = None"
    and "r \<in> set (plans d)" "plan_id r \<noteq> plan_id p"
  shows "plan_name r \<noteq> plan_name p"
  using assms by (auto simp: plan_violation_def list_ex_iff)

lemma session_violation_None:
  assumes "session_violation ok d s = None"
  shows "db_account d (ses_account s) \<noteq> None"
    and "r \<in> set (sessions d) \<Longrightarrow> ses_id r \<noteq> ses_id s \<Longrightarrow>
      (ses_account r, ses_pid r) \<noteq> (ses_account s, ses_pid s)"
  using assms by (auto simp: session_violation_def list_ex_iff)

lemma log_violation_None:
  "log_violation d l = None \<Longrightarrow> log_account l = Some a \<Longrightarrow> db_account d a \<noteq> None"
  by (auto simp: log_violation_def)


section \<open>Lookups\<close>

lemma db_server_cong [simp]:
  "db_server (d\<lparr>plans := ps\<rparr>) = db_server d" "db_server (d\<lparr>accounts := as\<rparr>) = db_server d"
  "db_server (d\<lparr>sessions := ss\<rparr>) = db_server d" "db_server (d\<lparr>logs := ls\<rparr>) = db_server d"
  "db_server (d\<lparr>next_server := n\<rparr>) = db_server d" "db_server (d\<lparr>next_plan := n\<rparr>) = db_server d"
  "db_server (d\<lparr>next_account := n\<rparr>) = db_server d" "db_server (d\<lparr>next_session := n\<rparr>) = db_server d"
  "db_server (d\<lparr>next_log := n\<rparr>) = db_server d"
  by (simp_all add: db_server_def fun_eq_iff)

lemma db_plan_cong [simp]:
  "db_plan (d\<lparr>servers := rs\<rparr>) = db_plan d" "db_plan (d\<lparr>accounts := as\<rparr>) = db_plan d"
  "db_plan (d\<lparr>sessions := ss\<rparr>) = db_plan d" "db_plan (d\<lparr>logs := ls\<rparr>) = db_plan d"
  "db_plan (d\<lparr>next_server := n\<rparr>) = db_plan d" "db_plan (d\<lparr>next_plan := n\<rparr>) = db_plan d"
  "db_plan (d\<lparr>next_account := n\<rparr>) = db_plan d" "db_plan (d\<lparr>next_session := n\<rparr>) = db_plan d"
  "db_plan (d\<lparr>next_log := n\<rparr>) = db_plan d"
  by (simp_all add: db_plan_def fun_eq_iff)

lemma db_account_cong [simp]:
  "db_account (d\<lparr>servers := rs\<rparr>) = db_account d" "db_account (d\<lparr>plans := ps\<rparr>) = db_account d"
  "db_account (d\<lparr>sessions := ss\<rparr>) = db_account d" "db_account (d\<lparr>logs := ls\<rparr>) = db_account d"
  "db_account (d\<lparr>next_server := n\<rparr>) = db_account d" "db_account (d\<lparr>next_plan := n\<rparr>) = db_account d"
  "db_account (d\<lparr>next_account := n\<rparr>) = db_account d" "db_account (d\<lparr>next_session := n\<rparr>) = db_account d"
  "db_account (d\<lparr>next_log := n\<rparr>) = db_account d"
  by (simp_all add: db_account_def fun_eq_iff)

lemma db_account_Some: "db_account d i = Some a \<Longrightarrow> a \<in> set (accounts d) \<and> acc_id a = i"
  unfolding db_account_def by (drule find_SomeD) simp

lemma db_server_Some: "db_server d i = Some r \<Longrightarrow> r \<in> set (servers d) \<and> srv_id r = i"
  unfolding db_server_def by (drule find_SomeD) simp

lemma db_plan_Some: "db_plan d i = Some r \<Longrightarrow> r \<in> set (plans d) \<and> plan_id r = i"
  unfolding db_plan_def by (drule find_SomeD) simp

lemma on_the_books:
  "db_server d i \<noteq> None \<longleftrightarrow> i \<in> srv_id ` set (servers d)"
  "db_plan d i \<noteq> None \<longleftrightarrow> i \<in> plan_id ` set (plans d)"
  by (auto simp: db_server_def db_plan_def find_None_iff)

lemma db_account_insert:
  "db_account (d\<lparr>accounts := accounts d @ [r]\<rparr>) i =
   (case db_account d i of None \<Rightarrow> if acc_id r = i then Some r else None | Some a \<Rightarrow> Some a)"
  by (simp add: db_account_def find_append split: option.split)

lemma db_account_update:
  assumes "\<And>a. acc_id (g a) = acc_id a"
  shows "db_account (d\<lparr>accounts := replace_key acc_id i g (accounts d)\<rparr>) j =
         map_option (\<lambda>a. if acc_id a = i then g a else a) (db_account d j)"
  by (simp add: db_account_def find_replace_key assms)

lemma db_server_insert:
  "db_server (d\<lparr>servers := servers d @ [r]\<rparr>) i =
   (case db_server d i of None \<Rightarrow> if srv_id r = i then Some r else None | Some a \<Rightarrow> Some a)"
  by (simp add: db_server_def find_append split: option.split)

lemma db_server_update:
  assumes "\<And>a. srv_id (g a) = srv_id a"
  shows "db_server (d\<lparr>servers := replace_key srv_id i g (servers d)\<rparr>) j =
         map_option (\<lambda>a. if srv_id a = i then g a else a) (db_server d j)"
  by (simp add: db_server_def find_replace_key assms)

lemma db_plan_insert:
  "db_plan (d\<lparr>plans := plans d @ [r]\<rparr>) i =
   (case db_plan d i of None \<Rightarrow> if plan_id r = i then Some r else None | Some a \<Rightarrow> Some a)"
  by (simp add: db_plan_def find_append split: option.split)

lemma db_account_found:
  "db_wf d \<Longrightarrow> a \<in> set (accounts d) \<Longrightarrow> db_account d (acc_id a) = Some a"
  unfolding db_account_def db_wf_def accounts_ok_def ids_ok_def by (rule find_key) auto

section \<open>Statements keep a database well-formed\<close>

lemma ids_ok_snoc: "ids_ok f n xs \<Longrightarrow> f r = n \<Longrightarrow> ids_ok f (Suc n) (xs @ [r])"
  by (auto simp: ids_ok_def less_Suc_eq)

lemma ids_ok_Suc: "ids_ok f n xs \<Longrightarrow> ids_ok f (Suc n) xs"
  by (auto simp: ids_ok_def less_Suc_eq)

lemma ids_ok_mono: "ids_ok f n xs \<Longrightarrow> n \<le> m \<Longrightarrow> ids_ok f m xs"
  by (fastforce simp: ids_ok_def)

lemma ids_ok_replace: "ids_ok f n xs \<Longrightarrow> (\<And>a. f (g a) = f a) \<Longrightarrow> ids_ok f n (replace_key f i g xs)"
  by (auto simp: ids_ok_def keys_replace_key dest!: in_replace_key)

lemma ids_ok_filter: "ids_ok f n xs \<Longrightarrow> ids_ok f n (filter P xs)"
  by (auto simp: ids_ok_def distinct_map_filter)

lemma account_ok_mono:
  assumes "account_ok d a"
    and "\<And>i. db_server d i \<noteq> None \<Longrightarrow> db_server d' i \<noteq> None"
    and "\<And>i. db_plan d i \<noteq> None \<Longrightarrow> db_plan d' i \<noteq> None"
  shows "account_ok d' a"
  using assms by (auto simp: account_ok_def split: option.splits)

lemma sessions_ok_mono:
  assumes "sessions_ok d" "sessions d' = sessions d" "next_session d \<le> next_session d'"
    and "\<And>i. db_account d i \<noteq> None \<Longrightarrow> db_account d' i \<noteq> None"
  shows "sessions_ok d'"
  using assms by (auto simp: sessions_ok_def intro: ids_ok_mono)

lemma logs_ok_mono:
  assumes "logs_ok d" "logs d' = logs d" "next_log d \<le> next_log d'"
    and "\<And>i. db_account d i \<noteq> None \<Longrightarrow> db_account d' i \<noteq> None"
  shows "logs_ok d'"
  using assms unfolding logs_ok_def by (auto intro: ids_ok_mono split: option.splits)

lemma accounts_ok_mono:
  assumes "accounts_ok d" "accounts d' = accounts d" "next_account d \<le> next_account d'"
    and "\<And>i. db_server d i \<noteq> None \<Longrightarrow> db_server d' i \<noteq> None"
    and "\<And>i. db_plan d i \<noteq> None \<Longrightarrow> db_plan d' i \<noteq> None"
  shows "accounts_ok d'"
  using assms by (auto simp: accounts_ok_def intro: account_ok_mono ids_ok_mono)

text \<open>
  A statement that touches one table: the other tables' conditions carry over,
  because rows of the tables they refer to are never lost.
\<close>

lemma lookup_cong:
  "servers d' = servers d \<Longrightarrow> db_server d' = db_server d"
  "plans d' = plans d \<Longrightarrow> db_plan d' = db_plan d"
  "accounts d' = accounts d \<Longrightarrow> db_account d' = db_account d"
  by (simp_all add: db_server_def db_plan_def db_account_def fun_eq_iff)

lemma db_wf_servers_grow:
  assumes "db_wf d" "servers_ok d'"
    and same: "next_server d \<le> next_server d'" "plans d' = plans d" "next_plan d' = next_plan d" "accounts d' = accounts d" "next_account d' = next_account d" "sessions d' = sessions d" "next_session d' = next_session d" "logs d' = logs d" "next_log d' = next_log d"
    and "\<And>i. db_server d i \<noteq> None \<Longrightarrow> db_server d' i \<noteq> None"
  shows "db_wf d'"
proof -
  have "accounts_ok d'" by (rule accounts_ok_mono [of d]) (use assms in \<open>auto simp: db_wf_def lookup_cong [of d' d]\<close>)
  moreover have "sessions_ok d'" by (rule sessions_ok_mono [of d]) (use assms in \<open>auto simp: db_wf_def lookup_cong [of d' d]\<close>)
  moreover have "logs_ok d'" by (rule logs_ok_mono [of d]) (use assms in \<open>auto simp: db_wf_def lookup_cong [of d' d]\<close>)
  ultimately show ?thesis using assms(1,2) same by (simp add: db_wf_def plans_ok_def)
qed

lemma db_wf_plans_grow:
  assumes "db_wf d" "plans_ok d'"
    and same: "servers d' = servers d" "next_server d' = next_server d" "next_plan d \<le> next_plan d'" "accounts d' = accounts d" "next_account d' = next_account d" "sessions d' = sessions d" "next_session d' = next_session d" "logs d' = logs d" "next_log d' = next_log d"
    and "\<And>i. db_plan d i \<noteq> None \<Longrightarrow> db_plan d' i \<noteq> None"
  shows "db_wf d'"
proof -
  have "accounts_ok d'" by (rule accounts_ok_mono [of d]) (use assms in \<open>auto simp: db_wf_def lookup_cong [of d' d]\<close>)
  moreover have "sessions_ok d'" by (rule sessions_ok_mono [of d]) (use assms in \<open>auto simp: db_wf_def lookup_cong [of d' d]\<close>)
  moreover have "logs_ok d'" by (rule logs_ok_mono [of d]) (use assms in \<open>auto simp: db_wf_def lookup_cong [of d' d]\<close>)
  ultimately show ?thesis using assms(1,2) same by (simp add: db_wf_def servers_ok_def)
qed

lemma db_wf_accounts_grow:
  assumes "db_wf d" "accounts_ok d'"
    and same: "servers d' = servers d" "next_server d' = next_server d" "plans d' = plans d" "next_plan d' = next_plan d" "next_account d \<le> next_account d'" "sessions d' = sessions d" "next_session d' = next_session d" "logs d' = logs d" "next_log d' = next_log d"
    and "\<And>i. db_account d i \<noteq> None \<Longrightarrow> db_account d' i \<noteq> None"
  shows "db_wf d'"
proof -
  have "sessions_ok d'" by (rule sessions_ok_mono [of d]) (use assms in \<open>auto simp: db_wf_def lookup_cong [of d' d]\<close>)
  moreover have "logs_ok d'" by (rule logs_ok_mono [of d]) (use assms in \<open>auto simp: db_wf_def lookup_cong [of d' d]\<close>)
  ultimately show ?thesis using assms(1,2) same by (simp add: db_wf_def servers_ok_def plans_ok_def)
qed

lemma wf_insert_server:
  fixes d :: database
  assumes wf: "db_wf d" and r: "srv_id r = next_server d"
    and ok: "server_violation (d\<lparr>next_server := Suc (next_server d)\<rparr>) r = None"
  shows "db_wf (d\<lparr>next_server := Suc (next_server d), servers := servers d @ [r]\<rparr>)"
proof (rule db_wf_servers_grow [OF wf])
  from wf have s: "ids_ok srv_id (next_server d) (servers d)" by (simp add: db_wf_def servers_ok_def)
  have new: "srv_name x \<noteq> srv_name r \<and> srv_ip_address x \<noteq> srv_ip_address r" if "x \<in> set (servers d)" for x
    using server_violation_None [OF ok, of x] s that r by (auto simp: ids_ok_def)
  then show "servers_ok (d\<lparr>next_server := Suc (next_server d), servers := servers d @ [r]\<rparr>)"
    using wf s r by (force simp: servers_ok_def db_wf_def ids_ok_snoc)
next
  fix i assume "db_server d i \<noteq> None"
  then show "db_server (d\<lparr>next_server := Suc (next_server d), servers := servers d @ [r]\<rparr>) i \<noteq> None"
    by (auto simp: db_server_def find_append split: option.split)
qed simp_all

lemma wf_restore_server:
  fixes d :: database
  assumes wf: "db_wf d" and r: "srv_id r < next_server d" "db_server d (srv_id r) = None"
    and ok: "server_violation d r = None"
  shows "db_wf (d\<lparr>servers := servers d @ [r]\<rparr>)"
proof (rule db_wf_servers_grow [OF wf])
  from wf have s: "ids_ok srv_id (next_server d) (servers d)" by (simp add: db_wf_def servers_ok_def)
  have fresh: "srv_id x \<noteq> srv_id r" if "x \<in> set (servers d)" for x
    using r(2) that by (auto simp: db_server_def find_None_iff)
  have new: "srv_name x \<noteq> srv_name r \<and> srv_ip_address x \<noteq> srv_ip_address r" if "x \<in> set (servers d)" for x
    using server_violation_None [OF ok that fresh [OF that]] .
  have "ids_ok srv_id (next_server d) (servers d @ [r])"
    using s r(1) fresh by (force simp: ids_ok_def)
  then show "servers_ok (d\<lparr>servers := servers d @ [r]\<rparr>)"
    using wf new by (force simp: servers_ok_def db_wf_def)
next
  fix i assume "db_server d i \<noteq> None"
  then show "db_server (d\<lparr>servers := servers d @ [r]\<rparr>) i \<noteq> None"
    by (auto simp: db_server_def find_append split: option.split)
qed simp_all

lemma wf_insert_plan:
  fixes d :: database
  assumes wf: "db_wf d" and r: "plan_id r = next_plan d"
    and ok: "plan_violation (d\<lparr>next_plan := Suc (next_plan d)\<rparr>) r = None"
  shows "db_wf (d\<lparr>next_plan := Suc (next_plan d), plans := plans d @ [r]\<rparr>)"
proof (rule db_wf_plans_grow [OF wf])
  from wf have s: "ids_ok plan_id (next_plan d) (plans d)" by (simp add: db_wf_def plans_ok_def)
  have new: "plan_name x \<noteq> plan_name r" if "x \<in> set (plans d)" for x
    using plan_violation_None [OF ok, of x] s that r by (auto simp: ids_ok_def)
  then show "plans_ok (d\<lparr>next_plan := Suc (next_plan d), plans := plans d @ [r]\<rparr>)"
    using wf s r by (force simp: plans_ok_def db_wf_def ids_ok_snoc)
next
  fix i assume "db_plan d i \<noteq> None"
  then show "db_plan (d\<lparr>next_plan := Suc (next_plan d), plans := plans d @ [r]\<rparr>) i \<noteq> None"
    by (auto simp: db_plan_def find_append split: option.split)
qed simp_all

lemma wf_insert_account:
  fixes d :: database
  assumes wf: "db_wf d" and r: "acc_id r = next_account d"
    and ok: "account_violation (d\<lparr>next_account := Suc (next_account d)\<rparr>) r = None"
  shows "db_wf (d\<lparr>next_account := Suc (next_account d), accounts := accounts d @ [r]\<rparr>)"
proof (rule db_wf_accounts_grow [OF wf])
  let ?d = "d\<lparr>next_account := Suc (next_account d), accounts := accounts d @ [r]\<rparr>"
  from wf have s: "ids_ok acc_id (next_account d) (accounts d)" by (simp add: db_wf_def accounts_ok_def)
  have new: "(acc_username x, acc_server x) \<noteq> (acc_username r, acc_server r) \<and>
      acc_access_token x \<noteq> acc_access_token r \<and> acc_auth_token x \<noteq> acc_auth_token r"
    if "x \<in> set (accounts d)" for x
    using account_violation_None(2) [OF ok, of x] s that r by (auto simp: ids_ok_def)
  have "account_ok ?d x" if "x \<in> set (accounts d @ [r])" for x
    using that wf account_violation_None(1) [OF ok]
    by (auto simp: db_wf_def accounts_ok_def account_ok_def split: option.splits)
  with new show "accounts_ok ?d"
    using wf s r by (force simp: accounts_ok_def db_wf_def ids_ok_snoc)
next
  fix i assume "db_account d i \<noteq> None"
  then show "db_account (d\<lparr>next_account := Suc (next_account d), accounts := accounts d @ [r]\<rparr>) i \<noteq> None"
    by (auto simp: db_account_def find_append split: option.split)
qed simp_all

lemma wf_update_account:
  fixes d :: database
  assumes wf: "db_wf d" and g: "\<And>a. acc_id (g a) = acc_id a"
    and r: "db_account d i = Some r" and ok: "account_violation d (g r) = None"
  shows "db_wf (d\<lparr>accounts := replace_key acc_id i g (accounts d)\<rparr>)"
proof (rule db_wf_accounts_grow [OF wf])
  let ?d = "d\<lparr>accounts := replace_key acc_id i g (accounts d)\<rparr>"
  from r have rin: "r \<in> set (accounts d)" and ri: "acc_id r = i" by (auto dest: db_account_Some)
  from wf have s: "ids_ok acc_id (next_account d) (accounts d)" by (simp add: db_wf_def accounts_ok_def)
  have only: "x = r" if "x \<in> set (accounts d)" "acc_id x = i" for x
    using s that rin ri unfolding ids_ok_def by (metis distinct_map_eqD)
  have new: "(acc_username y, acc_server y) \<noteq> (acc_username (g r), acc_server (g r)) \<and>
      acc_access_token y \<noteq> acc_access_token (g r) \<and> acc_auth_token y \<noteq> acc_auth_token (g r)"
    if "y \<in> set (accounts d)" "acc_id y \<noteq> i" for y
    using account_violation_None(2) [OF ok that(1)] that(2) by (simp add: g ri)
  have dist: "distinct (map k (replace_key acc_id i g (accounts d)))"
    if "distinct (map k (accounts d))"
      and k: "\<And>y. y \<in> set (accounts d) \<Longrightarrow> acc_id y \<noteq> i \<Longrightarrow> k (g r) \<noteq> k y" for k :: "account \<Rightarrow> 'k"
    by (rule distinct_replace_key) (use s that only in \<open>auto simp: ids_ok_def\<close>)
  have "account_ok ?d x" if "x \<in> set (replace_key acc_id i g (accounts d))" for x
  proof -
    have "account_ok d x"
      using in_replace_key [OF that] wf account_violation_None(1) [OF ok] only
      by (auto simp: db_wf_def accounts_ok_def)
    then show ?thesis by (rule account_ok_mono) simp_all
  qed
  moreover have "distinct (map (\<lambda>a. (acc_username a, acc_server a)) (replace_key acc_id i g (accounts d)))"
    "distinct (map acc_access_token (replace_key acc_id i g (accounts d)))"
    "distinct (map acc_auth_token (replace_key acc_id i g (accounts d)))"
    using wf by (intro dist; use new in \<open>force simp: db_wf_def accounts_ok_def\<close>)+
  ultimately show "accounts_ok ?d"
    using s by (simp add: accounts_ok_def ids_ok_replace g)
next
  fix j assume "db_account d j \<noteq> None"
  then show "db_account (d\<lparr>accounts := replace_key acc_id i g (accounts d)\<rparr>) j \<noteq> None"
    by (auto simp: db_account_update g)
qed simp_all

lemma wf_update_server:
  fixes d :: database
  assumes wf: "db_wf d" and g: "\<And>a. srv_id (g a) = srv_id a"
    and r: "db_server d i = Some r" and ok: "server_violation d (g r) = None"
  shows "db_wf (d\<lparr>servers := replace_key srv_id i g (servers d)\<rparr>)"
proof (rule db_wf_servers_grow [OF wf])
  let ?d = "d\<lparr>servers := replace_key srv_id i g (servers d)\<rparr>"
  from r have rin: "r \<in> set (servers d)" and ri: "srv_id r = i" by (auto dest: db_server_Some)
  from wf have s: "ids_ok srv_id (next_server d) (servers d)" by (simp add: db_wf_def servers_ok_def)
  have only: "x = r" if "x \<in> set (servers d)" "srv_id x = i" for x
    using s that rin ri unfolding ids_ok_def by (metis distinct_map_eqD)
  have new: "srv_name y \<noteq> srv_name (g r) \<and> srv_ip_address y \<noteq> srv_ip_address (g r)"
    if "y \<in> set (servers d)" "srv_id y \<noteq> i" for y
    using server_violation_None [OF ok that(1)] that(2) by (simp add: g ri)
  have dist: "distinct (map k (replace_key srv_id i g (servers d)))"
    if "distinct (map k (servers d))"
      and k: "\<And>y. y \<in> set (servers d) \<Longrightarrow> srv_id y \<noteq> i \<Longrightarrow> k (g r) \<noteq> k y" for k :: "server \<Rightarrow> string"
    by (rule distinct_replace_key) (use s that only in \<open>auto simp: ids_ok_def\<close>)
  have "distinct (map srv_name (replace_key srv_id i g (servers d)))"
    "distinct (map srv_ip_address (replace_key srv_id i g (servers d)))"
    using wf by (intro dist; use new in \<open>force simp: db_wf_def servers_ok_def\<close>)+
  then show "servers_ok ?d"
    using s by (simp add: servers_ok_def ids_ok_replace g)
next
  fix j assume "db_server d j \<noteq> None"
  then show "db_server (d\<lparr>servers := replace_key srv_id i g (servers d)\<rparr>) j \<noteq> None"
    by (auto simp: db_server_update g)
qed simp_all

lemma wf_insert_session:
  fixes d :: database
  assumes wf: "db_wf d" and r: "ses_id r = next_session d"
    and ok: "session_violation inet_ok (d\<lparr>next_session := Suc (next_session d)\<rparr>) r = None"
  shows "db_wf (d\<lparr>next_session := Suc (next_session d), sessions := sessions d @ [r]\<rparr>)"
proof -
  let ?d = "d\<lparr>next_session := Suc (next_session d), sessions := sessions d @ [r]\<rparr>"
  from wf have s: "ids_ok ses_id (next_session d) (sessions d)" by (simp add: db_wf_def sessions_ok_def)
  have "(ses_account x, ses_pid x) \<noteq> (ses_account r, ses_pid r)" if "x \<in> set (sessions d)" for x
    using session_violation_None(2) [OF ok, of x] s that r by (auto simp: ids_ok_def)
  with wf s r have "sessions_ok ?d"
    using session_violation_None(1) [OF ok] by (force simp: sessions_ok_def db_wf_def ids_ok_snoc)
  moreover have "accounts_ok ?d" by (rule accounts_ok_mono [of d]) (use wf in \<open>auto simp: db_wf_def\<close>)
  moreover have "logs_ok ?d" by (rule logs_ok_mono [of d]) (use wf in \<open>auto simp: db_wf_def\<close>)
  ultimately show ?thesis using wf by (simp add: db_wf_def servers_ok_def plans_ok_def)
qed

lemma wf_insert_log:
  fixes d :: database
  assumes wf: "db_wf d" and r: "log_id r = next_log d"
    and ok: "log_violation (d\<lparr>next_log := Suc (next_log d)\<rparr>) r = None"
  shows "db_wf (d\<lparr>next_log := Suc (next_log d), logs := logs d @ [r]\<rparr>)"
proof -
  let ?d = "d\<lparr>next_log := Suc (next_log d), logs := logs d @ [r]\<rparr>"
  from wf r have "logs_ok ?d"
    using log_violation_None [OF ok]
    by (fastforce simp: logs_ok_def db_wf_def ids_ok_snoc lookup_cong [of ?d d] split: option.splits)
  moreover have "accounts_ok ?d" by (rule accounts_ok_mono [of d]) (use wf in \<open>auto simp: db_wf_def\<close>)
  moreover have "sessions_ok ?d" by (rule sessions_ok_mono [of d]) (use wf in \<open>auto simp: db_wf_def\<close>)
  ultimately show ?thesis using wf by (simp add: db_wf_def servers_ok_def plans_ok_def)
qed

lemma db_wf_sequences:
  fixes d :: database
  assumes "db_wf d" "servers d' = servers d" "plans d' = plans d" "accounts d' = accounts d"
    "sessions d' = sessions d" "logs d' = logs d"
    and "next_server d \<le> next_server d'" "next_plan d \<le> next_plan d'" "next_account d \<le> next_account d'"
    "next_session d \<le> next_session d'" "next_log d \<le> next_log d'"
  shows "db_wf d'"
proof -
  note same = lookup_cong [of d' d]
  have "accounts_ok d'" by (rule accounts_ok_mono [of d]) (use assms same in \<open>auto simp: db_wf_def\<close>)
  moreover have "sessions_ok d'" by (rule sessions_ok_mono [of d]) (use assms same in \<open>auto simp: db_wf_def\<close>)
  moreover have "logs_ok d'" by (rule logs_ok_mono [of d]) (use assms same in \<open>auto simp: db_wf_def\<close>)
  ultimately show ?thesis
    using assms by (auto simp: db_wf_def servers_ok_def plans_ok_def intro: ids_ok_mono)
qed

lemma wf_delete_sessions: "db_wf d \<Longrightarrow> db_wf (d\<lparr>sessions := filter P (sessions d)\<rparr>)"
proof -
  assume wf: "db_wf d"
  let ?d = "d\<lparr>sessions := filter P (sessions d)\<rparr>"
  from wf have "sessions_ok ?d"
    by (auto simp: db_wf_def sessions_ok_def ids_ok_filter distinct_map_filter)
  moreover have "accounts_ok ?d" by (rule accounts_ok_mono [of d]) (use wf in \<open>auto simp: db_wf_def\<close>)
  moreover have "logs_ok ?d" by (rule logs_ok_mono [of d]) (use wf in \<open>auto simp: db_wf_def\<close>)
  ultimately show ?thesis using wf by (simp add: db_wf_def servers_ok_def plans_ok_def)
qed


lemma wf_update_plan:
  fixes d :: database
  assumes wf: "db_wf d" and g: "\<And>a. plan_id (g a) = plan_id a"
    and r: "db_plan d i = Some r" and ok: "plan_violation d (g r) = None"
  shows "db_wf (d\<lparr>plans := replace_key plan_id i g (plans d)\<rparr>)"
proof (rule db_wf_plans_grow [OF wf])
  let ?d = "d\<lparr>plans := replace_key plan_id i g (plans d)\<rparr>"
  from r have rin: "r \<in> set (plans d)" and ri: "plan_id r = i" by (auto dest: db_plan_Some)
  from wf have s: "ids_ok plan_id (next_plan d) (plans d)" by (simp add: db_wf_def plans_ok_def)
  have only: "x = r" if "x \<in> set (plans d)" "plan_id x = i" for x
    using s that rin ri unfolding ids_ok_def by (metis distinct_map_eqD)
  have new: "plan_name y \<noteq> plan_name (g r)" if "y \<in> set (plans d)" "plan_id y \<noteq> i" for y
    using plan_violation_None [OF ok that(1)] that(2) by (simp add: g ri)
  have "distinct (map plan_name (replace_key plan_id i g (plans d)))"
    using wf s only new
    by (intro distinct_replace_key) (auto simp: db_wf_def plans_ok_def ids_ok_def, metis)
  then show "plans_ok ?d"
    using s by (simp add: plans_ok_def ids_ok_replace g)
next
  fix j assume "db_plan d j \<noteq> None"
  then show "db_plan (d\<lparr>plans := replace_key plan_id i g (plans d)\<rparr>) j \<noteq> None"
    by (auto simp: db_plan_def find_replace_key g)
qed simp_all

lemma find_filter_key: "find (\<lambda>r. f r = j) (filter (\<lambda>r. f r \<noteq> i) xs) = (if j = i then None else find (\<lambda>r. f r = j) xs)"
  by (induction xs) auto

lemma find_map_key:
  "(\<And>a. f (g a) = f a) \<Longrightarrow> find (\<lambda>r. f r = j) (map g xs) = map_option g (find (\<lambda>r. f r = j) xs)"
  by (induction xs) auto

lemma distinct_map_filter_key: "distinct (map f xs) \<Longrightarrow> distinct (map f (filter P xs))"
  by (induction xs) auto

lemma wf_delete_server:
  fixes d :: database
  assumes wf: "db_wf d" and free: "\<And>a. a \<in> set (accounts d) \<Longrightarrow> acc_server a \<noteq> i"
  shows "db_wf (d\<lparr>servers := filter (\<lambda>r. srv_id r \<noteq> i) (servers d)\<rparr>)"
proof -
  let ?d = "d\<lparr>servers := filter (\<lambda>r. srv_id r \<noteq> i) (servers d)\<rparr>"
  have "db_server ?d (acc_server a) = db_server d (acc_server a)" if "a \<in> set (accounts d)" for a
    using free [OF that] by (simp add: db_server_def find_filter_key)
  then have "accounts_ok ?d"
    using wf by (auto simp: db_wf_def accounts_ok_def account_ok_def split: option.splits)
  moreover have "servers_ok ?d"
    using wf by (simp add: db_wf_def servers_ok_def ids_ok_filter distinct_map_filter_key)
  moreover have "sessions_ok ?d" by (rule sessions_ok_mono [of d]) (use wf in \<open>auto simp: db_wf_def\<close>)
  moreover have "logs_ok ?d" by (rule logs_ok_mono [of d]) (use wf in \<open>auto simp: db_wf_def\<close>)
  ultimately show ?thesis using wf by (simp add: db_wf_def plans_ok_def)
qed

lemma forget_plan_simps [simp]:
  "acc_id (forget_plan i a) = acc_id a" "acc_username (forget_plan i a) = acc_username a"
  "acc_server (forget_plan i a) = acc_server a" "acc_access_token (forget_plan i a) = acc_access_token a"
  "acc_auth_token (forget_plan i a) = acc_auth_token a"
  by (simp_all add: forget_plan_def)

lemma wf_delete_plan:
  fixes d :: database
  assumes wf: "db_wf d"
  shows "db_wf (d\<lparr>plans := filter (\<lambda>r. plan_id r \<noteq> i) (plans d), accounts := map (forget_plan i) (accounts d)\<rparr>)"
proof -
  let ?d = "d\<lparr>plans := filter (\<lambda>r. plan_id r \<noteq> i) (plans d), accounts := map (forget_plan i) (accounts d)\<rparr>"
  have look: "db_account ?d j = map_option (forget_plan i) (db_account d j)" for j
    by (simp add: db_account_def find_map_key)
  have same: "acc_id \<circ> forget_plan i = acc_id" "acc_access_token \<circ> forget_plan i = acc_access_token"
    "acc_auth_token \<circ> forget_plan i = acc_auth_token"
    "(\<lambda>a. (acc_username a, acc_server a)) \<circ> forget_plan i = (\<lambda>a. (acc_username a, acc_server a))"
    by (simp_all add: fun_eq_iff)
  have "account_ok ?d (forget_plan i a)" if "account_ok d a" for a
    using that
    by (auto simp: account_ok_def forget_plan_def db_plan_def find_filter_key db_server_def split: option.splits)
  then have "accounts_ok ?d"
    using wf by (auto simp: db_wf_def accounts_ok_def ids_ok_def same)
  moreover have "plans_ok ?d"
    using wf by (simp add: db_wf_def plans_ok_def ids_ok_filter distinct_map_filter_key)
  moreover have "sessions_ok ?d" by (rule sessions_ok_mono [of d]) (use wf in \<open>auto simp: db_wf_def look\<close>)
  moreover have "logs_ok ?d" by (rule logs_ok_mono [of d]) (use wf in \<open>auto simp: db_wf_def look\<close>)
  ultimately show ?thesis using wf by (simp add: db_wf_def servers_ok_def)
qed


section \<open>The interface of a relation that every statement satisfies\<close>

definition same_identity :: "account \<Rightarrow> account \<Rightarrow> bool" where
  "same_identity a b \<longleftrightarrow>
     acc_id b = acc_id a \<and> acc_username b = acc_username a \<and> acc_plan b \<in> {acc_plan a, None} \<and>
     acc_protocol_type b = acc_protocol_type a \<and> acc_access_token b = acc_access_token a \<and>
     acc_auth_token b = acc_auth_token a \<and> acc_created_by b = acc_created_by a \<and>
     acc_created_at b = acc_created_at a"

locale statement_effect =
  fixes D :: "database \<Rightarrow> database \<Rightarrow> bool"
  assumes D_refl: "D d d"
    and D_trans: "D a b \<Longrightarrow> D b c \<Longrightarrow> D a c"
    and D_insert_server: "steps D (insert_server srv)"
    and D_insert_plan: "steps D (insert_plan p)"
    and D_insert_account: "steps D (insert_account acc)"
    and D_insert_session: "steps D (insert_session inet_ok ses)"
    and D_insert_log: "steps D (insert_log l)"
    and D_update_account: "(\<And>a. same_identity a (g a)) \<Longrightarrow> steps D (update_account i g)"
    and D_update_server: "(\<And>r. srv_id (h r) = srv_id r) \<Longrightarrow> steps D (update_server i h)"
    and D_restore_server: "steps D (restore_server srv)"
    and D_update_plan: "(\<And>r. plan_id (k r) = plan_id r) \<Longrightarrow> steps D (update_plan i k)"
    and D_delete_server: "steps D (delete_server i)"
    and D_delete_plan: "steps D (delete_plan i)"
    and D_delete_sessions: "steps D (delete_sessions_of_server i)"
    and D_rollback: "D a b \<Longrightarrow> D a (rollback a b)"
begin

lemma D_modify: "(\<And>d. D d (f d)) \<Longrightarrow> steps D (py_modify f)"
  by (simp add: steps_def py_modify_def)

end


section \<open>A well-formed database stays well-formed\<close>

definition sequences_le :: "database \<Rightarrow> database \<Rightarrow> bool" where
  "sequences_le d d' \<longleftrightarrow>
     next_server d \<le> next_server d' \<and> next_plan d \<le> next_plan d' \<and> next_account d \<le> next_account d' \<and>
     next_session d \<le> next_session d' \<and> next_log d \<le> next_log d'"

definition wf_step :: "database \<Rightarrow> database \<Rightarrow> bool" where
  "wf_step d d' \<longleftrightarrow> (db_wf d \<longrightarrow> db_wf d') \<and> sequences_le d d'"

lemma wf_step_bump:
  assumes "servers d' = servers d" "plans d' = plans d" "accounts d' = accounts d"
    "sessions d' = sessions d" "logs d' = logs d" "sequences_le d d'"
  shows "wf_step d d'"
  unfolding wf_step_def
  using assms db_wf_sequences [of d d'] by (simp add: sequences_le_def)

lemma wf_bump:
  fixes d :: database
  assumes "db_wf d"
  shows "db_wf (d\<lparr>next_server := Suc (next_server d)\<rparr>)" "db_wf (d\<lparr>next_plan := Suc (next_plan d)\<rparr>)"
    "db_wf (d\<lparr>next_account := Suc (next_account d)\<rparr>)" "db_wf (d\<lparr>next_session := Suc (next_session d)\<rparr>)"
    "db_wf (d\<lparr>next_log := Suc (next_log d)\<rparr>)"
  by (rule db_wf_sequences [OF assms]; simp)+

interpretation wf: statement_effect wf_step
proof
  show "wf_step d d" for d by (simp add: wf_step_def sequences_le_def)
next
  show "wf_step a b \<Longrightarrow> wf_step b c \<Longrightarrow> wf_step a c" for a b c
    by (auto simp: wf_step_def sequences_le_def)
next
  show "steps wf_step (insert_server srv)" for srv
    by (rule stepsI)
       (auto simp: insert_server_def Let_def sequences_le_def wf_step_def wf_insert_server
         intro: wf_bump split: option.split)
next
  show "steps wf_step (insert_plan p)" for p
    by (rule stepsI)
       (auto simp: insert_plan_def Let_def sequences_le_def wf_step_def wf_insert_plan
         intro: wf_bump split: option.split)
next
  show "steps wf_step (insert_account acc)" for acc
    by (rule stepsI)
       (auto simp: insert_account_def Let_def sequences_le_def wf_step_def wf_insert_account
         intro: wf_bump split: option.split)
next
  show "steps wf_step (insert_session ok ses)" for ok ses
    by (rule stepsI)
       (auto simp: insert_session_def Let_def sequences_le_def wf_step_def wf_insert_session
         intro: wf_bump split: option.split)
next
  show "steps wf_step (insert_log l)" for l
    by (rule stepsI)
       (auto simp: insert_log_def Let_def sequences_le_def wf_step_def wf_insert_log
         intro: wf_bump split: option.split)
next
  show "steps wf_step (update_account i g)" if "\<And>a. same_identity a (g a)" for i g
    using that
    by (intro stepsI)
       (auto simp: update_account_def sequences_le_def wf_step_def same_identity_def wf_update_account
         split: option.split)
next
  show "steps wf_step (update_server i h)" if "\<And>r. srv_id (h r) = srv_id r" for i h
    using that
    by (intro stepsI)
       (auto simp: update_server_def sequences_le_def wf_step_def wf_update_server split: option.split)
next
  show "steps wf_step (restore_server srv)" for srv
    by (rule stepsI)
       (auto simp: restore_server_def sequences_le_def wf_step_def intro!: wf_restore_server split: option.split)
next
  show "steps wf_step (update_plan i k)" if "\<And>r. plan_id (k r) = plan_id r" for i k
    using that
    by (intro stepsI)
       (auto simp: update_plan_def sequences_le_def wf_step_def wf_update_plan split: option.split)
next
  show "steps wf_step (delete_server i)" for i
    by (rule stepsI)
       (auto simp: delete_server_def sequences_le_def wf_step_def list_ex_iff intro!: wf_delete_server)
next
  show "steps wf_step (delete_plan i)" for i
    by (rule stepsI) (simp add: delete_plan_def sequences_le_def wf_step_def wf_delete_plan)
next
  show "steps wf_step (delete_sessions_of_server i)" for i
    by (rule stepsI)
       (simp add: delete_sessions_of_server_def sequences_le_def wf_step_def wf_delete_sessions)
next
  show "wf_step a b \<Longrightarrow> wf_step a (rollback a b)" for a b
    by (rule wf_step_bump) (simp_all add: rollback_def wf_step_def sequences_le_def)
qed


section \<open>The audit log is append-only\<close>

definition log_step :: "database \<Rightarrow> database \<Rightarrow> bool" where
  "log_step d d' \<longleftrightarrow> (\<exists>new. logs d' = logs d @ new)"

interpretation log: statement_effect log_step
proof
  show "log_step d d" for d by (simp add: log_step_def)
next
  show "log_step a b \<Longrightarrow> log_step b c \<Longrightarrow> log_step a c" for a b c
    by (auto simp: log_step_def)
next
  show "log_step a b \<Longrightarrow> log_step a (rollback a b)" for a b
    by (simp add: log_step_def rollback_def)
qed (auto simp: steps_def log_step_def insert_server_def insert_plan_def insert_account_def
    insert_session_def insert_log_def update_account_def update_server_def restore_server_def
    update_plan_def delete_server_def delete_plan_def delete_sessions_of_server_def Let_def split: option.split)


section \<open>Accounts are never lost and keep their identity\<close>

definition identity_step :: "database \<Rightarrow> database \<Rightarrow> bool" where
  "identity_step d d' \<longleftrightarrow>
     (\<forall>i a. db_account d i = Some a \<longrightarrow> (\<exists>b. db_account d' i = Some b \<and> same_identity a b))"

lemma same_identity_refl [simp]: "same_identity a a"
  by (simp add: same_identity_def)

lemma same_identity_trans: "same_identity a b \<Longrightarrow> same_identity b c \<Longrightarrow> same_identity a c"
  by (auto simp: same_identity_def)

lemma identity_step_same_accounts: "accounts d' = accounts d \<Longrightarrow> identity_step d d'"
  by (simp add: identity_step_def db_account_def)

interpretation identity: statement_effect identity_step
proof
  show "identity_step d d" for d by (simp add: identity_step_def)
next
  show "identity_step a b \<Longrightarrow> identity_step b c \<Longrightarrow> identity_step a c" for a b c
    unfolding identity_step_def by (meson same_identity_trans)
next
  show "steps identity_step (insert_account acc)" for acc
    by (auto simp: steps_def identity_step_def insert_account_def Let_def db_account_def find_append
        split: option.split)
next
  show "steps identity_step (delete_plan i)" for i
    by (rule stepsI)
       (auto simp: identity_step_def delete_plan_def db_account_def find_map_key forget_plan_def same_identity_def)
next
  show "steps identity_step (update_account i g)" if "\<And>a. same_identity a (g a)" for i g
  proof -
    have "\<And>a. acc_id (g a) = acc_id a" using that by (simp add: same_identity_def)
    with that show ?thesis
      by (auto simp: steps_def identity_step_def update_account_def db_account_update split: option.split)
  qed
qed (auto intro!: identity_step_same_accounts simp: steps_def insert_server_def insert_plan_def
    insert_session_def insert_log_def update_server_def restore_server_def update_plan_def delete_server_def rollback_def
    delete_sessions_of_server_def Let_def split: option.split)

end
