(* ===== verification/World.thy ===== *)
theory World
  imports Integrity
begin

text \<open>
  What the panel's code runs in.  The record \<^verbatim>\<open>env\<close> holds everything that is not
  code of the repository: the clock, the random sources, paramiko, requests, the
  YAML printer, the Celery broker, the collation of the database.  Each is a
  function on an opaque world \<open>'w\<close>; nothing is assumed of it here.  The state of
  the program (\<open>'w sys\<close>) is the world, the database, the dictionary of health
  check failures of \<open>servers/tasks.py\<close>, and, for the sake of the properties, the
  list of the remote interactions so far.  The second half of the theory is the
  part of Django's ORM the code uses: reading the clock, \<open>objects.create\<close>,
  \<open>save\<close>, ordered querysets and \<open>transaction.atomic\<close>.
\<close>

section \<open>Third-party interfaces\<close>

datatype json =
  JNull | JBool bool | JInt int | JNum pyfloat | JStr string | JList "json list" | JObj "(string \<times> json) list"

datatype key_class = Ed25519Key | RSAKey | ECDSAKey

type_synonym ssh_key = nat

text \<open>The arguments of \<open>paramiko.SSHClient.connect\<close>.\<close>

record connect_args =
  ca_hostname :: string
  ca_port :: int
  ca_username :: string
  ca_pkey :: "ssh_key option"
  ca_timeout :: int
  ca_allow_agent :: bool

text \<open>The arguments of \<open>requests.request\<close>, and what it can do.\<close>

record http_request =
  req_method :: string
  req_url :: string
  req_json :: "json option"
  req_headers :: "(string \<times> string) list"
  req_timeout :: int

datatype http_outcome =
    HttpConnectionError
  | HttpTimeout
  | HttpOther string
  | HttpResponse nat string

datatype sftp_call = SftpOpen | SftpPut string string | SftpChmod string int | SftpClose

text \<open>The style a management command prints a line in; the terminal may show it as a colour.\<close>

datatype print_style = PlainStyle | SuccessStyle | WarningStyle

datatype event =
    Connect connect_args
  | Exec nat string
  | Close nat
  | Sftp nat sftp_call
  | Http http_request
  | Delay string nat
  | Stdout print_style string

record 'w env =
  env_clock :: "'w \<Rightarrow> datetime \<times> 'w"
  env_choice :: "string \<Rightarrow> 'w \<Rightarrow> char \<times> 'w"
  env_uuid4 :: "'w \<Rightarrow> uuid \<times> 'w"
  env_collate :: "string \<Rightarrow> string"
  env_inet :: "string \<Rightarrow> bool"
  env_load_key :: "key_class \<Rightarrow> string \<Rightarrow> 'w \<Rightarrow> (exn + ssh_key) \<times> 'w"
  env_connect :: "connect_args \<Rightarrow> 'w \<Rightarrow> (exn + nat) \<times> 'w"
  env_exec :: "nat \<Rightarrow> string \<Rightarrow> int \<Rightarrow> 'w \<Rightarrow> (exn + (int \<times> string \<times> string)) \<times> 'w"
  env_close :: "nat \<Rightarrow> 'w \<Rightarrow> 'w"
  env_sftp :: "nat \<Rightarrow> sftp_call \<Rightarrow> 'w \<Rightarrow> (exn + unit) \<times> 'w"
  env_http :: "http_request \<Rightarrow> 'w \<Rightarrow> http_outcome \<times> 'w"
  env_parse_json :: "string \<Rightarrow> json option"
  env_yaml :: "json \<Rightarrow> string"
  env_delay :: "string \<Rightarrow> nat \<Rightarrow> 'w \<Rightarrow> 'w"

record 'w sys =
  world :: 'w
  db :: database
  io :: "event list"
  health_fails :: "nat \<Rightarrow> int option"

text \<open>A call into the world that may raise, and what it leaves in the trace.\<close>

definition ask :: "('w \<Rightarrow> 'a \<times> 'w) \<Rightarrow> ('w sys, 'a) py" where
  "ask f s = (case f (world s) of (x, w) \<Rightarrow> (Inr x, s\<lparr>world := w\<rparr>))"

definition attempt :: "('w \<Rightarrow> (exn + 'a) \<times> 'w) \<Rightarrow> ('w sys, 'a) py" where
  "attempt f s = (case f (world s) of (r, w) \<Rightarrow> (r, s\<lparr>world := w\<rparr>))"

definition call :: "event \<Rightarrow> ('w \<Rightarrow> (exn + 'a) \<times> 'w) \<Rightarrow> ('w sys, 'a) py" where
  "call ev f s = (case f (world s) of (r, w) \<Rightarrow> (r, s\<lparr>world := w, io := io s @ [ev]\<rparr>))"

text \<open>\<open>self.stdout.write(line)\<close>.\<close>

definition write_line :: "print_style \<Rightarrow> string \<Rightarrow> ('w sys, unit) py" where
  "write_line style line s = (Inr (), s\<lparr>io := io s @ [Stdout style line]\<rparr>)"


section \<open>The ORM\<close>

definition on_db :: "(database, 'a) py \<Rightarrow> ('w sys, 'a) py" where
  "on_db m s = (case m (db s) of (r, d) \<Rightarrow> (r, s\<lparr>db := d\<rparr>))"

definition query :: "(database \<Rightarrow> 'a) \<Rightarrow> ('w sys, 'a) py" where
  "query f = py_get (\<lambda>s. f (db s))"

text \<open>\<open>Model.objects.get\<close> and the access to a foreign key: no row raises \<open>DoesNotExist\<close>.\<close>

definition found :: "'a option \<Rightarrow> ('w sys, 'a) py" where
  "found r = (case r of None \<Rightarrow> py_raise (DoesNotExist ''matching query does not exist.'') | Some x \<Rightarrow> py_return x)"

definition get_server :: "nat \<Rightarrow> ('w sys, server) py" where
  "get_server i = py_bind (query (\<lambda>d. db_server d i)) found"

text \<open>\<open>with transaction.atomic()\<close>: an exception rolls the database back and goes on.\<close>

definition atomic :: "('w sys, 'a) py \<Rightarrow> ('w sys, 'a) py" where
  "atomic m s =
     (case m s of
        (Inl e, t) \<Rightarrow> (Inl e, t\<lparr>db := rollback (db s) (db t)\<rparr>)
      | (Inr x, t) \<Rightarrow> (Inr x, t))"

definition now :: "'w env \<Rightarrow> ('w sys, datetime) py" where
  "now E = ask (env_clock E)"

text \<open>\<open>SSHAccount.objects.create\<close>: the two tokens are defaults, the two times are set on insert.\<close>

definition create_account_row :: "'w env \<Rightarrow> account \<Rightarrow> ('w sys, account) py" where
  "create_account_row E a =
     py_bind (ask (env_uuid4 E)) (\<lambda>access.
     py_bind (ask (env_uuid4 E)) (\<lambda>auth.
     py_bind (now E) (\<lambda>created.
     py_bind (now E) (\<lambda>updated.
       on_db (insert_account
         (a\<lparr>acc_access_token := access, acc_auth_token := auth,
            acc_created_at := created, acc_updated_at := updated\<rparr>))))))"

text \<open>\<open>AuditLog.objects.create(action, account, admin_user, detail)\<close>.\<close>

definition create_log ::
  "'w env \<Rightarrow> audit_action \<Rightarrow> nat \<Rightarrow> nat option \<Rightarrow> string \<Rightarrow> ('w sys, audit_log) py" where
  "create_log E action acc admin detail =
     py_bind (now E) (\<lambda>created.
       on_db (insert_log
         \<lparr>log_id = 0, log_action = action, log_account = Some acc, log_admin_user = admin,
          log_detail = detail, log_created_at = created\<rparr>))"

text \<open>
  \<open>account.save(update_fields=[...])\<close> writes the named columns of the object into
  its row; \<open>updated_at\<close> takes the time of the save when it is named, on the object
  as well.
\<close>

datatype account_field =
    F_password_display | F_server | F_status | F_expire_date | F_max_connections
  | F_bandwidth_limit_gb | F_bandwidth_used_gb | F_note | F_updated_at

fun write_account_field :: "account \<Rightarrow> account_field \<Rightarrow> account \<Rightarrow> account" where
  "write_account_field a F_password_display r = r\<lparr>acc_password_display := acc_password_display a\<rparr>"
| "write_account_field a F_server r = r\<lparr>acc_server := acc_server a\<rparr>"
| "write_account_field a F_status r = r\<lparr>acc_status := acc_status a\<rparr>"
| "write_account_field a F_expire_date r = r\<lparr>acc_expire_date := acc_expire_date a\<rparr>"
| "write_account_field a F_max_connections r = r\<lparr>acc_max_connections := acc_max_connections a\<rparr>"
| "write_account_field a F_bandwidth_limit_gb r = r\<lparr>acc_bandwidth_limit_gb := acc_bandwidth_limit_gb a\<rparr>"
| "write_account_field a F_bandwidth_used_gb r = r\<lparr>acc_bandwidth_used_gb := acc_bandwidth_used_gb a\<rparr>"
| "write_account_field a F_note r = r\<lparr>acc_note := acc_note a\<rparr>"
| "write_account_field a F_updated_at r = r\<lparr>acc_updated_at := acc_updated_at a\<rparr>"

definition write_account :: "account \<Rightarrow> account_field list \<Rightarrow> account \<Rightarrow> account" where
  "write_account a fs r = fold (write_account_field a) fs r"

definition save_account :: "'w env \<Rightarrow> account \<Rightarrow> account_field list \<Rightarrow> ('w sys, account) py" where
  "save_account E a fs =
     (if F_updated_at \<in> set fs
      then py_bind (now E) (\<lambda>t.
             let a' = a\<lparr>acc_updated_at := t\<rparr>
             in py_then (on_db (update_account (acc_id a') (write_account a' fs))) (py_return a'))
      else py_then (on_db (update_account (acc_id a) (write_account a fs))) (py_return a))"

text \<open>
  \<open>account.save()\<close> writes every column.  The columns that are not listed here are
  never assigned on an object after it was read, so the row already has them.
\<close>

definition all_account_fields :: "account_field list" where
  "all_account_fields =
     [F_password_display, F_server, F_status, F_expire_date, F_max_connections,
      F_bandwidth_limit_gb, F_bandwidth_used_gb, F_note, F_updated_at]"

text \<open>The same for servers; the tasks save a whole row or a few columns of it.\<close>

definition save_server_status_check :: "server \<Rightarrow> ('w sys, unit) py" where
  "save_server_status_check srv =
     on_db (update_server (srv_id srv)
       (\<lambda>r. r\<lparr>srv_status := srv_status srv, srv_last_health_check := srv_last_health_check srv\<rparr>))"

definition save_server_status :: "'w env \<Rightarrow> server \<Rightarrow> ('w sys, unit) py" where
  "save_server_status E srv =
     py_bind (now E) (\<lambda>t.
       on_db (update_server (srv_id srv) (\<lambda>r. r\<lparr>srv_status := srv_status srv, srv_updated_at := t\<rparr>)))"

definition save_server :: "'w env \<Rightarrow> server \<Rightarrow> ('w sys, unit) py" where
  "save_server E srv =
     py_bind (now E) (\<lambda>t.
     py_bind (query (\<lambda>d. db_server d (srv_id srv))) (\<lambda>row.
       case row of
         Some _ \<Rightarrow> on_db (update_server (srv_id srv) (\<lambda>r. srv\<lparr>srv_id := srv_id r, srv_updated_at := t\<rparr>))
       | None \<Rightarrow>
           py_bind (now E) (\<lambda>created.
           py_bind (now E) (\<lambda>updated.
             on_db (restore_server (srv\<lparr>srv_created_at := created, srv_updated_at := updated\<rparr>))))))"


section \<open>Orderings\<close>

text \<open>PostgreSQL orders floats as usual and puts \<open>NaN\<close> above every other value.\<close>

fun pg_float_le :: "pyfloat \<Rightarrow> pyfloat \<Rightarrow> bool" where
  "pg_float_le NegInf _ = True"
| "pg_float_le _ NaN = True"
| "pg_float_le (Fin x) (Fin y) = (x \<le> y)"
| "pg_float_le (Fin _) PosInf = True"
| "pg_float_le PosInf PosInf = True"
| "pg_float_le _ _ = False"

instantiation pyfloat :: linorder
begin

definition less_eq_pyfloat :: "pyfloat \<Rightarrow> pyfloat \<Rightarrow> bool" where
  "less_eq_pyfloat = pg_float_le"

definition less_pyfloat :: "pyfloat \<Rightarrow> pyfloat \<Rightarrow> bool" where
  "less_pyfloat x y \<longleftrightarrow> pg_float_le x y \<and> \<not> pg_float_le y x"

instance
proof
  fix x y z :: pyfloat
  show "x < y \<longleftrightarrow> x \<le> y \<and> \<not> y \<le> x"
    by (simp add: less_eq_pyfloat_def less_pyfloat_def)
  show "x \<le> x"
    by (cases x) (simp_all add: less_eq_pyfloat_def)
  show "x \<le> y \<Longrightarrow> y \<le> z \<Longrightarrow> x \<le> z"
    by (cases x; cases y; cases z) (simp_all add: less_eq_pyfloat_def)
  show "x \<le> y \<Longrightarrow> y \<le> x \<Longrightarrow> x = y"
    by (cases x; cases y) (simp_all add: less_eq_pyfloat_def)
  show "x \<le> y \<or> y \<le> x"
    by (cases x; cases y) (auto simp: less_eq_pyfloat_def)
qed

end

text \<open>\<open>Meta.ordering\<close> of the models, and \<open>order_by("cpu_usage")\<close>.\<close>

definition by_name :: "'w env \<Rightarrow> server list \<Rightarrow> server list" where
  "by_name E = sort_key (\<lambda>r. env_collate E (srv_name r))"

definition by_cpu :: "server list \<Rightarrow> server list" where
  "by_cpu = sort_key srv_cpu_usage"

definition newest_first :: "account list \<Rightarrow> account list" where
  "newest_first = sort_key (\<lambda>a. - acc_created_at a)"


section \<open>Effects of the ORM\<close>

lemma same_identity_write_field: "same_identity r (write_account_field a f r)"
  by (cases f) (simp_all add: same_identity_def)

lemma same_identity_write: "same_identity r (write_account a fs r)"
  unfolding write_account_def
proof (induction fs arbitrary: r)
  case Nil
  then show ?case by simp
next
  case (Cons f fs)
  show ?case
    using same_identity_trans [OF same_identity_write_field Cons.IH] by simp
qed

abbreviation same_db :: "'w sys \<Rightarrow> 'w sys \<Rightarrow> bool" where
  "same_db s t \<equiv> db t = db s"

interpretation frame: effect same_db
  by unfold_locales auto

lemma ask_same_db [steps_intro]: "steps same_db (ask f)"
  by (simp add: steps_def ask_def split: prod.splits)

lemma call_same_db [steps_intro]: "steps same_db (call ev f)"
  by (simp add: steps_def call_def split: prod.splits)

lemma write_line_same_db [steps_intro]: "steps same_db (write_line st l)"
  by (simp add: steps_def write_line_def)

lemma attempt_same_db [steps_intro]: "steps same_db (attempt f)"
  by (simp add: steps_def attempt_def split: prod.splits)

lemma query_same_db [steps_intro]: "steps same_db (query f)"
  by (simp add: steps_def query_def py_get_def)

lemma found_same_db [steps_intro]: "steps same_db (found r)"
  by (auto simp: found_def intro: steps_intro split: option.split)

lemma get_server_same_db [steps_intro]: "steps same_db (get_server i)"
  unfolding get_server_def by (intro steps_intro)

lemma now_same_db [steps_intro]: "steps same_db (now E)"
  unfolding now_def by (rule ask_same_db)

sublocale statement_effect \<subseteq> effect "\<lambda>s t. D (db s) (db t)"
  by unfold_locales (auto intro: D_refl D_trans)

context statement_effect
begin

lemma steps_same_db: "steps same_db m \<Longrightarrow> steps (\<lambda>s t. D (db s) (db t)) m"
  by (erule steps_mono) (simp add: D_refl)

lemma steps_on_db: "steps D m \<Longrightarrow> steps (\<lambda>s t. D (db s) (db t)) (on_db m)"
  by (simp add: steps_def on_db_def split: prod.splits) (metis snd_conv)

lemma steps_atomic [steps_intro]:
  assumes "steps (\<lambda>s t. D (db s) (db t)) m"
  shows "steps (\<lambda>s t. D (db s) (db t)) (atomic m)"
proof (rule stepsI)
  fix s
  show "D (db s) (db (snd (atomic m s)))"
    using stepsD [OF assms, of s]
    by (cases "m s"; cases "fst (m s)") (auto simp: atomic_def intro: D_rollback)
qed

lemma steps_now [steps_intro]: "steps (\<lambda>s t. D (db s) (db t)) (now E)"
  by (rule steps_same_db) (rule now_same_db)

lemma steps_ask [steps_intro]: "steps (\<lambda>s t. D (db s) (db t)) (ask f)"
  by (rule steps_same_db) (rule ask_same_db)

lemma steps_call [steps_intro]: "steps (\<lambda>s t. D (db s) (db t)) (call ev f)"
  by (rule steps_same_db) (rule call_same_db)

lemma steps_write_line [steps_intro]: "steps (\<lambda>s t. D (db s) (db t)) (write_line st l)"
  by (rule steps_same_db) (rule write_line_same_db)

lemma steps_attempt [steps_intro]: "steps (\<lambda>s t. D (db s) (db t)) (attempt f)"
  by (rule steps_same_db) (rule attempt_same_db)

lemma steps_query [steps_intro]: "steps (\<lambda>s t. D (db s) (db t)) (query f)"
  by (rule steps_same_db) (rule query_same_db)

lemma steps_found [steps_intro]: "steps (\<lambda>s t. D (db s) (db t)) (found r)"
  by (rule steps_same_db) (rule found_same_db)

lemma steps_get_server [steps_intro]: "steps (\<lambda>s t. D (db s) (db t)) (get_server i)"
  by (rule steps_same_db) (rule get_server_same_db)

lemma steps_create_account_row [steps_intro]: "steps (\<lambda>s t. D (db s) (db t)) (create_account_row E a)"
  unfolding create_account_row_def by (intro steps_intro steps_on_db D_insert_account)

lemma steps_create_log [steps_intro]: "steps (\<lambda>s t. D (db s) (db t)) (create_log E act acc adm det)"
  unfolding create_log_def by (intro steps_intro steps_on_db D_insert_log)

lemma steps_save_account [steps_intro]: "steps (\<lambda>s t. D (db s) (db t)) (save_account E a fs)"
  unfolding save_account_def Let_def
  by (intro steps_intro steps_on_db D_update_account same_identity_write)

lemma steps_save_server [steps_intro]:
  "steps (\<lambda>s t. D (db s) (db t)) (save_server E srv)"
  "steps (\<lambda>s t. D (db s) (db t)) (save_server_status E srv)"
  "steps (\<lambda>s t. D (db s) (db t)) (save_server_status_check srv)"
  unfolding save_server_def save_server_status_def save_server_status_check_def
  by (intro steps_intro steps_on_db D_update_server D_restore_server; simp)+

end

end
