(* ===== verification/SshManager.thy ===== *)
theory SshManager
  imports World
begin

text \<open>
  \<open>servers/ssh.py\<close>: the connection to a node and the commands the panel runs on
  it.  A manager object is a record; \<open>connect\<close> and \<open>disconnect\<close> return the changed
  object.  \<open>run\<close> on a manager without a client connects first, and the caller's
  object is then connected too; every caller in the repository has connected
  before, so \<open>run\<close> returns the result alone.  The text of every command is the
  text the code builds.
\<close>

section \<open>Shell quoting\<close>

definition shell_quote :: "string \<Rightarrow> string" where
  "shell_quote value = [squote] @ py_replace_char squote [squote, backslash, squote, squote] value @ [squote]"

text \<open>Command texts below write \<open>`\<close> for a single and \<open>~\<close> for a double quotation mark.\<close>

definition quoted :: "string \<Rightarrow> string" where
  "quoted s = map (\<lambda>c. if c = CHR ''`'' then squote else if c = CHR ''~'' then dquote else c) s"


section \<open>Connections\<close>

record command_result =
  exit_code :: int
  stdout :: string
  stderr :: string

definition ok :: "command_result \<Rightarrow> bool" where
  "ok r \<longleftrightarrow> exit_code r = 0"

record ssh_manager =
  mgr_host :: string
  mgr_port :: int
  mgr_username :: string
  mgr_key_path :: string
  mgr_client :: "nat option"

definition get_ssh_manager :: "server \<Rightarrow> ssh_manager" where
  "get_ssh_manager srv =
     \<lparr>mgr_host = srv_ip_address srv, mgr_port = srv_ssh_port srv, mgr_username = srv_ssh_user srv,
      mgr_key_path = srv_ssh_key_path srv, mgr_client = None\<rparr>"

fun try_key_classes :: "'w env \<Rightarrow> string \<Rightarrow> key_class list \<Rightarrow> ('w sys, ssh_key) py" where
  "try_key_classes E path [] = py_raise (ValueError (''Unable to load SSH key from '' @ path))"
| "try_key_classes E path (k # ks) =
     py_try (attempt (env_load_key E k path)) (\<lambda>_. try_key_classes E path ks)"

definition load_private_key :: "'w env \<Rightarrow> string \<Rightarrow> ('w sys, ssh_key) py" where
  "load_private_key E path = try_key_classes E path [Ed25519Key, RSAKey, ECDSAKey]"

definition connect :: "'w env \<Rightarrow> ssh_manager \<Rightarrow> ('w sys, ssh_manager) py" where
  "connect E m =
     (case mgr_client m of
        Some _ \<Rightarrow> py_return m
      | None \<Rightarrow>
          py_bind (if mgr_key_path m \<noteq> []
                   then py_bind (load_private_key E (mgr_key_path m)) (\<lambda>k. py_return (Some k))
                   else py_return None) (\<lambda>key.
          let args = \<lparr>ca_hostname = mgr_host m, ca_port = mgr_port m, ca_username = mgr_username m,
                      ca_pkey = key, ca_timeout = 10, ca_allow_agent = (mgr_key_path m = [])\<rparr>
          in py_bind (call (Connect args) (env_connect E args)) (\<lambda>c.
               py_return (m\<lparr>mgr_client := Some c\<rparr>))))"

definition disconnect :: "'w env \<Rightarrow> ssh_manager \<Rightarrow> ('w sys, ssh_manager) py" where
  "disconnect E m =
     (case mgr_client m of
        None \<Rightarrow> py_return m
      | Some c \<Rightarrow> py_then (call (Close c) (\<lambda>w. (Inr (), env_close E c w)))
                     (py_return (m\<lparr>mgr_client := None\<rparr>)))"

text \<open>\<open>with get_ssh_manager(server) as ssh: body\<close>.\<close>

definition with_ssh :: "'w env \<Rightarrow> server \<Rightarrow> (ssh_manager \<Rightarrow> ('w sys, 'a) py) \<Rightarrow> ('w sys, 'a) py" where
  "with_ssh E srv body =
     py_bind (connect E (get_ssh_manager srv)) (\<lambda>m.
       py_finally (body m) (py_then (disconnect E m) (py_return ())))"

definition run :: "'w env \<Rightarrow> ssh_manager \<Rightarrow> string \<Rightarrow> ('w sys, command_result) py" where
  "run E m command =
     py_bind (case mgr_client m of Some _ \<Rightarrow> py_return m | None \<Rightarrow> connect E m) (\<lambda>m'.
       case mgr_client m' of
         None \<Rightarrow> py_raise (OtherError ''NoneType object has no attribute exec_command'')
       | Some c \<Rightarrow>
           py_bind (call (Exec c command) (env_exec E c command 30)) (\<lambda>(code, out, err).
             py_return \<lparr>exit_code = code, stdout = py_strip out, stderr = py_strip err\<rparr>))"


section \<open>User management\<close>

definition create_user :: "'w env \<Rightarrow> ssh_manager \<Rightarrow> string \<Rightarrow> string \<Rightarrow> ('w sys, command_result) py" where
  "create_user E m username password =
     py_then (run E m (''useradd -m -s /bin/false '' @ shell_quote username))
       (run E m (''echo '' @ shell_quote username @ '':'' @ shell_quote password @ '' | chpasswd''))"

definition delete_user :: "'w env \<Rightarrow> ssh_manager \<Rightarrow> string \<Rightarrow> ('w sys, command_result) py" where
  "delete_user E m username =
     py_then (run E m (''pkill -u '' @ shell_quote username @ '' || true''))
       (run E m (''userdel -rf '' @ shell_quote username))"

definition lock_user :: "'w env \<Rightarrow> ssh_manager \<Rightarrow> string \<Rightarrow> ('w sys, command_result) py" where
  "lock_user E m username = run E m (''usermod -L '' @ shell_quote username)"

definition unlock_user :: "'w env \<Rightarrow> ssh_manager \<Rightarrow> string \<Rightarrow> ('w sys, command_result) py" where
  "unlock_user E m username = run E m (''usermod -U '' @ shell_quote username)"

definition set_expiry :: "'w env \<Rightarrow> ssh_manager \<Rightarrow> string \<Rightarrow> string \<Rightarrow> ('w sys, command_result) py" where
  "set_expiry E m username date_str =
     run E m (''chage -E '' @ shell_quote date_str @ '' '' @ shell_quote username)"

definition change_password :: "'w env \<Rightarrow> ssh_manager \<Rightarrow> string \<Rightarrow> string \<Rightarrow> ('w sys, command_result) py" where
  "change_password E m username password =
     run E m (''echo '' @ shell_quote username @ '':'' @ shell_quote password @ '' | chpasswd'')"

definition user_exists :: "'w env \<Rightarrow> ssh_manager \<Rightarrow> string \<Rightarrow> ('w sys, bool) py" where
  "user_exists E m username =
     py_bind (run E m (''id '' @ shell_quote username)) (\<lambda>r. py_return (ok r))"

text \<open>\<open>base64.b64encode\<close>.\<close>

definition base64_char :: "nat \<Rightarrow> char" where
  "base64_char n =
     ''ABCDEFGHIJKLMNOPQRSTUVWXYZabcdefghijklmnopqrstuvwxyz0123456789+/'' ! (n mod 64)"

fun base64_encode :: "string \<Rightarrow> string" where
  "base64_encode [] = []"
| "base64_encode [a] =
     [base64_char (code a div 4), base64_char (code a * 16), CHR ''='', CHR ''='']"
| "base64_encode [a, b] =
     [base64_char (code a div 4), base64_char (code a * 16 + code b div 16),
      base64_char (code b * 4), CHR ''='']"
| "base64_encode (a # b # c # cs) =
     [base64_char (code a div 4), base64_char (code a * 16 + code b div 16),
      base64_char (code b * 4 + code c div 64), base64_char (code c)] @ base64_encode cs"

definition maxlogin_script :: string where
  "maxlogin_script =
     concat (map (\<lambda>l. quoted l @ [newline])
       [''#!/bin/bash'',
        ''USER=~${PAM_USER:-}~'',
        ''[ -z ~$USER~ ] && exit 0'',
        ''UID_NUM=$(id -u ~$USER~ 2>/dev/null) || exit 0'',
        ''[ ~$UID_NUM~ -lt 1000 ] && exit 0'',
        ''MAX=$(awk -v u=~$USER~ `$1==u && /maxlogins/{print $4}` /etc/security/limits.conf 2>/dev/null)'',
        ''[ -z ~$MAX~ ] && exit 0'',
        ''[ ~$MAX~ = ~0~ ] && exit 0'',
        ''CURRENT=$(pgrep -cu ~$USER~ sshd 2>/dev/null) || exit 0'',
        ''[ ~$CURRENT~ -gt ~$MAX~ ] && exit 1'',
        ''exit 0''])"

definition ensure_maxlogin_script :: "'w env \<Rightarrow> ssh_manager \<Rightarrow> ('w sys, unit) py" where
  "ensure_maxlogin_script E m =
     (let b64 = base64_encode maxlogin_script
      in py_bind (run E m (quoted ''test -f /etc/ssh/check_maxlogins.sh && grep -q `pgrep.*sshd` /etc/ssh/check_maxlogins.sh && echo ok''))
           (\<lambda>check.
             if contains ''ok'' (stdout check) then py_return ()
             else
               py_then (run E m (quoted ''echo `'' @ b64 @ quoted ''` | base64 -d > /etc/ssh/check_maxlogins.sh''))
              (py_then (run E m ''chmod +x /etc/ssh/check_maxlogins.sh'')
              (py_then (run E m (quoted (''grep -q `check_maxlogins` /etc/pam.d/sshd || '' @
                 ''sed -i `/^@include common-auth/i auth required pam_exec.so quiet /etc/ssh/check_maxlogins.sh` /etc/pam.d/sshd'')))
                 (py_return ())))))"

definition set_max_logins :: "'w env \<Rightarrow> ssh_manager \<Rightarrow> string \<Rightarrow> int \<Rightarrow> ('w sys, command_result) py" where
  "set_max_logins E m username max_logins =
     (let line = username @ ''  hard  maxlogins  '' @ show_int max_logins
      in py_then (run E m
           (quoted ''grep -q `^'' @ shell_quote username @ quoted ''` /etc/security/limits.conf '' @
            quoted ''&& sed -i `/^'' @ shell_quote username @ ''/c'' @ [backslash] @ line @
            quoted ''` /etc/security/limits.conf '' @
            quoted ''|| echo `'' @ line @ quoted ''` >> /etc/security/limits.conf''))
        (py_then (ensure_maxlogin_script E m)
           (py_return \<lparr>exit_code = 0, stdout = [], stderr = []\<rparr>)))"

definition traffic_chain :: "string \<Rightarrow> string" where
  "traffic_chain username = ''SSHVPN_'' @ username"

definition setup_traffic_accounting :: "'w env \<Rightarrow> ssh_manager \<Rightarrow> string \<Rightarrow> ('w sys, unit) py" where
  "setup_traffic_accounting E m username =
     py_bind (run E m (''id -u '' @ shell_quote username)) (\<lambda>r.
       let uid = py_strip (stdout r)
       in if uid = [] \<or> \<not> py_isdigit uid then py_return ()
          else
            (let chain = traffic_chain username
             in py_bind (run E m (''iptables -L '' @ chain @ '' -n 2>/dev/null'')) (\<lambda>exists.
                  if exit_code exists \<noteq> 0
                  then py_then (run E m (''iptables -N '' @ chain))
                      (py_then (run E m (''iptables -A OUTPUT -m owner --uid-owner '' @ uid @ '' -j '' @ chain))
                      (py_then (run E m (''iptables -A '' @ chain @ '' -j RETURN''))
                         (py_return ())))
                  else py_return ())))"

text \<open>The counter is the second word of the last line of the listing.\<close>

definition parse_bandwidth :: "command_result \<Rightarrow> exn + int" where
  "parse_bandwidth r =
     (if \<not> ok r \<or> py_strip (stdout r) = [] then Inr 0
      else (case py_split (py_strip (stdout r)) of
              _ # b # _ \<Rightarrow> if py_isdigit b then py_int b else Inr 0
            | _ \<Rightarrow> Inr 0))"

definition lift_result :: "exn + 'a \<Rightarrow> ('s, 'a) py" where
  "lift_result r = (case r of Inl e \<Rightarrow> py_raise e | Inr x \<Rightarrow> py_return x)"

definition get_user_bandwidth_bytes :: "'w env \<Rightarrow> ssh_manager \<Rightarrow> string \<Rightarrow> ('w sys, int) py" where
  "get_user_bandwidth_bytes E m username =
     py_bind (run E m (''iptables -L '' @ traffic_chain username @ '' -nvx 2>/dev/null | tail -1''))
       (\<lambda>r. lift_result (parse_bandwidth r))"


section \<open>Sessions\<close>

record remote_session =
  rs_user :: string
  rs_pid :: int
  rs_client_ip :: "string option"

text \<open>\<open>re.match(r"sshd:\s+(\S+?)(?:@|$)", args)\<close> and its group.\<close>

fun lazy_word :: "string \<Rightarrow> string \<Rightarrow> string option" where
  "lazy_word acc [] = (if acc = [] then None else Some (rev acc))"
| "lazy_word acc (c # cs) =
     (if acc \<noteq> [] \<and> c = CHR ''@'' then Some (rev acc)
      else if is_space c then None
      else lazy_word (c # acc) cs)"

definition match_sshd :: "string \<Rightarrow> string option" where
  "match_sshd args =
     (if starts_with ''sshd:'' args
      then (case drop 5 args of
              [] \<Rightarrow> None
            | c # cs \<Rightarrow> if is_space c then lazy_word [] (py_lstrip cs) else None)
      else None)"

text \<open>\<open>re.search(r"from\s+(\d+\.\d+\.\d+\.\d+)", text)\<close> and its group.\<close>

definition match_number :: "string \<Rightarrow> (string \<times> string) option" where
  "match_number s =
     (if takeWhile is_decimal s = [] then None
      else Some (takeWhile is_decimal s, dropWhile is_decimal s))"

definition match_dot_number :: "(string \<times> string) option \<Rightarrow> (string \<times> string) option" where
  "match_dot_number r =
     (case r of
        Some (seen, CHR ''.'' # rest) \<Rightarrow>
          map_option (\<lambda>(n, rest'). (seen @ ''.'' @ n, rest')) (match_number rest)
      | _ \<Rightarrow> None)"

definition match_ipv4 :: "string \<Rightarrow> string option" where
  "match_ipv4 s =
     map_option fst (match_dot_number (match_dot_number (match_dot_number (match_number s))))"

fun search_from_ip :: "string \<Rightarrow> string option" where
  "search_from_ip [] = None"
| "search_from_ip (c # cs) =
     (case (if starts_with ''from'' (c # cs)
            then (case drop 4 (c # cs) of
                    [] \<Rightarrow> None
                  | d # ds \<Rightarrow> if is_space d then match_ipv4 (py_lstrip ds) else None)
            else None) of
        Some ip \<Rightarrow> Some ip
      | None \<Rightarrow> search_from_ip cs)"

fun peer_address :: "string list \<Rightarrow> string option" where
  "peer_address [] = None"
| "peer_address (line # lines) =
     (let addr = py_strip line
      in if CHR '':'' \<in> set addr
         then (let candidate = rsplit_head (CHR '':'') addr
               in if candidate \<noteq> [] \<and> candidate \<notin> {''0.0.0.0'', ''127.0.0.1'', ''*''}
                  then Some candidate else peer_address lines)
         else peer_address lines)"

definition session_ip :: "'w env \<Rightarrow> ssh_manager \<Rightarrow> string \<Rightarrow> ('w sys, string option) py" where
  "session_ip E m pid =
     py_bind (run E m (quoted (''ss -tnp 2>/dev/null | grep `pid='') @ pid @ quoted ''` | awk `{print $5}`''))
       (\<lambda>ss.
         case (if ok ss \<and> stdout ss \<noteq> [] then peer_address (py_splitlines (stdout ss)) else None) of
           Some ip \<Rightarrow> py_return (Some ip)
         | None \<Rightarrow>
             py_bind (run E m (quoted ''grep -a `sshd.*'' @ pid @ quoted ''` /var/log/auth.log 2>/dev/null | tail -1''))
               (\<lambda>who. py_return (if ok who \<and> stdout who \<noteq> [] then search_from_ip (stdout who) else None)))"

definition session_of_line ::
  "'w env \<Rightarrow> ssh_manager \<Rightarrow> remote_session list \<Rightarrow> string \<Rightarrow> ('w sys, remote_session list) py" where
  "session_of_line E m acc line =
     (case py_split_max 2 (py_strip line) of
        pid # _ # args # _ \<Rightarrow>
          (case match_sshd args of
             None \<Rightarrow> py_return acc
           | Some user \<Rightarrow>
               if user \<in> {''root'', ''sshd'', ''priv''} then py_return acc
               else py_bind (session_ip E m pid) (\<lambda>ip.
                    py_bind (lift_result (py_int pid)) (\<lambda>n.
                      py_return (acc @ [\<lparr>rs_user = user, rs_pid = n, rs_client_ip = ip\<rparr>]))))
      | _ \<Rightarrow> py_return acc)"

definition get_active_sessions :: "'w env \<Rightarrow> ssh_manager \<Rightarrow> ('w sys, remote_session list) py" where
  "get_active_sessions E m =
     py_bind (run E m (quoted ''ps -eo pid,user,args --no-headers | grep `sshd:` | grep -v grep'')) (\<lambda>r.
       if \<not> ok r \<or> stdout r = [] then py_return []
       else py_fold (session_of_line E m) [] (py_splitlines (stdout r)))"


section \<open>Health\<close>

record health =
  h_cpu_usage :: pyfloat
  h_ram_usage :: pyfloat
  h_disk_usage :: pyfloat
  h_uptime_seconds :: int

definition parse_float :: "string \<Rightarrow> pyfloat" where
  "parse_float value = (case py_float value of Inl _ \<Rightarrow> Fin 0 | Inr x \<Rightarrow> x)"

definition get_health :: "'w env \<Rightarrow> ssh_manager \<Rightarrow> ('w sys, health) py" where
  "get_health E m =
     py_bind (run E m (quoted ''top -bn1 | grep `Cpu(s)` | awk `{print $2+$4}`'')) (\<lambda>cpu.
     py_bind (run E m (quoted ''free | awk `/Mem:/{printf ~%.1f~, $3/$2*100}`'')) (\<lambda>ram.
     py_bind (run E m (quoted ''df / | awk `NR==2{print $5}` | tr -d `%`'')) (\<lambda>disk.
     py_bind (run E m (quoted ''awk `{print int($1)}` /proc/uptime'')) (\<lambda>up.
     py_bind (lift_result (float_int (parse_float (stdout up)))) (\<lambda>uptime.
       py_return \<lparr>h_cpu_usage = parse_float (stdout cpu), h_ram_usage = parse_float (stdout ram),
                  h_disk_usage = parse_float (stdout disk), h_uptime_seconds = uptime\<rparr>)))))"

section \<open>Nothing here touches the database\<close>

lemma try_key_classes_same_db [steps_intro]: "steps same_db (try_key_classes E path ks)"
  by (induction ks) (auto intro!: steps_intro)

lemma load_private_key_same_db [steps_intro]: "steps same_db (load_private_key E path)"
  unfolding load_private_key_def by (rule steps_intro)

lemma connect_same_db [steps_intro]: "steps same_db (connect E m)"
  unfolding connect_def Let_def by (intro steps_intro)

lemma disconnect_same_db [steps_intro]: "steps same_db (disconnect E m)"
  unfolding disconnect_def by (intro steps_intro)

lemma run_same_db [steps_intro]: "steps same_db (run E m command)"
  unfolding run_def by (intro steps_intro)

lemma lift_result_same_db [steps_intro]: "steps same_db (lift_result r)"
  unfolding lift_result_def by (intro steps_intro)

lemma ssh_commands_same_db [steps_intro]:
  "steps same_db (create_user E m u p)" "steps same_db (delete_user E m u)"
  "steps same_db (lock_user E m u)" "steps same_db (unlock_user E m u)"
  "steps same_db (set_expiry E m u date)" "steps same_db (change_password E m u p)"
  "steps same_db (user_exists E m u)"
  unfolding create_user_def delete_user_def lock_user_def unlock_user_def set_expiry_def
    change_password_def user_exists_def
  by (intro steps_intro)+

lemma ensure_maxlogin_script_same_db [steps_intro]: "steps same_db (ensure_maxlogin_script E m)"
  unfolding ensure_maxlogin_script_def Let_def by (intro steps_intro)

lemma ssh_accounting_same_db [steps_intro]:
  "steps same_db (set_max_logins E m u n)" "steps same_db (setup_traffic_accounting E m u)"
  "steps same_db (get_user_bandwidth_bytes E m u)"
  unfolding set_max_logins_def setup_traffic_accounting_def get_user_bandwidth_bytes_def Let_def
  by (intro steps_intro)+

lemma session_ip_same_db [steps_intro]: "steps same_db (session_ip E m pid)"
  unfolding session_ip_def by (intro steps_intro)

lemma session_of_line_same_db [steps_intro]: "steps same_db (session_of_line E m acc line)"
  unfolding session_of_line_def by (intro steps_intro)

lemma get_active_sessions_same_db [steps_intro]: "steps same_db (get_active_sessions E m)"
  unfolding get_active_sessions_def by (intro steps_intro)

lemma get_health_same_db [steps_intro]: "steps same_db (get_health E m)"
  unfolding get_health_def by (intro steps_intro)

lemmas ssh_same_db =
  connect_same_db disconnect_same_db run_same_db lift_result_same_db ssh_commands_same_db
  ensure_maxlogin_script_same_db ssh_accounting_same_db get_active_sessions_same_db get_health_same_db

lemma with_ssh_same_db [steps_intro]:
  "(\<And>m. steps same_db (body m)) \<Longrightarrow> steps same_db (with_ssh E srv body)"
  unfolding with_ssh_def by (intro steps_intro)

context statement_effect
begin

lemmas steps_ssh [steps_intro] = ssh_same_db [THEN steps_same_db]

lemma steps_with_ssh [steps_intro]:
  "(\<And>m. steps (\<lambda>s t. D (db s) (db t)) (body m)) \<Longrightarrow>
   steps (\<lambda>s t. D (db s) (db t)) (with_ssh E srv body)"
  unfolding with_ssh_def by (intro steps_intro)

end


section \<open>Quoting\<close>

text \<open>
  How a POSIX shell reads one word: outside quotation marks a blank or an operator
  ends it and a backslash takes the next character as it is; between single
  quotation marks every character stands for itself.  The result is the word and
  the text after it; \<open>None\<close> is a quotation that is never closed.
\<close>

definition ends_word :: "char \<Rightarrow> bool" where
  "ends_word c \<longleftrightarrow> c \<in> set '' |&;<>()'' \<union> {CHR 0x09, newline}"

fun sh_word :: "bool \<Rightarrow> string \<Rightarrow> string \<Rightarrow> (string \<times> string) option" where
  "sh_word True acc [] = None"
| "sh_word True acc (c # cs) = (if c = squote then sh_word False acc cs else sh_word True (c # acc) cs)"
| "sh_word False acc [] = Some (rev acc, [])"
| "sh_word False acc (c # cs) =
     (if c = squote then sh_word True acc cs
      else if c = backslash then (case cs of [] \<Rightarrow> None | d # ds \<Rightarrow> sh_word False (d # acc) ds)
      else if ends_word c then Some (rev acc, c # cs)
      else sh_word False (c # acc) cs)"

lemma sh_word_replace:
  "sh_word True acc (py_replace_char squote [squote, backslash, squote, squote] v @ squote # rest) =
   sh_word False (rev v @ acc) rest"
proof (induction v arbitrary: acc)
  case Nil
  then show ?case by (simp add: py_replace_char_def)
next
  case (Cons c v)
  show ?case
  proof (cases "c = squote")
    case True
    with Cons.IH [of "c # acc"] show ?thesis by (simp add: py_replace_char_def)
  next
    case False
    with Cons.IH [of "c # acc"] show ?thesis by (simp add: py_replace_char_def)
  qed
qed

lemma sh_word_quote: "sh_word False acc (shell_quote v @ rest) = sh_word False (rev v @ acc) rest"
  by (simp add: shell_quote_def sh_word_replace)

end
