(* ===== verification/ShadowLinkManager.thy ===== *)
theory ShadowLinkManager
  imports SshManager
begin

text \<open>
  \<open>servers/shadowlink.py\<close>: the requests to the bridge of a ShadowLink node, the
  deployment of the node over SSH, and the two generated configurations.  The
  manager object holds nothing but the server, so the server is the argument of
  its methods.  \<open>yaml.dump\<close> and the JSON decoder are functions of the environment.
\<close>

section \<open>Requests to the bridge\<close>

definition bridge_url :: "server \<Rightarrow> string" where
  "bridge_url srv = ''http://'' @ srv_ip_address srv @ '':'' @ show_int (srv_shadowlink_bridge_port srv)"

definition bridge_headers :: "server \<Rightarrow> (string \<times> string) list" where
  "bridge_headers srv =
     [(''Content-Type'', ''application/json'')] @
     (if srv_shadowlink_api_key srv \<noteq> [] then [(''X-API-Key'', srv_shadowlink_api_key srv)] else [])"

definition is_http_error :: "nat \<Rightarrow> bool" where
  "is_http_error status \<longleftrightarrow> 400 \<le> status \<and> status < 600"

definition bridge_request ::
  "'w env \<Rightarrow> server \<Rightarrow> string \<Rightarrow> string \<Rightarrow> json option \<Rightarrow> ('w sys, json) py" where
  "bridge_request E srv meth path data =
     (let url = bridge_url srv @ path;
          req = \<lparr>req_method = meth, req_url = url, req_json = data,
                 req_headers = bridge_headers srv, req_timeout = 10\<rparr>
      in py_bind (call (Http req) (\<lambda>w. case env_http E req w of (out, w') \<Rightarrow> (Inr out, w'))) (\<lambda>out.
           case out of
             HttpConnectionError \<Rightarrow> py_raise (ShadowLinkError (''Cannot reach ShadowLink bridge at '' @ url))
           | HttpTimeout \<Rightarrow> py_raise (ShadowLinkError (''Bridge request timed out: '' @ url))
           | HttpOther msg \<Rightarrow> py_raise (OtherError msg)
           | HttpResponse status text \<Rightarrow>
               if is_http_error status
               then py_raise (ShadowLinkError
                      (''Bridge API error: '' @ show_nat status @ '' - '' @ text))
               else (case env_parse_json E text of
                       None \<Rightarrow> py_raise (OtherError ''JSONDecodeError'')
                     | Some j \<Rightarrow> py_return j)))"

text \<open>\<open>str(uuid)\<close>: 32 hexadecimal digits in groups of 8, 4, 4, 4 and 12.\<close>

fun hex_digits :: "nat \<Rightarrow> nat \<Rightarrow> string" where
  "hex_digits 0 n = []"
| "hex_digits (Suc k) n = hex_digits k (n div 16) @ [''0123456789abcdef'' ! (n mod 16)]"

definition uuid_str :: "uuid \<Rightarrow> string" where
  "uuid_str u =
     (let h = hex_digits 32 u
      in take 8 h @ ''-'' @ take 4 (drop 8 h) @ ''-'' @ take 4 (drop 12 h) @ ''-'' @
         take 4 (drop 16 h) @ ''-'' @ drop 20 h)"

definition register_token :: "'w env \<Rightarrow> server \<Rightarrow> string \<Rightarrow> int \<Rightarrow> ('w sys, json) py" where
  "register_token E srv token max_conns =
     bridge_request E srv ''POST'' ''/api/tokens''
       (Some (JObj [(''token'', JStr token), (''max_conns'', JInt max_conns)]))"

definition deregister_token :: "'w env \<Rightarrow> server \<Rightarrow> string \<Rightarrow> ('w sys, json) py" where
  "deregister_token E srv token =
     bridge_request E srv ''POST'' ''/api/tokens/delete'' (Some (JObj [(''token'', JStr token)]))"

definition suspend_token :: "'w env \<Rightarrow> server \<Rightarrow> string \<Rightarrow> ('w sys, json) py" where
  "suspend_token E srv token =
     bridge_request E srv ''POST'' ''/api/tokens/suspend'' (Some (JObj [(''token'', JStr token)]))"

definition activate_token :: "'w env \<Rightarrow> server \<Rightarrow> string \<Rightarrow> ('w sys, json) py" where
  "activate_token E srv token =
     bridge_request E srv ''POST'' ''/api/tokens/activate'' (Some (JObj [(''token'', JStr token)]))"

definition bridge_get_status :: "'w env \<Rightarrow> server \<Rightarrow> ('w sys, json) py" where
  "bridge_get_status E srv = bridge_request E srv ''GET'' ''/api/status'' None"

definition bridge_get_sessions :: "'w env \<Rightarrow> server \<Rightarrow> ('w sys, json) py" where
  "bridge_get_sessions E srv = bridge_request E srv ''GET'' ''/api/sessions'' None"

definition bridge_health_check :: "'w env \<Rightarrow> server \<Rightarrow> ('w sys, json) py" where
  "bridge_health_check E srv = bridge_request E srv ''GET'' ''/api/health'' None"


section \<open>Generated configuration\<close>

definition obfuscation_config :: json where
  "obfuscation_config =
     JObj [(''padding'', JObj [(''enabled'', JBool True), (''min_bytes'', JInt 16), (''max_bytes'', JInt 128)]),
           (''timing'', JObj [(''enabled'', JBool True), (''min_delay'', JStr ''0ms''), (''max_delay'', JStr ''50ms'')]),
           (''traffic_shape'', JObj [(''enabled'', JBool True), (''idle_interval'', JStr ''5s'')])]"

definition server_config :: "server \<Rightarrow> json" where
  "server_config srv =
     JObj [(''server'', JObj
              [(''listen_addr'', JStr (''0.0.0.0:'' @ show_int (srv_shadowlink_port srv))),
               (''ws_path'', JStr (srv_shadowlink_ws_path srv)),
               (''tls_cert'', JStr ''''), (''tls_key'', JStr ''''), (''decoy_dir'', JStr '''')]),
           (''bridge'', JObj
              [(''listen_addr'', JStr (''127.0.0.1:'' @ show_int (srv_shadowlink_bridge_port srv))),
               (''api_key'', JStr (srv_shadowlink_api_key srv))]),
           (''obfuscation'', obfuscation_config),
           (''sessions'', JObj
              [(''idle_timeout'', JStr ''5m''), (''cleanup_interval'', JStr ''1m''),
               (''max_per_token'', JInt 3)])]"

definition generate_config :: "'w env \<Rightarrow> server \<Rightarrow> string" where
  "generate_config E srv = env_yaml E (server_config srv)"

definition binary_remote_path :: string where
  "binary_remote_path = ''/opt/shadowlink/shadowlink-server''"

definition config_remote_path :: string where
  "config_remote_path = ''/opt/shadowlink/config.yaml''"

definition generate_systemd_unit :: string where
  "generate_systemd_unit =
     py_join [newline]
       [''[Unit]'', ''Description=ShadowLink Proxy Server'', ''After=network.target'', '''',
        ''[Service]'', ''Type=simple'',
        ''ExecStart='' @ binary_remote_path @ '' -config '' @ config_remote_path,
        ''Restart=always'', ''RestartSec=5'', ''LimitNOFILE=65535'', '''',
        ''[Install]'', ''WantedBy=multi-user.target'']"

definition generate_client_config :: "account \<Rightarrow> server \<Rightarrow> json" where
  "generate_client_config acc srv =
     (let domain = (if srv_shadowlink_domain srv \<noteq> [] then srv_shadowlink_domain srv else srv_ip_address srv)
      in JObj [(''client'', JObj
                  [(''listen_addr'', JStr ''127.0.0.1:1080''),
                   (''server_addr'', JStr (domain @ '':'' @ show_int (srv_shadowlink_port srv))),
                   (''server_sni'', JStr domain),
                   (''ws_path'', JStr (srv_shadowlink_ws_path srv)),
                   (''auth_token'', JStr (uuid_str (acc_auth_token acc))),
                   (''use_tls'', JBool True),
                   (''insecure'', JBool (srv_shadowlink_domain srv = []))]),
               (''cdn'', JObj
                  [(''enabled'', JBool False), (''cdn_address'', JStr ''''), (''domain'', JStr domain),
                   (''ws_path'', JStr (srv_shadowlink_ws_path srv))]),
               (''obfuscation'', obfuscation_config)])"


section \<open>Deployment\<close>

definition heredoc :: "string \<Rightarrow> string \<Rightarrow> string" where
  "heredoc path body =
     ''cat > '' @ path @ quoted '' << `SLEOF`'' @ [newline] @ body @ [newline] @ ''SLEOF''"

definition sftp :: "'w env \<Rightarrow> ssh_manager \<Rightarrow> sftp_call \<Rightarrow> ('w sys, unit) py" where
  "sftp E m op =
     (case mgr_client m of
        None \<Rightarrow> py_raise (OtherError ''NoneType object has no attribute open_sftp'')
      | Some c \<Rightarrow> call (Sftp c op) (env_sftp E c op))"

definition deploy_binary :: "'w env \<Rightarrow> server \<Rightarrow> string \<Rightarrow> ('w sys, unit) py" where
  "deploy_binary E srv binary_path =
     with_ssh E srv (\<lambda>ssh.
       py_then (run E ssh ''mkdir -p /opt/shadowlink'')
      (py_then (sftp E ssh SftpOpen)
         (py_finally
           (py_then (sftp E ssh (SftpPut binary_path binary_remote_path))
                    (sftp E ssh (SftpChmod binary_remote_path 493)))
           (sftp E ssh SftpClose))))"

definition deploy_config :: "'w env \<Rightarrow> server \<Rightarrow> ('w sys, unit) py" where
  "deploy_config E srv =
     (let config = generate_config E srv
      in with_ssh E srv (\<lambda>ssh.
           py_then (run E ssh ''mkdir -p /opt/shadowlink'')
          (py_then (run E ssh (heredoc config_remote_path config))
             (py_return ()))))"

definition deploy_systemd_service :: "'w env \<Rightarrow> server \<Rightarrow> ('w sys, unit) py" where
  "deploy_systemd_service E srv =
     with_ssh E srv (\<lambda>ssh.
       py_then (run E ssh (heredoc ''/etc/systemd/system/shadowlink.service'' generate_systemd_unit))
      (py_then (run E ssh ''systemctl daemon-reload'')
      (py_then (run E ssh ''systemctl enable shadowlink'')
         (py_return ()))))"

definition start_service :: "'w env \<Rightarrow> server \<Rightarrow> ('w sys, unit) py" where
  "start_service E srv =
     with_ssh E srv (\<lambda>ssh.
       py_bind (run E ssh ''systemctl start shadowlink'') (\<lambda>result.
         py_when (\<not> ok result)
           (py_raise (ShadowLinkError (''Failed to start ShadowLink: '' @ stderr result)))))"

definition stop_service :: "'w env \<Rightarrow> server \<Rightarrow> ('w sys, unit) py" where
  "stop_service E srv =
     with_ssh E srv (\<lambda>ssh. py_then (run E ssh ''systemctl stop shadowlink'') (py_return ()))"

definition restart_service :: "'w env \<Rightarrow> server \<Rightarrow> ('w sys, unit) py" where
  "restart_service E srv =
     with_ssh E srv (\<lambda>ssh.
       py_bind (run E ssh ''systemctl restart shadowlink'') (\<lambda>result.
         py_when (\<not> ok result)
           (py_raise (ShadowLinkError (''Failed to restart ShadowLink: '' @ stderr result)))))"

definition service_status :: "'w env \<Rightarrow> server \<Rightarrow> ('w sys, json) py" where
  "service_status E srv =
     with_ssh E srv (\<lambda>ssh.
       py_bind (run E ssh ''systemctl is-active shadowlink'') (\<lambda>result.
       py_bind (run E ssh ''systemctl show shadowlink --property=MainPID --value'') (\<lambda>pid_result.
         let pid = (if ok pid_result then py_strip (stdout pid_result) else ''0'')
         in py_bind (if py_isdigit pid then lift_result (py_int pid) else py_return 0) (\<lambda>n.
              py_return (JObj
                [(''running'', JBool (py_strip (stdout result) = ''active'')),
                 (''pid'', JInt n),
                 (''status'', JStr (py_strip (stdout result)))])))))"

definition full_deploy :: "'w env \<Rightarrow> server \<Rightarrow> string \<Rightarrow> ('w sys, unit) py" where
  "full_deploy E srv binary_path =
     py_then (deploy_binary E srv binary_path)
    (py_then (deploy_config E srv)
    (py_then (deploy_systemd_service E srv)
       (start_service E srv)))"


section \<open>Nothing here touches the database\<close>

lemma bridge_request_same_db [steps_intro]: "steps same_db (bridge_request E srv meth path data)"
  unfolding bridge_request_def Let_def
  by (intro steps_intro) (auto intro!: steps_intro split: http_outcome.split)

lemma bridge_calls_same_db [steps_intro]:
  "steps same_db (register_token E srv tok n)" "steps same_db (deregister_token E srv tok)"
  "steps same_db (suspend_token E srv tok)" "steps same_db (activate_token E srv tok)"
  "steps same_db (bridge_get_status E srv)" "steps same_db (bridge_get_sessions E srv)"
  "steps same_db (bridge_health_check E srv)"
  unfolding register_token_def deregister_token_def suspend_token_def activate_token_def
    bridge_get_status_def bridge_get_sessions_def bridge_health_check_def
  by (rule bridge_request_same_db)+

lemma sftp_same_db [steps_intro]: "steps same_db (sftp E m op)"
  unfolding sftp_def by (intro steps_intro)

lemma deploy_same_db [steps_intro]:
  "steps same_db (deploy_binary E srv path)" "steps same_db (deploy_config E srv)"
  "steps same_db (deploy_systemd_service E srv)" "steps same_db (start_service E srv)"
  "steps same_db (stop_service E srv)" "steps same_db (restart_service E srv)"
  "steps same_db (service_status E srv)"
  unfolding deploy_binary_def deploy_config_def deploy_systemd_service_def start_service_def
    stop_service_def restart_service_def service_status_def Let_def
  by (intro steps_intro)+

lemma full_deploy_same_db [steps_intro]: "steps same_db (full_deploy E srv path)"
  unfolding full_deploy_def by (intro steps_intro)

lemmas shadowlink_same_db = bridge_calls_same_db deploy_same_db full_deploy_same_db

context statement_effect
begin

lemmas steps_shadowlink [steps_intro] = shadowlink_same_db [THEN steps_same_db]

end


section \<open>Errors of the bridge\<close>

text \<open>
  What a bridge request can do: the decoded answer of a response that is no error,
  a \<open>ShadowLinkError\<close> for everything the code catches, and what the code lets
  through.
\<close>

lemma bridge_request_cases:
  assumes "bridge_request E srv meth path data s = (r, t)"
  shows "(\<exists>status text j. r = Inr j \<and> \<not> is_http_error status \<and> env_parse_json E text = Some j) \<or>
         (\<exists>msg. r = Inl (ShadowLinkError msg)) \<or> (\<exists>msg. r = Inl (OtherError msg))"
  using assms
  unfolding bridge_request_def Let_def
  by (elim py_bind_cases)
     (auto simp: call_def py_raise_def py_return_def
       split: prod.splits http_outcome.splits if_splits option.splits)

end
