(* ===== verification/RunFacts.thy ===== *)
theory RunFacts
  imports ShadowLinkManager
begin

text \<open>
  What the pieces of an operation do when it is run: the statements of the ORM on
  the database, and a connection on the trace of the remote interactions.  The
  relations \<open>row_written\<close>, \<open>audited\<close> and \<open>status_set\<close> are the abstract
  specification of the operations on one account.
\<close>

section \<open>What does not talk to a node\<close>

abbreviation quiet :: "'w sys \<Rightarrow> 'w sys \<Rightarrow> bool" where
  "quiet s t \<equiv> db t = db s \<and> io t = io s"

abbreviation same_io :: "'w sys \<Rightarrow> 'w sys \<Rightarrow> bool" where
  "same_io s t \<equiv> io t = io s"

interpretation quiet: effect quiet
  by unfold_locales auto

interpretation same_io: effect same_io
  by unfold_locales auto

lemma ask_quiet [steps_intro]: "steps quiet (ask f)"
  by (simp add: steps_def ask_def split: prod.splits)

lemma attempt_quiet [steps_intro]: "steps quiet (attempt f)"
  by (simp add: steps_def attempt_def split: prod.splits)

lemma query_quiet [steps_intro]: "steps quiet (query f)"
  by (simp add: steps_def query_def py_get_def)

lemma found_quiet [steps_intro]: "steps quiet (found r)"
  by (auto simp: found_def intro: steps_intro split: option.split)

lemma get_server_quiet [steps_intro]: "steps quiet (get_server i)"
  unfolding get_server_def by (intro steps_intro)

lemma now_quiet [steps_intro]: "steps quiet (now E)"
  unfolding now_def by (rule ask_quiet)

lemma lift_result_quiet [steps_intro]: "steps quiet (lift_result r)"
  unfolding lift_result_def by (intro steps_intro)

lemma try_key_classes_quiet [steps_intro]: "steps quiet (try_key_classes E path ks)"
  by (induction ks) (auto intro!: steps_intro)

lemma load_private_key_quiet [steps_intro]: "steps quiet (load_private_key E path)"
  unfolding load_private_key_def by (rule steps_intro)

lemma quiet_same_io: "steps quiet m \<Longrightarrow> steps same_io m"
  by (erule steps_mono) simp

lemma on_db_same_io [steps_intro]: "steps same_io (on_db m)"
  by (simp add: steps_def on_db_def split: prod.splits)

lemma now_same_io [steps_intro]: "steps same_io (now E)"
  by (rule quiet_same_io) (rule now_quiet)

lemma save_account_same_io [steps_intro]: "steps same_io (save_account E a fs)"
  unfolding save_account_def Let_def by (intro steps_intro)

lemma create_log_same_io [steps_intro]: "steps same_io (create_log E act i adm det)"
  unfolding create_log_def by (intro steps_intro)

lemma now_returns: "\<exists>x t. now E s = (Inr x, t) \<and> quiet s t"
  by (simp add: now_def ask_def split: prod.splits)

lemma get_server_Inr: "get_server i s = (Inr r, t) \<longleftrightarrow> t = s \<and> db_server (db s) i = Some r"
  by (auto simp: get_server_def query_def found_def py_bind_def py_get_def py_return_def py_raise_def
      split: option.splits)

lemma get_server_Inl: "get_server i s = (Inl e, t) \<Longrightarrow> t = s \<and> db_server (db s) i = None"
  by (auto simp: get_server_def query_def found_def py_bind_def py_get_def py_return_def py_raise_def
      split: option.splits)


section \<open>Statements\<close>

lemma write_account_id [simp]: "acc_id (write_account a fs r) = acc_id r"
  using same_identity_write [of r a fs] by (simp add: same_identity_def)

lemma update_account_Inr:
  assumes "update_account i g d = (Inr x, d')"
  obtains r where "db_account d i = Some r" "account_violation d (g r) = None"
    "d' = d\<lparr>accounts := replace_key acc_id i g (accounts d)\<rparr>"
  using assms by (auto simp: update_account_def split: option.splits)

lemma update_account_Inl: "update_account i g d = (Inl e, d') \<Longrightarrow> d' = d"
  by (auto simp: update_account_def split: option.splits)

lemma save_account_Inr:
  assumes "save_account E a fs s = (Inr a', t)" and "F_updated_at \<in> set fs"
  obtains u r where "a' = a\<lparr>acc_updated_at := u\<rparr>" "db_account (db s) (acc_id a) = Some r"
    "db t = (db s)\<lparr>accounts := replace_key acc_id (acc_id a) (write_account a' fs) (accounts (db s))\<rparr>"
    "io t = io s"
proof -
  obtain u s1 where now: "now E s = (Inr u, s1)" "quiet s s1"
    using now_returns by blast
  from assms now show ?thesis
    by (auto simp: save_account_def Let_def py_bind_def py_then_def py_return_def on_db_def
        split: prod.splits sum.splits elim!: update_account_Inr intro: that)
qed

lemma save_account_Inl:
  assumes "save_account E a fs s = (Inl e, t)"
  shows "quiet s t"
proof -
  obtain u s1 where now: "now E s = (Inr u, s1)" "quiet s s1"
    using now_returns by blast
  with assms show ?thesis
    by (auto simp: save_account_def Let_def py_bind_def py_then_def py_return_def on_db_def
        split: prod.splits sum.splits if_splits dest!: update_account_Inl)
qed

lemma create_log_Inr:
  assumes "create_log E act i adm det s = (Inr x, t)"
  obtains u where
    "db t = (db s)\<lparr>next_log := next_log (db s) + 1,
       logs := logs (db s) @ [\<lparr>log_id = next_log (db s), log_action = act, log_account = Some i,
         log_admin_user = adm, log_detail = det, log_created_at = u\<rparr>]\<rparr>"
    "io t = io s"
proof -
  obtain u s1 where now: "now E s = (Inr u, s1)" "quiet s s1"
    using now_returns by blast
  from assms now show ?thesis
    by (auto simp: create_log_def insert_log_def Let_def py_bind_def on_db_def intro: that
        split: prod.splits option.splits)
qed

lemma create_log_returns:
  assumes "db_account (db s) i \<noteq> None"
  shows "\<exists>x t. create_log E act i adm det s = (Inr x, t)"
proof -
  obtain u s1 where now: "now E s = (Inr u, s1)" "quiet s s1"
    using now_returns by blast
  with assms show ?thesis
    by (auto simp: create_log_def insert_log_def Let_def py_bind_def on_db_def log_violation_def
        first_violation_def split: prod.splits option.splits)
qed


lemma db_account_update_same:
  "(\<And>a. acc_id (g a) = acc_id a) \<Longrightarrow> db_account d i = Some r \<Longrightarrow>
   db_account (d\<lparr>accounts := replace_key acc_id i g (accounts d)\<rparr>) i = Some (g r)"
  by (simp add: db_account_update) (blast dest: db_account_Some)

lemma db_account_update_other:
  "(\<And>a. acc_id (g a) = acc_id a) \<Longrightarrow> j \<noteq> i \<Longrightarrow>
   db_account (d\<lparr>accounts := replace_key acc_id i g (accounts d)\<rparr>) j = db_account d j"
  by (cases "db_account d j") (auto simp: db_account_update dest: db_account_Some)

text \<open>An account that was just saved has a row, so logging it succeeds.\<close>

lemma log_after_save:
  assumes "save_account E a fs s = (Inr b, s1)" and "F_updated_at \<in> set fs"
  shows "\<exists>x t. create_log E act (acc_id b) adm det s1 = (Inr x, t)"
proof (rule create_log_returns)
  from assms obtain u r where "b = a\<lparr>acc_updated_at := u\<rparr>" "db_account (db s) (acc_id a) = Some r"
    "db s1 = (db s)\<lparr>accounts := replace_key acc_id (acc_id a) (write_account b fs) (accounts (db s))\<rparr>"
    by (rule save_account_Inr)
  then show "db_account (db s1) (acc_id b) \<noteq> None" by (simp add: db_account_update)
qed


section \<open>The abstract specification of a change to one account\<close>

definition audited :: "audit_action \<Rightarrow> nat \<Rightarrow> nat option \<Rightarrow> string \<Rightarrow> database \<Rightarrow> database \<Rightarrow> bool" where
  "audited act i adm det d d' \<longleftrightarrow>
     (\<exists>l. logs d' = logs d @ [l] \<and> log_action l = act \<and> log_account l = Some i \<and>
          log_admin_user l = adm \<and> log_detail l = det)"

definition row_written :: "nat \<Rightarrow> (account \<Rightarrow> account) \<Rightarrow> database \<Rightarrow> database \<Rightarrow> bool" where
  "row_written i g d d' \<longleftrightarrow>
     (\<exists>r. db_account d i = Some r \<and> db_account d' i = Some (g r)) \<and>
     (\<forall>j. j \<noteq> i \<longrightarrow> db_account d' j = db_account d j) \<and>
     servers d' = servers d \<and> plans d' = plans d \<and> sessions d' = sessions d"

definition status_set ::
  "account_status \<Rightarrow> audit_action \<Rightarrow> nat \<Rightarrow> nat option \<Rightarrow> database \<Rightarrow> database \<Rightarrow> bool" where
  "status_set st act i adm d d' \<longleftrightarrow>
     (\<exists>u. row_written i (\<lambda>r. r\<lparr>acc_status := st, acc_updated_at := u\<rparr>) d d') \<and>
     audited act i adm '''' d d'"

text \<open>Saving an account and logging it, the end of every operation on one account.\<close>

definition save_and_log ::
  "'w env \<Rightarrow> account \<Rightarrow> account_field list \<Rightarrow> audit_action \<Rightarrow> nat option \<Rightarrow> string \<Rightarrow> ('w sys, account) py" where
  "save_and_log E a fs act adm det =
     py_bind (save_account E a fs) (\<lambda>a'.
     py_then (create_log E act (acc_id a') adm det) (py_return a'))"

lemma save_and_log_Inr:
  assumes run: "save_and_log E a fs act adm det s = (Inr a', t)" and F: "F_updated_at \<in> set fs"
  obtains u where "a' = a\<lparr>acc_updated_at := u\<rparr>"
    "row_written (acc_id a) (write_account a' fs) (db s) (db t)"
    "audited act (acc_id a) adm det (db s) (db t)" "io t = io s"
proof -
  from run obtain b s1 where save: "save_account E a fs s = (Inr b, s1)"
    and rest: "py_then (create_log E act (acc_id b) adm det) (py_return b) s1 = (Inr a', t)"
    unfolding save_and_log_def by (rule py_bind_InrE)
  from rest obtain x s2 where log: "create_log E act (acc_id b) adm det s1 = (Inr x, s2)"
    and ret: "py_return b s2 = (Inr a', t)"
    by (rule py_then_InrE)
  from save F obtain u r where b: "b = a\<lparr>acc_updated_at := u\<rparr>"
    and row: "db_account (db s) (acc_id a) = Some r"
    and db1: "db s1 = (db s)\<lparr>accounts := replace_key acc_id (acc_id a) (write_account b fs) (accounts (db s))\<rparr>"
    and io1: "io s1 = io s"
    by (rule save_account_Inr)
  from log obtain v where db2: "db s2 = (db s1)\<lparr>next_log := next_log (db s1) + 1,
       logs := logs (db s1) @ [\<lparr>log_id = next_log (db s1), log_action = act, log_account = Some (acc_id b),
         log_admin_user = adm, log_detail = det, log_created_at = v\<rparr>]\<rparr>" and io2: "io s2 = io s1"
    by (rule create_log_Inr)
  have same: "a' = b" "t = s2" using ret by (simp_all add: py_return_def)
  have "row_written (acc_id a) (write_account a' fs) (db s) (db t)"
    unfolding row_written_def same db2
    using row by (auto simp: db1 db_account_update_same db_account_update_other)
  moreover have "audited act (acc_id a) adm det (db s) (db t)"
    unfolding audited_def same db2 by (simp add: db1 b)
  ultimately show ?thesis using b io1 io2 same by (intro that) auto
qed

lemma save_and_log_Inl:
  assumes run: "save_and_log E a fs act adm det s = (Inl e, t)" and F: "F_updated_at \<in> set fs"
  shows "quiet s t"
  using run unfolding save_and_log_def
proof (cases rule: py_bind_cases)
  case (raised e')
  then show ?thesis by (auto dest: save_account_Inl)
next
  case (ran b s1)
  obtain x s2 where "create_log E act (acc_id b) adm det s1 = (Inr x, s2)"
    using log_after_save [OF ran(1) F] by blast
  with ran(2) show ?thesis by (simp add: py_then_def py_bind_def py_return_def)
qed

text \<open>A row of a well-formed database may be rewritten when nothing the constraints see changes.\<close>

lemma violation_of_row:
  assumes wf: "db_wf d" and row: "db_account d i = Some r"
    and same: "same_identity r r'" "acc_server r' = acc_server r"
      "acc_password_display r' = acc_password_display r" "acc_max_connections r' = acc_max_connections r"
      "acc_bandwidth_limit_gb r' = acc_bandwidth_limit_gb r"
  shows "account_violation d r' = None"
proof -
  have r: "r \<in> set (accounts d)" "acc_id r = i" using db_account_Some [OF row] by auto
  have ok: "accounts_ok d" using wf by (simp add: db_wf_def)
  then have row_ok: "account_ok d r" using r by (simp add: accounts_ok_def)
  have other: "(acc_username x, acc_server x) \<noteq> (acc_username r, acc_server r) \<and>
      acc_access_token x \<noteq> acc_access_token r \<and> acc_auth_token x \<noteq> acc_auth_token r"
    if "x \<in> set (accounts d)" "acc_id x \<noteq> acc_id r" for x
    using ok r that
    by (auto simp: accounts_ok_def
        dest: distinct_map_eqD [of acc_access_token] distinct_map_eqD [of acc_auth_token]
              distinct_map_eqD [of "\<lambda>a. (acc_username a, acc_server a)"])
  show ?thesis
    using row_ok other same
    by (auto simp: account_violation_def same_identity_def account_ok_def too_long_def list_ex_iff
        split: option.splits)
qed

lemma save_and_log_returns:
  assumes "db_account (db s) (acc_id a) = Some r"
    and "\<And>u. account_violation (db s) (write_account (a\<lparr>acc_updated_at := u\<rparr>) fs r) = None"
    and F: "F_updated_at \<in> set fs"
  shows "\<exists>a' t. save_and_log E a fs act adm det s = (Inr a', t)"
proof -
  obtain u s1 where now: "now E s = (Inr u, s1)" "quiet s s1"
    using now_returns by blast
  with assms obtain b s2 where save: "save_account E a fs s = (Inr b, s2)"
    by (simp add: save_account_def Let_def py_bind_def py_then_def py_return_def on_db_def update_account_def)
  obtain x s3 where "create_log E act (acc_id b) adm det s2 = (Inr x, s3)"
    using log_after_save [OF save F] by blast
  with save show ?thesis by (simp add: save_and_log_def py_then_def py_bind_def py_return_def)
qed


section \<open>Connections\<close>

text \<open>
  A relation between what the body of \<open>with_ssh\<close> does to the trace and what the
  whole statement does: one connection to the server's address around it, closed
  on both exits.
\<close>

definition dials :: "server \<Rightarrow> connect_args \<Rightarrow> bool" where
  "dials srv args \<longleftrightarrow>
     ca_hostname args = srv_ip_address srv \<and> ca_port args = srv_ssh_port srv \<and>
     ca_username args = srv_ssh_user srv"

definition connected :: "server \<Rightarrow> nat \<Rightarrow> ssh_manager" where
  "connected srv c = (get_ssh_manager srv)\<lparr>mgr_client := Some c\<rparr>"

lemma connect_Inr:
  assumes "connect E (get_ssh_manager srv) s = (Inr m, t)"
  obtains c args w where "m = connected srv c" "dials srv args" "db t = db s" "io t = io s @ [Connect args]"
    "fst (env_connect E args w) = Inr c"
proof -
  let ?key = "if srv_ssh_key_path srv \<noteq> []
    then py_bind (load_private_key E (srv_ssh_key_path srv)) (\<lambda>k. py_return (Some k)) else py_return None"
  let ?args = "\<lambda>key. \<lparr>ca_hostname = srv_ip_address srv, ca_port = srv_ssh_port srv,
    ca_username = srv_ssh_user srv, ca_pkey = key, ca_timeout = 10,
    ca_allow_agent = (srv_ssh_key_path srv = [])\<rparr>"
  from assms have "py_bind ?key (\<lambda>key. py_bind (call (Connect (?args key)) (env_connect E (?args key)))
      (\<lambda>c. py_return (connected srv c))) s = (Inr m, t)"
    unfolding connect_def Let_def get_ssh_manager_def connected_def
      ssh_manager.simps ssh_manager.update_convs option.case .
  then obtain key s1 where key: "?key s = (Inr key, s1)"
    and call: "py_bind (call (Connect (?args key)) (env_connect E (?args key)))
      (\<lambda>c. py_return (connected srv c)) s1 = (Inr m, t)"
    by (rule py_bind_InrE)
  have "steps quiet ?key" by (intro steps_intro)
  then have "quiet s s1" using key by (rule steps_run)
  with call show ?thesis
    by (elim py_bind_InrE)
       (auto simp: call_def py_return_def dials_def intro: that [of _ "?args key" "world s1"] split: prod.splits)
qed

lemma connect_Inl:
  assumes "connect E m s = (Inl e, t)"
  shows "db t = db s"
  using steps_run [OF connect_same_db assms] .

lemma disconnect_run:
  "disconnect E (connected srv c) s = (r, t) \<Longrightarrow>
   (\<exists>m. r = Inr m) \<and> db t = db s \<and> io t = io s @ [Close c]"
  by (auto simp: disconnect_def connected_def py_then_def py_bind_def py_return_def call_def)

lemma with_ssh_cases:
  assumes "with_ssh E srv body s = (r, t)"
  obtains (refused) e where "r = Inl e" "db t = db s"
  | (opened) c args s1 s2 where "dials srv args" "db s1 = db s" "io s1 = io s @ [Connect args]"
      "body (connected srv c) s1 = (r, s2)" "db t = db s2" "io t = io s2 @ [Close c]"
proof (cases "connect E (get_ssh_manager srv) s")
  case (Pair q s1)
  show ?thesis
  proof (cases q)
    case (Inl e)
    with Pair assms have "r = Inl e" "t = s1" by (auto simp: with_ssh_def py_bind_def)
    with Pair Inl connect_Inl show ?thesis by (intro refused) auto
  next
    case (Inr m)
    with Pair obtain c args where m: "m = connected srv c" "dials srv args" "db s1 = db s"
        "io s1 = io s @ [Connect args]"
      using connect_Inr by blast
    obtain r2 s2 where body: "body (connected srv c) s1 = (r2, s2)" by (cases "body (connected srv c) s1")
    obtain q u where dis: "disconnect E (connected srv c) s2 = (q, u)"
      by (cases "disconnect E (connected srv c) s2")
    note closed = disconnect_run [OF dis]
    have "r = r2" "t = u"
      using assms Pair Inr m body dis closed
      by (auto simp: with_ssh_def py_bind_def py_finally_def py_then_def py_return_def)
    with closed body m show ?thesis by (intro opened) auto
  qed
qed

lemma with_ssh_InrE:
  assumes "with_ssh E srv body s = (Inr x, t)"
  obtains c args s1 s2 where "dials srv args" "db s1 = db s" "io s1 = io s @ [Connect args]"
      "body (connected srv c) s1 = (Inr x, s2)" "db t = db s2" "io t = io s2 @ [Close c]"
  using assms by (cases rule: with_ssh_cases) auto

lemma run_connected:
  assumes "run E (connected srv c) cmd s = (r, t)"
  shows "db t = db s \<and> io t = io s @ [Exec c cmd]"
  using assms
  by (auto simp: run_def connected_def py_bind_def py_return_def call_def
      split: prod.splits sum.splits)

text \<open>A body that runs a list of commands, whatever they print.\<close>

definition runs :: "nat \<Rightarrow> string list \<Rightarrow> 'w sys \<Rightarrow> 'w sys \<Rightarrow> bool" where
  "runs c cmds s t \<longleftrightarrow> db t = db s \<and> io t = io s @ map (Exec c) cmds"

lemma run_runs: "run E (connected srv c) cmd s = (r, t) \<Longrightarrow> runs c [cmd] s t"
  by (simp add: runs_def run_connected)

lemma runs_append: "runs c xs s t \<Longrightarrow> runs c ys t u \<Longrightarrow> runs c (xs @ ys) s u"
  by (simp add: runs_def)

lemma runs_Nil [simp]: "runs c [] s s"
  by (simp add: runs_def)

text \<open>The whole connection on the trace.\<close>

definition session_trace :: "server \<Rightarrow> string list \<Rightarrow> event list \<Rightarrow> bool" where
  "session_trace srv cmds evs \<longleftrightarrow>
     (\<exists>args c. dials srv args \<and> evs = [Connect args] @ map (Exec c) cmds @ [Close c])"

lemma with_ssh_runs:
  assumes "with_ssh E srv body s = (Inr x, t)"
    and "\<And>c s1 s2. body (connected srv c) s1 = (Inr x, s2) \<Longrightarrow> runs c cmds s1 s2"
  shows "db t = db s \<and> (\<exists>evs. session_trace srv cmds evs \<and> io t = io s @ evs)"
  using assms(1)
proof (rule with_ssh_InrE)
  fix c args s1 s2
  assume "dials srv args" "db s1 = db s" "io s1 = io s @ [Connect args]"
    and body: "body (connected srv c) s1 = (Inr x, s2)" and "db t = db s2" "io t = io s2 @ [Close c]"
  with assms(2) [OF body] show ?thesis by (auto simp: runs_def session_trace_def)
qed

end
