(* ===== verification/AccountFacts.thy ===== *)
theory AccountFacts
  imports AccountServices RunFacts
begin

text \<open>
  What the operations of \<open>accounts/services.py\<close> do.  \<open>delete_account\<close>,
  \<open>suspend_account\<close> and \<open>activate_account\<close> are three instances of the locale
  \<open>lifecycle\<close>; what is proved of it holds of each.
\<close>

section \<open>The three operations that set a status\<close>

text \<open>The shape the three have in common: the node first, then the row and the log.\<close>

definition node_step ::
  "'w env \<Rightarrow> account \<Rightarrow> (server \<Rightarrow> string \<Rightarrow> ('w sys, json) py) \<Rightarrow>
   (ssh_manager \<Rightarrow> string \<Rightarrow> ('w sys, command_result) py) \<Rightarrow> ('w sys, unit) py" where
  "node_step E acc tok cmd =
     (if acc_protocol_type acc = SHADOWLINK
      then py_try (py_bind (get_server (acc_server acc)) (\<lambda>srv.
             py_then (tok srv (uuid_str (acc_auth_token acc))) (py_return ())))
           (\<lambda>e. py_return ())
      else py_bind (get_server (acc_server acc)) (\<lambda>srv.
             with_ssh E srv (\<lambda>ssh. py_then (cmd ssh (acc_username acc)) (py_return ()))))"

definition token_request :: "server \<Rightarrow> string \<Rightarrow> uuid \<Rightarrow> http_request" where
  "token_request srv path token =
     \<lparr>req_method = ''POST'', req_url = bridge_url srv @ path,
      req_json = Some (JObj [(''token'', JStr (uuid_str token))]),
      req_headers = bridge_headers srv, req_timeout = 10\<rparr>"

lemma bridge_request_run:
  assumes "bridge_request E srv meth path data s = (r, t)"
  shows "db t = db s \<and>
    io t = io s @ [Http \<lparr>req_method = meth, req_url = bridge_url srv @ path, req_json = data,
                       req_headers = bridge_headers srv, req_timeout = 10\<rparr>]"
  using assms
  unfolding bridge_request_def Let_def
  by (elim py_bind_cases)
     (auto simp: call_def py_raise_def py_return_def
       split: prod.splits http_outcome.splits if_splits option.splits)

locale lifecycle =
  fixes op :: "'w env \<Rightarrow> account \<Rightarrow> nat option \<Rightarrow> ('w sys, account) py"
    and tok :: "'w env \<Rightarrow> server \<Rightarrow> string \<Rightarrow> ('w sys, json) py"
    and cmd :: "'w env \<Rightarrow> ssh_manager \<Rightarrow> string \<Rightarrow> ('w sys, command_result) py"
    and st :: account_status
    and act :: audit_action
    and path :: string
    and cmds :: "string \<Rightarrow> string list"
  assumes op_shape: "op E acc adm =
      py_then (node_step E acc (tok E) (cmd E))
        (save_and_log E (acc\<lparr>acc_status := st\<rparr>) [F_status, F_updated_at] act adm '''')"
    and tok_run: "tok E srv (uuid_str token) s = (r, t) \<Longrightarrow>
      db t = db s \<and> io t = io s @ [Http (token_request srv path token)]"
    and cmd_runs: "cmd E (connected srv c) user s = (Inr x, t) \<Longrightarrow> runs c (cmds user) s t"
    and cmd_same_db: "steps same_db (cmd E m user)"
begin

lemma node_step_same_db: "steps same_db (node_step E acc (tok E) (cmd E))"
proof -
  have "steps same_db (tok E srv (uuid_str (acc_auth_token acc)))" for srv
    by (intro stepsI) (metis prod.collapse tok_run)
  then show ?thesis
    unfolding node_step_def by (intro steps_intro cmd_same_db)
qed

text \<open>On return the row has the status and the log one more entry, and no other row changed.\<close>

lemma op_sets:
  assumes "op E acc adm s = (Inr acc', t)"
  shows "status_set st act (acc_id acc) adm (db s) (db t)"
    and "\<exists>u. acc' = acc\<lparr>acc_status := st, acc_updated_at := u\<rparr>"
proof -
  from assms obtain x s1 where node: "node_step E acc (tok E) (cmd E) s = (Inr x, s1)"
    and rest: "save_and_log E (acc\<lparr>acc_status := st\<rparr>) [F_status, F_updated_at] act adm '''' s1 = (Inr acc', t)"
    unfolding op_shape by (rule py_then_InrE)
  have db1: "db s1 = db s" using node_step_same_db node by (rule steps_run)
  have F: "F_updated_at \<in> set [F_status, F_updated_at]" by simp
  from rest F obtain u where acc': "acc' = acc\<lparr>acc_status := st\<rparr>\<lparr>acc_updated_at := u\<rparr>"
    and row: "row_written (acc_id (acc\<lparr>acc_status := st\<rparr>)) (write_account acc' [F_status, F_updated_at]) (db s1) (db t)"
    and log: "audited act (acc_id (acc\<lparr>acc_status := st\<rparr>)) adm '''' (db s1) (db t)"
    by (rule save_and_log_Inr)
  have "write_account acc' [F_status, F_updated_at] = (\<lambda>r. r\<lparr>acc_status := st, acc_updated_at := u\<rparr>)"
    by (simp add: write_account_def acc' fun_eq_iff)
  with row log show "status_set st act (acc_id acc) adm (db s) (db t)"
    unfolding status_set_def db1 account.simps by auto
  show "\<exists>u. acc' = acc\<lparr>acc_status := st, acc_updated_at := u\<rparr>" using acc' by blast
qed

text \<open>An exception leaves the database as it was, though there is no transaction.\<close>

lemma op_fails:
  assumes "op E acc adm s = (Inl e, t)"
  shows "db t = db s"
  using assms unfolding op_shape py_then_def
proof (cases rule: py_bind_cases)
  case (raised e')
  then show ?thesis using steps_run [OF node_step_same_db] by blast
next
  case (ran x s1)
  then have "db s1 = db s" using steps_run [OF node_step_same_db] by blast
  with ran(2) show ?thesis by (auto dest: save_and_log_Inl)
qed

lemma op_ssh:
  assumes "op E acc adm s = (Inr acc', t)" and "acc_protocol_type acc = SSH"
  shows "\<exists>srv evs. db_server (db s) (acc_server acc) = Some srv \<and>
           session_trace srv (cmds (acc_username acc)) evs \<and> io t = io s @ evs"
proof -
  from assms(1) obtain x s1 where node: "node_step E acc (tok E) (cmd E) s = (Inr x, s1)"
    and rest: "save_and_log E (acc\<lparr>acc_status := st\<rparr>) [F_status, F_updated_at] act adm '''' s1 = (Inr acc', t)"
    unfolding op_shape by (rule py_then_InrE)
  from rest have io1: "io t = io s1" by (rule save_and_log_Inr) simp_all
  from node assms(2) obtain srv s2 where srv: "get_server (acc_server acc) s = (Inr srv, s2)"
    and ssh: "with_ssh E srv (\<lambda>ssh. py_then (cmd E ssh (acc_username acc)) (py_return ())) s2 = (Inr x, s1)"
    by (auto simp: node_step_def elim: py_bind_InrE)
  have s2: "s2 = s" "db_server (db s) (acc_server acc) = Some srv" using srv by (simp_all add: get_server_Inr)
  have "runs c (cmds (acc_username acc)) u v"
    if "py_then (cmd E (connected srv c) (acc_username acc)) (py_return ()) u = (Inr x, v)" for c u v
    using that by (rule py_then_InrE) (auto simp: py_return_def intro: cmd_runs)
  from with_ssh_runs [OF ssh this] s2 io1 show ?thesis by auto
qed

lemma op_shadowlink:
  assumes "op E acc adm s = (r, t)" and "acc_protocol_type acc = SHADOWLINK"
    and srv: "db_server (db s) (acc_server acc) = Some srv"
  shows "io t = io s @ [Http (token_request srv path (acc_auth_token acc))]"
proof -
  obtain q s1 where tok: "tok E srv (uuid_str (acc_auth_token acc)) s = (q, s1)" by fastforce
  have get: "get_server (acc_server acc) s = (Inr srv, s)" using srv by (simp add: get_server_Inr)
  have node: "node_step E acc (tok E) (cmd E) s = (Inr (), s1)"
    using tok get assms(2)
    by (cases q) (simp_all add: node_step_def py_try_def py_bind_def py_then_def py_return_def)
  with assms(1) have "save_and_log E (acc\<lparr>acc_status := st\<rparr>) [F_status, F_updated_at] act adm '''' s1 = (r, t)"
    by (simp add: op_shape py_then_Inr)
  then have "io t = io s1"
    by (cases r) (auto dest: save_and_log_Inl elim: save_and_log_Inr)
  with tok_run [OF tok] show ?thesis by simp
qed

text \<open>For a ShadowLink account the operation never raises: the bridge cannot stop it.\<close>

lemma op_returns:
  assumes "db_wf (db s)" and "db_account (db s) (acc_id acc) = Some r"
    and "acc_protocol_type acc = SHADOWLINK"
  shows "\<exists>acc' t. op E acc adm s = (Inr acc', t)"
proof -
  have "\<exists>s1. node_step E acc (tok E) (cmd E) s = (Inr (), s1)"
    using assms(3)
    by (auto simp: node_step_def py_try_def py_return_def split: prod.splits sum.splits)
  then obtain s1 where node: "node_step E acc (tok E) (cmd E) s = (Inr (), s1)" by blast
  have db1: "db s1 = db s" using node_step_same_db node by (rule steps_run)
  have "account_violation (db s) (r\<lparr>acc_status := st, acc_updated_at := u\<rparr>) = None" for u
    by (rule violation_of_row [OF assms(1,2)]) (simp_all add: same_identity_def)
  then have "\<exists>acc' t. save_and_log E (acc\<lparr>acc_status := st\<rparr>) [F_status, F_updated_at] act adm '''' s1 = (Inr acc', t)"
    using assms(2) by (intro save_and_log_returns) (simp_all add: db1 write_account_def)
  with node show ?thesis by (simp add: op_shape py_then_Inr)
qed

end

text \<open>The commands and requests of the three.\<close>

definition delete_commands :: "string \<Rightarrow> string list" where
  "delete_commands user =
     [''pkill -u '' @ shell_quote user @ '' || true'', ''userdel -rf '' @ shell_quote user]"

definition lock_commands :: "string \<Rightarrow> string list" where
  "lock_commands user = [''usermod -L '' @ shell_quote user]"

definition unlock_commands :: "string \<Rightarrow> string list" where
  "unlock_commands user = [''usermod -U '' @ shell_quote user]"

lemma delete_user_runs:
  assumes "delete_user E (connected srv c) user s = (Inr x, t)"
  shows "runs c (delete_commands user) s t"
proof -
  from assms obtain y s1 where "run E (connected srv c) (''pkill -u '' @ shell_quote user @ '' || true'') s = (Inr y, s1)"
    "run E (connected srv c) (''userdel -rf '' @ shell_quote user) s1 = (Inr x, t)"
    unfolding delete_user_def by (rule py_then_InrE)
  then show ?thesis by (simp add: delete_commands_def runs_def run_connected)
qed

interpretation del: lifecycle delete_account deregister_token delete_user Deleted DELETE
  "''/api/tokens/delete''" delete_commands
proof
  show "delete_account E acc adm = py_then (node_step E acc (deregister_token E) (delete_user E))
      (save_and_log E (acc\<lparr>acc_status := Deleted\<rparr>) [F_status, F_updated_at] DELETE adm '''')"
    for E :: "'w env" and acc adm
    by (simp add: delete_account_def node_step_def save_and_log_def)
qed (auto simp: deregister_token_def token_request_def delete_user_runs intro: steps_intro
    dest: bridge_request_run)

interpretation sus: lifecycle suspend_account suspend_token lock_user Suspended SUSPEND
  "''/api/tokens/suspend''" lock_commands
proof
  show "suspend_account E acc adm = py_then (node_step E acc (suspend_token E) (lock_user E))
      (save_and_log E (acc\<lparr>acc_status := Suspended\<rparr>) [F_status, F_updated_at] SUSPEND adm '''')"
    for E :: "'w env" and acc adm
    by (simp add: suspend_account_def node_step_def save_and_log_def)
qed (auto simp: suspend_token_def token_request_def lock_user_def lock_commands_def intro: steps_intro
    dest: bridge_request_run run_runs)

interpretation act: lifecycle activate_account activate_token unlock_user Active ACTIVATE
  "''/api/tokens/activate''" unlock_commands
proof
  show "activate_account E acc adm = py_then (node_step E acc (activate_token E) (unlock_user E))
      (save_and_log E (acc\<lparr>acc_status := Active\<rparr>) [F_status, F_updated_at] ACTIVATE adm '''')"
    for E :: "'w env" and acc adm
    by (simp add: activate_account_def node_step_def save_and_log_def)
qed (auto simp: activate_token_def token_request_def unlock_user_def unlock_commands_def intro: steps_intro
    dest: bridge_request_run run_runs)

end
