(* ===== verification/CreateFacts.thy ===== *)
theory CreateFacts
  imports AccountFacts
begin

text \<open>
  Choosing a server, creating accounts one at a time and in bulk, extending an
  account and resetting its password: what each call leaves in the database and
  on the node, on the normal exit and on an exception.
\<close>

section \<open>Choosing a server\<close>

lemma find_sorted_least:
  "sorted (map f xs) \<Longrightarrow> find P xs = Some x \<Longrightarrow> y \<in> set xs \<Longrightarrow> P y \<Longrightarrow> f x \<le> f y"
  by (induction xs) (auto split: if_splits)

definition eligible :: "database \<Rightarrow> server list" where
  "eligible d = by_cpu (filter (\<lambda>r. srv_status r = SrvActive) (servers d))"

lemma pick_best_server_run:
  "pick_best_server pref s =
     (case pref of
        Some srv \<Rightarrow> if is_available (db s) srv then (Inr srv, s)
                    else (case find (is_available (db s)) (eligible (db s)) of
                            Some r \<Rightarrow> (Inr r, s) | None \<Rightarrow> (Inl no_server, s))
      | None \<Rightarrow> (case find (is_available (db s)) (eligible (db s)) of
                   Some r \<Rightarrow> (Inr r, s) | None \<Rightarrow> (Inl no_server, s)))"
  by (simp add: pick_best_server_def query_def py_bind_def py_get_def py_return_def py_raise_def
      eligible_def split: option.split)

lemma pick_best_server_Inr:
  assumes "pick_best_server pref s = (Inr srv, t)"
  shows "t = s" and "is_available (db s) srv"
    and "pref = Some srv \<or> srv \<in> set (servers (db s)) \<and>
      (\<forall>r \<in> set (servers (db s)). is_available (db s) r \<longrightarrow> srv_cpu_usage srv \<le> srv_cpu_usage r)"
proof -
  have found: "is_available (db s) r \<and> r \<in> set (servers (db s)) \<and>
      (\<forall>q \<in> set (servers (db s)). is_available (db s) q \<longrightarrow> srv_cpu_usage r \<le> srv_cpu_usage q)"
    if "find (is_available (db s)) (eligible (db s)) = Some r" for r
    using find_SomeD [OF that] find_sorted_least [of srv_cpu_usage, OF _ that]
    by (auto simp: eligible_def by_cpu_def is_available_def)
  show "t = s"
    using assms by (auto simp: pick_best_server_run split: option.splits if_splits)
  then have run: "pick_best_server pref s = (Inr srv, s)" using assms by simp
  show "is_available (db s) srv"
    using run found by (auto simp: pick_best_server_run split: option.splits if_splits)
  show "pref = Some srv \<or> srv \<in> set (servers (db s)) \<and>
      (\<forall>r \<in> set (servers (db s)). is_available (db s) r \<longrightarrow> srv_cpu_usage srv \<le> srv_cpu_usage r)"
    using run by (auto simp: pick_best_server_run dest: found split: option.splits if_splits)
qed

lemma pick_best_server_Inl:
  assumes "pick_best_server pref s = (Inl e, t)"
  shows "t = s \<and> e = no_server \<and> (\<forall>r \<in> set (servers (db s)). \<not> is_available (db s) r) \<and>
    (\<forall>srv. pref = Some srv \<longrightarrow> \<not> is_available (db s) srv)"
proof -
  have "\<not> is_available (db s) r"
    if "find (is_available (db s)) (eligible (db s)) = None" "r \<in> set (servers (db s))" for r
    using find_NoneD [OF that(1), of r] that(2)
    by (auto simp: eligible_def by_cpu_def is_available_def)
  with assms show ?thesis
    by (auto simp: pick_best_server_run split: option.splits if_splits)
qed


section \<open>Creating an account\<close>

lemma atomic_Inr: "atomic m s = (Inr x, t) \<longleftrightarrow> m s = (Inr x, t)"
  by (auto simp: atomic_def split: prod.splits sum.splits)

text \<open>The tables, without the sequences.\<close>

definition same_tables :: "database \<Rightarrow> database \<Rightarrow> bool" where
  "same_tables d d' \<longleftrightarrow>
     servers d' = servers d \<and> plans d' = plans d \<and> accounts d' = accounts d \<and>
     sessions d' = sessions d \<and> logs d' = logs d"

lemma atomic_Inl: "atomic m s = (Inl e, t) \<Longrightarrow> same_tables (db s) (db t)"
  by (auto simp: atomic_def same_tables_def rollback_def split: prod.splits sum.splits)

lemma generate_password_quiet [steps_intro]: "steps quiet (generate_password E n)"
  unfolding generate_password_def by (intro steps_intro)

lemma create_account_row_Inr:
  assumes "create_account_row E a s = (Inr b, t)"
  obtains access auth created updated where
    "b = a\<lparr>acc_access_token := access, acc_auth_token := auth, acc_created_at := created,
           acc_updated_at := updated, acc_id := next_account (db s)\<rparr>"
    "db t = (db s)\<lparr>next_account := next_account (db s) + 1, accounts := accounts (db s) @ [b]\<rparr>"
    "account_violation ((db s)\<lparr>next_account := next_account (db s) + 1\<rparr>) b = None" "io t = io s"
proof -
  from assms obtain access auth created updated s4 where q: "quiet s s4"
    and ins: "on_db (insert_account (a\<lparr>acc_access_token := access, acc_auth_token := auth,
            acc_created_at := created, acc_updated_at := updated\<rparr>)) s4 = (Inr b, t)"
    unfolding create_account_row_def
    by (elim py_bind_InrE)
       ((drule steps_run [OF ask_quiet] steps_run [OF now_quiet])+, rule that [rotated], assumption, simp)
  let ?d = "(db s)\<lparr>next_account := next_account (db s) + 1\<rparr>"
  let ?b = "a\<lparr>acc_access_token := access, acc_auth_token := auth, acc_created_at := created,
           acc_updated_at := updated, acc_id := next_account (db s)\<rparr>"
  have "account_violation ?d ?b = None \<and> b = ?b \<and>
      db t = (db s)\<lparr>next_account := next_account (db s) + 1, accounts := accounts (db s) @ [b]\<rparr> \<and> io t = io s"
    using ins q
    by (simp add: on_db_def insert_account_def Let_def split: prod.splits option.splits) auto
  then show ?thesis by (intro that) simp_all
qed

text \<open>A time the clock of the environment shows.\<close>

definition clock_reads :: "'w env \<Rightarrow> datetime \<Rightarrow> bool" where
  "clock_reads E u \<longleftrightarrow> (\<exists>w. fst (env_clock E w) = u)"

lemma now_reads: "now E s = (Inr u, t) \<Longrightarrow> u = fst (env_clock E (world s)) \<and> clock_reads E u"
  by (auto simp: now_def ask_def clock_reads_def split: prod.splits intro!: exI [of _ "world s"])

text \<open>What \<open>create_account\<close> did when it returned.\<close>

definition created_from :: "create_args \<Rightarrow> server \<Rightarrow> datetime \<Rightarrow> account \<Rightarrow> bool" where
  "created_from args srv t a \<longleftrightarrow>
     acc_username a = arg_username args \<and> acc_server a = srv_id srv \<and>
     acc_plan a = Some (plan_id (arg_plan args)) \<and>
     acc_protocol_type a = default_to (arg_protocol_type args) (srv_protocol_type srv) \<and>
     acc_status a = Active \<and>
     acc_expire_date a = t + default_to (arg_duration_days args) (plan_duration_days (arg_plan args)) * day_us \<and>
     acc_max_connections a = default_to (arg_max_connections args) (plan_max_connections (arg_plan args)) \<and>
     acc_bandwidth_limit_gb a = default_to (arg_bandwidth_limit_gb args) (plan_bandwidth_limit_gb (arg_plan args)) \<and>
     acc_bandwidth_used_gb a = 0 \<and> acc_created_by a = arg_admin_user args \<and>
     (acc_protocol_type a = SHADOWLINK \<longrightarrow> acc_password_display a = '''')"

lemma create_account_Inr:
  assumes "create_account E args s = (Inr a, t)"
  obtains srv u password s1 s2 where
    "pick_best_server (arg_server args) s = (Inr srv, s)" "created_from args srv u a" "clock_reads E u"
    "account_violation ((db s)\<lparr>next_account := next_account (db s) + 1\<rparr>) a = None"
    "accounts (db t) = accounts (db s) @ [a]"
    "servers (db t) = servers (db s)" "plans (db t) = plans (db s)" "sessions (db t) = sessions (db s)"
    "audited CREATE (acc_id a) (arg_admin_user args)
       (''Plan='' @ plan_name (arg_plan args) @ '', Server='' @ srv_name srv @
        '', Protocol='' @ protocol_value (acc_protocol_type a)) (db s) (db t)"
    "io s1 = io s" "io t = io s2"
    "acc_password_display a = (if acc_protocol_type a = SSH then password else '''')"
    "(if acc_protocol_type a = SHADOWLINK
      then provision_shadowlink_account E a srv (acc_max_connections a)
      else provision_ssh_account E srv (acc_username a) password (acc_expire_date a)
             (acc_max_connections a) (acc_bandwidth_limit_gb a)) s1 = (Inr (), s2)"
  using assms
  unfolding create_account_def atomic_Inr Let_def
  apply (elim py_bind_InrE py_then_InrE)
  subgoal premises prems for srv s0 password s1 u s2 expire s3 b s4 x s5 l s6
  proof -
    have s0: "s0 = s" using prems(2) by (rule pick_best_server_Inr)
    have pw: "quiet s s1"
    proof -
      have "steps quiet (if default_to (arg_password args) [] \<noteq> [] then py_return (default_to (arg_password args) [])
              else generate_password E 12)" by (intro steps_intro)
      from steps_run [OF this prems(3)] show ?thesis by (simp add: s0)
    qed
    have t: "quiet s1 s2" using prems(4) steps_run [OF now_quiet] by blast
    have ex: "expire = u + default_to (arg_duration_days args) (plan_duration_days (arg_plan args)) * day_us" "s3 = s2"
      using prems(5) by (auto simp: lift_result_def py_return_def py_raise_def dest: add_days_Inr split: sum.splits)
    show ?thesis
    proof (rule create_account_row_Inr [OF prems(6)], goal_cases)
      case (1 access auth created updated)
      note row = 1
      have b: "b = a" "t = s6" using prems(9) by (simp_all add: py_return_def)
      have quiet3: "quiet s s3" using pw t ex(2) by simp
      have fields: "created_from args srv u a"
        "acc_password_display a = (if acc_protocol_type a = SSH then password else '''')"
        using 1(1) b(1) ex(1) by (simp_all add: created_from_def)
      have ex_fields: "acc_username a = arg_username args" "acc_expire_date a = expire"
        "acc_protocol_type a = default_to (arg_protocol_type args) (srv_protocol_type srv)"
        "acc_max_connections a = default_to (arg_max_connections args) (plan_max_connections (arg_plan args))"
        "acc_bandwidth_limit_gb a = default_to (arg_bandwidth_limit_gb args) (plan_bandwidth_limit_gb (arg_plan args))"
        using 1(1) b(1) by simp_all
      let ?act = "if acc_protocol_type a = SHADOWLINK
        then provision_shadowlink_account E a srv (acc_max_connections a)
        else provision_ssh_account E srv (acc_username a) password (acc_expire_date a)
               (acc_max_connections a) (acc_bandwidth_limit_gb a)"
      have act: "?act s4 = (Inr (), s5)"
        using prems(7) unfolding b(1) ex_fields unit_eq [of x] .
      have "steps same_db ?act" by (intro steps_intro)
      then have db5: "db s5 = db s4" using act by (rule steps_run)
      show ?case
        using prems(8)
      proof (rule create_log_Inr, goal_cases)
        case (1 v)
        show ?case
        proof (rule that [of srv u s4 s5 password])
          show "pick_best_server (arg_server args) s = (Inr srv, s)" using prems(2) s0 by simp
          show "clock_reads E u" using now_reads [OF prems(4)] by blast
          show "account_violation ((db s)\<lparr>next_account := next_account (db s) + 1\<rparr>) a = None"
            using row(3) quiet3 b by simp
          show "audited CREATE (acc_id a) (arg_admin_user args)
             (''Plan='' @ plan_name (arg_plan args) @ '', Server='' @ srv_name srv @
              '', Protocol='' @ protocol_value (acc_protocol_type a)) (db s) (db t)"
            unfolding audited_def b(2) 1(1) db5 row(2) ex_fields b(1) by (simp add: quiet3)
          show "(if acc_protocol_type a = SHADOWLINK
            then provision_shadowlink_account E a srv (acc_max_connections a)
            else provision_ssh_account E srv (acc_username a) password (acc_expire_date a)
                   (acc_max_connections a) (acc_bandwidth_limit_gb a)) s4 = (Inr (), s5)"
            by (rule act)
        qed (use fields quiet3 row(2,4) 1 b db5 in simp_all)
      qed
    qed
  qed
  done


text \<open>The room a server has: \<open>create_account\<close> never fills it beyond \<open>max_users\<close>.\<close>

lemma create_account_capacity:
  assumes "create_account E args s = (Inr a, t)"
  obtains srv where "is_available (db s) srv" "acc_server a = srv_id srv"
    "current_user_count (db t) srv = current_user_count (db s) srv + 1"
    "int (current_user_count (db t) srv) \<le> srv_max_users srv"
  using assms
proof (rule create_account_Inr)
  fix srv u
  assume pick: "pick_best_server (arg_server args) s = (Inr srv, s)" and new: "created_from args srv u a"
    and accs: "accounts (db t) = accounts (db s) @ [a]"
  have avail: "is_available (db s) srv" using pick by (rule pick_best_server_Inr)
  have one: "current_user_count (db t) srv = current_user_count (db s) srv + 1"
    using new by (simp add: current_user_count_def accs created_from_def)
  with avail new show ?thesis
    by (intro that) (auto simp: is_available_def created_from_def)
qed

section \<open>What provisioning sends to the node\<close>

definition execs :: "nat \<Rightarrow> 'w sys \<Rightarrow> 'w sys \<Rightarrow> bool" where
  "execs c s t \<longleftrightarrow> db t = db s \<and> (\<exists>cmds. io t = io s @ map (Exec c) cmds)"

interpretation execs: effect "execs c" for c
proof
  show "execs c s s" for s by (simp add: execs_def exI [of _ "[]"])
  show "execs c s u" if "execs c s t" "execs c t u" for s t u
    using that by (auto simp: execs_def) (metis map_append)
qed

lemma run_execs [steps_intro]: "steps (execs c) (run E (connected srv c) cmd)"
proof (rule stepsI)
  fix s
  show "execs c s (snd (run E (connected srv c) cmd s))"
    using run_connected [of E srv c cmd s] by (cases "run E (connected srv c) cmd s")
      (auto simp: execs_def intro: exI [of _ "[cmd]"])
qed

lemma set_max_logins_execs [steps_intro]: "steps (execs c) (set_max_logins E (connected srv c) user n)"
  unfolding set_max_logins_def ensure_maxlogin_script_def Let_def by (intro steps_intro)

lemma setup_traffic_accounting_execs [steps_intro]:
  "steps (execs c) (setup_traffic_accounting E (connected srv c) user)"
  unfolding setup_traffic_accounting_def Let_def by (intro steps_intro)

definition set_password_command :: "string \<Rightarrow> string \<Rightarrow> string" where
  "set_password_command user pw = ''echo '' @ shell_quote user @ '':'' @ shell_quote pw @ '' | chpasswd''"

definition create_commands :: "string \<Rightarrow> string \<Rightarrow> datetime \<Rightarrow> string list" where
  "create_commands user pw expire =
     [''useradd -m -s /bin/false '' @ shell_quote user, set_password_command user pw,
      ''chage -E '' @ shell_quote (strftime_ymd expire) @ '' '' @ shell_quote user]"

definition exits_zero :: "'w env \<Rightarrow> nat \<Rightarrow> string \<Rightarrow> bool" where
  "exits_zero E c cmd \<longleftrightarrow> (\<exists>w out err. fst (env_exec E c cmd 30 w) = Inr (0, out, err))"

lemma run_ok_exits_zero:
  "run E (connected srv c) cmd s = (Inr r, t) \<Longrightarrow> ok r \<Longrightarrow> exits_zero E c cmd"
  by (auto simp: run_def connected_def py_bind_def py_return_def call_def ok_def exits_zero_def
      intro!: exI [of _ "world s"] split: prod.splits sum.splits)

lemma provision_ssh_Inr:
  assumes "provision_ssh_account E srv user pw expire n b s = (Inr (), t)"
  obtains args c rest where "dials srv args"
    "io t = io s @ [Connect args] @ map (Exec c) (create_commands user pw expire @ rest) @ [Close c]"
    "exits_zero E c (set_password_command user pw)"
  using assms unfolding provision_ssh_account_def
proof (rule with_ssh_InrE)
  fix c args s1 s2
  assume dial: "dials srv args" and io1: "io s1 = io s @ [Connect args]" and io2: "io t = io s2 @ [Close c]"
    and body: "py_bind (create_user E (connected srv c) user pw) (\<lambda>result.
         if \<not> ok result
         then py_raise (AccountError (''Remote user creation failed: '' @ stderr result))
         else
           py_then (set_expiry E (connected srv c) user (strftime_ymd expire))
          (py_then (set_max_logins E (connected srv c) user n)
             (py_when (b > 0) (setup_traffic_accounting E (connected srv c) user)))) s1 = (Inr (), s2)"
  let ?rest = "py_then (set_max_logins E (connected srv c) user n)
             (py_when (b > 0) (setup_traffic_accounting E (connected srv c) user))"
  from body obtain r s3 where cu: "create_user E (connected srv c) user pw s1 = (Inr r, s3)" and "ok r"
    and more: "py_then (set_expiry E (connected srv c) user (strftime_ymd expire)) ?rest s3 = (Inr (), s2)"
    by (elim py_bind_InrE) (auto simp: py_raise_def split: if_splits)
  from more obtain x s4 where exp: "set_expiry E (connected srv c) user (strftime_ymd expire) s3 = (Inr x, s4)"
    and rest: "?rest s4 = (Inr (), s2)"
    by (rule py_then_InrE)
  from cu obtain y s5 where ua: "run E (connected srv c) (''useradd -m -s /bin/false '' @ shell_quote user) s1 = (Inr y, s5)"
    and pwd: "run E (connected srv c) (set_password_command user pw) s5 = (Inr r, s3)"
    unfolding create_user_def set_password_command_def by (rule py_then_InrE)
  have "steps (execs c) ?rest" by (intro steps_intro)
  then have "execs c s4 s2" using rest by (rule steps_run)
  then obtain cmds where cmds: "io s2 = io s4 @ map (Exec c) cmds" by (auto simp: execs_def)
  have zero: "exits_zero E c (set_password_command user pw)" using pwd \<open>ok r\<close> by (rule run_ok_exits_zero)
  have "io s4 = io s1 @ map (Exec c) (create_commands user pw expire)"
    using run_connected [OF ua] run_connected [OF pwd] run_connected [OF exp [unfolded set_expiry_def]]
    by (simp add: create_commands_def)
  with zero dial io1 io2 cmds show ?thesis by (intro that [of args c cmds]) simp_all
qed


section \<open>Bulk creation\<close>

lemma default_args_username [simp]: "arg_username (default_args u p) = u"
  by (simp add: default_args_def)

definition bulk_result :: "string \<Rightarrow> nat list \<Rightarrow> account list \<Rightarrow> database \<Rightarrow> database \<Rightarrow> bool" where
  "bulk_result prefix is new d d' \<longleftrightarrow>
     map acc_username new = map (bulk_username prefix) (take (length new) is) \<and>
     length new \<le> length is \<and> accounts d' = accounts d @ new \<and> servers d' = servers d \<and>
     (\<exists>ls. logs d' = logs d @ ls \<and> map log_account ls = map (\<lambda>a. Some (acc_id a)) new \<and>
           (\<forall>l \<in> set ls. log_action l = CREATE))"

lemma bulk_result_Nil: "same_tables d d' \<Longrightarrow> bulk_result prefix is [] d d'"
  by (simp add: bulk_result_def same_tables_def)

lemma bulk_result_Cons:
  assumes "acc_username a = bulk_username prefix i" "accounts d1 = accounts d @ [a]"
    "servers d1 = servers d" "audited CREATE (acc_id a) adm det d d1"
    and "bulk_result prefix is new d1 d2"
  shows "bulk_result prefix (i # is) (a # new) d d2"
proof -
  obtain l where l: "logs d1 = logs d @ [l]" "log_action l = CREATE" "log_account l = Some (acc_id a)"
    using assms(4) by (auto simp: audited_def)
  obtain ls where ls: "logs d2 = logs d1 @ ls" "map log_account ls = map (\<lambda>a. Some (acc_id a)) new"
    "\<forall>l \<in> set ls. log_action l = CREATE"
    using assms(5) by (auto simp: bulk_result_def)
  have "logs d2 = logs d @ (l # ls)" "map log_account (l # ls) = map (\<lambda>a. Some (acc_id a)) (a # new)"
    "\<forall>l \<in> set (l # ls). log_action l = CREATE"
    using l ls by simp_all
  then have "\<exists>ls. logs d2 = logs d @ ls \<and> map log_account ls = map (\<lambda>a. Some (acc_id a)) (a # new) \<and>
           (\<forall>l \<in> set ls. log_action l = CREATE)" by blast
  with assms show ?thesis by (simp add: bulk_result_def)
qed

text \<open>One round of the loop: either the account is created, or the loop ends, or it raises.\<close>

lemma bulk_loop_round:
  assumes "bulk_loop E prefix p srv adm accs (i # is) s = (r, t)"
  obtains (made) a u where
      "create_account E ((default_args (bulk_username prefix i) p)\<lparr>arg_server := srv, arg_admin_user := adm\<rparr>) s
         = (Inr a, u)"
      "bulk_loop E prefix p srv adm (accs @ [a]) is u = (r, t)"
  | (stopped) m where "r = Inr accs" "same_tables (db s) (db t)"
      "create_account E ((default_args (bulk_username prefix i) p)\<lparr>arg_server := srv, arg_admin_user := adm\<rparr>) s
         = (Inl (AccountError m), t)"
  | (raised) e where "r = Inl e" "same_tables (db s) (db t)" "\<And>m. e \<noteq> AccountError m"
proof (cases "create_account E ((default_args (bulk_username prefix i) p)\<lparr>arg_server := srv, arg_admin_user := adm\<rparr>) s")
  case (Pair q u)
  show ?thesis
  proof (cases q)
    case (Inl e)
    with Pair have same: "same_tables (db s) (db u)"
      unfolding create_account_def by (auto dest: atomic_Inl)
    show ?thesis
    proof (cases e)
      case (AccountError m)
      with Pair Inl assms have "r = Inr accs" "t = u"
        by (simp_all add: py_bind_def py_try_def py_return_def)
      with stopped same Pair Inl AccountError show ?thesis by blast
    qed (use Pair Inl assms raised same in \<open>auto simp: py_bind_def py_try_def py_raise_def\<close>)
  next
    case (Inr a)
    with Pair assms have "bulk_loop E prefix p srv adm (accs @ [a]) is u = (r, t)"
      by (simp add: py_bind_def py_try_def py_return_def)
    with Pair Inr show ?thesis by (intro made) auto
  qed
qed

lemma bulk_loop_Inr:
  "bulk_loop E prefix p srv adm accs is s = (Inr r, t) \<Longrightarrow>
   \<exists>new. r = accs @ new \<and> bulk_result prefix is new (db s) (db t)"
proof (induction "is" arbitrary: accs s)
  case Nil
  then show ?case
    by (auto simp: py_return_def same_tables_def intro: bulk_result_Nil)
next
  case (Cons i "is")
  from Cons.prems show ?case
  proof (cases rule: bulk_loop_round)
    case (made a u)
    from made(1) obtain srv' v det where facts: "created_from
        ((default_args (bulk_username prefix i) p)\<lparr>arg_server := srv, arg_admin_user := adm\<rparr>) srv' v a"
        "accounts (db u) = accounts (db s) @ [a]" "servers (db u) = servers (db s)"
        "audited CREATE (acc_id a) adm det (db s) (db u)"
      by (rule create_account_Inr) (simp add: that)
    from Cons.IH [OF made(2)] obtain new where
      new: "r = (accs @ [a]) @ new" "bulk_result prefix is new (db u) (db t)" by blast
    with facts have "bulk_result prefix (i # is) (a # new) (db s) (db t)"
      by (intro bulk_result_Cons [of a prefix i "db u" "db s" adm det]) (simp_all add: created_from_def)
    with new(1) show ?thesis by auto
  next
    case (stopped m)
    then show ?thesis by (auto intro: bulk_result_Nil)
  qed auto
qed

lemma bulk_loop_Inl:
  "bulk_loop E prefix p srv adm accs is s = (Inl e, t) \<Longrightarrow> e \<noteq> AccountError m"
proof (induction "is" arbitrary: accs s)
  case Nil
  then show ?case by (simp add: py_return_def)
next
  case (Cons i "is")
  from Cons.prems show ?case
    by (cases rule: bulk_loop_round) (use Cons.IH in blast)+
qed


section \<open>Extending an account\<close>

lemma extend_Inr:
  assumes "extend E acc days s = (Inr acc', t)"
  obtains t0 u where "t0 = fst (env_clock E (world s))"
    "acc' = acc\<lparr>acc_expire_date := max (acc_expire_date acc) t0 + days * day_us, acc_status := Active,
                acc_updated_at := u\<rparr>"
    "row_written (acc_id acc) (\<lambda>r. r\<lparr>acc_expire_date := acc_expire_date acc', acc_status := Active,
                acc_updated_at := u\<rparr>) (db s) (db t)"
    "logs (db t) = logs (db s)" "io t = io s"
proof -
  from assms obtain t0 s1 x s2 where now: "now E s = (Inr t0, s1)"
    and x: "lift_result (add_days (max (acc_expire_date acc) t0) days) s1 = (Inr x, s2)"
    and save: "save_account E (acc\<lparr>acc_expire_date := x, acc_status := Active\<rparr>)
         [F_expire_date, F_status, F_updated_at] s2 = (Inr acc', t)"
    unfolding extend_def by (elim py_bind_InrE) blast
  have s2: "quiet s s2"
    using steps_run [OF now_quiet now] steps_run [OF lift_result_quiet x] by simp
  have x_eq: "x = max (acc_expire_date acc) t0 + days * day_us"
    using x by (auto simp: lift_result_def py_return_def py_raise_def dest: add_days_Inr split: sum.splits)
  let ?acc = "acc\<lparr>acc_expire_date := x, acc_status := Active\<rparr>"
  have F: "F_updated_at \<in> set [F_expire_date, F_status, F_updated_at]" by simp
  from save F obtain u r where acc': "acc' = ?acc\<lparr>acc_updated_at := u\<rparr>"
    and row: "db_account (db s2) (acc_id ?acc) = Some r"
    and dbt: "db t = (db s2)\<lparr>accounts := replace_key acc_id (acc_id ?acc)
        (write_account acc' [F_expire_date, F_status, F_updated_at]) (accounts (db s2))\<rparr>"
    and io: "io t = io s2"
    by (rule save_account_Inr)
  have w: "write_account acc' [F_expire_date, F_status, F_updated_at] =
      (\<lambda>r. r\<lparr>acc_expire_date := acc_expire_date acc', acc_status := Active, acc_updated_at := u\<rparr>)"
    by (simp add: write_account_def acc' fun_eq_iff)
  have "row_written (acc_id acc) (\<lambda>r. r\<lparr>acc_expire_date := acc_expire_date acc', acc_status := Active,
                acc_updated_at := u\<rparr>) (db s) (db t)"
    unfolding row_written_def dbt w
    using row by (auto simp: s2 db_account_update_same db_account_update_other)
  with io show ?thesis
    using now_reads [OF now] by (intro that [of t0 u]) (simp_all add: acc' x_eq s2 dbt)
qed

definition expiry_command :: "string \<Rightarrow> datetime \<Rightarrow> string" where
  "expiry_command user expire = ''chage -E '' @ shell_quote (strftime_ymd expire) @ '' '' @ shell_quote user"

definition extend_detail :: "int \<Rightarrow> datetime \<Rightarrow> string" where
  "extend_detail days expire = ''+'' @ show_int days @ '' days '' @ arrow @ '' '' @ strftime_ymd expire"

lemma extend_account_Inr:
  assumes "extend_account E acc days adm s = (Inr acc', t)"
  obtains t0 u srv evs where "t0 = fst (env_clock E (world s))"
    "acc' = acc\<lparr>acc_expire_date := max (acc_expire_date acc) t0 + days * day_us, acc_status := Active,
                acc_updated_at := u\<rparr>"
    "row_written (acc_id acc) (\<lambda>r. r\<lparr>acc_expire_date := acc_expire_date acc', acc_status := Active,
                acc_updated_at := u\<rparr>) (db s) (db t)"
    "audited EXTEND (acc_id acc) adm (extend_detail days (acc_expire_date acc')) (db s) (db t)"
    "db_server (db s) (acc_server acc) = Some srv"
    "session_trace srv [expiry_command (acc_username acc) (acc_expire_date acc')] evs" "io t = io s @ evs"
proof -
  from assms obtain b s1 srv s1' x s2 l s3 where ext: "extend E acc days s = (Inr b, s1)"
    and srv: "get_server (acc_server b) s1 = (Inr srv, s1')"
    and ssh: "with_ssh E srv (\<lambda>ssh.
          py_then (set_expiry E ssh (acc_username b) (strftime_ymd (acc_expire_date b)))
            (py_when (acc_status b = Expired)
              (py_then (unlock_user E ssh (acc_username b)) (py_return ())))) s1' = (Inr x, s2)"
    and log: "create_log E EXTEND (acc_id b) adm
                (''+'' @ show_int days @ '' days '' @ arrow @ '' '' @ strftime_ymd (acc_expire_date b)) s2 = (Inr l, s3)"
    and ret: "py_return b s3 = (Inr acc', t)"
    unfolding extend_account_def by (elim py_bind_InrE py_then_InrE) blast
  have same: "b = acc'" "s3 = t" using ret by (simp_all add: py_return_def)
  have s1: "s1' = s1" "db_server (db s1) (acc_server acc') = Some srv"
    using srv by (simp_all add: get_server_Inr same)
  from ext obtain t0 u where t0: "t0 = fst (env_clock E (world s))" and acc': "acc' = acc\<lparr>acc_expire_date := max (acc_expire_date acc) t0 + days * day_us,
        acc_status := Active, acc_updated_at := u\<rparr>"
    and row: "row_written (acc_id acc) (\<lambda>r. r\<lparr>acc_expire_date := acc_expire_date acc', acc_status := Active,
                acc_updated_at := u\<rparr>) (db s) (db s1)"
    and logs1: "logs (db s1) = logs (db s)" and io1: "io s1 = io s"
    unfolding same by (rule extend_Inr)
  have fields: "acc_status acc' = Active" "acc_username acc' = acc_username acc" "acc_id acc' = acc_id acc"
    "acc_server acc' = acc_server acc"
    by (simp_all add: acc')
  have body: "runs c [expiry_command (acc_username acc) (acc_expire_date acc')] v w"
    if "py_then (set_expiry E (connected srv c) (acc_username b) (strftime_ymd (acc_expire_date b)))
            (py_when (acc_status b = Expired)
              (py_then (unlock_user E (connected srv c) (acc_username b)) (py_return ()))) v = (Inr x, w)" for c v w
    using that
    by (elim py_then_InrE)
       (auto simp: same fields py_return_def set_expiry_def expiry_command_def dest: run_runs)
  from with_ssh_runs [OF ssh body] obtain evs where db2: "db s2 = db s1"
    and evs: "session_trace srv [expiry_command (acc_username acc) (acc_expire_date acc')] evs" "io s2 = io s1 @ evs"
    by (auto simp: s1)
  from log show ?thesis
  proof (rule create_log_Inr)
    fix v
    assume dbt: "db s3 = (db s2)\<lparr>next_log := next_log (db s2) + 1,
       logs := logs (db s2) @ [\<lparr>log_id = next_log (db s2), log_action = EXTEND, log_account = Some (acc_id b),
         log_admin_user = adm, log_detail = ''+'' @ show_int days @ '' days '' @ arrow @ '' '' @
           strftime_ymd (acc_expire_date b), log_created_at = v\<rparr>]\<rparr>" and iot: "io s3 = io s2"
    have "row_written (acc_id acc) (\<lambda>r. r\<lparr>acc_expire_date := acc_expire_date acc', acc_status := Active,
                acc_updated_at := u\<rparr>) (db s) (db t)"
      using row unfolding row_written_def same(2) [symmetric] dbt db2 by simp
    moreover have "audited EXTEND (acc_id acc) adm (extend_detail days (acc_expire_date acc')) (db s) (db t)"
      unfolding audited_def extend_detail_def same(2) [symmetric] dbt db2 logs1 by (simp add: same fields)
    moreover have "db_server (db s) (acc_server acc) = Some srv"
      using s1(2) row by (simp add: row_written_def db_server_def fields)
    ultimately show ?thesis
      using t0 acc' evs iot io1 same by (intro that [of t0 u srv evs]) simp_all
  qed
qed


section \<open>Resetting a password\<close>

lemma reset_password_Inl:
  assumes "reset_password E acc adm s = (Inl e, t)"
  shows "db t = db s"
proof -
  define node where "node srv pw = with_ssh E srv (\<lambda>ssh.
          py_bind (change_password E ssh (acc_username acc) pw) (\<lambda>result.
            py_when (\<not> ok result)
              (py_raise (AccountError (''Password reset failed: '' @ stderr result)))))" for srv pw
  have eq: "reset_password E acc adm =
     py_bind (generate_password E 12) (\<lambda>pw. py_bind (get_server (acc_server acc)) (\<lambda>srv.
       py_then (node srv pw)
         (py_bind (save_and_log E (acc\<lparr>acc_password_display := pw\<rparr>) [F_password_display, F_updated_at]
            PASSWORD_RESET adm '''') (\<lambda>acc'. py_return (acc', pw)))))"
    by (simp add: reset_password_def save_and_log_def py_bind_assoc py_then_def node_def)
  have node: "steps same_db (node srv pw)" for srv pw unfolding node_def by (intro steps_intro)
  show ?thesis
    using assms unfolding eq py_then_def
    by (elim py_bind_cases)
       (auto simp: py_return_def dest!: steps_run [OF generate_password_quiet] get_server_Inl
          steps_run [OF get_server_quiet] steps_run [OF node] dest: save_and_log_Inl)
qed

lemma py_fold_appends:
  "py_fold (\<lambda>pw _. py_bind (ask f) (\<lambda>c. py_return (pw @ [c]))) pw xs s = (Inr r, t) \<Longrightarrow>
   length r = length pw + length xs \<and> (\<forall>A. (\<forall>w. fst (f w) \<in> A) \<longrightarrow> set r \<subseteq> set pw \<union> A)"
proof (induction xs arbitrary: pw s)
  case Nil
  then show ?case by (simp add: py_return_def)
next
  case (Cons x xs)
  obtain c w where f: "f (world s) = (c, w)" by (cases "f (world s)")
  then have "py_bind (ask f) (\<lambda>c. py_return (pw @ [c])) s = (Inr (pw @ [c]), s\<lparr>world := w\<rparr>)"
    by (simp add: py_bind_def ask_def py_return_def)
  with Cons.prems have "py_fold (\<lambda>pw _. py_bind (ask f) (\<lambda>c. py_return (pw @ [c]))) (pw @ [c]) xs (s\<lparr>world := w\<rparr>)
      = (Inr r, t)"
    by (simp only: py_fold.simps py_bind_Inr)
  moreover have "c = fst (f (world s))" by (simp add: f)
  ultimately show ?case using Cons.IH [of "pw @ [c]" "s\<lparr>world := w\<rparr>"] by auto
qed

lemma generate_password_Inr:
  assumes "generate_password E n s = (Inr pw, t)"
  shows "length pw = n"
    and "(\<And>w. fst (env_choice E password_alphabet w) \<in> set password_alphabet) \<Longrightarrow>
      set pw \<subseteq> set password_alphabet"
  using py_fold_appends [OF assms [unfolded generate_password_def]] by auto

lemma reset_password_Inr:
  assumes "reset_password E acc adm s = (Inr (acc', pw), t)"
  obtains u srv conn c where "length pw = 12" "acc' = acc\<lparr>acc_password_display := pw, acc_updated_at := u\<rparr>"
    "row_written (acc_id acc) (\<lambda>r. r\<lparr>acc_password_display := pw, acc_updated_at := u\<rparr>) (db s) (db t)"
    "audited PASSWORD_RESET (acc_id acc) adm '''' (db s) (db t)"
    "db_server (db s) (acc_server acc) = Some srv" "dials srv conn"
    "io t = io s @ [Connect conn, Exec c (set_password_command (acc_username acc) pw), Close c]"
    "exits_zero E c (set_password_command (acc_username acc) pw)"
proof -
  from assms obtain srv s1 s2 x s3 b s4 l s5 where gen: "generate_password E 12 s = (Inr pw, s1)"
    and srv: "get_server (acc_server acc) s1 = (Inr srv, s2)"
    and ssh: "with_ssh E srv (\<lambda>ssh.
          py_bind (change_password E ssh (acc_username acc) pw) (\<lambda>result.
            py_when (\<not> ok result)
              (py_raise (AccountError (''Password reset failed: '' @ stderr result))))) s2 = (Inr x, s3)"
    and save: "save_and_log E (acc\<lparr>acc_password_display := pw\<rparr>) [F_password_display, F_updated_at]
            PASSWORD_RESET adm '''' s3 = (Inr acc', t)"
    unfolding reset_password_def save_and_log_def
    by (elim py_bind_InrE py_then_InrE) (auto simp: py_return_def py_bind_def py_then_def)
  have s2: "s2 = s1" "db_server (db s1) (acc_server acc) = Some srv" using srv by (simp_all add: get_server_Inr)
  have s1: "db s1 = db s" "io s1 = io s" using steps_run [OF generate_password_quiet gen] by simp_all
  have F: "F_updated_at \<in> set [F_password_display, F_updated_at]" by simp
  from save F obtain u where acc': "acc' = acc\<lparr>acc_password_display := pw\<rparr>\<lparr>acc_updated_at := u\<rparr>"
    and row: "row_written (acc_id (acc\<lparr>acc_password_display := pw\<rparr>))
        (write_account acc' [F_password_display, F_updated_at]) (db s3) (db t)"
    and log: "audited PASSWORD_RESET (acc_id (acc\<lparr>acc_password_display := pw\<rparr>)) adm '''' (db s3) (db t)"
    and io3: "io t = io s3"
    by (rule save_and_log_Inr)
  have w: "write_account acc' [F_password_display, F_updated_at] =
      (\<lambda>r. r\<lparr>acc_password_display := pw, acc_updated_at := u\<rparr>)"
    by (simp add: write_account_def acc' fun_eq_iff)
  from ssh show ?thesis
  proof (rule with_ssh_InrE)
    fix c conn v1 v2
    assume dial: "dials srv conn" and v1: "db v1 = db s2" "io v1 = io s2 @ [Connect conn]"
      and body: "py_bind (change_password E (connected srv c) (acc_username acc) pw) (\<lambda>result.
            py_when (\<not> ok result)
              (py_raise (AccountError (''Password reset failed: '' @ stderr result)))) v1 = (Inr x, v2)"
      and v3: "db s3 = db v2" "io s3 = io v2 @ [Close c]"
    from body obtain r where run: "run E (connected srv c) (set_password_command (acc_username acc) pw) v1 = (Inr r, v2)"
      and "ok r"
      unfolding change_password_def set_password_command_def
      by (elim py_bind_InrE) (auto simp: py_when_def py_return_def py_raise_def split: if_splits)
    have "exits_zero E c (set_password_command (acc_username acc) pw)" using run \<open>ok r\<close> by (rule run_ok_exits_zero)
    moreover have "db s3 = db s" "io t = io s @ [Connect conn, Exec c (set_password_command (acc_username acc) pw), Close c]"
      using run_connected [OF run] v1 v3 s1 s2 io3 by simp_all
    ultimately show ?thesis
      using generate_password_Inr(1) [OF gen] acc' row log dial s2(2) s1(1) unfolding w
      by (intro that [of u srv conn c]) simp_all
  qed
qed

end
