(* ===== verification/AccountTasks.thy ===== *)
theory AccountTasks
  imports AccountServices
begin

text \<open>
  The periodic tasks of \<open>accounts/tasks.py\<close>: expiring accounts, deleting those
  that expired long ago, reading the traffic counters, and storing and limiting
  the sessions.  A queryset is evaluated once, when the loop starts; the objects
  of the loop are those rows, and what the loop writes to the database meanwhile
  does not change them.
\<close>

section \<open>\<open>expire_users\<close>\<close>

definition expire_one :: "'w env \<Rightarrow> account \<Rightarrow> ('w sys, unit) py" where
  "expire_one E acc =
     py_bind (get_server (acc_server acc)) (\<lambda>srv.
     py_then (with_ssh E srv (\<lambda>ssh. lock_user E ssh (acc_username acc)))
    (py_then (save_account E (acc\<lparr>acc_status := Expired\<rparr>) [F_status, F_updated_at])
       (py_return ())))"

definition due_accounts :: "datetime \<Rightarrow> database \<Rightarrow> account list" where
  "due_accounts t d = newest_first (filter (\<lambda>a. acc_status a = Active \<and> acc_expire_date a \<le> t) (accounts d))"

definition expire_users :: "'w env \<Rightarrow> ('w sys, nat) py" where
  "expire_users E =
     py_bind (now E) (\<lambda>t.
     py_bind (query (due_accounts t)) (\<lambda>accs.
       best_effort (expire_one E) accs))"


section \<open>\<open>cleanup_expired_accounts\<close>\<close>

definition stale_accounts :: "datetime \<Rightarrow> database \<Rightarrow> account list" where
  "stale_accounts cutoff d =
     newest_first (filter (\<lambda>a. acc_status a = Expired \<and> acc_expire_date a \<le> cutoff) (accounts d))"

definition cleanup_expired_accounts :: "'w env \<Rightarrow> int \<Rightarrow> ('w sys, nat) py" where
  "cleanup_expired_accounts E grace_days =
     py_bind (now E) (\<lambda>t.
     py_bind (lift_result (add_days t (- grace_days))) (\<lambda>cutoff.
     py_bind (query (stale_accounts cutoff)) (\<lambda>accs.
       best_effort (\<lambda>acc. py_then (delete_account E acc None) (py_return ())) accs)))"


section \<open>\<open>sync_bandwidth_usage\<close>\<close>

text \<open>The servers and accounts a task visits.\<close>

definition active_servers :: "'w env \<Rightarrow> database \<Rightarrow> server list" where
  "active_servers E d = by_name E (filter (\<lambda>r. srv_status r = SrvActive) (servers d))"

definition active_accounts :: "server \<Rightarrow> database \<Rightarrow> account list" where
  "active_accounts srv d =
     newest_first (filter (\<lambda>a. acc_server a = srv_id srv \<and> acc_status a = Active) (accounts d))"

text \<open>\<open>round(bytes_used / (1024 ** 3), 6)\<close>.\<close>

definition gb_of_bytes :: "int \<Rightarrow> exn + rat" where
  "gb_of_bytes n = (case int_div_float n (1024 ^ 3) of Inl e \<Rightarrow> Inl e | Inr x \<Rightarrow> Inr (round6 x))"

definition over_limit :: "account \<Rightarrow> rat \<Rightarrow> bool" where
  "over_limit acc gb_used \<longleftrightarrow> acc_bandwidth_limit_gb acc > 0 \<and> gb_used \<ge> of_int (acc_bandwidth_limit_gb acc)"

definition sync_account_bandwidth :: "'w env \<Rightarrow> ssh_manager \<Rightarrow> account \<Rightarrow> ('w sys, unit) py" where
  "sync_account_bandwidth E ssh acc =
     py_then (setup_traffic_accounting E ssh (acc_username acc))
    (py_bind (get_user_bandwidth_bytes E ssh (acc_username acc)) (\<lambda>bytes_used.
     py_bind (lift_result (gb_of_bytes bytes_used)) (\<lambda>gb_used.
     py_bind (if gb_used \<noteq> acc_bandwidth_used_gb acc
              then save_account E (acc\<lparr>acc_bandwidth_used_gb := gb_used\<rparr>) [F_bandwidth_used_gb, F_updated_at]
              else py_return acc) (\<lambda>acc'.
     py_when (over_limit acc' gb_used)
       (py_then (lock_user E ssh (acc_username acc'))
       (py_then (save_account E (acc'\<lparr>acc_status := Suspended\<rparr>) [F_status, F_updated_at])
          (py_return ())))))))"

definition sync_server_bandwidth :: "'w env \<Rightarrow> server \<Rightarrow> ('w sys, unit) py" where
  "sync_server_bandwidth E srv =
     py_bind (query (active_accounts srv)) (\<lambda>found_accs.
       if found_accs = [] then py_return ()
       else with_ssh E srv (\<lambda>ssh.
              py_bind (query (active_accounts srv)) (\<lambda>accs.
                py_for accs (sync_account_bandwidth E ssh))))"

definition sync_bandwidth_usage :: "'w env \<Rightarrow> ('w sys, unit) py" where
  "sync_bandwidth_usage E =
     py_bind (query (active_servers E)) (\<lambda>srvs.
       py_for srvs (\<lambda>srv. py_try (sync_server_bandwidth E srv) (\<lambda>_. py_return ())))"


section \<open>\<open>sync_active_sessions\<close>\<close>

text \<open>\<open>d.setdefault(k, []).append(x)\<close> on a dictionary, kept in insertion order.\<close>

fun append_to :: "string \<Rightarrow> 'a \<Rightarrow> (string \<times> 'a list) list \<Rightarrow> (string \<times> 'a list) list" where
  "append_to k x [] = [(k, [x])]"
| "append_to k x ((k', xs) # rest) =
     (if k' = k then (k', xs @ [x]) # rest else (k', xs) # append_to k x rest)"

definition session_accounts :: "server \<Rightarrow> string list \<Rightarrow> database \<Rightarrow> account list" where
  "session_accounts srv names d =
     newest_first (filter (\<lambda>a. acc_server a = srv_id srv \<and> acc_username a \<in> set names \<and>
                               acc_status a = Active) (accounts d))"

definition acc_map :: "account list \<Rightarrow> string \<Rightarrow> account option" where
  "acc_map accs = map_of (rev (map (\<lambda>a. (acc_username a, a)) accs))"

definition store_session ::
  "'w env \<Rightarrow> (string \<Rightarrow> account option) \<Rightarrow> (string \<times> remote_session list) list \<Rightarrow> remote_session \<Rightarrow>
   ('w sys, (string \<times> remote_session list) list) py" where
  "store_session E accs user_sessions sess =
     (case accs (rs_user sess) of
        None \<Rightarrow> py_return user_sessions
      | Some acc \<Rightarrow>
          py_bind (now E) (\<lambda>t.
          py_then (on_db (insert_session (env_inet E)
              \<lparr>ses_id = 0, ses_account = acc_id acc, ses_pid = rs_pid sess,
               ses_client_ip = rs_client_ip sess, ses_connected_since = t\<rparr>))
            (py_return (append_to (rs_user sess) sess user_sessions))))"

definition excess_sessions :: "account \<Rightarrow> remote_session list \<Rightarrow> remote_session list" where
  "excess_sessions acc sess_list = drop (nat (acc_max_connections acc)) (sort_key rs_pid sess_list)"

definition kill_command :: "remote_session list \<Rightarrow> string" where
  "kill_command excess = ''kill -9 '' @ py_join '' '' (map (\<lambda>s. show_int (rs_pid s)) excess)"

definition limit_sessions ::
  "'w env \<Rightarrow> ssh_manager \<Rightarrow> (string \<Rightarrow> account option) \<Rightarrow> string \<times> remote_session list \<Rightarrow> ('w sys, unit) py" where
  "limit_sessions E ssh accs entry =
     (case entry of (username, sess_list) \<Rightarrow>
        (case accs username of
           None \<Rightarrow> py_return ()
         | Some acc \<Rightarrow>
             py_when (int (length sess_list) > acc_max_connections acc)
               (py_then (run E ssh (kill_command (excess_sessions acc sess_list))) (py_return ()))))"

definition sync_server_sessions :: "'w env \<Rightarrow> server \<Rightarrow> ('w sys, unit) py" where
  "sync_server_sessions E srv =
     with_ssh E srv (\<lambda>ssh.
       py_bind (get_active_sessions E ssh) (\<lambda>sess.
       py_bind (query (session_accounts srv (map rs_user sess))) (\<lambda>accs.
       py_then (on_db (delete_sessions_of_server (srv_id srv)))
      (py_bind (py_fold (store_session E (acc_map accs)) [] sess) (\<lambda>user_sessions.
         py_for user_sessions (limit_sessions E ssh (acc_map accs)))))))"

definition sync_active_sessions :: "'w env \<Rightarrow> ('w sys, unit) py" where
  "sync_active_sessions E =
     py_bind (query (active_servers E)) (\<lambda>srvs.
       py_for srvs (\<lambda>srv. py_try (sync_server_sessions E srv) (\<lambda>_. py_return ())))"


section \<open>Effects on the database\<close>

context statement_effect
begin

lemma steps_expire_users [steps_intro]: "steps (\<lambda>s t. D (db s) (db t)) (expire_users E)"
  unfolding expire_users_def expire_one_def by (intro steps_intro)

lemma steps_cleanup [steps_intro]: "steps (\<lambda>s t. D (db s) (db t)) (cleanup_expired_accounts E n)"
  unfolding cleanup_expired_accounts_def by (intro steps_intro)

lemma steps_sync_bandwidth [steps_intro]: "steps (\<lambda>s t. D (db s) (db t)) (sync_bandwidth_usage E)"
  unfolding sync_bandwidth_usage_def sync_server_bandwidth_def sync_account_bandwidth_def
  by (intro steps_intro)

lemma steps_store_session [steps_intro]:
  "steps (\<lambda>s t. D (db s) (db t)) (store_session E accs us sess)"
  unfolding store_session_def by (intro steps_intro steps_on_db D_insert_session)

lemma steps_sync_sessions [steps_intro]: "steps (\<lambda>s t. D (db s) (db t)) (sync_active_sessions E)"
  unfolding sync_active_sessions_def sync_server_sessions_def limit_sessions_def
  by (intro steps_intro steps_on_db D_delete_sessions)

end

end
