(* ===== verification/ServerTasks.thy ===== *)
theory ServerTasks
  imports AccountServices
begin

text \<open>
  The tasks of \<open>servers/tasks.py\<close>: the health checks, which take a server out of
  service after three failures in a row, and moving the accounts of a server that
  is down.  The dictionary of failure counts is the component \<open>health_fails\<close> of
  the state; every worker process has its own.
\<close>

section \<open>Health checks\<close>

definition set_fail_count :: "nat \<Rightarrow> int \<Rightarrow> ('w sys, unit) py" where
  "set_fail_count i n = py_modify (\<lambda>s. s\<lparr>health_fails := (health_fails s)(i \<mapsto> n)\<rparr>)"

definition fail_count :: "nat \<Rightarrow> ('w sys, int) py" where
  "fail_count i = py_get (\<lambda>s. case health_fails s i of None \<Rightarrow> 0 | Some n \<Rightarrow> n)"

definition with_health :: "server \<Rightarrow> health \<Rightarrow> datetime \<Rightarrow> server" where
  "with_health srv h t =
     srv\<lparr>srv_cpu_usage := h_cpu_usage h, srv_ram_usage := h_ram_usage h, srv_disk_usage := h_disk_usage h,
         srv_uptime_seconds := h_uptime_seconds h, srv_last_health_check := Some t\<rparr>"

text \<open>The \<open>except\<close> branch; \<open>srv\<close> is the object as the \<open>try\<close> branch left it.\<close>

definition health_failed :: "'w env \<Rightarrow> server \<Rightarrow> ('w sys, unit) py" where
  "health_failed E srv =
     py_bind (fail_count (srv_id srv)) (\<lambda>n.
     py_then (set_fail_count (srv_id srv) (n + 1))
    (py_bind (now E) (\<lambda>t.
       save_server_status_check
         (srv\<lparr>srv_last_health_check := Some t,
              srv_status := (if n + 1 \<ge> 3 then SrvDown else srv_status srv)\<rparr>))))"

definition cpu_overload :: "server \<Rightarrow> bool" where
  "cpu_overload srv \<longleftrightarrow> srv_status srv = SrvActive \<and> float_gt (srv_cpu_usage srv) (Fin 95)"

definition check_server_health :: "'w env \<Rightarrow> server \<Rightarrow> ('w sys, unit) py" where
  "check_server_health E srv =
     py_bind (py_try (py_bind (with_ssh E srv (\<lambda>ssh. get_health E ssh)) (\<lambda>h. py_return (Some h)))
               (\<lambda>_. py_return None)) (\<lambda>r.
       case r of
         None \<Rightarrow> health_failed E srv
       | Some h \<Rightarrow>
           py_bind (now E) (\<lambda>t.
           let srv1 = with_health srv h t;
               srv2 = (if cpu_overload srv1 then srv1\<lparr>srv_status := SrvFull\<rparr> else srv1)
           in py_then (set_fail_count (srv_id srv) 0)
                (py_try (save_server E srv2) (\<lambda>_. health_failed E srv2))))"

definition check_all_servers_health :: "'w env \<Rightarrow> ('w sys, unit) py" where
  "check_all_servers_health E =
     py_bind (query (\<lambda>d. by_name E (filter (\<lambda>r. srv_status r \<noteq> SrvDown) (servers d)))) (\<lambda>srvs.
       py_for srvs (check_server_health E))"

text \<open>One server, on demand: \<open>True\<close> when it answered.\<close>

definition single_failed :: "'w env \<Rightarrow> server \<Rightarrow> ('w sys, bool) py" where
  "single_failed E srv =
     py_bind (now E) (\<lambda>t.
     py_then (save_server_status_check (srv\<lparr>srv_status := SrvDown, srv_last_health_check := Some t\<rparr>))
       (py_return False))"

definition check_single_server :: "'w env \<Rightarrow> nat \<Rightarrow> ('w sys, bool) py" where
  "check_single_server E server_id =
     py_bind (get_server server_id) (\<lambda>srv.
     py_bind (py_try (py_bind (with_ssh E srv (\<lambda>ssh. get_health E ssh)) (\<lambda>h. py_return (Some h)))
               (\<lambda>_. py_return None)) (\<lambda>r.
       case r of
         None \<Rightarrow> single_failed E srv
       | Some h \<Rightarrow>
           py_bind (now E) (\<lambda>t.
           let srv1 = with_health srv h t;
               srv2 = (if srv_status srv1 = SrvDown then srv1\<lparr>srv_status := SrvActive\<rparr> else srv1)
           in py_try (py_then (save_server E srv2) (py_return True)) (\<lambda>_. single_failed E srv2))))"


section \<open>Rebalancing\<close>

definition generate_temp_password :: "'w env \<Rightarrow> ('w sys, string) py" where
  "generate_temp_password E = generate_password E 12"

definition move_account :: "'w env \<Rightarrow> server \<Rightarrow> account \<Rightarrow> ('w sys, unit) py" where
  "move_account E down_srv acc =
     py_bind (pick_best_server None) (\<lambda>target.
     py_then
       (with_ssh E target (\<lambda>ssh.
          py_bind (generate_temp_password E) (\<lambda>pw.
          py_then (create_user E ssh (acc_username acc) pw)
         (py_then (set_expiry E ssh (acc_username acc) (strftime_ymd (acc_expire_date acc)))
            (set_max_logins E ssh (acc_username acc) (acc_max_connections acc))))))
    (py_bind (save_account E (acc\<lparr>acc_server := srv_id target\<rparr>) [F_server, F_updated_at]) (\<lambda>acc'.
     py_then (create_log E REBALANCE (acc_id acc') None
                (''Moved from '' @ srv_name down_srv @ '' to '' @ srv_name target))
       (py_return ()))))"

definition rebalance_users :: "'w env \<Rightarrow> nat \<Rightarrow> ('w sys, nat) py" where
  "rebalance_users E down_server_id =
     py_bind (get_server down_server_id) (\<lambda>down_srv.
     py_bind (query (\<lambda>d. newest_first
         (filter (\<lambda>a. acc_server a = srv_id down_srv \<and> acc_status a = Active) (accounts d)))) (\<lambda>accs.
       best_effort (move_account E down_srv) accs))"


section \<open>Effects on the database\<close>

lemma fail_count_same_db [steps_intro]:
  "steps same_db (fail_count i)" "steps same_db (set_fail_count i n)"
  by (simp_all add: steps_def fail_count_def py_get_def set_fail_count_def py_modify_def)

lemma generate_temp_password_same_db [steps_intro]: "steps same_db (generate_temp_password E)"
  unfolding generate_temp_password_def by (rule generate_password_same_db)

context statement_effect
begin

lemmas steps_fail_count [steps_intro] =
  fail_count_same_db [THEN steps_same_db] generate_temp_password_same_db [THEN steps_same_db]

lemma steps_health_failed [steps_intro]: "steps (\<lambda>s t. D (db s) (db t)) (health_failed E srv)"
  unfolding health_failed_def by (intro steps_intro)

lemma steps_check_server_health [steps_intro]:
  "steps (\<lambda>s t. D (db s) (db t)) (check_server_health E srv)"
  unfolding check_server_health_def by (intro steps_intro)

lemma steps_check_all [steps_intro]: "steps (\<lambda>s t. D (db s) (db t)) (check_all_servers_health E)"
  unfolding check_all_servers_health_def by (intro steps_intro)

lemma steps_check_single [steps_intro]: "steps (\<lambda>s t. D (db s) (db t)) (check_single_server E i)"
  unfolding check_single_server_def single_failed_def by (intro steps_intro)

lemma steps_rebalance [steps_intro]: "steps (\<lambda>s t. D (db s) (db t)) (rebalance_users E i)"
  unfolding rebalance_users_def move_account_def by (intro steps_intro)

end

end
