(* ===== verification/TaskFacts.thy ===== *)
theory TaskFacts
  imports CreateFacts AccountTasks ServerTasks "HOL-Library.Sublist" "HOL-Library.Multiset"
begin

text \<open>
  What the periodic tasks achieve.  The tasks built on the best-effort loop are
  described by the elements whose body returned: a subsequence of the queryset, as
  long as the count the task returns, along which the database changed step by
  step.
\<close>

section \<open>Best-effort loops as chains\<close>

fun chain :: "('a \<Rightarrow> 'v \<Rightarrow> 'v \<Rightarrow> bool) \<Rightarrow> 'a list \<Rightarrow> 'v \<Rightarrow> 'v \<Rightarrow> bool" where
  "chain R [] v w \<longleftrightarrow> w = v"
| "chain R (x # xs) v w \<longleftrightarrow> (\<exists>u. R x v u \<and> chain R xs u w)"

lemma best_effort_fold_chain:
  assumes body: "\<And>x s t. m x s = (Inr (), t) \<Longrightarrow> R x (v s) (v t)"
    and fails: "\<And>x s e t. m x s = (Inl e, t) \<Longrightarrow> v t = v s"
    and "py_fold (\<lambda>count x. py_try (py_then (m x) (py_return (count + 1))) (\<lambda>_. py_return count))
             acc xs s = (Inr n, t)"
  shows "\<exists>ys. subseq ys xs \<and> n = acc + length ys \<and> chain R ys (v s) (v t)"
  using assms(3)
proof (induction xs arbitrary: acc s)
  case Nil
  then show ?case by (simp add: py_return_def)
next
  case (Cons x xs)
  let ?step = "\<lambda>count x. py_try (py_then (m x) (py_return (count + 1))) (\<lambda>_. py_return count)"
  obtain r u where run: "m x s = (r, u)" by (cases "m x s")
  show ?case
  proof (cases r)
    case (Inl e)
    have "?step acc x s = (Inr acc, u)"
      using run Inl by (simp add: py_bind_def py_try_def py_then_def py_return_def)
    with Cons.prems have "py_fold ?step acc xs u = (Inr n, t)"
      by (simp only: py_fold.simps py_bind_Inr)
    from Cons.IH [OF this] fails [of x s e u] run Inl show ?thesis
      by (metis list_emb_Cons)
  next
    case (Inr y)
    have "?step acc x s = (Inr (acc + 1), u)"
      using run Inr by (simp add: py_bind_def py_try_def py_then_def py_return_def)
    with Cons.prems have "py_fold ?step (acc + 1) xs u = (Inr n, t)"
      by (simp only: py_fold.simps py_bind_Inr)
    from Cons.IH [OF this] obtain ys where "subseq ys xs" "n = acc + 1 + length ys" "chain R ys (v u) (v t)"
      by blast
    moreover have "R x (v s) (v u)" using body run Inr by simp
    ultimately show ?thesis
      by (intro exI [of _ "x # ys"]) auto
  qed
qed

lemma best_effort_chain:
  assumes "\<And>x s t. m x s = (Inr (), t) \<Longrightarrow> R x (v s) (v t)"
    and "\<And>x s e t. m x s = (Inl e, t) \<Longrightarrow> v t = v s"
    and "best_effort m xs s = (Inr n, t)"
  shows "\<exists>ys. subseq ys xs \<and> length ys = n \<and> chain R ys (v s) (v t)"
  using best_effort_fold_chain [of m R v 0 xs s n t] assms by (auto simp: best_effort_def)


section \<open>Expiring accounts\<close>

definition expire_step :: "account \<Rightarrow> database \<Rightarrow> database \<Rightarrow> bool" where
  "expire_step a d d' \<longleftrightarrow>
     (\<exists>u. row_written (acc_id a) (\<lambda>r. r\<lparr>acc_status := Expired, acc_updated_at := u\<rparr>) d d') \<and> logs d' = logs d"

lemma expire_node_same_db:
  "steps same_db (with_ssh E srv (\<lambda>ssh. lock_user E ssh u))"
  by (intro steps_intro)

lemma expire_one_Inr:
  assumes "expire_one E a s = (Inr (), t)"
  shows "expire_step a (db s) (db t)"
proof -
  from assms obtain srv s1 x s2 b s3 where "get_server (acc_server a) s = (Inr srv, s1)"
    "with_ssh E srv (\<lambda>ssh. lock_user E ssh (acc_username a)) s1 = (Inr x, s2)"
    and save: "save_account E (a\<lparr>acc_status := Expired\<rparr>) [F_status, F_updated_at] s2 = (Inr b, s3)"
    and ret: "py_return () s3 = (Inr (), t)"
    unfolding expire_one_def by (elim py_bind_InrE py_then_InrE) blast
  then have db2: "db s2 = db s" using steps_run [OF expire_node_same_db] by (metis get_server_Inr)
  have F: "F_updated_at \<in> set [F_status, F_updated_at]" by simp
  from save F obtain u r where b: "b = a\<lparr>acc_status := Expired\<rparr>\<lparr>acc_updated_at := u\<rparr>"
    and row: "db_account (db s2) (acc_id (a\<lparr>acc_status := Expired\<rparr>)) = Some r"
    and db3: "db s3 = (db s2)\<lparr>accounts := replace_key acc_id (acc_id (a\<lparr>acc_status := Expired\<rparr>))
        (write_account b [F_status, F_updated_at]) (accounts (db s2))\<rparr>"
    by (rule save_account_Inr)
  have w: "write_account b [F_status, F_updated_at] = (\<lambda>r. r\<lparr>acc_status := Expired, acc_updated_at := u\<rparr>)"
    by (simp add: write_account_def b fun_eq_iff)
  have t: "t = s3" using ret by (simp add: py_return_def)
  have "row_written (acc_id a) (\<lambda>r. r\<lparr>acc_status := Expired, acc_updated_at := u\<rparr>) (db s) (db t)"
    using row unfolding t row_written_def db3 w
    by (auto simp: db2 db_account_update_same db_account_update_other)
  moreover have "logs (db t) = logs (db s)" by (simp add: t db3 db2)
  ultimately show ?thesis unfolding expire_step_def by blast
qed

lemma expire_one_Inl:
  assumes "expire_one E a s = (Inl e, t)"
  shows "db t = db s"
  using assms unfolding expire_one_def py_then_def
  by (elim py_bind_cases)
     (auto simp: py_return_def dest!: get_server_Inl steps_run [OF get_server_quiet]
        steps_run [OF expire_node_same_db] dest: save_account_Inl)

text \<open>The accounts with these ids took the status, every other row is as it was.\<close>

definition rows_set :: "account_status \<Rightarrow> nat list \<Rightarrow> database \<Rightarrow> database \<Rightarrow> bool" where
  "rows_set st is d d' \<longleftrightarrow>
     (\<forall>i \<in> set is. \<exists>r u. db_account d i = Some r \<and>
        db_account d' i = Some (r\<lparr>acc_status := st, acc_updated_at := u\<rparr>)) \<and>
     (\<forall>i. i \<notin> set is \<longrightarrow> db_account d' i = db_account d i) \<and>
     servers d' = servers d \<and> plans d' = plans d \<and> sessions d' = sessions d"

lemma rows_set_chain:
  assumes step: "\<And>a d d'. R a d d' \<Longrightarrow>
      \<exists>u. row_written (acc_id a) (\<lambda>r. r\<lparr>acc_status := st, acc_updated_at := u\<rparr>) d d'"
  shows "chain R as d d' \<Longrightarrow> distinct (map acc_id as) \<Longrightarrow> rows_set st (map acc_id as) d d'"
proof (induction as arbitrary: d)
  case Nil
  then show ?case by (simp add: rows_set_def)
next
  case (Cons a as)
  then obtain d1 where first: "R a d d1" and rest: "rows_set st (map acc_id as) d1 d'"
    by auto
  from step [OF first] obtain u r where row: "db_account d (acc_id a) = Some r"
    "db_account d1 (acc_id a) = Some (r\<lparr>acc_status := st, acc_updated_at := u\<rparr>)"
    and other: "\<And>j. j \<noteq> acc_id a \<Longrightarrow> db_account d1 j = db_account d j"
    and frame: "servers d1 = servers d" "plans d1 = plans d" "sessions d1 = sessions d"
    unfolding row_written_def by blast
  have new: "acc_id a \<notin> set (map acc_id as)" using Cons.prems by simp
  have d': "db_account d' i = db_account d1 i" if "i \<notin> set (map acc_id as)" for i
    using rest that by (simp add: rows_set_def)
  show ?case
    unfolding rows_set_def
  proof (intro conjI ballI allI impI)
    fix i assume i: "i \<in> set (map acc_id (a # as))"
    show "\<exists>r u. db_account d i = Some r \<and> db_account d' i = Some (r\<lparr>acc_status := st, acc_updated_at := u\<rparr>)"
    proof (cases "i = acc_id a")
      case True
      with row d' [OF new] show ?thesis by auto
    next
      case False
      with i have "i \<in> set (map acc_id as)" by simp
      with rest have "\<exists>r u. db_account d1 i = Some r \<and>
          db_account d' i = Some (r\<lparr>acc_status := st, acc_updated_at := u\<rparr>)"
        unfolding rows_set_def by blast
      with other [OF False] show ?thesis by simp
    qed
  next
    fix i assume "i \<notin> set (map acc_id (a # as))"
    then show "db_account d' i = db_account d i" using d' other by simp
  qed (use rest frame in \<open>simp_all add: rows_set_def\<close>)
qed

text \<open>What a chain does to the log: nothing, or one entry per element.\<close>

lemma chain_same_logs:
  "(\<And>a d d'. R a d d' \<Longrightarrow> logs d' = logs d) \<Longrightarrow> chain R as d d' \<Longrightarrow> logs d' = logs d"
  by (induction as arbitrary: d) auto

definition logged_each :: "audit_action \<Rightarrow> nat list \<Rightarrow> database \<Rightarrow> database \<Rightarrow> bool" where
  "logged_each act is d d' \<longleftrightarrow>
     (\<exists>ls. logs d' = logs d @ ls \<and> map (\<lambda>l. (log_action l, log_account l)) ls = map (\<lambda>i. (act, Some i)) is)"

lemma chain_logged_each:
  assumes "\<And>a d d'. R a d d' \<Longrightarrow> \<exists>adm det. audited act (acc_id a) adm det d d'"
  shows "chain R as d d' \<Longrightarrow> logged_each act (map acc_id as) d d'"
proof (induction as arbitrary: d)
  case Nil
  then show ?case by (simp add: logged_each_def)
next
  case (Cons a as)
  then obtain d1 where "R a d d1" and "logged_each act (map acc_id as) d1 d'" by auto
  with assms obtain l ls where "logs d1 = logs d @ [l]" "log_action l = act" "log_account l = Some (acc_id a)"
    "logs d' = logs d1 @ ls" "map (\<lambda>l. (log_action l, log_account l)) ls = map (\<lambda>i. (act, Some i)) (map acc_id as)"
    unfolding logged_each_def audited_def by meson
  then show ?case unfolding logged_each_def by (intro exI [of _ "l # ls"]) simp
qed

lemma subseq_set: "subseq ys xs \<Longrightarrow> set ys \<subseteq> set xs"
  by (induction rule: list_emb.induct) auto

lemma subseq_distinct_map: "subseq ys xs \<Longrightarrow> distinct (map f xs) \<Longrightarrow> distinct (map f ys)"
proof (induction rule: list_emb.induct)
  case (list_emb_Cons2 x y xs ys)
  then show ?case using subseq_set by fastforce
qed auto

lemma wf_distinct_ids: "db_wf d \<Longrightarrow> distinct (map acc_id (accounts d))"
  by (simp add: db_wf_def accounts_ok_def ids_ok_def)

lemma set_newest_first [simp]: "set (newest_first xs) = set xs"
  by (simp add: newest_first_def)

lemma due_ids: "acc_id ` set (due_accounts t d) =
    {acc_id a | a. a \<in> set (accounts d) \<and> acc_status a = Active \<and> acc_expire_date a \<le> t}"
  by (auto simp: due_accounts_def)

lemma stale_ids: "acc_id ` set (stale_accounts t d) =
    {acc_id a | a. a \<in> set (accounts d) \<and> acc_status a = Expired \<and> acc_expire_date a \<le> t}"
  by (auto simp: stale_accounts_def)

lemma distinct_newest_first: "distinct (map f xs) \<Longrightarrow> distinct (map f (newest_first (filter P xs)))"
  by (simp add: newest_first_def distinct_map) (auto intro: inj_on_subset)

lemma expire_users_returns: "\<exists>n t. expire_users E s = (Inr n, t)"
proof -
  obtain x u where "now E s = (Inr x, u)" using now_returns by blast
  then show ?thesis using best_effort_returns
    by (simp add: expire_users_def py_bind_def query_def py_get_def)
qed

lemma expire_users_exactly:
  assumes wf: "db_wf (db s)" and run: "expire_users E s = (Inr n, t)"
  shows "\<exists>u is. distinct is \<and> length is = n \<and> set is \<subseteq> acc_id ` set (due_accounts u (db s)) \<and>
    fst (env_clock E (world s)) = u \<and> rows_set Expired is (db s) (db t) \<and> logs (db t) = logs (db s)"
proof -
  from run obtain u s1 accs s2 where now: "now E s = (Inr u, s1)"
    and q: "query (due_accounts u) s1 = (Inr accs, s2)"
    and loop: "best_effort (expire_one E) accs s2 = (Inr n, t)"
    unfolding expire_users_def by (elim py_bind_InrE) blast
  have s1: "db s1 = db s" using steps_run [OF now_quiet now] by simp
  have u: "fst (env_clock E (world s)) = u" using now by (auto simp: now_def ask_def split: prod.splits)
  have accs: "accs = due_accounts u (db s)" "db s2 = db s"
    using q s1 by (auto simp: query_def py_get_def)
  have "\<exists>ys. subseq ys accs \<and> length ys = n \<and> chain expire_step ys (db s2) (db t)"
    by (rule best_effort_chain [OF _ _ loop]) (auto dest: expire_one_Inr expire_one_Inl)
  then obtain ys where ys: "subseq ys accs" "length ys = n" "chain expire_step ys (db s) (db t)"
    by (auto simp: accs(2))
  have "distinct (map acc_id accs)"
    unfolding accs due_accounts_def by (intro distinct_newest_first wf_distinct_ids wf)
  then have dist: "distinct (map acc_id ys)" by (rule subseq_distinct_map [OF ys(1)])
  show ?thesis
    using dist ys u rows_set_chain [of expire_step, OF _ ys(3) dist] subseq_set [OF ys(1)]
      chain_same_logs [of expire_step, OF _ ys(3)]
    by (intro exI [of _ u] exI [of _ "map acc_id ys"]) (auto simp: accs expire_step_def)
qed


section \<open>The operations that set a status, over many accounts\<close>

context lifecycle
begin

lemma best_effort_op:
  assumes loop: "best_effort (\<lambda>acc. py_then (op E acc adm) (py_return ())) accs s = (Inr n, t)"
    and dist: "distinct (map acc_id accs)"
  shows "\<exists>is. distinct is \<and> length is = n \<and> set is \<subseteq> acc_id ` set accs \<and>
    rows_set st is (db s) (db t) \<and> logged_each act is (db s) (db t)"
proof -
  let ?R = "\<lambda>a. status_set st act (acc_id a) adm"
  let ?body = "\<lambda>acc. py_then (op E acc adm) (py_return ())"
  have "\<exists>ys. subseq ys accs \<and> length ys = n \<and> chain ?R ys (db s) (db t)"
  proof (rule best_effort_chain [OF _ _ loop])
    show "?R x (db v) (db w)" if "?body x v = (Inr (), w)" for x v w
      using that by (elim py_then_InrE) (auto simp: py_return_def dest: op_sets)
    show "db w = db v" if "?body x v = (Inl e, w)" for x v e w
      using that unfolding py_then_def by (elim py_bind_cases) (auto simp: py_return_def dest: op_fails)
  qed
  then obtain ys where ys: "subseq ys accs" "length ys = n" "chain ?R ys (db s) (db t)" by blast
  have ydist: "distinct (map acc_id ys)" using dist by (rule subseq_distinct_map [OF ys(1)])
  have "rows_set st (map acc_id ys) (db s) (db t)"
    by (rule rows_set_chain [OF _ ys(3) ydist]) (auto simp: status_set_def)
  moreover have "logged_each act (map acc_id ys) (db s) (db t)"
    by (rule chain_logged_each [OF _ ys(3)]) (auto simp: status_set_def)
  ultimately show ?thesis
    using ydist ys subseq_set [OF ys(1)] by (intro exI [of _ "map acc_id ys"]) auto
qed

end


section \<open>Cleaning up\<close>

lemma cleanup_exactly:
  assumes wf: "db_wf (db s)" and run: "cleanup_expired_accounts E grace s = (Inr n, t)"
  shows "\<exists>u is. distinct is \<and> length is = n \<and> fst (env_clock E (world s)) = u \<and>
    set is \<subseteq> acc_id ` set (stale_accounts (u - grace * day_us) (db s)) \<and>
    rows_set Deleted is (db s) (db t) \<and> logged_each DELETE is (db s) (db t)"
proof -
  let ?body = "\<lambda>acc. py_then (delete_account E acc None) (py_return ())"
  from run obtain u s1 cutoff s2 accs s3 where now: "now E s = (Inr u, s1)"
    and cut: "lift_result (add_days u (- grace)) s1 = (Inr cutoff, s2)"
    and q: "query (stale_accounts cutoff) s2 = (Inr accs, s3)"
    and loop: "best_effort ?body accs s3 = (Inr n, t)"
    unfolding cleanup_expired_accounts_def by (elim py_bind_InrE) blast
  have s2: "db s2 = db s" using steps_run [OF now_quiet now] steps_run [OF lift_result_quiet cut] by simp
  have u: "fst (env_clock E (world s)) = u" using now by (auto simp: now_def ask_def split: prod.splits)
  have cutoff: "cutoff = u - grace * day_us"
    using cut by (auto simp: lift_result_def py_return_def py_raise_def dest: add_days_Inr split: sum.splits)
  have accs: "accs = stale_accounts cutoff (db s)" "db s3 = db s"
    using q s2 by (auto simp: query_def py_get_def)
  have "distinct (map acc_id accs)"
    unfolding accs stale_accounts_def by (intro distinct_newest_first wf_distinct_ids wf)
  from del.best_effort_op [OF loop this] show ?thesis
    using u by (auto simp: accs cutoff)
qed


section \<open>The traffic limit\<close>

lemma round6_mono_ge:
  assumes "of_int k \<le> x" "0 \<le> k" "k < 2 ^ 31"
  shows "of_int k \<le> round6 x"
proof -
  have "of_int (k * 10 ^ 6) \<le> x * 10 ^ 6" using assms(1) by simp
  then have "round_half_even (of_int (k * 10 ^ 6)) \<le> round_half_even (x * 10 ^ 6)"
    by (rule round_half_even_mono)
  then have "k * 10 ^ 6 \<le> round_half_even (x * 10 ^ 6)"
    unfolding round_half_even_of_int .
  then have "of_int (k * 10 ^ 6) \<le> (of_int (round_half_even (x * 10 ^ 6)) :: rat)"
    by (simp only: of_int_le_iff)
  then have "(of_int k :: rat) \<le> of_int (round_half_even (x * 10 ^ 6)) / 10 ^ 6"
    by (simp add: field_simps)
  then have "round_double (of_int k) \<le> round6 x"
    unfolding round6_def using assms(2) by (intro round_double_mono) simp_all
  moreover have "round_double (of_int k) = of_int k"
    using assms by (intro round_double_of_int) auto
  ultimately show ?thesis by simp
qed

lemma gb_of_bytes_Inr:
  "gb_of_bytes n = Inr g \<longleftrightarrow>
   g = round6 (round_double (of_int n / 1024 ^ 3)) \<and> \<bar>round_double (of_int n / 1024 ^ 3)\<bar> < double_max"
  by (auto simp: gb_of_bytes_def int_div_float_def Let_def)

lemma gb_reaches_limit:
  assumes "gb_of_bytes n = Inr g" "0 \<le> k" "k < 2 ^ 31" "k * 1024 ^ 3 \<le> n"
  shows "of_int k \<le> g"
proof -
  have "of_int (k * 1024 ^ 3) \<le> (of_int n :: rat)" using assms(4) by (simp only: of_int_le_iff)
  then have "(of_int k :: rat) \<le> of_int n / 1024 ^ 3" by (simp add: field_simps)
  then have "round_double (of_int k) \<le> round_double (of_int n / 1024 ^ 3)"
    using assms(2) by (intro round_double_mono) simp_all
  moreover have "round_double (of_int k) = of_int k"
    using assms by (intro round_double_of_int) auto
  ultimately have "of_int k \<le> round_double (of_int n / 1024 ^ 3)" by simp
  then show ?thesis using assms round6_mono_ge by (simp add: gb_of_bytes_Inr)
qed

text \<open>
  A counter more than 1073 bytes below the limit is below it after the two
  roundings as well, for every limit the column can hold.
\<close>

lemma double_error_31:
  assumes "0 \<le> x" "x < 2 ^ 31"
  shows "\<bar>round_double x - x\<bar> \<le> 1 / 2 ^ 23"
proof -
  have "\<bar>round_double x - x\<bar> \<le> power_int 2 (30 - 53)"
    using assms by (intro round_double_error) (simp_all add: power_int_def)
  then show ?thesis by (simp add: power_int_def power_divide)
qed

lemma gb_below_limit:
  assumes g: "gb_of_bytes n = Inr g" and "0 \<le> n" "k < 2 ^ 31" and below: "n \<le> k * 1024 ^ 3 - 1074"
  shows "g < of_int k"
proof -
  let ?x = "of_int n / 1024 ^ 3 :: rat"
  let ?r = "round_half_even (round_double ?x * 10 ^ 6)"
  have k: "(of_int k :: rat) < 2 ^ 31" using assms(3) by (metis of_int_less_iff of_int_numeral of_int_power)
  have "of_int n \<le> (of_int (k * 1024 ^ 3 - 1074) :: rat)" using below by (simp only: of_int_le_iff)
  then have x: "?x \<le> of_int k - 1 / 10 ^ 6" by (simp add: field_simps)
  have x0: "0 \<le> ?x" using assms(2) by simp
  have "?x < 2 ^ 31" using x k by simp
  then have "\<bar>round_double ?x - ?x\<bar> \<le> 1 / 2 ^ 23" by (rule double_error_31 [OF x0])
  from abs_le_D1 [OF this] have "round_double ?x \<le> ?x + 1 / 2 ^ 23" by linarith
  with x have y: "round_double ?x * 10 ^ 6 \<le> of_int k * 10 ^ 6 - 1 + 1 / 8" by simp
  have "of_int ?r \<le> round_double ?x * 10 ^ 6 + 1 / 2" by (rule round_half_even_bounds)
  with y have "of_int ?r < (of_int (k * 10 ^ 6) :: rat)" by simp
  then have "?r < k * 10 ^ 6" by (simp only: of_int_less_iff)
  then have "?r \<le> k * 10 ^ 6 - 1" by simp
  then have "of_int ?r \<le> (of_int (k * 10 ^ 6 - 1) :: rat)" by (simp only: of_int_le_iff)
  then have z: "of_int ?r / 10 ^ 6 \<le> of_int k - 1 / (10 ^ 6 :: rat)" by (simp add: field_simps)
  have "0 \<le> round_double ?x * 10 ^ 6" using round_double_nonneg [OF x0] by simp
  then have "round_half_even 0 \<le> ?r" by (intro round_half_even_mono) simp
  then have r0: "0 \<le> ?r" using round_half_even_of_int [of 0] by simp
  then have z0: "0 \<le> of_int ?r / (10 ^ 6 :: rat)" by simp
  have "of_int ?r / 10 ^ 6 < (2 ^ 31 :: rat)" using z k by simp
  then have "\<bar>round_double (of_int ?r / 10 ^ 6) - of_int ?r / 10 ^ 6\<bar> \<le> 1 / 2 ^ 23"
    by (rule double_error_31 [OF z0])
  from abs_le_D1 [OF this]
  have "round_double (of_int ?r / 10 ^ 6) \<le> of_int ?r / 10 ^ 6 + 1 / 2 ^ 23" by linarith
  with z have "round_double (of_int ?r / 10 ^ 6) < of_int k" by simp
  with g show ?thesis by (simp add: gb_of_bytes_Inr round6_def)
qed

text \<open>The decision of the task in bytes: from the limit on, never 1074 bytes or more below it.\<close>

lemma over_limit_bytes:
  assumes "gb_of_bytes n = Inr g" "0 \<le> n" "0 < acc_bandwidth_limit_gb acc" "acc_bandwidth_limit_gb acc < 2 ^ 31"
  shows "acc_bandwidth_limit_gb acc * 1024 ^ 3 \<le> n \<Longrightarrow> over_limit acc g"
    and "n \<le> acc_bandwidth_limit_gb acc * 1024 ^ 3 - 1074 \<Longrightarrow> \<not> over_limit acc g"
  using gb_reaches_limit [OF assms(1)] gb_below_limit [OF assms(1,2)] assms(3,4)
  by (auto simp: over_limit_def not_le)


section \<open>Limiting the sessions\<close>

lemma append_to_map_of:
  "map_of (append_to k x m) u =
     (if u = k then Some ((case map_of m k of None \<Rightarrow> [] | Some xs \<Rightarrow> xs) @ [x]) else map_of m u)"
  by (induction m rule: append_to.induct) auto

lemma append_to_keys: "set (map fst (append_to k x m)) = insert k (set (map fst m))"
  by (induction m rule: append_to.induct) auto

lemma append_to_distinct: "distinct (map fst m) \<Longrightarrow> distinct (map fst (append_to k x m))"
proof (induction m rule: append_to.induct)
  case (2 k x k' xs rest)
  then show ?case using append_to_keys [of k x rest] by auto
qed simp

text \<open>
  The sessions that are killed: with more sessions than the account may have,
  exactly the surplus, and those with the highest process ids; else none.
\<close>

lemma excess_length:
  "length (excess_sessions acc xs) = length xs - nat (acc_max_connections acc)"
  by (simp add: excess_sessions_def)

lemma excess_split:
  "mset xs = mset (take (nat (acc_max_connections acc)) (sort_key rs_pid xs)) + mset (excess_sessions acc xs)"
proof -
  have "mset xs = mset (sort_key rs_pid xs)" by simp
  also have "\<dots> = mset (take (nat (acc_max_connections acc)) (sort_key rs_pid xs)) +
      mset (drop (nat (acc_max_connections acc)) (sort_key rs_pid xs))"
    by (metis append_take_drop_id mset_append)
  finally show ?thesis by (simp add: excess_sessions_def)
qed

lemma excess_highest:
  assumes "k \<in> set (take (nat (acc_max_connections acc)) (sort_key rs_pid xs))"
    and "e \<in> set (excess_sessions acc xs)"
  shows "rs_pid k \<le> rs_pid e"
proof -
  let ?ys = "sort_key rs_pid xs" and ?n = "nat (acc_max_connections acc)"
  have "sorted (map rs_pid (take ?n ?ys @ drop ?n ?ys))"
    unfolding append_take_drop_id by simp
  then have "\<forall>a \<in> set (map rs_pid (take ?n ?ys)). \<forall>b \<in> set (map rs_pid (drop ?n ?ys)). a \<le> b"
    unfolding map_append sorted_append by blast
  moreover have "rs_pid k \<in> set (map rs_pid (take ?n ?ys))" using imageI [OF assms(1)] by (simp only: set_map)
  moreover have "rs_pid e \<in> set (map rs_pid (drop ?n ?ys))"
    using imageI [OF assms(2)] by (simp only: set_map excess_sessions_def)
  ultimately show ?thesis by blast
qed

lemma store_session_Inr:
  assumes "store_session E accs us sess s = (Inr us', t)"
  shows "us' = (case accs (rs_user sess) of None \<Rightarrow> us | Some _ \<Rightarrow> append_to (rs_user sess) sess us)"
  using assms
  by (auto simp: store_session_def py_return_def split: option.splits elim!: py_bind_InrE py_then_InrE)

definition grouped :: "(string \<Rightarrow> account option) \<Rightarrow> remote_session list \<Rightarrow> (string \<times> remote_session list) list \<Rightarrow> bool" where
  "grouped accs sess us \<longleftrightarrow> distinct (map fst us) \<and>
     (\<forall>u. map_of us u =
       (let mine = filter (\<lambda>x. rs_user x = u) sess
        in if accs u = None \<or> mine = [] then None else Some mine))"

lemma grouped_step:
  assumes "grouped accs sess us"
  shows "grouped accs (sess @ [x])
    (case accs (rs_user x) of None \<Rightarrow> us | Some _ \<Rightarrow> append_to (rs_user x) x us)"
  using assms
  by (auto simp: grouped_def Let_def append_to_map_of append_to_distinct
      simp del: map_of_eq_Some_iff split: option.splits)

lemma store_sessions_grouped:
  "py_fold (store_session E accs) us xs s = (Inr us', t) \<Longrightarrow> grouped accs sess us \<Longrightarrow>
   grouped accs (sess @ xs) us'"
proof (induction xs arbitrary: us sess s)
  case Nil
  then show ?case by (simp add: py_return_def)
next
  case (Cons x xs)
  from Cons.prems(1) obtain us1 s1 where first: "store_session E accs us x s = (Inr us1, s1)"
    and rest: "py_fold (store_session E accs) us1 xs s1 = (Inr us', t)"
    unfolding py_fold.simps by (rule py_bind_InrE)
  have "grouped accs (sess @ [x]) us1"
    unfolding store_session_Inr [OF first] by (rule grouped_step [OF Cons.prems(2)])
  from Cons.IH [OF rest this] show ?case by simp
qed

section \<open>Moving accounts\<close>

text \<open>One account moved: to a server with room, and the move is in the log.\<close>

definition moved_step :: "string \<Rightarrow> account \<Rightarrow> database \<Rightarrow> database \<Rightarrow> bool" where
  "moved_step from_name a d d' \<longleftrightarrow>
     (\<exists>target u. target \<in> set (servers d) \<and> is_available d target \<and>
        row_written (acc_id a) (\<lambda>r. r\<lparr>acc_server := srv_id target, acc_updated_at := u\<rparr>) d d' \<and>
        audited REBALANCE (acc_id a) None (''Moved from '' @ from_name @ '' to '' @ srv_name target) d d')"

definition provision_moved :: "'w env \<Rightarrow> account \<Rightarrow> server \<Rightarrow> ('w sys, command_result) py" where
  "provision_moved E acc target =
     with_ssh E target (\<lambda>ssh.
       py_bind (generate_temp_password E) (\<lambda>pw.
       py_then (create_user E ssh (acc_username acc) pw)
      (py_then (set_expiry E ssh (acc_username acc) (strftime_ymd (acc_expire_date acc)))
         (set_max_logins E ssh (acc_username acc) (acc_max_connections acc)))))"

lemma provision_moved_same_db: "steps same_db (provision_moved E acc target)"
  unfolding provision_moved_def by (intro steps_intro)

lemma move_account_eq:
  "move_account E down acc =
     py_bind (pick_best_server None) (\<lambda>target.
     py_then (provision_moved E acc target)
    (py_then (save_and_log E (acc\<lparr>acc_server := srv_id target\<rparr>) [F_server, F_updated_at] REBALANCE None
        (''Moved from '' @ srv_name down @ '' to '' @ srv_name target))
       (py_return ())))"
  by (simp add: move_account_def provision_moved_def save_and_log_def py_bind_assoc py_then_def)

lemma move_account_Inr:
  assumes "move_account E down a s = (Inr (), t)"
  shows "moved_step (srv_name down) a (db s) (db t)"
proof -
  from assms obtain target s1 x s2 a' where pick: "pick_best_server None s = (Inr target, s1)"
    and prov: "provision_moved E a target s1 = (Inr x, s2)"
    and save: "save_and_log E (a\<lparr>acc_server := srv_id target\<rparr>) [F_server, F_updated_at] REBALANCE None
        (''Moved from '' @ srv_name down @ '' to '' @ srv_name target) s2 = (Inr a', t)"
    unfolding move_account_eq by (elim py_bind_InrE py_then_InrE) (auto simp: py_return_def)
  have db2: "db s2 = db s"
    using steps_run [OF provision_moved_same_db prov] pick_best_server_Inr(1) [OF pick] by simp
  have F: "F_updated_at \<in> set [F_server, F_updated_at]" by simp
  from save F obtain u where a': "a' = a\<lparr>acc_server := srv_id target\<rparr>\<lparr>acc_updated_at := u\<rparr>"
    and row: "row_written (acc_id (a\<lparr>acc_server := srv_id target\<rparr>)) (write_account a' [F_server, F_updated_at])
                (db s2) (db t)"
    and log: "audited REBALANCE (acc_id (a\<lparr>acc_server := srv_id target\<rparr>)) None
        (''Moved from '' @ srv_name down @ '' to '' @ srv_name target) (db s2) (db t)"
    by (rule save_and_log_Inr)
  have "write_account a' [F_server, F_updated_at] = (\<lambda>r. r\<lparr>acc_server := srv_id target, acc_updated_at := u\<rparr>)"
    by (simp add: write_account_def a' fun_eq_iff)
  with row log pick_best_server_Inr(2,3) [OF pick] show ?thesis
    unfolding moved_step_def db2 account.simps by auto
qed

lemma move_account_Inl:
  assumes "move_account E down a s = (Inl e, t)"
  shows "db t = db s"
  using assms unfolding move_account_eq py_then_def
proof (elim py_bind_cases, goal_cases)
  case (1 e')
  then show ?case using pick_best_server_Inl by blast
next
  case (2 target s1 e')
  then show ?case using steps_run [OF provision_moved_same_db] pick_best_server_Inr(1) by metis
next
  case (3 target s1 x s2 e')
  then have "quiet s2 t" by (intro save_and_log_Inl [where fs = "[F_server, F_updated_at]"]) auto
  with 3 show ?case using steps_run [OF provision_moved_same_db] pick_best_server_Inr(1) by metis
qed (simp add: py_return_def)

lemma rebalance_chain:
  assumes "rebalance_users E i s = (Inr n, t)"
  shows "\<exists>down ys. db_server (db s) i = Some down \<and> length ys = n \<and>
    subseq ys (newest_first (filter (\<lambda>a. acc_server a = i \<and> acc_status a = Active) (accounts (db s)))) \<and>
    chain (moved_step (srv_name down)) ys (db s) (db t)"
proof -
  from assms obtain down s1 accs s2 where down: "get_server i s = (Inr down, s1)"
    and q: "query (\<lambda>d. newest_first
         (filter (\<lambda>a. acc_server a = srv_id down \<and> acc_status a = Active) (accounts d))) s1 = (Inr accs, s2)"
    and loop: "best_effort (move_account E down) accs s2 = (Inr n, t)"
    unfolding rebalance_users_def by (elim py_bind_InrE) blast
  have s1: "s1 = s" "db_server (db s) i = Some down" using down by (simp_all add: get_server_Inr)
  have i: "srv_id down = i" using db_server_Some [OF s1(2)] by simp
  have s2: "s2 = s" "accs = newest_first (filter (\<lambda>a. acc_server a = i \<and> acc_status a = Active) (accounts (db s)))"
    using q s1 i by (auto simp: query_def py_get_def)
  have "\<exists>ys. subseq ys accs \<and> length ys = n \<and> chain (moved_step (srv_name down)) ys (db s2) (db t)"
    by (rule best_effort_chain [OF _ _ loop]) (auto dest: move_account_Inr move_account_Inl)
  with s1 s2 show ?thesis by auto
qed


section \<open>Suspending at the traffic limit\<close>

text \<open>
  What one account of the traffic task gets: the new counter, and the status
  \<open>suspended\<close> together with the lock command exactly when it is over the limit.
\<close>

definition traffic_synced :: "account \<Rightarrow> rat \<Rightarrow> database \<Rightarrow> database \<Rightarrow> bool" where
  "traffic_synced acc g d d' \<longleftrightarrow>
     (\<forall>r. db_account d (acc_id acc) = Some r \<longrightarrow>
        (\<exists>r'. db_account d' (acc_id acc) = Some r' \<and>
           acc_status r' = (if over_limit acc g then Suspended else acc_status r) \<and>
           acc_bandwidth_used_gb r' = (if g = acc_bandwidth_used_gb acc then acc_bandwidth_used_gb r else g))) \<and>
     (\<forall>j. j \<noteq> acc_id acc \<longrightarrow> db_account d' j = db_account d j) \<and>
     servers d' = servers d \<and> plans d' = plans d \<and> sessions d' = sessions d \<and> logs d' = logs d"

lemma save_account_row:
  assumes "save_account E a fs s = (Inr a', t)" and "F_updated_at \<in> set fs"
  obtains u where "a' = a\<lparr>acc_updated_at := u\<rparr>"
    "row_written (acc_id a) (write_account a' fs) (db s) (db t)" "logs (db t) = logs (db s)" "io t = io s"
  using assms
proof (rule save_account_Inr)
  fix u r
  assume a': "a' = a\<lparr>acc_updated_at := u\<rparr>" and row: "db_account (db s) (acc_id a) = Some r"
    and dbt: "db t = (db s)\<lparr>accounts := replace_key acc_id (acc_id a) (write_account a' fs) (accounts (db s))\<rparr>"
    and io: "io t = io s"
  have "row_written (acc_id a) (write_account a' fs) (db s) (db t)"
    unfolding row_written_def dbt using row
    by (auto simp: db_account_update_same db_account_update_other)
  with a' dbt io show ?thesis by (intro that) simp_all
qed

end
