(* ===== verification/HealthFacts.thy ===== *)
theory HealthFacts
  imports TaskFacts
begin

text \<open>
  The health checks as a state machine per server: the number of failures in a
  row, and the address and status of the row.  \<open>health_view\<close> is the abstraction,
  \<open>fail_step\<close> and \<open>health_outcome\<close> the abstract steps, and the lemmas show that a
  run of \<open>check_all_servers_health\<close> is one abstract step of every server that is
  not down, and no step of any other.
\<close>

section \<open>What leaves the database and the failure counts alone\<close>

abbreviation remote :: "'w sys \<Rightarrow> 'w sys \<Rightarrow> bool" where
  "remote s t \<equiv> db t = db s \<and> health_fails t = health_fails s"

interpretation remote: effect remote
  by unfold_locales auto

lemma world_calls_remote [steps_intro]:
  "steps remote (ask f)" "steps remote (attempt g)" "steps remote (call ev g)"
  by (simp_all add: steps_def ask_def attempt_def call_def split: prod.splits)

lemma now_remote [steps_intro]: "steps remote (now E)"
  unfolding now_def by (rule world_calls_remote)

lemma lift_result_remote [steps_intro]: "steps remote (lift_result r)"
  unfolding lift_result_def by (intro steps_intro)

lemma load_key_remote [steps_intro]: "steps remote (load_private_key E path)"
proof -
  have "steps remote (try_key_classes E path ks)" for ks
    by (induction ks) (auto intro!: steps_intro)
  then show ?thesis unfolding load_private_key_def .
qed

lemma connections_remote [steps_intro]:
  "steps remote (connect E m)" "steps remote (disconnect E m)"
  unfolding connect_def disconnect_def Let_def by (intro steps_intro)+

lemma run_remote [steps_intro]: "steps remote (run E m cmd)"
  unfolding run_def by (intro steps_intro)

lemma get_health_remote [steps_intro]: "steps remote (get_health E m)"
  unfolding get_health_def by (intro steps_intro)

lemma with_ssh_remote [steps_intro]:
  "(\<And>m. steps remote (body m)) \<Longrightarrow> steps remote (with_ssh E srv body)"
  unfolding with_ssh_def by (intro steps_intro)


section \<open>The abstract machine\<close>

type_synonym health_state = "int \<times> (string \<times> server_status) option"

definition health_view :: "'w sys \<Rightarrow> nat \<Rightarrow> health_state" where
  "health_view s i =
     ((case health_fails s i of None \<Rightarrow> 0 | Some n \<Rightarrow> n),
      map_option (\<lambda>r. (srv_ip_address r, srv_status r)) (db_server (db s) i))"

definition fail_step :: "health_state \<Rightarrow> health_state" where
  "fail_step v = (case v of (n, row) \<Rightarrow>
     (n + 1, if n + 1 \<ge> 3 then map_option (\<lambda>(ip, st). (ip, SrvDown)) row else row))"

text \<open>The count starts again at 0, or at 1 when the row could not be saved.\<close>

definition answer_step :: "health_state \<Rightarrow> health_state \<Rightarrow> bool" where
  "answer_step v w \<longleftrightarrow>
     fst w \<in> {0, 1} \<and>
     (snd w = snd v \<or> (\<exists>ip. snd v = Some (ip, SrvActive) \<and> snd w = Some (ip, SrvFull)))"

definition health_outcome :: "health_state \<Rightarrow> health_state \<Rightarrow> bool" where
  "health_outcome v w \<longleftrightarrow> w = fail_step v \<or> answer_step v w"

definition unreachable :: "'w env \<Rightarrow> string \<Rightarrow> bool" where
  "unreachable E ip \<longleftrightarrow> (\<forall>args w. ca_hostname args = ip \<longrightarrow> isl (fst (env_connect E args w)))"

lemma connect_unreachable:
  assumes "unreachable E (srv_ip_address srv)"
  shows "\<exists>e t. connect E (get_ssh_manager srv) s = (Inl e, t)"
proof (cases "connect E (get_ssh_manager srv) s")
  case (Pair r t)
  show ?thesis
  proof (cases r)
    case (Inr m)
    with Pair have "connect E (get_ssh_manager srv) s = (Inr m, t)" by simp
    then obtain c args w where "dials srv args" "fst (env_connect E args w) = Inr c"
      by (rule connect_Inr)
    with assms have "isl (Inr c :: exn + nat)" unfolding unreachable_def dials_def by metis
    then show ?thesis by simp
  qed (use Pair in auto)
qed

lemma update_server_Inr:
  assumes "update_server i g d = (Inr x, d')"
  obtains r where "db_server d i = Some r" "d' = d\<lparr>servers := replace_key srv_id i g (servers d)\<rparr>"
  using assms by (auto simp: update_server_def split: option.splits)

lemma db_server_update_same:
  "(\<And>a. srv_id (g a) = srv_id a) \<Longrightarrow> db_server d i = Some r \<Longrightarrow>
   db_server (d\<lparr>servers := replace_key srv_id i g (servers d)\<rparr>) i = Some (g r)"
  by (simp add: db_server_update) (blast dest: db_server_Some)

lemma db_server_update_other:
  "(\<And>a. srv_id (g a) = srv_id a) \<Longrightarrow> j \<noteq> i \<Longrightarrow>
   db_server (d\<lparr>servers := replace_key srv_id i g (servers d)\<rparr>) j = db_server d j"
  by (cases "db_server d j") (auto simp: db_server_update dest: db_server_Some)

text \<open>The \<open>except\<close> branch on an object that agrees with the row up to the status.\<close>

lemma health_failed_view:
  assumes run: "health_failed E srv s = (Inr (), t)"
    and row: "db_server (db s) (srv_id srv) = Some r" "srv_ip_address r = srv_ip_address srv"
  shows "health_view t (srv_id srv) =
      fail_step (fst (health_view s (srv_id srv)), Some (srv_ip_address srv, srv_status srv))"
    and "j \<noteq> srv_id srv \<Longrightarrow> health_view t j = health_view s j"
    and "j \<noteq> srv_id srv \<Longrightarrow> db_server (db t) j = db_server (db s) j"
proof -
  define n where "n = fst (health_view s (srv_id srv))"
  from run obtain u s1 where now: "now E (s\<lparr>health_fails := (health_fails s)(srv_id srv \<mapsto> n + 1)\<rparr>) = (Inr u, s1)"
    and save: "save_server_status_check (srv\<lparr>srv_last_health_check := Some u,
              srv_status := (if n + 1 \<ge> 3 then SrvDown else srv_status srv)\<rparr>) s1 = (Inr (), t)"
    unfolding health_failed_def
    by (elim py_bind_InrE py_then_InrE)
       (auto simp: fail_count_def py_get_def set_fail_count_def py_modify_def health_view_def n_def)
  have s1: "db s1 = db s" "health_fails s1 = (health_fails s)(srv_id srv \<mapsto> n + 1)"
    using steps_run [OF now_remote now] by simp_all
  let ?g = "\<lambda>r :: server. r\<lparr>srv_status := (if n + 1 \<ge> 3 then SrvDown else srv_status srv), srv_last_health_check := Some u\<rparr>"
  have t: "db t = (db s)\<lparr>servers := replace_key srv_id (srv_id srv) ?g (servers (db s))\<rparr>"
    "health_fails t = (health_fails s)(srv_id srv \<mapsto> n + 1)"
    using save s1
    by (auto simp: save_server_status_check_def on_db_def split: prod.splits elim!: update_server_Inr)
  show "health_view t (srv_id srv) =
      fail_step (fst (health_view s (srv_id srv)), Some (srv_ip_address srv, srv_status srv))"
    using row by (simp add: health_view_def [of t] t db_server_update_same fail_step_def n_def)
  show "health_view t j = health_view s j" if "j \<noteq> srv_id srv"
    using that by (simp add: health_view_def t db_server_update_other)
  show "db_server (db t) j = db_server (db s) j" if "j \<noteq> srv_id srv"
    using that by (simp add: t db_server_update_other)
qed

lemma save_server_view:
  assumes run: "save_server E srv s = (Inr (), t)"
    and row: "db_server (db s) (srv_id srv) = Some r"
  shows "health_fails t = health_fails s"
    and "db_server (db t) (srv_id srv) \<noteq> None"
    and "map_option (\<lambda>r. (srv_ip_address r, srv_status r)) (db_server (db t) (srv_id srv)) =
           Some (srv_ip_address srv, srv_status srv)"
    and "j \<noteq> srv_id srv \<Longrightarrow> db_server (db t) j = db_server (db s) j"
proof -
  obtain u s1 where now: "now E s = (Inr u, s1)" "quiet s s1" using now_returns by blast
  then have upd: "on_db (update_server (srv_id srv) (\<lambda>r. srv\<lparr>srv_id := srv_id r, srv_updated_at := u\<rparr>)) s1 = (Inr (), t)"
    using run row by (simp add: save_server_def py_bind_def query_def py_get_def)
  have s1: "db s1 = db s" "health_fails s1 = health_fails s"
    using steps_run [OF now_remote now(1)] by simp_all
  let ?g = "\<lambda>r :: server. srv\<lparr>srv_id := srv_id r, srv_updated_at := u\<rparr>"
  have t: "db t = (db s)\<lparr>servers := replace_key srv_id (srv_id srv) ?g (servers (db s))\<rparr>"
    "health_fails t = health_fails s"
    using upd s1 by (auto simp: on_db_def split: prod.splits elim!: update_server_Inr)
  have self: "db_server (db t) (srv_id srv) = Some (?g r)"
    unfolding t using row by (intro db_server_update_same) simp_all
  show "health_fails t = health_fails s" by (rule t)
  show "db_server (db t) (srv_id srv) \<noteq> None"
    "map_option (\<lambda>r. (srv_ip_address r, srv_status r)) (db_server (db t) (srv_id srv)) =
           Some (srv_ip_address srv, srv_status srv)"
    by (simp_all add: self)
  show "db_server (db t) j = db_server (db s) j" if "j \<noteq> srv_id srv"
    unfolding t using that by (intro db_server_update_other) simp_all
qed

lemma save_server_Inl:
  assumes "save_server E srv s = (Inl e, t)"
  shows "remote s t"
proof -
  obtain u s1 where now: "now E s = (Inr u, s1)" "quiet s s1" using now_returns by blast
  obtain v s2 where now2: "now E s1 = (Inr v, s2)" "quiet s1 s2" using now_returns by blast
  obtain w s3 where now3: "now E s2 = (Inr w, s3)" "quiet s2 s3" using now_returns by blast
  note clocks = steps_run [OF now_remote now(1)] steps_run [OF now_remote now2(1)] steps_run [OF now_remote now3(1)]
  with assms now now2 now3 show ?thesis
    by (cases "db_server (db s) (srv_id srv)")
       (auto simp: save_server_def py_bind_def query_def py_get_def on_db_def update_server_def restore_server_def
        split: prod.splits option.splits if_splits)
qed

text \<open>The end of a check that was answered: the row is saved, or the failure of that counted.\<close>

lemma save_or_count_view:
  assumes end_run: "py_try (save_server E srv2) (\<lambda>_. health_failed E srv2) s3 = (Inr (), t)"
    and row3: "db_server (db s3) (srv_id srv2) = Some r"
    and s3: "db s3 = db s" "health_fails s3 = (health_fails s)(srv_id srv \<mapsto> 0)"
    and srv2: "srv_id srv2 = srv_id srv" "srv_ip_address srv2 = srv_ip_address srv"
      "srv_status srv2 = srv_status srv \<or> srv_status srv = SrvActive \<and> srv_status srv2 = SrvFull"
    and view: "health_view s (srv_id srv) =
      (fst (health_view s (srv_id srv)), Some (srv_ip_address srv, srv_status srv))"
  shows "answer_step (health_view s (srv_id srv)) (health_view t (srv_id srv)) \<and>
      (\<forall>j. j \<noteq> srv_id srv \<longrightarrow> health_view t j = health_view s j \<and> db_server (db t) j = db_server (db s) j)"
proof (cases "save_server E srv2 s3")
  case (Pair q s4)
  show ?thesis
  proof (cases q)
    case (Inr x)
    with Pair end_run have saved: "save_server E srv2 s3 = (Inr (), t)" by (simp add: py_try_def)
    note facts = save_server_view [OF saved row3]
    have "health_view t (srv_id srv) = (0, Some (srv_ip_address srv, srv_status srv2))"
      using facts(1,3) by (simp add: health_view_def s3 srv2)
    moreover have "health_view t j = health_view s j \<and> db_server (db t) j = db_server (db s) j" if "j \<noteq> (srv_id srv)" for j
      using facts(1) facts(4) [of j] that by (simp add: health_view_def s3 srv2)
    ultimately show ?thesis using srv2(3) by (subst view) (auto simp: answer_step_def)
  next
    case (Inl e)
    with Pair end_run have fail: "health_failed E srv2 s4 = (Inr (), t)" by (simp add: py_try_def)
    have s4: "remote s3 s4" by (rule save_server_Inl) (use Pair Inl in auto)
    have row4: "db_server (db s4) (srv_id srv2) = Some r" using row3 s4 by simp
    have ip: "srv_ip_address r = srv_ip_address srv2" using row3 s3 view srv2 by (simp add: health_view_def)
    note failed = health_failed_view [OF fail row4 ip]
    have "fst (health_view s4 (srv_id srv2)) = 0" by (simp add: health_view_def s4 s3 srv2)
    with failed(1) have "health_view t (srv_id srv) = (1, Some (srv_ip_address srv, srv_status srv2))"
      by (simp add: fail_step_def srv2)
    moreover have "health_view t j = health_view s j \<and> db_server (db t) j = db_server (db s) j" if "j \<noteq> (srv_id srv)" for j
      using failed(2,3) [of j] that by (simp add: health_view_def s4 s3 srv2)
    ultimately show ?thesis using srv2(3) by (subst view) (auto simp: answer_step_def)
  qed
qed

text \<open>One check is one abstract step of its server, and none of the others.\<close>

lemma check_server_health_view:
  assumes run: "check_server_health E srv s = (Inr (), t)"
    and row: "db_server (db s) (srv_id srv) = Some r" "srv_ip_address r = srv_ip_address srv"
      "srv_status r = srv_status srv"
  shows "health_outcome (health_view s (srv_id srv)) (health_view t (srv_id srv))"
    and "unreachable E (srv_ip_address srv) \<Longrightarrow>
      health_view t (srv_id srv) = fail_step (health_view s (srv_id srv))"
    and "j \<noteq> srv_id srv \<Longrightarrow> health_view t j = health_view s j"
    and "j \<noteq> srv_id srv \<Longrightarrow> db_server (db t) j = db_server (db s) j"
proof -
  let ?i = "srv_id srv"
  let ?probe = "py_try (py_bind (with_ssh E srv (\<lambda>ssh. get_health E ssh)) (\<lambda>h. py_return (Some h)))
               (\<lambda>_. py_return None)"
  have view: "health_view s ?i = (fst (health_view s ?i), Some (srv_ip_address srv, srv_status srv))"
    using row by (simp add: health_view_def)
  obtain p s1 where probe: "?probe s = (Inr p, s1)" and
    rest: "(case p of
         None \<Rightarrow> health_failed E srv
       | Some h \<Rightarrow>
           py_bind (now E) (\<lambda>t.
           let srv1 = with_health srv h t;
               srv2 = (if cpu_overload srv1 then srv1\<lparr>srv_status := SrvFull\<rparr> else srv1)
           in py_then (set_fail_count (srv_id srv) 0)
                (py_try (save_server E srv2) (\<lambda>_. health_failed E srv2)))) s1 = (Inr (), t)"
    using run unfolding check_server_health_def by (rule py_bind_InrE)
  have "steps remote ?probe" by (intro steps_intro)
  then have s1: "remote s s1" using probe by (rule steps_run)
  then have view1: "health_view s1 j = health_view s j" for j by (simp add: health_view_def)
  have "health_outcome (health_view s ?i) (health_view t ?i) \<and>
     (unreachable E (srv_ip_address srv) \<longrightarrow> health_view t ?i = fail_step (health_view s ?i)) \<and>
     (\<forall>j. j \<noteq> ?i \<longrightarrow> health_view t j = health_view s j \<and> db_server (db t) j = db_server (db s) j)"
  proof (cases p)
    case None
    then have fail: "health_failed E srv s1 = (Inr (), t)" using rest by simp
    have row1: "db_server (db s1) ?i = Some r" using row s1 by simp
    note failed = health_failed_view [OF fail row1 row(2)]
    have "health_view t ?i = fail_step (health_view s ?i)"
      using failed(1) view by (simp add: view1)
    with failed(2,3) s1 show ?thesis by (simp add: health_outcome_def view1)
  next
    case (Some h)
    have reach: "\<not> unreachable E (srv_ip_address srv)"
    proof
      assume "unreachable E (srv_ip_address srv)"
      then obtain e s0 where "connect E (get_ssh_manager srv) s = (Inl e, s0)"
        using connect_unreachable by blast
      with probe Some show False
        by (simp add: with_ssh_def py_bind_def py_try_def py_return_def)
    qed
    from rest Some obtain u s2 where now: "now E s1 = (Inr u, s2)" and
      more: "py_then (set_fail_count ?i 0) (py_try (save_server E (if cpu_overload (with_health srv h u)
           then (with_health srv h u)\<lparr>srv_status := SrvFull\<rparr> else with_health srv h u))
           (\<lambda>_. health_failed E (if cpu_overload (with_health srv h u)
           then (with_health srv h u)\<lparr>srv_status := SrvFull\<rparr> else with_health srv h u))) s2 = (Inr (), t)"
      by (auto simp: Let_def elim: py_bind_InrE)
    define srv2 where "srv2 = (if cpu_overload (with_health srv h u)
           then (with_health srv h u)\<lparr>srv_status := SrvFull\<rparr> else with_health srv h u)"
    have srv2: "srv_id srv2 = ?i" "srv_ip_address srv2 = srv_ip_address srv"
      "srv_status srv2 = srv_status srv \<or> srv_status srv = SrvActive \<and> srv_status srv2 = SrvFull"
      by (auto simp: srv2_def with_health_def cpu_overload_def)
    define s3 where "s3 = s2\<lparr>health_fails := (health_fails s2)(?i \<mapsto> 0)\<rparr>"
    have s3: "db s3 = db s" "health_fails s3 = (health_fails s)(?i \<mapsto> 0)"
      using steps_run [OF now_remote now] s1 by (simp_all add: s3_def)
    have row3: "db_server (db s3) (srv_id srv2) = Some r" using row s3 srv2 by simp
    have end_run: "py_try (save_server E srv2) (\<lambda>_. health_failed E srv2) s3 = (Inr (), t)"
      using more by (simp add: srv2_def [symmetric] s3_def py_then_def py_bind_def set_fail_count_def py_modify_def)
    have others3: "health_view s3 j = health_view s j" if "j \<noteq> ?i" for j
      using that by (simp add: health_view_def s3)
    have "answer_step (health_view s ?i) (health_view t ?i) \<and>
      (\<forall>j. j \<noteq> ?i \<longrightarrow> health_view t j = health_view s j \<and> db_server (db t) j = db_server (db s) j)"
      by (rule save_or_count_view [OF end_run row3 s3 srv2 view])
    with reach show ?thesis by (simp add: health_outcome_def)
  qed
  then show "health_outcome (health_view s ?i) (health_view t ?i)"
    "unreachable E (srv_ip_address srv) \<Longrightarrow> health_view t ?i = fail_step (health_view s ?i)"
    "j \<noteq> ?i \<Longrightarrow> health_view t j = health_view s j" "j \<noteq> ?i \<Longrightarrow> db_server (db t) j = db_server (db s) j"
    by simp_all
qed

section \<open>A run of the task\<close>

lemma check_servers_view:
  assumes "py_for srvs (check_server_health E) s = (Inr (), t)"
    and "distinct (map srv_id srvs)"
    and "\<forall>srv \<in> set srvs. db_server (db s) (srv_id srv) = Some srv"
  shows "(\<forall>srv \<in> set srvs. health_outcome (health_view s (srv_id srv)) (health_view t (srv_id srv)) \<and>
           (unreachable E (srv_ip_address srv) \<longrightarrow>
             health_view t (srv_id srv) = fail_step (health_view s (srv_id srv)))) \<and>
         (\<forall>j. j \<notin> srv_id ` set srvs \<longrightarrow> health_view t j = health_view s j)"
  using assms
proof (induction srvs arbitrary: s)
  case Nil
  then show ?case by (simp add: py_return_def)
next
  case (Cons srv srvs)
  let ?ok = "\<lambda>s srv. health_outcome (health_view s (srv_id srv)) (health_view t (srv_id srv)) \<and>
           (unreachable E (srv_ip_address srv) \<longrightarrow>
             health_view t (srv_id srv) = fail_step (health_view s (srv_id srv)))"
  from Cons.prems(1) obtain x s1 where one: "check_server_health E srv s = (Inr (), s1)"
    and more: "py_for srvs (check_server_health E) s1 = (Inr (), t)"
    unfolding py_for.simps by (auto elim: py_then_InrE)
  have row: "db_server (db s) (srv_id srv) = Some srv" using Cons.prems(3) by simp
  note step = check_server_health_view [OF one row refl refl]
  have notin: "srv_id srv \<notin> srv_id ` set srvs" using Cons.prems(2) by simp
  have "\<forall>srv' \<in> set srvs. db_server (db s1) (srv_id srv') = Some srv'"
  proof
    fix srv' assume "srv' \<in> set srvs"
    with notin have "srv_id srv' \<noteq> srv_id srv" by (metis imageI)
    with step(4) Cons.prems(3) \<open>srv' \<in> set srvs\<close> show "db_server (db s1) (srv_id srv') = Some srv'" by simp
  qed
  with Cons.IH [OF more] Cons.prems(2)
  have IH: "\<forall>srv \<in> set srvs. ?ok s1 srv"
    "\<forall>j. j \<notin> srv_id ` set srvs \<longrightarrow> health_view t j = health_view s1 j" by simp_all
  have rest: "?ok s srv'" if "srv' \<in> set srvs" for srv'
  proof -
    have "srv_id srv' \<noteq> srv_id srv" using that notin by (metis imageI)
    with step(3) have same: "health_view s1 (srv_id srv') = health_view s (srv_id srv')" by simp
    have "?ok s1 srv'" using IH(1) that by blast
    then show ?thesis unfolding same .
  qed
  have first: "?ok s srv" using step(1,2) IH(2) notin by simp
  have others: "health_view t j = health_view s j" if "j \<notin> srv_id ` set (srv # srvs)" for j
    using that IH(2) step(3) by simp
  show ?case using first rest others by simp
qed

lemma db_server_found:
  "db_wf d \<Longrightarrow> r \<in> set (servers d) \<Longrightarrow> db_server d (srv_id r) = Some r"
  unfolding db_server_def db_wf_def servers_ok_def ids_ok_def by (rule find_key) auto

lemma check_all_view:
  assumes wf: "db_wf (db s)" and run: "check_all_servers_health E s = (Inr (), t)"
    and row: "db_server (db s) i = Some r"
  shows "srv_status r = SrvDown \<Longrightarrow> health_view t i = health_view s i"
    and "srv_status r \<noteq> SrvDown \<Longrightarrow> health_outcome (health_view s i) (health_view t i)"
    and "srv_status r \<noteq> SrvDown \<Longrightarrow> unreachable E (srv_ip_address r) \<Longrightarrow>
      health_view t i = fail_step (health_view s i)"
proof -
  define srvs where "srvs = by_name E (filter (\<lambda>r. srv_status r \<noteq> SrvDown) (servers (db s)))"
  have loop: "py_for srvs (check_server_health E) s = (Inr (), t)"
    using run by (simp add: check_all_servers_health_def query_def py_bind_def py_get_def srvs_def)
  have "distinct (map srv_id (servers (db s)))" using wf by (simp add: db_wf_def servers_ok_def ids_ok_def)
  then have dist: "distinct (map srv_id srvs)"
    by (simp add: srvs_def by_name_def distinct_map) (auto intro: inj_on_subset)
  have set_srvs: "set srvs = {r \<in> set (servers (db s)). srv_status r \<noteq> SrvDown}"
    by (auto simp: srvs_def by_name_def)
  have rows: "\<forall>srv \<in> set srvs. db_server (db s) (srv_id srv) = Some srv"
    using db_server_found [OF wf] by (simp add: set_srvs)
  have r: "r \<in> set (servers (db s))" "srv_id r = i" using db_server_Some [OF row] by auto
  note view = check_servers_view [OF loop dist rows]
  show "health_view t i = health_view s i" if "srv_status r = SrvDown"
  proof -
    have "i \<notin> srv_id ` set srvs" using rows row that by (auto simp: set_srvs)
    with view show ?thesis by simp
  qed
  show "health_outcome (health_view s i) (health_view t i)" if "srv_status r \<noteq> SrvDown"
    using view r that by (auto simp: set_srvs)
  show "health_view t i = fail_step (health_view s i)"
    if "srv_status r \<noteq> SrvDown" "unreachable E (srv_ip_address r)"
    using view r that by (auto simp: set_srvs)
qed

end
