(* ===== verification/Demo.thy ===== *)
theory Demo
  imports HealthFacts
begin

text \<open>
  A concrete environment and a concrete database, on which the properties are
  instantiated.  The world is a counter that every call advances; the nodes answer
  every command with exit code 0 and the output ``ok'', the bridge answers 200.
\<close>

definition demo_time :: datetime where
  "demo_time = 1700000000000000"

definition demo_env :: "nat env" where
  "demo_env =
     \<lparr>env_clock = (\<lambda>w. (demo_time + int w, w + 1)),
      env_choice = (\<lambda>cs w. (cs ! (w mod length cs), w + 1)),
      env_uuid4 = (\<lambda>w. (100 + w, w + 1)),
      env_collate = (\<lambda>s. s),
      env_inet = (\<lambda>s. True),
      env_load_key = (\<lambda>k path w. (Inr 0, w + 1)),
      env_connect = (\<lambda>args w. (Inr w, w + 1)),
      env_exec = (\<lambda>c cmd timeout w. (Inr (0, ''ok'', ''''), w + 1)),
      env_close = (\<lambda>c w. w + 1),
      env_sftp = (\<lambda>c op w. (Inr (), w + 1)),
      env_http = (\<lambda>req w. (HttpResponse 200 ''{}'', w + 1)),
      env_parse_json = (\<lambda>s. Some (JObj [])),
      env_yaml = (\<lambda>j. ''''),
      env_delay = (\<lambda>name arg w. w + 1)\<rparr>"

text \<open>The same with every node unreachable.\<close>

definition down_env :: "nat env" where
  "down_env = demo_env\<lparr>env_connect := (\<lambda>args w. (Inl (OtherError ''timed out''), w + 1))\<rparr>"

definition demo_server :: server where
  "demo_server =
     \<lparr>srv_id = 1, srv_name = ''a'', srv_ip_address = ''10.0.0.1'', srv_ssh_port = 22, srv_ssh_user = ''root'',
      srv_ssh_key_path = ''/k'', srv_protocol_type = SSH, srv_status = SrvActive, srv_location = '''',
      srv_max_users = 10, srv_shadowlink_port = 8443, srv_shadowlink_ws_path = ''/ws'',
      srv_shadowlink_domain = '''', srv_shadowlink_bridge_port = 9090, srv_shadowlink_api_key = ''key'',
      srv_cpu_usage = Fin 5, srv_ram_usage = Fin 0, srv_disk_usage = Fin 0, srv_uptime_seconds = 0,
      srv_last_health_check = None, srv_created_at = 0, srv_updated_at = 0\<rparr>"

definition demo_plan :: plan where
  "demo_plan =
     \<lparr>plan_id = 1, plan_name = ''p'', plan_duration_days = 30, plan_price_cents = 500, plan_currency = ''USD'',
      plan_max_connections = 2, plan_bandwidth_limit_gb = 0, plan_is_active = True, plan_description = '''',
      plan_created_at = 0\<rparr>"

definition demo_account :: account where
  "demo_account =
     \<lparr>acc_id = 1, acc_username = ''bob'', acc_password_display = ''pw'', acc_server = 1, acc_plan = Some 1,
      acc_protocol_type = SSH, acc_status = Active, acc_expire_date = 5, acc_max_connections = 1,
      acc_bandwidth_limit_gb = 1, acc_bandwidth_used_gb = 0, acc_access_token = 1, acc_auth_token = 2,
      acc_created_by = None, acc_note = '''', acc_created_at = 0, acc_updated_at = 0\<rparr>"

definition demo_link :: account where
  "demo_link = demo_account\<lparr>acc_id := 2, acc_username := ''eve'', acc_protocol_type := SHADOWLINK,
      acc_status := Expired, acc_access_token := 3, acc_auth_token := 4\<rparr>"

definition demo_db :: database where
  "demo_db =
     \<lparr>servers = [demo_server], plans = [demo_plan], accounts = [demo_account, demo_link], sessions = [],
      logs = [], next_server = 2, next_plan = 2, next_account = 3, next_session = 1, next_log = 1\<rparr>"

definition demo_sys :: "nat sys" where
  "demo_sys = \<lparr>world = 0, db = demo_db, io = [], health_fails = (\<lambda>i. None)\<rparr>"

lemma returned: "\<not> isl (fst p) \<Longrightarrow> p = (Inr (projr (fst p)), snd p)"
  by (cases p; cases "fst p") auto

lemma raised: "isl (fst p) \<Longrightarrow> p = (Inl (projl (fst p)), snd p)"
  by (cases p; cases "fst p") auto

lemma demo_wf: "db_wf demo_db"
  by code_simp


lemmas demo_defs = demo_env_def down_env_def demo_sys_def demo_db_def demo_server_def demo_plan_def
  demo_account_def demo_link_def demo_time_def

lemmas run_defs = py_bind_def py_then_def py_return_def py_raise_def py_try_def py_finally_def py_get_def
  py_modify_def py_when_def ask_def attempt_def call_def on_db_def query_def found_def get_server_def
  atomic_def now_def create_account_row_def create_log_def save_account_def
  insert_account_def insert_log_def update_account_def account_violation_def log_violation_def
  first_violation_def too_long_def pg_int_max_def db_account_def db_server_def db_plan_def replace_key_def write_account_def

lemmas ssh_defs = with_ssh_def connect_def get_ssh_manager_def load_private_key_def disconnect_def run_def
  create_user_def set_expiry_def set_max_logins_def ensure_maxlogin_script_def setup_traffic_accounting_def
  lock_user_def ok_def contains_def

lemma demo_suspend: "\<not> isl (fst (suspend_account demo_env demo_account None demo_sys))"
  by (simp add: demo_defs run_defs ssh_defs suspend_account_def Let_def)

lemma demo_create: "\<not> isl (fst (create_account demo_env ((default_args ''amy'' demo_plan)\<lparr>arg_password := Some ''x''\<rparr>) demo_sys))"
  by (simp add: demo_defs run_defs ssh_defs create_account_def pick_best_server_def default_args_def default_to_def
   provision_ssh_account_def by_cpu_def is_available_def datetime_ok_def min_datetime_def max_datetime_def day_us_def epoch_ordinal_def current_user_count_def lift_result_def add_days_def Let_def)

lemma demo_extend: "\<not> isl (fst (extend_account demo_env demo_account 30 None demo_sys))"
  by (simp add: demo_defs run_defs ssh_defs extend_account_def extend_def datetime_ok_def min_datetime_def
      max_datetime_def day_us_def epoch_ordinal_def lift_result_def add_days_def Let_def)

end
