(* ===== verification/TrafficFacts.thy ===== *)
theory TrafficFacts
  imports TaskFacts
begin

text \<open>
  The bandwidth synchronisation of one account (\<^verbatim>\<open>sync_bandwidth_usage\<close> of accounts/tasks.py):
  a round that ends without an exception stores the usage read from the node and, when
  the limit is reached, locks the Linux user and suspends the row.
\<close>

lemma lock_user_execs [steps_intro]: "steps (execs c) (lock_user E (connected srv c) u)"
  unfolding lock_user_def by (intro steps_intro)

lemma get_bytes_execs [steps_intro]: "steps (execs c) (get_user_bandwidth_bytes E (connected srv c) u)"
proof -
  have "steps (execs c) (lift_result r)" for r :: "exn + int"
    unfolding lift_result_def by (intro steps_intro)
  then show ?thesis unfolding get_user_bandwidth_bytes_def by (intro steps_intro)
qed

text \<open>The number of bytes that the node's answer to the listing of the user's chain stands for.\<close>

definition counter_read :: "'w env \<Rightarrow> nat \<Rightarrow> string \<Rightarrow> int \<Rightarrow> bool" where
  "counter_read E c user n \<longleftrightarrow>
     (\<exists>w code out err.
        fst (env_exec E c (''iptables -L '' @ traffic_chain user @ '' -nvx 2>/dev/null | tail -1'') 30 w) =
          Inr (code, out, err) \<and>
        parse_bandwidth \<lparr>exit_code = code, stdout = py_strip out, stderr = py_strip err\<rparr> = Inr n)"

lemma run_answer:
  assumes "run E (connected srv c) cmd s = (Inr r, t)"
  shows "\<exists>w code out err. fst (env_exec E c cmd 30 w) = Inr (code, out, err) \<and>
    r = \<lparr>exit_code = code, stdout = py_strip out, stderr = py_strip err\<rparr>"
  using assms
  by (auto simp: run_def connected_def py_bind_def py_return_def call_def
      intro!: exI [of _ "world s"] split: prod.splits sum.splits)

lemma get_bytes_Inr:
  assumes "get_user_bandwidth_bytes E (connected srv c) user s = (Inr n, t)"
  shows "counter_read E c user n"
proof -
  from assms obtain r s1 where
    "run E (connected srv c) (''iptables -L '' @ traffic_chain user @ '' -nvx 2>/dev/null | tail -1'') s = (Inr r, s1)"
    and "lift_result (parse_bandwidth r) s1 = (Inr n, t)"
    unfolding get_user_bandwidth_bytes_def by (rule py_bind_InrE)
  then have "parse_bandwidth r = Inr n"
    by (auto simp: lift_result_def py_return_def py_raise_def split: sum.splits)
  with run_answer [OF \<open>run _ _ _ s = _\<close>] show ?thesis
    unfolding counter_read_def by blast
qed

lemma sync_account_bandwidth_Inr:
  assumes run: "sync_account_bandwidth E (connected srv c) acc s = (Inr (), t)"
  obtains n g where "counter_read E c (acc_username acc) n" "gb_of_bytes n = Inr g"
    "traffic_synced acc g (db s) (db t)"
    "over_limit acc g \<Longrightarrow> Exec c (''usermod -L '' @ shell_quote (acc_username acc)) \<in> set (io t)"
proof -
  let ?ssh = "connected srv c"
  from run obtain x s1 n s2 g s3 acc' s4
    where acct: "setup_traffic_accounting E ?ssh (acc_username acc) s = (Inr x, s1)"
    and bytes: "get_user_bandwidth_bytes E ?ssh (acc_username acc) s1 = (Inr n, s2)"
    and gb: "lift_result (gb_of_bytes n) s2 = (Inr g, s3)"
    and counter: "(if g \<noteq> acc_bandwidth_used_gb acc
              then save_account E (acc\<lparr>acc_bandwidth_used_gb := g\<rparr>) [F_bandwidth_used_gb, F_updated_at]
              else py_return acc) s3 = (Inr acc', s4)"
    and limit: "py_when (over_limit acc' g)
       (py_then (lock_user E ?ssh (acc_username acc'))
       (py_then (save_account E (acc'\<lparr>acc_status := Suspended\<rparr>) [F_status, F_updated_at])
          (py_return ()))) s4 = (Inr (), t)"
    unfolding sync_account_bandwidth_def by (elim py_bind_InrE py_then_InrE) blast
  have g: "gb_of_bytes n = Inr g" and s3: "s3 = s2"
    using gb by (auto simp: lift_result_def py_return_def py_raise_def split: sum.splits)
  have count: "counter_read E c (acc_username acc) n" using bytes by (rule get_bytes_Inr)
  have db3: "db s3 = db s"
    using steps_run [OF ssh_accounting_same_db(2) acct] steps_run [OF ssh_accounting_same_db(3) bytes] s3 by simp
  have acc': "acc_id acc' = acc_id acc \<and> acc_username acc' = acc_username acc \<and>
      acc_bandwidth_limit_gb acc' = acc_bandwidth_limit_gb acc \<and>
      (g = acc_bandwidth_used_gb acc \<and> db s4 = db s \<or>
       g \<noteq> acc_bandwidth_used_gb acc \<and> logs (db s4) = logs (db s) \<and>
       (\<exists>u. row_written (acc_id acc) (\<lambda>r. r\<lparr>acc_bandwidth_used_gb := g, acc_updated_at := u\<rparr>) (db s) (db s4)))"
  proof (cases "g = acc_bandwidth_used_gb acc")
    case True
    with counter db3 show ?thesis by (simp add: py_return_def)
  next
    case False
    with counter have save: "save_account E (acc\<lparr>acc_bandwidth_used_gb := g\<rparr>) [F_bandwidth_used_gb, F_updated_at] s3
        = (Inr acc', s4)" by simp
    have F: "F_updated_at \<in> set [F_bandwidth_used_gb, F_updated_at]" by simp
    from save F obtain u where a': "acc' = acc\<lparr>acc_bandwidth_used_gb := g\<rparr>\<lparr>acc_updated_at := u\<rparr>"
      and row: "row_written (acc_id (acc\<lparr>acc_bandwidth_used_gb := g\<rparr>))
          (write_account acc' [F_bandwidth_used_gb, F_updated_at]) (db s3) (db s4)"
      and lg: "logs (db s4) = logs (db s3)" by (rule save_account_row)
    have "write_account acc' [F_bandwidth_used_gb, F_updated_at] = (\<lambda>r. r\<lparr>acc_bandwidth_used_gb := g, acc_updated_at := u\<rparr>)"
      by (simp add: write_account_def a' fun_eq_iff)
    with row lg False a' show ?thesis unfolding db3 account.simps by auto
  qed
  have over: "over_limit acc' g = over_limit acc g" using acc' by (simp add: over_limit_def)
  show ?thesis
  proof (cases "over_limit acc g")
    case False
    with limit over have t: "t = s4" by (simp add: py_return_def)
    have "traffic_synced acc g (db s) (db t)"
      using acc' False unfolding t traffic_synced_def row_written_def by (auto split: if_splits)
    with count g False show ?thesis by (intro that) auto
  next
    case True
    with limit over obtain y s5 b s6 where lock: "lock_user E ?ssh (acc_username acc') s4 = (Inr y, s5)"
      and save: "save_account E (acc'\<lparr>acc_status := Suspended\<rparr>) [F_status, F_updated_at] s5 = (Inr b, s6)"
      and ret: "py_return () s6 = (Inr (), t)"
      by (auto elim!: py_then_InrE)
    have lock': "db s5 = db s4" "io s5 = io s4 @ [Exec c (''usermod -L '' @ shell_quote (acc_username acc))]"
      using run_connected [OF lock [unfolded lock_user_def]] acc' by simp_all
    have F: "F_updated_at \<in> set [F_status, F_updated_at]" by simp
    from save F obtain u where b: "b = acc'\<lparr>acc_status := Suspended\<rparr>\<lparr>acc_updated_at := u\<rparr>"
      and row: "row_written (acc_id (acc'\<lparr>acc_status := Suspended\<rparr>)) (write_account b [F_status, F_updated_at]) (db s5) (db s6)"
      and lg: "logs (db s6) = logs (db s5)" and io6: "io s6 = io s5" by (rule save_account_row)
    have w: "write_account b [F_status, F_updated_at] = (\<lambda>r. r\<lparr>acc_status := Suspended, acc_updated_at := u\<rparr>)"
      by (simp add: write_account_def b fun_eq_iff)
    have row': "row_written (acc_id acc) (\<lambda>r. r\<lparr>acc_status := Suspended, acc_updated_at := u\<rparr>) (db s4) (db s6)"
      using row acc' unfolding w lock' account.simps by simp
    have t: "t = s6" using ret by (simp add: py_return_def)
    have "traffic_synced acc g (db s) (db t)"
      using acc' True row' lg unfolding t traffic_synced_def row_written_def lock' by auto
    with io6 lock' t show ?thesis by (intro that [OF count g]) auto
  qed
qed

end
