(* ===== verification/NodeFacts.thy ===== *)
theory NodeFacts
  imports TrafficFacts
begin

text \<open>
  When every node answers: connections open, commands run to their end, and so the
  best-effort tasks process every element of their queryset.  The second part is
  the trace of the session limit.
\<close>

section \<open>Nodes that answer\<close>

definition nodes_answer :: "'w env \<Rightarrow> bool" where
  "nodes_answer E \<longleftrightarrow>
     (\<forall>k path w. \<not> isl (fst (env_load_key E k path w))) \<and>
     (\<forall>args w. \<not> isl (fst (env_connect E args w))) \<and>
     (\<forall>c cmd limit w. \<not> isl (fst (env_exec E c cmd limit w)))"

definition returns :: "('s, 'a) py \<Rightarrow> 's \<Rightarrow> bool" where
  "returns m s \<longleftrightarrow> (\<exists>x t. m s = (Inr x, t))"

lemma returns_bind:
  assumes "returns m s" and "\<And>x t. m s = (Inr x, t) \<Longrightarrow> returns (f x) t"
  shows "returns (py_bind m f) s"
proof -
  from assms(1) obtain x t where "m s = (Inr x, t)" unfolding returns_def by blast
  with assms(2) [OF this] show ?thesis by (simp add: returns_def py_bind_def)
qed

lemma returns_return [simp]: "returns (py_return x) s"
  by (simp add: returns_def py_return_def)

lemma returns_iff: "returns m s \<longleftrightarrow> \<not> isl (fst (m s))"
  unfolding returns_def by (cases "m s"; cases "fst (m s)") auto

lemma call_returns: "(\<And>w. \<not> isl (fst (g w))) \<Longrightarrow> returns (call ev g) s"
  by (simp add: returns_iff call_def split: prod.splits) (metis fst_conv)

lemma connect_returns:
  assumes "nodes_answer E"
  shows "returns (connect E m) s"
proof -
  have key: "returns (load_private_key E path) v" for path v
    using assms
    by (auto simp: load_private_key_def returns_def nodes_answer_def attempt_def py_try_def
        split: prod.splits sum.splits) (metis fst_conv sum.disc(1))
  have call: "returns (call ev (env_connect E args)) v" for ev args v
    using assms by (intro call_returns) (simp add: nodes_answer_def)
  show ?thesis
    unfolding connect_def Let_def
    by (cases "mgr_client m") (auto intro!: returns_bind key call)
qed

lemma run_returns:
  assumes "nodes_answer E"
  shows "returns (run E (connected srv c) cmd) s"
proof -
  have "returns (call (Exec c cmd) (env_exec E c cmd 30)) v" for v
    using assms by (intro call_returns) (simp add: nodes_answer_def)
  then show ?thesis
    unfolding run_def connected_def by (auto intro!: returns_bind split: prod.splits)
qed

lemma with_ssh_returns:
  assumes E: "nodes_answer E" and body: "\<And>c v. returns (body (connected srv c)) v"
  shows "returns (with_ssh E srv body) s"
proof -
  have fin: "returns (py_finally (body m) (py_then (disconnect E m) (py_return ()))) v"
    if "connect E (get_ssh_manager srv) s = (Inr m, v)" for m v
  proof -
    from that obtain c where m: "m = connected srv c" by (rule connect_Inr)
    obtain x u where run: "body m v = (Inr x, u)" using body [of c v] unfolding returns_def m by blast
    obtain q w where "disconnect E m u = (q, w)" by (cases "disconnect E m u")
    moreover from this obtain y where "q = Inr y" using disconnect_run unfolding m by blast
    ultimately show ?thesis
      using run by (simp add: returns_def py_finally_def py_then_def py_bind_def py_return_def)
  qed
  show ?thesis
    unfolding with_ssh_def by (rule returns_bind [OF connect_returns [OF E] fin])
qed


section \<open>A best-effort loop that skips nothing\<close>

lemma best_effort_all:
  assumes "\<And>x v. x \<in> set xs \<Longrightarrow> I v \<Longrightarrow> returns (m x) v"
    and "\<And>x v w. I v \<Longrightarrow> m x v = (Inr (), w) \<Longrightarrow> I w"
    and "I s" and "best_effort m xs s = (Inr n, t)"
  shows "n = length xs"
proof -
  let ?step = "\<lambda>count x. py_try (py_then (m x) (py_return (count + 1))) (\<lambda>_. py_return count)"
  have "n = acc + length ys"
    if "py_fold ?step acc ys v = (Inr n, t)" "set ys \<subseteq> set xs" "I v" for acc ys v
    using that
  proof (induction ys arbitrary: acc v)
    case Nil
    then show ?case by (simp add: py_return_def)
  next
    case (Cons y ys)
    from assms(1) [of y v] Cons.prems obtain w where run: "m y v = (Inr (), w)"
      unfolding returns_def by auto
    then have "?step acc y v = (Inr (acc + 1), w)"
      by (simp add: py_bind_def py_try_def py_then_def py_return_def)
    with Cons.prems have "py_fold ?step (acc + 1) ys w = (Inr n, t)"
      by (simp only: py_fold.simps py_bind_Inr)
    from Cons.IH [OF this] assms(2) [OF _ run] Cons.prems show ?case by simp
  qed
  from this [of 0 xs s] assms(3,4) show ?thesis by (simp add: best_effort_def)
qed

text \<open>The loop of \<open>expire_users\<close>: a row stays, and stays admissible, while others are expired.\<close>

lemma save_status_returns:
  assumes "db_wf (db s)" and "db_account (db s) (acc_id a) = Some r"
  shows "returns (save_account E (a\<lparr>acc_status := st\<rparr>) [F_status, F_updated_at]) s"
proof -
  obtain u s1 where now: "now E s = (Inr u, s1)" "quiet s s1"
    using now_returns by blast
  have "account_violation (db s) (r\<lparr>acc_status := st, acc_updated_at := u\<rparr>) = None"
    by (rule violation_of_row [OF assms]) (simp_all add: same_identity_def)
  with now assms show ?thesis
    by (simp add: returns_def save_account_def Let_def py_bind_def py_then_def py_return_def on_db_def
        update_account_def write_account_def)
qed

lemma expire_one_returns:
  assumes E: "nodes_answer E" and wf: "db_wf (db s)"
    and row: "db_account (db s) (acc_id a) = Some r"
    and srv: "db_server (db s) (acc_server a) = Some srv"
  shows "returns (expire_one E a) s"
proof -
  let ?node = "with_ssh E srv (\<lambda>ssh. lock_user E ssh (acc_username a))"
  have get: "get_server (acc_server a) s = (Inr srv, s)" using srv by (simp add: get_server_Inr)
  have node: "returns ?node s"
    by (rule with_ssh_returns [OF E]) (simp add: lock_user_def run_returns [OF E])
  have save: "returns (save_account E (a\<lparr>acc_status := Expired\<rparr>) [F_status, F_updated_at]) v"
    if "?node s = (Inr x, v)" for x v
  proof -
    have "db v = db s" using expire_node_same_db that by (rule steps_run)
    with wf row show ?thesis by (intro save_status_returns) simp_all
  qed
  from get show ?thesis
    unfolding expire_one_def py_then_def
    by (auto intro!: returns_bind node save simp: returns_def [of "get_server _"])
qed

lemma expire_users_complete:
  assumes E: "nodes_answer E" and wf: "db_wf (db s)"
  shows "\<exists>t. expire_users E s = (Inr (length (due_accounts (fst (env_clock E (world s))) (db s))), t)"
proof -
  obtain n t where run: "expire_users E s = (Inr n, t)" using expire_users_returns by blast
  then obtain u s1 accs s2 where now: "now E s = (Inr u, s1)"
    and q: "query (due_accounts u) s1 = (Inr accs, s2)"
    and loop: "best_effort (expire_one E) accs s2 = (Inr n, t)"
    unfolding expire_users_def by (elim py_bind_InrE) blast
  have db2: "db s2 = db s" and accs: "accs = due_accounts u (db s)"
    using q steps_run [OF now_quiet now] by (auto simp: query_def py_get_def)
  have u: "u = fst (env_clock E (world s))" using now_reads [OF now] by blast
  define I :: "'a sys \<Rightarrow> bool" where "I v \<longleftrightarrow> db_wf (db v) \<and> servers (db v) = servers (db s) \<and>
    (\<forall>i. db_account (db s) i \<noteq> None \<longrightarrow> db_account (db v) i \<noteq> None)" for v
  have "n = length accs"
  proof (rule best_effort_all [where I = I, OF _ _ _ loop])
    show "I s2" using wf by (simp add: I_def db2)
  next
    fix x v
    assume x: "x \<in> set accs" and I: "I v"
    have mem: "x \<in> set (accounts (db s))" using x by (auto simp: accs due_accounts_def newest_first_def)
    obtain r where "db_account (db v) (acc_id x) = Some r"
      using db_account_found [OF wf mem] I by (auto simp: I_def)
    moreover obtain srv where "db_server (db v) (acc_server x) = Some srv"
      using mem wf I by (auto simp: I_def db_wf_def accounts_ok_def account_ok_def db_server_def)
    ultimately show "returns (expire_one E x) v"
      using E I by (intro expire_one_returns) (simp_all add: I_def)
  next
    fix x v w
    assume I: "I v" and run: "expire_one E x v = (Inr (), w)"
    have "steps (\<lambda>s t. wf_step (db s) (db t)) (expire_one E x)"
      unfolding expire_one_def by (intro steps_intro)
    then have "wf_step (db v) (db w)" using run by (rule steps_run)
    moreover have "expire_step x (db v) (db w)" using run by (rule expire_one_Inr)
    ultimately show "I w"
      using I unfolding I_def wf_step_def expire_step_def row_written_def by (metis option.distinct(1))
  qed
  with run show ?thesis by (auto simp: accs u)
qed


section \<open>The sessions of a server\<close>

definition known :: "(string \<Rightarrow> account option) \<Rightarrow> remote_session list \<Rightarrow> remote_session list" where
  "known accs sess = filter (\<lambda>x. accs (rs_user x) \<noteq> None) sess"

text \<open>The rows of the table after the listing was stored: one per session of a known user, in order.\<close>

definition sessions_stored ::
  "(string \<Rightarrow> account option) \<Rightarrow> remote_session list \<Rightarrow> database \<Rightarrow> database \<Rightarrow> bool" where
  "sessions_stored accs sess d d' \<longleftrightarrow>
     (\<exists>new. sessions d' = sessions d @ new \<and>
        map (\<lambda>r. (ses_account r, ses_pid r, ses_client_ip r)) new =
        map (\<lambda>x. (acc_id (the (accs (rs_user x))), rs_pid x, rs_client_ip x)) (known accs sess)) \<and>
     servers d' = servers d \<and> plans d' = plans d \<and> accounts d' = accounts d \<and> logs d' = logs d"

lemma store_session_stored:
  assumes "store_session E accs us x s = (Inr us', t)"
  shows "sessions_stored accs [x] (db s) (db t) \<and> io t = io s"
proof (cases "accs (rs_user x)")
  case None
  with assms show ?thesis by (simp add: store_session_def sessions_stored_def known_def py_return_def)
next
  case (Some acc)
  with assms obtain u s1 y s2 where now: "now E s = (Inr u, s1)"
    and ins: "on_db (insert_session (env_inet E)
              \<lparr>ses_id = 0, ses_account = acc_id acc, ses_pid = rs_pid x,
               ses_client_ip = rs_client_ip x, ses_connected_since = u\<rparr>) s1 = (Inr y, s2)"
    and ret: "py_return (append_to (rs_user x) x us) s2 = (Inr us', t)"
    unfolding store_session_def by (auto elim!: py_bind_InrE py_then_InrE)
  have "quiet s s1" using steps_run [OF now_quiet now] .
  with ins ret Some show ?thesis
    by (auto simp: on_db_def insert_session_def Let_def py_return_def sessions_stored_def known_def
        split: prod.splits option.splits)
qed

lemma sessions_stored_append:
  "sessions_stored accs xs d d1 \<Longrightarrow> sessions_stored accs ys d1 d2 \<Longrightarrow> sessions_stored accs (xs @ ys) d d2"
  by (auto simp: sessions_stored_def known_def)

lemma store_sessions_stored:
  "py_fold (store_session E accs) us xs s = (Inr us', t) \<Longrightarrow>
   sessions_stored accs xs (db s) (db t) \<and> io t = io s"
proof (induction xs arbitrary: us s)
  case Nil
  then show ?case by (simp add: py_return_def sessions_stored_def known_def)
next
  case (Cons x xs)
  from Cons.prems obtain us1 s1 where first: "store_session E accs us x s = (Inr us1, s1)"
    and rest: "py_fold (store_session E accs) us1 xs s1 = (Inr us', t)"
    unfolding py_fold.simps by (rule py_bind_InrE)
  from store_session_stored [OF first] Cons.IH [OF rest] sessions_stored_append [of accs "[x]"]
  show ?case by fastforce
qed

text \<open>The commands of the limit: one per user with more sessions than allowed.\<close>

definition kill_commands ::
  "(string \<Rightarrow> account option) \<Rightarrow> (string \<times> remote_session list) list \<Rightarrow> string list" where
  "kill_commands accs us = concat (map (\<lambda>(user, xs).
     case accs user of
       None \<Rightarrow> []
     | Some acc \<Rightarrow> if int (length xs) > acc_max_connections acc
                   then [kill_command (excess_sessions acc xs)] else []) us)"

lemma limit_sessions_runs:
  assumes "limit_sessions E (connected srv c) accs entry s = (r, t)" and "r = Inr ()"
  shows "runs c (kill_commands accs [entry]) s t"
  using assms
  by (cases entry)
     (auto simp: limit_sessions_def kill_commands_def py_when_def py_return_def
       elim!: py_then_InrE dest: run_runs split: option.splits if_splits)

lemma limit_all_runs:
  "py_for us (limit_sessions E (connected srv c) accs) s = (Inr (), t) \<Longrightarrow> runs c (kill_commands accs us) s t"
proof (induction us arbitrary: s)
  case Nil
  then show ?case by (simp add: py_return_def kill_commands_def)
next
  case (Cons x us)
  from Cons.prems obtain y s1 where first: "limit_sessions E (connected srv c) accs x s = (Inr y, s1)"
    and rest: "py_for us (limit_sessions E (connected srv c) accs) s1 = (Inr (), t)"
    unfolding py_for.simps by (rule py_then_InrE)
  from first have "runs c (kill_commands accs [x]) s s1" by (rule limit_sessions_runs) simp
  from runs_append [OF this Cons.IH [OF rest]] show ?case by (simp add: kill_commands_def)
qed

lemma session_of_line_execs [steps_intro]: "steps (execs c) (session_of_line E (connected srv c) acc line)"
proof -
  have lift: "steps (execs c) (lift_result r)" for r :: "exn + int"
    unfolding lift_result_def by (intro steps_intro)
  show ?thesis unfolding session_of_line_def session_ip_def by (intro steps_intro lift)
qed

lemma get_active_sessions_execs [steps_intro]: "steps (execs c) (get_active_sessions E (connected srv c))"
  unfolding get_active_sessions_def by (intro steps_intro)

lemma sync_server_sessions_Inr:
  assumes "sync_server_sessions E srv s = (Inr (), t)"
  obtains conn c s1 sess s2 accs us listing where
    "dials srv conn" "get_active_sessions E (connected srv c) s1 = (Inr sess, s2)" "db s1 = db s"
    "accs = acc_map (session_accounts srv (map rs_user sess) (db s))" "grouped accs sess us"
    "sessions_stored accs sess (snd (delete_sessions_of_server (srv_id srv) (db s))) (db t)"
    "io t = io s @ [Connect conn] @ map (Exec c) (listing @ kill_commands accs us) @ [Close c]"
  using assms unfolding sync_server_sessions_def
proof (rule with_ssh_InrE)
  fix conn c s1 s2
  assume dial: "dials srv conn" and s1: "db s1 = db s" "io s1 = io s @ [Connect conn]"
    and t: "db t = db s2" "io t = io s2 @ [Close c]"
    and body: "py_bind (get_active_sessions E (connected srv c)) (\<lambda>sess.
       py_bind (query (session_accounts srv (map rs_user sess))) (\<lambda>accs.
       py_then (on_db (delete_sessions_of_server (srv_id srv)))
      (py_bind (py_fold (store_session E (acc_map accs)) [] sess) (\<lambda>user_sessions.
         py_for user_sessions (limit_sessions E (connected srv c) (acc_map accs)))))) s1 = (Inr (), s2)"
  from body obtain sess v1 accs v2 y v3 us v4 where
    get: "get_active_sessions E (connected srv c) s1 = (Inr sess, v1)"
    and q: "query (session_accounts srv (map rs_user sess)) v1 = (Inr accs, v2)"
    and del: "on_db (delete_sessions_of_server (srv_id srv)) v2 = (Inr y, v3)"
    and store: "py_fold (store_session E (acc_map accs)) [] sess v3 = (Inr us, v4)"
    and limit: "py_for us (limit_sessions E (connected srv c) (acc_map accs)) v4 = (Inr (), s2)"
    by (elim py_bind_InrE py_then_InrE) blast
  obtain listing where v1: "db v1 = db s1" "io v1 = io s1 @ map (Exec c) listing"
    using steps_run [OF get_active_sessions_execs get] by (auto simp: execs_def)
  have v2: "v2 = v1" "accs = session_accounts srv (map rs_user sess) (db s)"
    using q v1 s1 by (auto simp: query_def py_get_def)
  have v3: "db v3 = snd (delete_sessions_of_server (srv_id srv) (db v2))" "io v3 = io v2"
    using del by (auto simp: on_db_def split: prod.splits)
  have "grouped (acc_map accs) [] []" by (simp add: grouped_def)
  from store_sessions_grouped [OF store this] have us: "grouped (acc_map accs) sess us" by simp
  show ?thesis
    using dial get s1 v1 v2 v3 us t store_sessions_stored [OF store] limit_all_runs [OF limit]
    by (intro that [of conn c s1 sess v1 "acc_map accs" us listing]) (simp_all add: runs_def)
qed

end

