(* ===== verification/Acceptance.thy ===== *)
theory Acceptance
  imports NodeFacts
begin

text \<open>
  A creation that ought to succeed does: \<open>acceptable\<close> lists what \<open>create_account\<close> needs of
  its arguments and of the database, \<open>nodes_obey\<close> and \<open>bridges_accept\<close> what it needs of the
  other side.
\<close>

section \<open>The other side\<close>

definition nodes_obey :: "'w env \<Rightarrow> bool" where
  "nodes_obey E \<longleftrightarrow> nodes_answer E \<and>
     (\<forall>c cmd limit w code out err. fst (env_exec E c cmd limit w) = Inr (code, out, err) \<longrightarrow> code = 0)"

definition bridges_accept :: "'w env \<Rightarrow> bool" where
  "bridges_accept E \<longleftrightarrow>
     (\<forall>req w. \<exists>status text. fst (env_http E req w) = HttpResponse status text \<and>
        \<not> is_http_error status \<and> env_parse_json E text \<noteq> None)"

definition tokens_fresh :: "'w env \<Rightarrow> database \<Rightarrow> bool" where
  "tokens_fresh E d \<longleftrightarrow>
     (\<forall>w. \<forall>a \<in> set (accounts d). fst (env_uuid4 E w) \<noteq> acc_access_token a \<and> fst (env_uuid4 E w) \<noteq> acc_auth_token a)"

lemma run_obeyed:
  assumes "nodes_obey E" and "run E (connected srv c) cmd s = (Inr r, t)"
  shows "ok r"
proof -
  from run_answer [OF assms(2)] obtain w code out err
    where "fst (env_exec E c cmd 30 w) = Inr (code, out, err)" and r: "exit_code r = code" by auto
  with assms(1) have "code = 0" unfolding nodes_obey_def by blast
  with r show ?thesis by (simp add: ok_def)
qed

lemma returns_then:
  "returns m s \<Longrightarrow> (\<And>x t. m s = (Inr x, t) \<Longrightarrow> returns k t) \<Longrightarrow> returns (py_then m k) s"
  unfolding py_then_def by (rule returns_bind)

lemma returns_ask: "returns (ask f) s"
  by (simp add: returns_def ask_def split: prod.splits)

lemma returns_now: "returns (now E) s"
  by (simp add: now_def returns_ask)

lemma returns_when: "(b \<Longrightarrow> returns m s) \<Longrightarrow> returns (py_when b m) s"
  by (cases b) simp_all

lemma register_returns:
  assumes "bridges_accept E"
  shows "returns (register_token E srv token n) s"
proof -
  let ?req = "\<lparr>req_method = ''POST'', req_url = bridge_url srv @ ''/api/tokens'',
    req_json = Some (JObj [(''token'', JStr token), (''max_conns'', JInt n)]),
    req_headers = bridge_headers srv, req_timeout = 10\<rparr>"
  from assms obtain st body j where "fst (env_http E ?req (world s)) = HttpResponse st body"
    "\<not> is_http_error st" "env_parse_json E body = Some j"
    unfolding bridges_accept_def by blast
  then show ?thesis
    by (auto simp: returns_def register_token_def bridge_request_def Let_def py_bind_def call_def py_return_def
        split: prod.splits)
qed

lemma provision_ssh_returns:
  assumes E: "nodes_obey E"
  shows "returns (provision_ssh_account E srv user pw d n bw) s"
proof -
  have A: "nodes_answer E" using E by (simp add: nodes_obey_def)
  note go = returns_bind returns_then returns_return returns_when run_returns [OF A]
  have script: "returns (ensure_maxlogin_script E (connected srv c)) v" for c v
    unfolding ensure_maxlogin_script_def Let_def by (intro go) (auto intro!: go)
  have logins: "returns (set_max_logins E (connected srv c) user n) v" for c v
    unfolding set_max_logins_def Let_def by (intro go script)
  have traffic: "returns (setup_traffic_accounting E (connected srv c) user) v" for c v
    unfolding setup_traffic_accounting_def Let_def by (intro go) (auto intro!: go)
  have user: "returns (create_user E (connected srv c) user pw) v" for c v
    unfolding create_user_def by (intro go)
  have accepted: "ok r" if "create_user E (connected srv c) user pw v = (Inr r, w)" for c v r w
    using that unfolding create_user_def by (elim py_then_InrE) (rule run_obeyed [OF E])
  have expiry: "returns (set_expiry E (connected srv c) user (strftime_ymd d)) v" for c v
    unfolding set_expiry_def by (rule run_returns [OF A])
  show ?thesis
    unfolding provision_ssh_account_def
    by (rule with_ssh_returns [OF A], rule returns_bind [OF user])
       (auto dest!: accepted intro!: go logins traffic expiry)
qed

section \<open>The arguments\<close>

text \<open>
  What a creation needs of its arguments, from the database it starts in: a server with room
  (the preferred one, if it is chosen, still in the table), a plan of the table, a name
  nobody has, texts and numbers the columns hold, and a date of expiry that Python's
  calendar has.
\<close>

definition acceptable :: "'w env \<Rightarrow> create_args \<Rightarrow> database \<Rightarrow> bool" where
  "acceptable E args d \<longleftrightarrow>
     (\<exists>srv \<in> set (servers d). is_available d srv) \<and>
     (\<forall>srv. arg_server args = Some srv \<longrightarrow> db_server d (srv_id srv) \<noteq> None) \<and>
     db_plan d (plan_id (arg_plan args)) \<noteq> None \<and>
     length (arg_username args) \<le> 32 \<and> (\<forall>a \<in> set (accounts d). acc_username a \<noteq> arg_username args) \<and>
     length (default_to (arg_password args) []) \<le> 128 \<and>
     default_to (arg_max_connections args) (plan_max_connections (arg_plan args)) \<in> {0..pg_int_max} \<and>
     default_to (arg_bandwidth_limit_gb args) (plan_bandwidth_limit_gb (arg_plan args)) \<in> {0..pg_int_max} \<and>
     (\<forall>w. \<not> isl (add_days (fst (env_clock E w))
        (default_to (arg_duration_days args) (plan_duration_days (arg_plan args)))))"

lemma row_returns:
  assumes fresh: "tokens_fresh E (db s)" and srv: "db_server (db s) (acc_server a) \<noteq> None"
    and p: "acc_plan a = Some i" "db_plan (db s) i \<noteq> None"
    and name: "length (acc_username a) \<le> 32" "\<forall>x \<in> set (accounts (db s)). acc_username x \<noteq> acc_username a"
    and pw: "length (acc_password_display a) \<le> 128"
    and nums: "acc_max_connections a \<in> {0..pg_int_max}" "acc_bandwidth_limit_gb a \<in> {0..pg_int_max}"
  shows "returns (create_account_row E a) s"
proof -
  have draw: "ask (env_uuid4 E) v = (Inr x, w) \<Longrightarrow> quiet v w \<and>
      (\<forall>r \<in> set (accounts (db s)). x \<noteq> acc_access_token r \<and> x \<noteq> acc_auth_token r)" for v x w
    using fresh by (auto simp: ask_def tokens_fresh_def split: prod.splits) (metis fst_conv)+
  have insert: "returns (on_db (insert_account (a\<lparr>acc_access_token := t1, acc_auth_token := t2,
      acc_created_at := u1, acc_updated_at := u2\<rparr>))) v"
    if "quiet s v" "\<forall>r \<in> set (accounts (db s)). t1 \<noteq> acc_access_token r \<and> t2 \<noteq> acc_auth_token r" for t1 t2 u1 u2 v
  proof -
    let ?r = "a\<lparr>acc_access_token := t1, acc_auth_token := t2, acc_created_at := u1, acc_updated_at := u2,
      acc_id := next_account (db s)\<rparr>"
    have "account_violation ((db s)\<lparr>next_account := Suc (next_account (db s))\<rparr>) ?r = None"
      using assms that(2) by (auto simp: account_violation_def too_long_def list_ex_iff)
    with that(1) show ?thesis by (simp add: returns_def on_db_def insert_account_def Let_def)
  qed
  show ?thesis
    unfolding create_account_row_def
  proof (intro returns_bind returns_ask returns_now)
    fix t1 v1 t2 v2 u1 v3 u2 v4
    assume asked: "ask (env_uuid4 E) s = (Inr t1, v1)" "ask (env_uuid4 E) v1 = (Inr t2, v2)"
      and now: "now E v2 = (Inr u1, v3)" "now E v3 = (Inr u2, v4)"
    show "returns (on_db (insert_account (a\<lparr>acc_access_token := t1,
        acc_auth_token := t2, acc_created_at := u1, acc_updated_at := u2\<rparr>))) v4"
      using draw [OF asked(1)] draw [OF asked(2)] steps_run [OF now_quiet now(1)] steps_run [OF now_quiet now(2)]
      by (intro insert) simp_all
  qed
qed

section \<open>The whole\<close>

lemma acceptable_server:
  assumes "acceptable E args (db s)"
  obtains srv where "pick_best_server (arg_server args) s = (Inr srv, s)" "db_server (db s) (srv_id srv) \<noteq> None"
proof (cases "pick_best_server (arg_server args) s")
  case (Pair r t)
  show ?thesis
  proof (cases r)
    case (Inl e)
    with Pair pick_best_server_Inl [of "arg_server args" s e t] assms show ?thesis by (auto simp: acceptable_def)
  next
    case (Inr srv)
    note facts = pick_best_server_Inr [OF Pair [unfolded Inr]]
    have "srv \<in> set (servers (db s)) \<Longrightarrow> db_server (db s) (srv_id srv) \<noteq> None"
      using on_the_books(1) [of "db s" "srv_id srv"] by blast
    with facts(3) assms have "db_server (db s) (srv_id srv) \<noteq> None" by (auto simp: acceptable_def)
    with Pair Inr facts(1) show ?thesis by (intro that) simp_all
  qed
qed

lemma password_returns:
  fixes given :: string
  assumes "length given \<le> 128"
  obtains pw t where "(if given \<noteq> [] then py_return given else generate_password E 12) s = (Inr pw, t)"
    "quiet s t" "length pw \<le> 128"
proof (cases "given = []")
  case True
  have "\<exists>r t. generate_password E 12 s = (Inr r, t)"
    unfolding generate_password_def
    by (rule py_fold_try_returns) (auto simp: py_bind_def ask_def py_return_def split: prod.splits)
  then obtain r t where run: "generate_password E 12 s = (Inr r, t)" by blast
  have "length r \<le> 128" using generate_password_Inr(1) [OF run] by simp
  with run True steps_run [OF generate_password_quiet run] show ?thesis by (intro that) simp_all
next
  case False
  with assms show ?thesis by (intro that) (simp_all add: py_return_def)
qed

lemma row_found:
  assumes "create_account_row E r s = (Inr a, t)"
  shows "db_account (db t) (acc_id a) \<noteq> None"
proof -
  have "accounts (db t) = accounts (db s) @ [a]" using assms by (rule create_account_row_Inr) simp
  then have "a \<in> set (accounts (db t))" by simp
  then show ?thesis by (auto simp: db_account_def find_None_iff)
qed

lemma create_account_accepted:
  assumes E: "nodes_obey E" "bridges_accept E" and fresh: "tokens_fresh E (db s)"
    and acc: "acceptable E args (db s)"
  shows "returns (create_account E args) s"
proof -
  let ?p = "arg_plan args" and ?given = "default_to (arg_password args) []"
  let ?days = "default_to (arg_duration_days args) (plan_duration_days ?p)"
    and ?bw = "default_to (arg_bandwidth_limit_gb args) (plan_bandwidth_limit_gb ?p)"
    and ?mc = "default_to (arg_max_connections args) (plan_max_connections ?p)"
  obtain srv where pick: "pick_best_server (arg_server args) s = (Inr srv, s)"
    and srv: "db_server (db s) (srv_id srv) \<noteq> None"
    using acceptable_server [OF acc] .
  let ?proto = "default_to (arg_protocol_type args) (srv_protocol_type srv)"
  from acc have "length ?given \<le> 128" by (simp add: acceptable_def)
  then obtain pw s1 where pw: "(if ?given \<noteq> [] then py_return ?given else generate_password E 12) s = (Inr pw, s1)"
    "quiet s s1" "length pw \<le> 128" by (rule password_returns)
  obtain u s2 where now: "now E s1 = (Inr u, s2)" "quiet s1 s2" using now_returns by blast
  then have "u = fst (env_clock E (world s1))" using now_reads by blast
  moreover have "\<not> isl (add_days (fst (env_clock E (world s1))) ?days)"
    using acc unfolding acceptable_def by blast
  ultimately obtain ex where ex: "add_days u ?days = Inr ex" by (cases "add_days u ?days") auto
  let ?row = "\<lparr>acc_id = 0, acc_username = arg_username args,
      acc_password_display = (if ?proto = SSH then pw else ''''), acc_server = srv_id srv,
      acc_plan = Some (plan_id ?p), acc_protocol_type = ?proto, acc_status = Active,
      acc_expire_date = ex, acc_max_connections = ?mc, acc_bandwidth_limit_gb = ?bw,
      acc_bandwidth_used_gb = 0, acc_access_token = 0, acc_auth_token = 0,
      acc_created_by = arg_admin_user args, acc_note = arg_note args, acc_created_at = 0, acc_updated_at = 0\<rparr>"
  have "returns (create_account_row E ?row) s2"
    using acc fresh srv pw now
    by (intro row_returns [where i = "plan_id ?p"]) (simp_all add: acceptable_def)
  then obtain a s3 where row: "create_account_row E ?row s2 = (Inr a, s3)" unfolding returns_def by blast
  have id: "db_account (db s3) (acc_id a) \<noteq> None"
    using row by (rule row_found)
  let ?prov = "if ?proto = SHADOWLINK then provision_shadowlink_account E a srv ?mc
    else provision_ssh_account E srv (arg_username args) pw ex ?mc ?bw"
  have "returns (provision_shadowlink_account E a srv ?mc) s3"
    using register_returns [OF E(2), of srv "uuid_str (acc_auth_token a)" ?mc s3]
    by (auto simp: returns_def provision_shadowlink_account_def py_try_def py_then_def py_bind_def py_return_def)
  with provision_ssh_returns [OF E(1)] have "returns ?prov s3" by simp
  then obtain x s4 where prov: "?prov s3 = (Inr x, s4)" unfolding returns_def by blast
  have "steps same_db ?prov" by (intro steps_intro)
  then have "db s4 = db s3" using prov by (rule steps_run)
  with id obtain l s5 where log: "create_log E CREATE (acc_id a) (arg_admin_user args)
      (''Plan='' @ plan_name ?p @ '', Server='' @ srv_name srv @ '', Protocol='' @ protocol_value ?proto) s4 = (Inr l, s5)"
    using create_log_returns by metis
  have "create_account E args s = (Inr a, s5)"
    unfolding create_account_def atomic_Inr Let_def
    using pick pw(1) now(1) ex row prov log
    by (simp add: py_bind_Inr py_then_def lift_result_def py_return_run)
  then show ?thesis by (auto simp: returns_def)
qed

end
