(* ===== verification/AccountProperties.thy ===== *)
theory AccountProperties
  imports Demo Acceptance
begin

text \<open>
  The properties of \<open>accounts/services.py\<close>, each with a run on the demonstration
  database that meets its hypotheses.
\<close>

section \<open>Creating accounts\<close>

definition demo_args :: create_args where
  "demo_args = (default_args ''amy'' demo_plan)\<lparr>arg_password := Some ''x''\<rparr>"

lemma demo_create_run: "\<exists>a t. create_account demo_env demo_args demo_sys = (Inr a, t)"
  using returned [OF demo_create] unfolding demo_args_def by blast

text \<open>
  C4: \<open>create_account\<close>, when it returns, has added exactly one account, made from the
  arguments, the plan, the chosen server and a reading of the clock, has logged exactly
  one CREATE entry for it and has changed no other row; the server had room, and without
  a usable preference it is a server with the least CPU usage of those with room.
\<close>

theorem create_account_effect:
  assumes "create_account E args s = (Inr a, t)"
  shows "\<exists>srv u. created_from args srv u a \<and> clock_reads E u \<and> is_available (db s) srv \<and>
    (arg_server args = Some srv \<or> srv \<in> set (servers (db s)) \<and>
      (\<forall>r \<in> set (servers (db s)). is_available (db s) r \<longrightarrow> srv_cpu_usage srv \<le> srv_cpu_usage r)) \<and>
    accounts (db t) = accounts (db s) @ [a] \<and> servers (db t) = servers (db s) \<and>
    plans (db t) = plans (db s) \<and> sessions (db t) = sessions (db s) \<and>
    audited CREATE (acc_id a) (arg_admin_user args)
       (''Plan='' @ plan_name (arg_plan args) @ '', Server='' @ srv_name srv @
        '', Protocol='' @ protocol_value (acc_protocol_type a)) (db s) (db t)"
  using assms
proof (rule create_account_Inr, goal_cases)
  case (1 srv u password s1 s2)
  then show ?case using pick_best_server_Inr [OF 1(1)] by blast
qed

lemma create_account_effect_witness:
  "\<exists>a t srv. create_account demo_env demo_args demo_sys = (Inr a, t) \<and>
     accounts (db t) = accounts demo_db @ [a] \<and> acc_username a = ''amy'' \<and>
     is_available demo_db srv"
proof -
  obtain a t where run: "create_account demo_env demo_args demo_sys = (Inr a, t)"
    using demo_create_run by blast
  from create_account_effect [OF this] show ?thesis
    using run by (auto simp: created_from_def demo_args_def demo_sys_def)
qed




text \<open>
  C6: an SSH account that \<open>create_account\<close> returned exists on its node: one
  connection to the server's address added the Linux user, set its password, which
  is the one the row shows, and its expiry date, and \<open>chpasswd\<close> exited with 0.
\<close>

theorem create_account_provisions:
  assumes "create_account E args s = (Inr a, t)" and "acc_protocol_type a = SSH"
  shows "\<exists>srv conn c rest. acc_server a = srv_id srv \<and> dials srv conn \<and>
    io t = io s @ [Connect conn] @
      map (Exec c) (create_commands (acc_username a) (acc_password_display a) (acc_expire_date a) @ rest) @ [Close c] \<and>
    exits_zero E c (set_password_command (acc_username a) (acc_password_display a))"
  using assms(1)
proof (rule create_account_Inr, goal_cases)
  case (1 srv u password s1 s2)
  then have "provision_ssh_account E srv (acc_username a) password (acc_expire_date a)
      (acc_max_connections a) (acc_bandwidth_limit_gb a) s1 = (Inr (), s2)"
    and id: "acc_server a = srv_id srv"
    using assms(2) by (simp_all add: created_from_def)
  from this(1) show ?case
  proof (rule provision_ssh_Inr, goal_cases)
    case (1 conn c rest)
    with id \<open>acc_password_display a = _\<close> \<open>io s1 = io s\<close> \<open>io t = io s2\<close> assms(2) show ?case
      by (intro exI [of _ srv] exI [of _ conn] exI [of _ c] exI [of _ rest]) simp
  qed
qed

lemma create_account_provisions_witness:
  "\<exists>a t c. create_account demo_env demo_args demo_sys = (Inr a, t) \<and>
     exits_zero demo_env c (set_password_command ''amy'' (acc_password_display a))"
proof -
  obtain a t where run: "create_account demo_env demo_args demo_sys = (Inr a, t)"
    using demo_create_run by blast
  have "acc_protocol_type a = SSH \<and> acc_username a = ''amy''"
    using run
  proof (rule create_account_Inr, goal_cases)
    case (1 srv u password s1 s2)
    then have "srv = demo_server"
      using pick_best_server_Inr(3) [OF 1(1)] by (simp add: demo_args_def default_args_def demo_sys_def demo_db_def)
    with 1(2) show ?case by (simp add: created_from_def demo_args_def default_args_def default_to_def demo_server_def)
  qed
  with create_account_provisions [OF run] run show ?thesis by fastforce
qed






text \<open>
  \<open>create_account\<close> never fills a server beyond \<open>max_users\<close>: the server it
  chose has one user more than before, and at most \<open>max_users\<close>.
\<close>

theorem create_account_within_capacity:
  assumes "create_account E args s = (Inr a, t)"
  shows "\<exists>srv. is_available (db s) srv \<and> acc_server a = srv_id srv \<and>
    current_user_count (db t) srv = current_user_count (db s) srv + 1 \<and>
    int (current_user_count (db t) srv) \<le> srv_max_users srv"
  using assms by (rule create_account_capacity) blast

lemma create_account_within_capacity_witness:
  "\<exists>a t srv. create_account demo_env demo_args demo_sys = (Inr a, t) \<and> acc_server a = srv_id srv \<and>
     int (current_user_count (db t) srv) \<le> srv_max_users srv"
proof -
  obtain a t where run: "create_account demo_env demo_args demo_sys = (Inr a, t)"
    using demo_create_run by blast
  from create_account_within_capacity [OF this] run show ?thesis by blast
qed

text \<open>
  C16: \<open>pick_best_server\<close> fails only with its own error, and only when neither the
  preferred server nor any server of the table has room; else it changes nothing
  and returns the preferred server when that has room, or one of the servers with
  room that has the least CPU usage.
\<close>

theorem pick_best_server_correct:
  "case pick_best_server pref s of
     (Inr srv, t) \<Rightarrow> t = s \<and> is_available (db s) srv \<and>
       (if \<exists>p. pref = Some p \<and> is_available (db s) p then pref = Some srv
        else srv \<in> set (servers (db s)) \<and> srv_status srv = SrvActive \<and>
             (\<forall>r \<in> set (servers (db s)). is_available (db s) r \<longrightarrow> srv_cpu_usage srv \<le> srv_cpu_usage r))
   | (Inl e, t) \<Rightarrow> t = s \<and> e = no_server \<and> (\<forall>srv \<in> set (servers (db s)). \<not> is_available (db s) srv) \<and>
       (\<forall>p. pref = Some p \<longrightarrow> \<not> is_available (db s) p)"
proof (cases "pick_best_server pref s")
  case (Pair r t)
  show ?thesis
  proof (cases r)
    case (Inl e)
    with Pair pick_best_server_Inl [of pref s e t] show ?thesis by auto
  next
    case (Inr srv)
    note facts = pick_best_server_Inr [OF Pair [unfolded Inr]]
    have pref: "pref = Some srv" if "pref = Some p" "is_available (db s) p" for p
      using Pair Inr that by (simp add: pick_best_server_run)
    have "is_available (db s) srv \<Longrightarrow> srv_status srv = SrvActive" by (simp add: is_available_def)
    with facts pref Pair Inr show ?thesis by fastforce
  qed
qed

lemma pick_best_server_correct_witness:
  "pick_best_server None demo_sys = (Inr demo_server, demo_sys) \<and> is_available demo_db demo_server"
proof -
  have "is_available demo_db demo_server" by code_simp
  moreover from this have "\<not> isl (fst (pick_best_server None demo_sys))"
    by (auto simp: pick_best_server_run eligible_def by_cpu_def demo_sys_def demo_db_def demo_server_def)
  ultimately show ?thesis
    using pick_best_server_correct [where pref = None and s = demo_sys] returned [of "pick_best_server None demo_sys"]
    by (auto simp: demo_sys_def demo_db_def split: prod.splits sum.splits)
qed


section \<open>The life of an account\<close>

text \<open>
  C9: suspending, activating and deleting an account, when they return, have set the
  status of that row, and no other column or row, to suspended, to active, whatever it
  was, a deleted one included, and to deleted, the row being kept; they have logged it,
  and for an SSH account have locked the Linux user, unlocked it, or killed its
  processes and removed it, in one connection to its server that they closed.
\<close>

theorem lifecycle_effect:
  "(suspend_account E acc adm s = (Inr acc', t) \<longrightarrow>
      status_set Suspended SUSPEND (acc_id acc) adm (db s) (db t) \<and>
      (acc_protocol_type acc = SSH \<longrightarrow> (\<exists>srv evs. db_server (db s) (acc_server acc) = Some srv \<and>
         session_trace srv (lock_commands (acc_username acc)) evs \<and> io t = io s @ evs))) \<and>
   (activate_account E acc adm s = (Inr acc', t) \<longrightarrow>
      status_set Active ACTIVATE (acc_id acc) adm (db s) (db t) \<and>
      (acc_protocol_type acc = SSH \<longrightarrow> (\<exists>srv evs. db_server (db s) (acc_server acc) = Some srv \<and>
         session_trace srv (unlock_commands (acc_username acc)) evs \<and> io t = io s @ evs))) \<and>
   (delete_account E acc adm s = (Inr acc', t) \<longrightarrow>
      status_set Deleted DELETE (acc_id acc) adm (db s) (db t) \<and>
      (acc_protocol_type acc = SSH \<longrightarrow> (\<exists>srv evs. db_server (db s) (acc_server acc) = Some srv \<and>
         session_trace srv (delete_commands (acc_username acc)) evs \<and> io t = io s @ evs)))"
  using sus.op_sets(1) sus.op_ssh act.op_sets(1) act.op_ssh del.op_sets(1) del.op_ssh
  by (intro conjI impI) blast+

lemma demo_suspend_run: "\<exists>a t. suspend_account demo_env demo_account None demo_sys = (Inr a, t)"
  using returned [OF demo_suspend] by blast

lemma lifecycle_effect_witness:
  "\<exists>a t. suspend_account demo_env demo_account None demo_sys = (Inr a, t) \<and>
     status_set Suspended SUSPEND 1 None demo_db (db t) \<and>
     (\<exists>evs. session_trace demo_server (lock_commands ''bob'') evs \<and> io t = evs)"
proof -
  obtain a t where run: "suspend_account demo_env demo_account None demo_sys = (Inr a, t)"
    using demo_suspend_run by blast
  with conjunct1 [OF lifecycle_effect [of demo_env demo_account None demo_sys a t]] show ?thesis
    by (simp add: demo_account_def demo_sys_def demo_db_def db_server_def demo_server_def)
qed




text \<open>
  The bridge of a ShadowLink node cannot stop these operations: on the row of a
  ShadowLink account in a consistent database each returns, whatever the bridge
  answers, after exactly one request that carries the account's token.
\<close>

theorem shadowlink_lifecycle_total:
  assumes "db_wf (db s)" and "db_account (db s) (acc_id acc) = Some r"
    and "acc_protocol_type acc = SHADOWLINK" and "db_server (db s) (acc_server acc) = Some srv"
  shows "(\<exists>a t. suspend_account E acc adm s = (Inr a, t) \<and>
       io t = io s @ [Http (token_request srv ''/api/tokens/suspend'' (acc_auth_token acc))]) \<and>
    (\<exists>a t. activate_account E acc adm s = (Inr a, t) \<and>
       io t = io s @ [Http (token_request srv ''/api/tokens/activate'' (acc_auth_token acc))]) \<and>
    (\<exists>a t. delete_account E acc adm s = (Inr a, t) \<and>
       io t = io s @ [Http (token_request srv ''/api/tokens/delete'' (acc_auth_token acc))])"
  using sus.op_returns [OF assms(1-3)] sus.op_shadowlink [OF _ assms(3,4)]
    act.op_returns [OF assms(1-3)] act.op_shadowlink [OF _ assms(3,4)]
    del.op_returns [OF assms(1-3)] del.op_shadowlink [OF _ assms(3,4)]
  by (intro conjI) metis+

lemma shadowlink_lifecycle_total_witness:
  "\<exists>a t. suspend_account demo_env demo_link None demo_sys = (Inr a, t) \<and>
     io t = [Http (token_request demo_server ''/api/tokens/suspend'' 4)]"
proof -
  have row: "db_wf (db demo_sys)" "db_account (db demo_sys) (acc_id demo_link) = Some demo_link"
    "acc_protocol_type demo_link = SHADOWLINK" "db_server (db demo_sys) (acc_server demo_link) = Some demo_server"
    using demo_wf by (simp_all add: demo_sys_def demo_db_def demo_link_def demo_account_def db_account_def
        db_server_def demo_server_def)
  from shadowlink_lifecycle_total [OF row, of demo_env None] show ?thesis
    by (simp add: demo_sys_def demo_link_def)
qed


text \<open>
  C17: \<open>extend_account\<close>, when it returns, has moved the expiry date by the given
  number of days from the later of the old date and the present, has made the row
  active and logged EXTEND; on the node it ran exactly one command, which sets the
  new expiry date, so a locked user stays locked.
\<close>

theorem extend_account_effect:
  assumes "extend_account E acc days adm s = (Inr acc', t)"
  shows "acc_expire_date acc' = max (acc_expire_date acc) (fst (env_clock E (world s))) + days * day_us \<and>
    (\<exists>u. row_written (acc_id acc) (\<lambda>r. r\<lparr>acc_expire_date := acc_expire_date acc', acc_status := Active,
            acc_updated_at := u\<rparr>) (db s) (db t)) \<and>
    audited EXTEND (acc_id acc) adm (extend_detail days (acc_expire_date acc')) (db s) (db t) \<and>
    (\<exists>srv evs. db_server (db s) (acc_server acc) = Some srv \<and> io t = io s @ evs \<and>
       session_trace srv [expiry_command (acc_username acc) (acc_expire_date acc')] evs)"
  using assms
proof (rule extend_account_Inr, goal_cases)
  case (1 t0 u srv evs)
  then show ?case by auto
qed

lemma extend_account_effect_witness:
  "\<exists>a t. extend_account demo_env demo_account 30 None demo_sys = (Inr a, t) \<and>
     acc_expire_date a = demo_time + 30 * day_us"
proof -
  obtain a t where run: "extend_account demo_env demo_account 30 None demo_sys = (Inr a, t)"
    using returned [OF demo_extend] by blast
  from extend_account_effect [OF run] run show ?thesis
    by (simp add: demo_account_def demo_env_def demo_sys_def demo_time_def)
qed


section \<open>Many accounts and passwords\<close>

text \<open>
  C15: \<open>bulk_create_accounts\<close> returns accounts named by the prefix and the numbers
  from 1 in order, without a gap and at most as many as asked for; they are what the
  table has more than before, each with one CREATE entry in the log.
\<close>

theorem bulk_create_effect:
  assumes "bulk_create_accounts E pfx n p srv adm s = (Inr new, t)"
  shows "bulk_result pfx [1..<nat (n + 1)] new (db s) (db t) \<and> length new \<le> nat n"
proof -
  have "bulk_loop E pfx p srv adm [] [1..<nat (n + 1)] s = (Inr new, t)"
    using assms by (simp add: bulk_create_accounts_def)
  from bulk_loop_Inr [OF this] have "bulk_result pfx [1..<nat (n + 1)] new (db s) (db t)" by auto
  moreover from this have "length new \<le> length [1..<nat (n + 1)]" unfolding bulk_result_def by blast
  ultimately show ?thesis by simp
qed

lemma demo_bulk: "\<not> isl (fst (bulk_create_accounts demo_env ''ab'' 1 demo_plan None None demo_sys))"
  by (simp add: demo_defs run_defs ssh_defs bulk_create_accounts_def generate_password_def upt_rec
      password_alphabet_def bulk_username_def zero_pad_def show_nat.simps create_account_def pick_best_server_def
      default_args_def default_to_def provision_ssh_account_def by_cpu_def is_available_def datetime_ok_def
      min_datetime_def max_datetime_def day_us_def epoch_ordinal_def current_user_count_def lift_result_def
      add_days_def Let_def del: upt_Suc)

lemma bulk_create_effect_witness:
  "\<exists>new t. bulk_create_accounts demo_env ''ab'' 1 demo_plan None None demo_sys = (Inr new, t) \<and>
     accounts (db t) = accounts demo_db @ new \<and> length new \<le> 1"
proof -
  obtain new t where run: "bulk_create_accounts demo_env ''ab'' 1 demo_plan None None demo_sys = (Inr new, t)"
    using returned [OF demo_bulk] by blast
  from bulk_create_effect [OF run] run show ?thesis
    by (simp add: bulk_result_def demo_sys_def)
qed

text \<open>
  \<open>bulk_create_accounts\<close> never raises \<open>AccountError\<close>: the first one ends the loop
  and the accounts created so far are returned; every other exception leaves it.
\<close>

theorem bulk_create_stops_quietly:
  assumes "bulk_create_accounts E pfx n p srv adm s = (Inl e, t)"
  shows "e \<noteq> AccountError m"
  using assms unfolding bulk_create_accounts_def by (rule bulk_loop_Inl)


end
