(* ===== verification/JobFacts.thy ===== *)
theory JobFacts
  imports NodeFacts HealthFacts
begin

text \<open>
  The two synchronisation jobs as a whole. Each runs over the active servers and catches
  what goes wrong on one of them, so it always returns; these lemmas say what it can
  have written by then: the traffic job meters and suspends active accounts of active
  servers it could reach, the session job replaces sessions of such servers, and
  nothing else in the database changes.
\<close>

section \<open>Metered accounts\<close>

text \<open>What a round may do to a row: meter an active account, and suspend it over its limit.\<close>

definition metered :: "account \<Rightarrow> account \<Rightarrow> bool" where
  "metered a b \<longleftrightarrow> b = a \<or>
     acc_status a = Active \<and>
     (\<exists>g st u. b = a\<lparr>acc_bandwidth_used_gb := g, acc_status := st, acc_updated_at := u\<rparr> \<and>
        (st = Active \<or> st = Suspended \<and> over_limit a g))"

definition metered_only :: "nat set \<Rightarrow> database \<Rightarrow> database \<Rightarrow> bool" where
  "metered_only I d d' \<longleftrightarrow> (\<exists>as. d' = d\<lparr>accounts := as\<rparr> \<and>
     list_all2 (\<lambda>a b. metered a b \<and> (acc_id a \<notin> I \<longrightarrow> b = a)) (accounts d) as)"

lemma metered_suspend:
  "acc_status a = Active \<Longrightarrow> over_limit a (acc_bandwidth_used_gb a) \<Longrightarrow>
     metered a (a\<lparr>acc_status := Suspended, acc_updated_at := u\<rparr>)"
  by (cases a) (auto simp: metered_def)

lemma metered_count:
  "acc_status a = Active \<Longrightarrow> metered a (a\<lparr>acc_bandwidth_used_gb := g, acc_updated_at := u\<rparr>)"
  by (cases a) (auto simp: metered_def)

lemma metered_trans: "metered a b \<Longrightarrow> metered b c \<Longrightarrow> metered a c"
  by (cases a; cases b; cases c) (auto simp: metered_def over_limit_def)

lemma metered_only_refl [simp]: "metered_only I d d"
  by (auto simp: metered_only_def metered_def list_all2_same intro!: exI [of _ "accounts d"])

lemma metered_only_trans:
  assumes "metered_only I a b" and "metered_only I b c"
  shows "metered_only I a c"
proof -
  let ?P = "\<lambda>x y. metered x y \<and> (acc_id x \<notin> I \<longrightarrow> y = x)"
  from assms obtain as bs where b: "b = a\<lparr>accounts := as\<rparr>" "list_all2 ?P (accounts a) as"
    and c: "c = b\<lparr>accounts := bs\<rparr>" "list_all2 ?P (accounts b) bs"
    by (auto simp: metered_only_def)
  have "list_all2 ?P (accounts a) bs"
    by (rule list_all2_trans [OF _ b(2), of ?P]) (use b(1) c(2) metered_trans in auto)
  with b(1) c(1) show ?thesis by (auto simp: metered_only_def)
qed

lemma metered_only_ids: "metered_only I d d' \<Longrightarrow> map acc_id (accounts d') = map acc_id (accounts d)"
  unfolding metered_only_def
  by (intro nth_equalityI) (auto simp: list_all2_conv_all_nth metered_def)

text \<open>Writing one row that stands in the table once.\<close>

lemma metered_only_update:
  assumes "distinct (map acc_id (accounts d))" and "db_account d i = Some r"
    and "metered r (g r)" and "i \<in> I"
  shows "metered_only I d (d\<lparr>accounts := replace_key acc_id i g (accounts d)\<rparr>)"
proof -
  from assms(2) have r: "r \<in> set (accounts d)" "acc_id r = i" by (auto dest: db_account_Some)
  have "a = r" if "a \<in> set (accounts d)" "acc_id a = i" for a
    using assms(1) that r by (metis distinct_map_eqD)
  then have "metered a (if acc_id a = i then g a else a) \<and> (acc_id a \<notin> I \<longrightarrow> (if acc_id a = i then g a else a) = a)"
    if "a \<in> set (accounts d)" for a
    using assms(3,4) that by (cases "acc_id a = i") (auto simp: metered_def)
  then show ?thesis
    unfolding metered_only_def
    by (intro exI [of _ "replace_key acc_id i g (accounts d)"])
       (simp add: replace_key_def list_all2_map2 list_all2_same)
qed

lemma save_metered:
  assumes dist: "distinct (map acc_id (accounts (db s)))"
    and row: "db_account (db s) (acc_id a) = Some r" and F: "F_updated_at \<in> set fs"
    and m: "\<And>u. metered r (write_account (a\<lparr>acc_updated_at := u\<rparr>) fs r)"
    and save: "save_account E a fs s = (res, t)"
  shows "metered_only {acc_id a} (db s) (db t)"
    and "res = Inr a' \<Longrightarrow> \<exists>u. a' = a\<lparr>acc_updated_at := u\<rparr> \<and>
      db_account (db t) (acc_id a) = Some (write_account a' fs r)"
proof -
  show "metered_only {acc_id a} (db s) (db t)"
  proof (cases res)
    case (Inl e)
    with save have "save_account E a fs s = (Inl e, t)" by simp
    from save_account_Inl [OF this] show ?thesis by simp
  next
    case (Inr a')
    with save have "save_account E a fs s = (Inr a', t)" by simp
    then obtain u where "a' = a\<lparr>acc_updated_at := u\<rparr>"
      and "db t = (db s)\<lparr>accounts := replace_key acc_id (acc_id a) (write_account a' fs) (accounts (db s))\<rparr>"
      using F by (rule save_account_Inr)
    with metered_only_update [OF dist row, of "write_account a' fs"] m show ?thesis by simp
  qed
  assume "res = Inr a'"
  with save have "save_account E a fs s = (Inr a', t)" by simp
  then obtain u where "a' = a\<lparr>acc_updated_at := u\<rparr>"
    and "db t = (db s)\<lparr>accounts := replace_key acc_id (acc_id a) (write_account a' fs) (accounts (db s))\<rparr>"
    using F by (rule save_account_Inr)
  then show "\<exists>u. a' = a\<lparr>acc_updated_at := u\<rparr> \<and> db_account (db t) (acc_id a) = Some (write_account a' fs r)"
    using row by (auto simp: db_account_update_same)
qed

text \<open>The body in three parts: reading the counter, booking the usage, suspending the account.\<close>

definition suspend_over :: "'w env \<Rightarrow> ssh_manager \<Rightarrow> rat \<Rightarrow> account \<Rightarrow> ('w sys, unit) py" where
  "suspend_over E ssh g a = py_when (over_limit a g)
     (py_then (lock_user E ssh (acc_username a))
     (py_then (save_account E (a\<lparr>acc_status := Suspended\<rparr>) [F_status, F_updated_at]) (py_return ())))"

definition book_usage :: "'w env \<Rightarrow> account \<Rightarrow> rat \<Rightarrow> ('w sys, account) py" where
  "book_usage E a g =
     (if g \<noteq> acc_bandwidth_used_gb a
      then save_account E (a\<lparr>acc_bandwidth_used_gb := g\<rparr>) [F_bandwidth_used_gb, F_updated_at]
      else py_return a)"

lemma sync_account_parts:
  "sync_account_bandwidth E ssh a =
     py_then (setup_traffic_accounting E ssh (acc_username a))
    (py_bind (get_user_bandwidth_bytes E ssh (acc_username a)) (\<lambda>n.
     py_bind (lift_result (gb_of_bytes n)) (\<lambda>g.
     py_bind (book_usage E a g) (suspend_over E ssh g))))"
  by (simp add: sync_account_bandwidth_def suspend_over_def [abs_def] book_usage_def)

lemma suspend_metered:
  assumes "distinct (map acc_id (accounts (db s)))" and "db_account (db s) (acc_id a) = Some a"
    and "acc_status a = Active" and "acc_bandwidth_used_gb a = g"
  shows "metered_only {acc_id a} (db s) (db (snd (suspend_over E ssh g a s)))"
proof (cases "over_limit a g")
  case True
  have "steps same_db (lock_user E ssh (acc_username a))" by (intro steps_intro)
  then have lock: "db u = db s" if "lock_user E ssh (acc_username a) s = (q, u)" for q u
    using that by (rule steps_run)
  have save: "metered_only {acc_id a} (db s) (db v)"
    if "db u = db s" "save_account E (a\<lparr>acc_status := Suspended\<rparr>) [F_status, F_updated_at] u = (q, v)" for u q v
  proof -
    have "metered_only {acc_id (a\<lparr>acc_status := Suspended\<rparr>)} (db u) (db v)"
      by (rule save_metered(1) [OF _ _ _ _ that(2), of a])
         (use assms True that(1) metered_suspend [of a] in \<open>auto simp: write_account_def\<close>)
    with that(1) show ?thesis by simp
  qed
  have "metered_only {acc_id a} (db s) (db (snd (py_then (lock_user E ssh (acc_username a))
    (py_then (save_account E (a\<lparr>acc_status := Suspended\<rparr>) [F_status, F_updated_at]) (py_return ())) s)))"
  proof (rule then_exit)
    fix x u assume "lock_user E ssh (acc_username a) s = (Inr x, u)"
    with lock have u: "db u = db s" by blast
    show "metered_only {acc_id a} (db s) (db (snd (py_then (save_account E (a\<lparr>acc_status := Suspended\<rparr>)
        [F_status, F_updated_at]) (py_return ()) u)))"
      by (rule then_exit) (use save [OF u] in \<open>auto simp: py_return_def\<close>)
  qed (use lock in simp)
  with True show ?thesis by (simp add: suspend_over_def)
qed (simp add: suspend_over_def py_return_def)

lemma book_metered:
  assumes dist: "distinct (map acc_id (accounts (db s)))" and row: "db_account (db s) (acc_id a) = Some a"
    and active: "acc_status a = Active" and run: "book_usage E a g s = (r, t)"
  shows "metered_only {acc_id a} (db s) (db t)"
    and "r = Inr b \<Longrightarrow> acc_id b = acc_id a \<and> acc_status b = Active \<and> acc_bandwidth_used_gb b = g \<and>
      db_account (db t) (acc_id b) = Some b"
proof -
  let ?a = "a\<lparr>acc_bandwidth_used_gb := g\<rparr>" and ?fs = "[F_bandwidth_used_gb, F_updated_at]"
  note save = save_metered [of s ?a a ?fs E r t]
  have pre: "db_account (db s) (acc_id ?a) = Some a" "F_updated_at \<in> set ?fs"
    "metered a (write_account (?a\<lparr>acc_updated_at := u\<rparr>) ?fs a)" for u
    using row active metered_count [of a u g] by (simp_all add: write_account_def)
  show "metered_only {acc_id a} (db s) (db t)"
    using save(1) [OF dist pre] run by (cases "g = acc_bandwidth_used_gb a") (simp_all add: book_usage_def py_return_def)
  show "acc_id b = acc_id a \<and> acc_status b = Active \<and> acc_bandwidth_used_gb b = g \<and>
      db_account (db t) (acc_id b) = Some b" if "r = Inr b"
    using save(2) [OF dist pre _ that] run row active that
    by (cases "g = acc_bandwidth_used_gb a") (auto simp: book_usage_def py_return_def write_account_def)
qed

lemma lift_result_run: "lift_result x s = (case x of Inl e \<Rightarrow> (Inl e, s) | Inr y \<Rightarrow> (Inr y, s))"
  by (simp add: lift_result_def py_return_def py_raise_def split: sum.split)

lemma sync_account_metered:
  assumes dist: "distinct (map acc_id (accounts (db s)))" and row: "db_account (db s) (acc_id a) = Some a"
    and active: "acc_status a = Active"
  shows "metered_only {acc_id a} (db s) (db (snd (sync_account_bandwidth E ssh a s)))"
  unfolding sync_account_parts
proof (rule then_exit)
  fix x s1 assume "setup_traffic_accounting E ssh (acc_username a) s = (Inr x, s1)"
  from steps_run [OF ssh_accounting_same_db(2) this] have s1: "db s1 = db s" by simp
  show "metered_only {acc_id a} (db s) (db (snd (py_bind (get_user_bandwidth_bytes E ssh (acc_username a)) (\<lambda>n.
     py_bind (lift_result (gb_of_bytes n)) (\<lambda>g. py_bind (book_usage E a g) (suspend_over E ssh g))) s1)))"
  proof (rule bind_exit)
    fix n s2 assume "get_user_bandwidth_bytes E ssh (acc_username a) s1 = (Inr n, s2)"
    from steps_run [OF ssh_accounting_same_db(3) this] s1 have s2: "db s2 = db s" by simp
    show "metered_only {acc_id a} (db s) (db (snd (py_bind (lift_result (gb_of_bytes n))
        (\<lambda>g. py_bind (book_usage E a g) (suspend_over E ssh g)) s2)))"
    proof (rule bind_exit)
      fix g s3 assume "lift_result (gb_of_bytes n) s2 = (Inr g, s3)"
      with s2 have s3: "db s3 = db s" by (simp add: lift_result_run split: sum.splits)
      show "metered_only {acc_id a} (db s) (db (snd (py_bind (book_usage E a g) (suspend_over E ssh g) s3)))"
      proof (rule bind_exit)
        fix e t assume "book_usage E a g s3 = (Inl e, t)"
        from book_metered(1) [OF _ _ active this] dist row s3 show "metered_only {acc_id a} (db s) (db t)" by simp
      next
        fix b s4 assume run: "book_usage E a g s3 = (Inr b, s4)"
        from book_metered(1) [OF _ _ active run] dist row s3
        have first: "metered_only {acc_id a} (db s) (db s4)" by simp
        from book_metered(2) [OF _ _ active run refl] dist row s3
        have b: "acc_id b = acc_id a" "acc_status b = Active" "acc_bandwidth_used_gb b = g"
          "db_account (db s4) (acc_id b) = Some b" by auto
        from suspend_metered [OF _ b(4,2,3)] b(1) metered_only_ids [OF first] dist
        have "metered_only {acc_id a} (db s4) (db (snd (suspend_over E ssh g b s4)))" by simp
        with first show "metered_only {acc_id a} (db s) (db (snd (suspend_over E ssh g b s4)))"
          by (rule metered_only_trans)
      qed
    qed (use s2 in \<open>simp add: lift_result_run split: sum.splits\<close>)
  next
    fix e t assume "get_user_bandwidth_bytes E ssh (acc_username a) s1 = (Inl e, t)"
    from steps_run [OF ssh_accounting_same_db(3) this] s1 show "metered_only {acc_id a} (db s) (db t)" by simp
  qed
next
  fix e t assume "setup_traffic_accounting E ssh (acc_username a) s = (Inl e, t)"
  from steps_run [OF ssh_accounting_same_db(2) this] show "metered_only {acc_id a} (db s) (db t)" by simp
qed

section \<open>The traffic job\<close>

text \<open>The accounts the job may write: active, on an active server that it can reach.\<close>

definition in_service :: "'w env \<Rightarrow> database \<Rightarrow> nat set" where
  "in_service E d = {srv_id r | r. r \<in> set (servers d) \<and> srv_status r = SrvActive \<and>
     \<not> unreachable E (srv_ip_address r)}"

definition metered_ids :: "'w env \<Rightarrow> database \<Rightarrow> nat set" where
  "metered_ids E d = {acc_id a | a. a \<in> set (accounts d) \<and> acc_status a = Active \<and>
     acc_server a \<in> in_service E d}"

lemma metered_idsI:
  "a \<in> set (accounts d) \<Longrightarrow> acc_status a = Active \<Longrightarrow> acc_server a \<in> in_service E d \<Longrightarrow>
     acc_id a \<in> metered_ids E d"
  by (auto simp: metered_ids_def)

lemma metered_only_mono: "metered_only I d d' \<Longrightarrow> I \<subseteq> J \<Longrightarrow> metered_only J d d'"
  unfolding metered_only_def by (auto elim!: list_all2_mono)

text \<open>A row of the database after some metering that is active was so before, on the same server.\<close>

lemma metered_only_origin:
  assumes "metered_only I d d'" and "b \<in> set (accounts d')"
  obtains a where "a \<in> set (accounts d)" "acc_id a = acc_id b" "acc_server a = acc_server b"
    "acc_status b = Active \<Longrightarrow> acc_status a = Active"
proof -
  from assms obtain k where k: "k < length (accounts d')" "b = accounts d' ! k"
    by (auto simp: in_set_conv_nth)
  with assms(1) have "k < length (accounts d)" and "metered (accounts d ! k) b"
    by (auto simp: metered_only_def list_all2_conv_all_nth)
  then show ?thesis by (intro that [of "accounts d ! k"]) (auto simp: metered_def)
qed

lemma metered_only_other:
  assumes "metered_only I d d'" and "j \<notin> I"
  shows "db_account d' j = db_account d j"
proof -
  have "find (\<lambda>r. acc_id r = j) ys = find (\<lambda>r. acc_id r = j) xs"
    if "list_all2 (\<lambda>a b. metered a b \<and> (acc_id a \<notin> I \<longrightarrow> b = a)) xs ys" for xs ys
    using that assms(2) by (induction rule: list_all2_induct) (auto simp: metered_def)
  with assms(1) show ?thesis by (auto simp: metered_only_def db_account_def)
qed

lemma metered_loop:
  fixes s :: "'w sys"
  assumes "distinct (map acc_id (accounts (db s)))" and "distinct (map acc_id xs)"
    and "\<forall>a \<in> set xs. db_account (db s) (acc_id a) = Some a \<and> acc_status a = Active \<and> acc_id a \<in> I"
  shows "metered_only I (db s) (db (snd (py_for xs (sync_account_bandwidth E ssh) s)))"
proof -
  define Q where "Q ys u \<longleftrightarrow> distinct (map acc_id (accounts (db u))) \<and> distinct (map acc_id ys) \<and>
    (\<forall>a \<in> set ys. db_account (db u) (acc_id a) = Some a \<and> acc_status a = Active \<and> acc_id a \<in> I) \<and>
    metered_only I (db s) (db u)" for ys :: "account list" and u :: "'w sys"
  have keep: "metered_only I (db s) (db t) \<and> (\<not> isl r \<longrightarrow> Q ys t)"
    if Q: "Q (a # ys) u" and run: "sync_account_bandwidth E ssh a u = (r, t)" for a ys u r t
  proof -
    have one: "metered_only {acc_id a} (db u) (db t)"
      using sync_account_metered [of u a E ssh] Q run by (auto simp: Q_def)
    have "db_account (db t) (acc_id b) = db_account (db u) (acc_id b)" if "b \<in> set ys" for b
      using metered_only_other [OF one, of "acc_id b"] Q that by (simp add: Q_def) (metis imageI)
    moreover have "metered_only I (db s) (db t)"
      using Q metered_only_trans [OF _ metered_only_mono [OF one, of I]] by (simp add: Q_def)
    ultimately show ?thesis using Q metered_only_ids [OF one] by (auto simp: Q_def)
  qed
  show ?thesis
    by (rule for_invariant [where Q = Q and Z = "\<lambda>u. metered_only I (db s) (db u)", OF keep])
       (use assms in \<open>simp_all add: Q_def\<close>)
qed

lemma with_ssh_unreachable:
  assumes "unreachable E (srv_ip_address srv)"
  shows "db (snd (with_ssh E srv body s)) = db s"
proof -
  obtain e t where run: "connect E (get_ssh_manager srv) s = (Inl e, t)"
    using connect_unreachable [OF assms] by blast
  then have "db t = db s" by (rule connect_Inl)
  with run show ?thesis by (simp add: with_ssh_def py_bind_def)
qed

lemma metered_server:
  assumes dist: "distinct (map acc_id (accounts (db s)))" and srv: "srv_status srv = SrvActive"
    and on: "srv_id srv \<in> in_service E (db s) \<or> unreachable E (srv_ip_address srv)"
  shows "metered_only (metered_ids E (db s)) (db s) (db (snd (sync_server_bandwidth E srv s)))"
proof (cases "unreachable E (srv_ip_address srv)")
  case True
  then show ?thesis
    by (auto simp: sync_server_bandwidth_def query_def py_get_def py_bind_def py_return_def with_ssh_unreachable)
next
  case False
  let ?I = "metered_ids E (db s)" and ?xs = "active_accounts srv (db s)"
  have "\<forall>a \<in> set ?xs. db_account (db s) (acc_id a) = Some a \<and> acc_status a = Active \<and> acc_id a \<in> ?I"
  proof
    fix a assume "a \<in> set ?xs"
    then have a: "a \<in> set (accounts (db s))" "acc_status a = Active" "acc_server a = srv_id srv"
      by (simp_all add: active_accounts_def)
    moreover from a(1) dist have "db_account (db s) (acc_id a) = Some a"
      unfolding db_account_def by (rule find_key [rotated])
    ultimately show "db_account (db s) (acc_id a) = Some a \<and> acc_status a = Active \<and> acc_id a \<in> ?I"
      using on False by (auto simp: metered_ids_def)
  qed
  moreover have "distinct (map acc_id ?xs)"
    using dist unfolding active_accounts_def by (rule distinct_newest_first)
  ultimately have loop: "metered_only ?I (db s) (db (snd (py_for ?xs (sync_account_bandwidth E ssh) u)))"
    if "db u = db s" for ssh u using metered_loop [of u ?xs ?I E ssh] dist that by simp
  have body: "db (snd (py_bind (query (active_accounts srv)) (\<lambda>accs. py_for accs (sync_account_bandwidth E ssh)) u)) =
      db (snd (py_for ?xs (sync_account_bandwidth E ssh) u))" if "db u = db s" for ssh u
    using that by (simp add: query_def py_get_def py_bind_def)
  have "metered_only ?I (db s) (db t)"
    if "with_ssh E srv (\<lambda>ssh. py_bind (query (active_accounts srv)) (\<lambda>accs. py_for accs (sync_account_bandwidth E ssh))) s = (r, t)" for r t
    using that
  proof (cases rule: with_ssh_cases)
    case (opened c args s1 s2)
    with body [of s1 "connected srv c"] loop [of s1 "connected srv c"] show ?thesis by simp
  qed simp
  then have "metered_only ?I (db s) (db (snd (with_ssh E srv (\<lambda>ssh.
      py_bind (query (active_accounts srv)) (\<lambda>accs. py_for accs (sync_account_bandwidth E ssh))) s)))"
    by (metis prod.collapse)
  then show ?thesis
    by (simp add: sync_server_bandwidth_def query_def py_get_def py_bind_def py_return_def)
qed

lemma bandwidth_job:
  assumes wf: "db_wf (db s)"
  shows "\<exists>t. sync_bandwidth_usage E s = (Inr (), t) \<and> metered_only (metered_ids E (db s)) (db s) (db t)"
proof -
  let ?I = "metered_ids E (db s)" and ?xs = "active_servers E (db s)"
  have keep: "metered_only ?I (db s) (db (snd (sync_server_bandwidth E srv u)))"
    if srv: "srv \<in> set ?xs" and I: "metered_only ?I (db s) (db u)" for srv u
  proof -
    have same: "servers (db u) = servers (db s)"
      using I by (auto simp: metered_only_def)
    have "metered_ids E (db u) \<subseteq> ?I"
    proof
      fix i assume "i \<in> metered_ids E (db u)"
      then obtain b where b: "b \<in> set (accounts (db u))" "acc_status b = Active"
        and i: "i = acc_id b" and on: "acc_server b \<in> in_service E (db s)"
        by (auto simp: metered_ids_def in_service_def same)
      obtain a where a: "a \<in> set (accounts (db s))" "acc_status a = Active"
        and ab: "acc_id a = acc_id b" "acc_server a = acc_server b"
        using metered_only_origin [OF I b(1)] b(2) by blast
      from a on have "acc_id a \<in> ?I" by (intro metered_idsI) (simp_all add: ab)
      then show "i \<in> ?I" by (simp add: i ab)
    qed
    moreover have "srv \<in> set (servers (db s))" "srv_status srv = SrvActive"
      using srv by (simp_all add: active_servers_def by_name_def)
    moreover have "distinct (map acc_id (accounts (db u)))"
      using metered_only_ids [OF I] wf_distinct_ids [OF wf] by simp
    ultimately have "metered_only ?I (db u) (db (snd (sync_server_bandwidth E srv u)))"
      using metered_server [of u srv E] by (auto simp: in_service_def same intro: metered_only_mono)
    with I show ?thesis by (rule metered_only_trans)
  qed
  have "sync_bandwidth_usage E s = py_for ?xs (\<lambda>srv. py_try (sync_server_bandwidth E srv) (\<lambda>_. py_return ())) s"
    by (simp add: sync_bandwidth_usage_def query_def py_get_def py_bind_def)
  with guarded_loop [of ?xs "\<lambda>u. metered_only ?I (db s) (db u)" "sync_server_bandwidth E" s] keep
  show ?thesis by simp
qed

section \<open>The session job\<close>

text \<open>
  Only sessions of accounts on the given servers may come and go; the others keep their rows
  and their order.
\<close>

definition hosted_on :: "nat set \<Rightarrow> database \<Rightarrow> active_session \<Rightarrow> bool" where
  "hosted_on S d r \<longleftrightarrow> (case db_account d (ses_account r) of None \<Rightarrow> False | Some a \<Rightarrow> acc_server a \<in> S)"

definition sessions_only :: "nat set \<Rightarrow> database \<Rightarrow> database \<Rightarrow> bool" where
  "sessions_only S d d' \<longleftrightarrow>
     (\<exists>rs n. d' = d\<lparr>sessions := rs, next_session := n\<rparr> \<and> next_session d \<le> n \<and>
       filter (\<lambda>r. \<not> hosted_on S d r) rs = filter (\<lambda>r. \<not> hosted_on S d r) (sessions d))"

lemma hosted_on_sessions [simp]:
  "hosted_on S (d\<lparr>sessions := rs\<rparr>) = hosted_on S d" "hosted_on S (d\<lparr>next_session := n\<rparr>) = hosted_on S d"
  by (simp_all add: hosted_on_def fun_eq_iff)

lemma sessions_only_refl [simp]: "sessions_only S d d"
  by (auto simp: sessions_only_def intro!: exI [of _ "sessions d"] exI [of _ "next_session d"])

lemma sessions_only_trans: "sessions_only S a b \<Longrightarrow> sessions_only S b c \<Longrightarrow> sessions_only S a c"
  unfolding sessions_only_def by (elim exE conjE) (auto intro: order_trans)

text \<open>The relation the body is followed with: about runs from a given table of accounts.\<close>

definition only_from :: "nat set \<Rightarrow> account list \<Rightarrow> 'w sys \<Rightarrow> 'w sys \<Rightarrow> bool" where
  "only_from S as s t \<longleftrightarrow> accounts (db s) = as \<longrightarrow> sessions_only S (db s) (db t) \<and> accounts (db t) = as"

interpretation only: effect "only_from S as" for S as
  by unfold_locales (auto simp: only_from_def intro: sessions_only_trans)

lemma delete_sessions_only:
  assumes "i \<in> S"
  shows "sessions_only S d (snd (delete_sessions_of_server i d))"
  unfolding sessions_only_def delete_sessions_of_server_def
  using assms
  by (intro exI [of _ "filter (\<lambda>r. \<not> (case db_account d (ses_account r) of None \<Rightarrow> False | Some a \<Rightarrow> acc_server a = i)) (sessions d)"]
        exI [of _ "next_session d"])
     (auto simp: hosted_on_def intro!: filter_cong split: option.splits)

lemma insert_session_only:
  assumes "db_account d (ses_account r) = Some a" and "acc_server a \<in> S"
  shows "sessions_only S d (snd (insert_session inet r d))"
proof (cases "session_violation inet (d\<lparr>next_session := Suc (next_session d)\<rparr>) (r\<lparr>ses_id := next_session d\<rparr>)")
  case None
  with assms show ?thesis
    by (auto simp: insert_session_def Let_def sessions_only_def hosted_on_def
        intro!: exI [of _ "sessions d @ [r\<lparr>ses_id := next_session d\<rparr>]"] exI [of _ "Suc (next_session d)"])
next
  case (Some e)
  then show ?thesis
    by (auto simp: insert_session_def Let_def sessions_only_def intro!: exI [of _ "sessions d"])
qed

lemma steps_same_db_only: "steps same_db m \<Longrightarrow> steps (only_from S as) m"
  by (simp add: steps_def only_from_def)

lemma on_db_only:
  assumes "\<And>d. accounts d = as \<Longrightarrow> sessions_only S d (snd (m d))"
  shows "steps (only_from S as) (on_db m)"
proof (rule stepsI)
  fix s
  have "sessions_only S (db s) (db (snd (on_db m s)))" if "accounts (db s) = as"
    using assms [OF that] by (auto simp: on_db_def split: prod.splits)
  then show "only_from S as s (snd (on_db m s))" by (auto simp: only_from_def sessions_only_def)
qed

lemma query_only:
  assumes "\<And>d. accounts d = as \<Longrightarrow> steps (only_from S as) (k (f d))"
  shows "steps (only_from S as) (py_bind (query f) k)"
proof (rule stepsI)
  fix s
  show "only_from S as s (snd (py_bind (query f) k s))"
    using stepsD [OF assms, of "db s" s]
    by (cases "accounts (db s) = as") (auto simp: py_bind_def query_def py_get_def only_from_def)
qed

lemma acc_map_in: "acc_map accs name = Some a \<Longrightarrow> a \<in> set accs"
  by (auto simp: acc_map_def dest!: map_of_SomeD)

lemma store_session_only:
  assumes "distinct (map acc_id as)" and "\<forall>a \<in> set accs. a \<in> set as \<and> acc_server a \<in> S"
  shows "steps (only_from S as) (store_session E (acc_map accs) us x)"
proof (cases "acc_map accs (rs_user x)")
  case None
  then show ?thesis by (simp add: store_session_def only.steps_return)
next
  case (Some a)
  then have a: "a \<in> set as" "acc_server a \<in> S" using assms(2) acc_map_in by blast+
  have "db_account d (acc_id a) = Some a" if "accounts d = as" for d
    using find_key [OF assms(1) a(1)] that by (simp add: db_account_def)
  then have ins: "steps (only_from S as) (on_db (insert_session (env_inet E)
      \<lparr>ses_id = 0, ses_account = acc_id a, ses_pid = rs_pid x, ses_client_ip = rs_client_ip x,
       ses_connected_since = t\<rparr>))" for t
    by (intro on_db_only insert_session_only [OF _ a(2)]) simp
  have now: "steps (only_from S as) (now E)" by (intro steps_same_db_only) (intro steps_intro)
  show ?thesis
    unfolding store_session_def Some option.case
    by (intro only.steps_bind only.steps_then only.steps_return now ins)
qed

lemma sync_server_only:
  assumes "distinct (map acc_id as)" and "srv_id srv \<in> S"
  shows "steps (only_from S as) (sync_server_sessions E srv)"
proof -
  have inner: "steps (only_from S as) (py_bind (query (session_accounts srv (map rs_user sess))) (\<lambda>accs.
       py_then (on_db (delete_sessions_of_server (srv_id srv)))
      (py_bind (py_fold (store_session E (acc_map accs)) [] sess) (\<lambda>user_sessions.
         py_for user_sessions (limit_sessions E m (acc_map accs))))))" for m sess
  proof (rule query_only)
    fix d :: database assume "accounts d = as"
    then have "\<forall>a \<in> set (session_accounts srv (map rs_user sess) d). a \<in> set as \<and> acc_server a \<in> S"
      using assms(2) by (simp add: session_accounts_def)
    note store = store_session_only [OF assms(1) this]
    have limit: "steps (only_from S as) (limit_sessions E m accs e)" for accs e
      unfolding limit_sessions_def by (intro steps_same_db_only) (intro steps_intro)
    show "steps (only_from S as) (py_then (on_db (delete_sessions_of_server (srv_id srv)))
      (py_bind (py_fold (store_session E (acc_map (session_accounts srv (map rs_user sess) d))) [] sess)
        (\<lambda>user_sessions. py_for user_sessions
          (limit_sessions E m (acc_map (session_accounts srv (map rs_user sess) d))))))"
      by (intro only.steps_then only.steps_bind only.steps_fold only.steps_for store limit
          on_db_only delete_sessions_only assms(2))
  qed
  have node: "steps (only_from S as) (connect E m)" "steps (only_from S as) (get_active_sessions E m)"
    "steps (only_from S as) (py_then (disconnect E m) (py_return ()))" for m
    by (intro steps_same_db_only, intro steps_intro)+
  show ?thesis
    unfolding sync_server_sessions_def with_ssh_def
    by (rule only.steps_bind [OF node(1) only.steps_finally [OF only.steps_bind [OF node(2) inner] node(3)]])
qed

lemma session_job:
  assumes wf: "db_wf (db s)"
  shows "\<exists>t. sync_active_sessions E s = (Inr (), t) \<and> sessions_only (in_service E (db s)) (db s) (db t)"
proof -
  let ?S = "in_service E (db s)" and ?xs = "active_servers E (db s)"
  have keep: "sessions_only ?S (db s) (db (snd (sync_server_sessions E srv u)))"
    if srv: "srv \<in> set ?xs" and I: "sessions_only ?S (db s) (db u)" for srv u
  proof (cases "unreachable E (srv_ip_address srv)")
    case True
    with I show ?thesis by (simp add: sync_server_sessions_def with_ssh_unreachable)
  next
    case False
    with srv have "srv_id srv \<in> ?S" by (auto simp: in_service_def active_servers_def by_name_def)
    moreover have "accounts (db u) = accounts (db s)" using I by (auto simp: sessions_only_def)
    ultimately have "sessions_only ?S (db u) (db (snd (sync_server_sessions E srv u)))"
      using stepsD [OF sync_server_only [OF wf_distinct_ids [OF wf], of srv ?S E], of u] by (simp add: only_from_def)
    with I show ?thesis by (rule sessions_only_trans)
  qed
  have "sync_active_sessions E s = py_for ?xs (\<lambda>srv. py_try (sync_server_sessions E srv) (\<lambda>_. py_return ())) s"
    by (simp add: sync_active_sessions_def query_def py_get_def py_bind_def)
  with guarded_loop [of ?xs "\<lambda>u. sessions_only ?S (db s) (db u)" "sync_server_sessions E" s] keep
  show ?thesis by simp
qed

end
