(* ===== verification/TaskProperties.thy ===== *)
theory TaskProperties
  imports JobFacts Demo
begin

text \<open>
  The properties of the periodic tasks, \<open>accounts/tasks.py\<close> and \<open>servers/tasks.py\<close>,
  each with a run on the demonstration database that meets its hypotheses.
\<close>

lemma returned_unit: "\<not> isl (fst p) \<Longrightarrow> \<exists>t. p = (Inr (), t)"
  by (cases p; cases "fst p") auto


section \<open>Expiring and cleaning up\<close>





text \<open>
  C31: \<open>cleanup_expired_accounts\<close> marks as deleted only accounts that were expired,
  with an expiry date at least \<open>grace_days\<close> before the present; it returns their
  number and logs one DELETE for each; no other row and no other table changed.
\<close>

theorem cleanup_effect:
  assumes "db_wf (db s)" and "cleanup_expired_accounts E grace s = (Inr n, t)"
  shows "\<exists>is. distinct is \<and> length is = n \<and>
    set is \<subseteq> {acc_id a | a. a \<in> set (accounts (db s)) \<and> acc_status a = Expired \<and>
       acc_expire_date a \<le> fst (env_clock E (world s)) - grace * day_us} \<and>
    rows_set Deleted is (db s) (db t) \<and> logged_each DELETE is (db s) (db t)"
  using cleanup_exactly [OF assms] unfolding stale_ids by blast

lemma demo_cleanup: "\<not> isl (fst (cleanup_expired_accounts demo_env 3 demo_sys))"
proof -
  have "\<exists>n t. best_effort m xs v = (Inr n, t)" for m :: "account \<Rightarrow> (nat sys, unit) py" and xs v
    by (rule best_effort_returns)
  then have r: "\<not> isl (fst (best_effort m xs v))" for m :: "account \<Rightarrow> (nat sys, unit) py" and xs v
    by (metis fst_conv sum.disc(2))
  show ?thesis
    by (simp add: cleanup_expired_accounts_def py_bind_def now_def ask_def demo_env_def demo_sys_def demo_time_def
        lift_result_def add_days_def datetime_ok_def min_datetime_def max_datetime_def day_us_def
        epoch_ordinal_def py_return_def query_def py_get_def r)
qed

lemma cleanup_effect_witness:
  "\<exists>n t is. cleanup_expired_accounts demo_env 3 demo_sys = (Inr n, t) \<and> length is = n \<and>
     rows_set Deleted is demo_db (db t)"
proof -
  obtain n t where run: "cleanup_expired_accounts demo_env 3 demo_sys = (Inr n, t)"
    using returned [OF demo_cleanup] by blast
  have wf: "db_wf (db demo_sys)" using demo_wf by (simp add: demo_sys_def)
  from cleanup_effect [OF wf run] run show ?thesis by (auto simp: demo_sys_def)
qed


section \<open>Traffic\<close>

text \<open>
  C18: one account of \<open>sync_bandwidth_usage\<close>: the row takes the usage that was read
  from the node, and when that reaches the limit of the account the Linux user was
  locked and the row is suspended; no other row and no log entry changes.
\<close>

theorem sync_bandwidth_effect:
  assumes "sync_account_bandwidth E (connected srv c) acc s = (Inr (), t)"
  shows "\<exists>n g. counter_read E c (acc_username acc) n \<and> gb_of_bytes n = Inr g \<and>
    traffic_synced acc g (db s) (db t) \<and>
    (over_limit acc g \<longrightarrow> Exec c (''usermod -L '' @ shell_quote (acc_username acc)) \<in> set (io t))"
  using assms by (rule sync_account_bandwidth_Inr) blast

lemma round_zero: "round_double 0 = 0" "round6 0 = 0" "\<not> double_max \<le> 0"
  by code_simp+

lemma demo_sync: "\<not> isl (fst (sync_account_bandwidth demo_env (connected demo_server 0) demo_account demo_sys))"
  by (simp add: demo_defs run_defs ssh_defs sync_account_bandwidth_def connected_def get_user_bandwidth_bytes_def
      parse_bandwidth_def py_strip_def py_rstrip_def py_lstrip_def is_space_def py_isdigit_def is_digit_def
      is_decimal_def lift_result_def gb_of_bytes_def int_div_float_def Let_def over_limit_def
      py_split.simps round_zero)

lemma sync_bandwidth_effect_witness:
  "\<exists>t g. sync_account_bandwidth demo_env (connected demo_server 0) demo_account demo_sys = (Inr (), t) \<and>
     traffic_synced demo_account g demo_db (db t)"
proof -
  obtain t where run: "sync_account_bandwidth demo_env (connected demo_server 0) demo_account demo_sys = (Inr (), t)"
    using returned_unit [OF demo_sync] by blast
  from sync_bandwidth_effect [OF run] run show ?thesis by (auto simp: demo_sys_def)
qed

text \<open>
  C33: the decision in bytes, through the division and the two roundings of the
  double: every counter from the limit on is over it, and no counter that is 1074
  bytes or more below the limit is, for every limit the column can hold.
\<close>

theorem bandwidth_decision_bytes:
  assumes "gb_of_bytes n = Inr g" and "0 \<le> n"
    and "0 < acc_bandwidth_limit_gb acc" and "acc_bandwidth_limit_gb acc < 2 ^ 31"
  shows "(acc_bandwidth_limit_gb acc * 1024 ^ 3 \<le> n \<longrightarrow> over_limit acc g) \<and>
    (n \<le> acc_bandwidth_limit_gb acc * 1024 ^ 3 - 1074 \<longrightarrow> \<not> over_limit acc g)"
  using over_limit_bytes [OF assms] by blast

lemma bandwidth_decision_bytes_witness:
  "\<exists>g. gb_of_bytes 1073741824 = Inr g \<and> over_limit demo_account g"
proof -
  have "\<not> isl (gb_of_bytes 1073741824)" by code_simp
  then obtain g where g: "gb_of_bytes 1073741824 = Inr g" by (cases "gb_of_bytes 1073741824") auto
  from bandwidth_decision_bytes [OF g, of demo_account] g show ?thesis by (simp add: demo_account_def)
qed


section \<open>Sessions\<close>

text \<open>
  C19: \<open>sync_active_sessions\<close> on one server that answers: the rows of the server's
  sessions are replaced by one row for each listed session of an active account; then
  each account with more sessions than it may have loses the surplus, in one command
  that names the process ids, and no other command follows the listing. The surplus is
  as many sessions as there are too many; with those that stay they are exactly the
  sessions of the user, and none of them has a lower process id than one that stays.
\<close>

theorem sync_sessions_effect:
  assumes "sync_server_sessions E srv s = (Inr (), t)"
  shows "\<exists>conn c s1 sess s2 accs us listing. dials srv conn \<and>
    get_active_sessions E (connected srv c) s1 = (Inr sess, s2) \<and>
    accs = acc_map (session_accounts srv (map rs_user sess) (db s)) \<and> grouped accs sess us \<and>
    sessions_stored accs sess (snd (delete_sessions_of_server (srv_id srv) (db s))) (db t) \<and>
    io t = io s @ [Connect conn] @ map (Exec c) (listing @ kill_commands accs us) @ [Close c] \<and>
    (\<forall>acc xs. length (excess_sessions acc xs) = length xs - nat (acc_max_connections acc) \<and>
      (\<exists>kept. mset xs = mset kept + mset (excess_sessions acc xs) \<and>
        (\<forall>k \<in> set kept. \<forall>e \<in> set (excess_sessions acc xs). rs_pid k \<le> rs_pid e)))"
proof -
  have excess: "\<forall>acc xs. length (excess_sessions acc xs) = length xs - nat (acc_max_connections acc) \<and>
      (\<exists>kept. mset xs = mset kept + mset (excess_sessions acc xs) \<and>
        (\<forall>k \<in> set kept. \<forall>e \<in> set (excess_sessions acc xs). rs_pid k \<le> rs_pid e))"
    using excess_length excess_split excess_highest by blast
  from assms show ?thesis by (rule sync_server_sessions_Inr) (use excess in blast)
qed

lemma demo_sessions: "\<not> isl (fst (sync_server_sessions demo_env demo_server demo_sys))"
  by (simp add: demo_defs run_defs ssh_defs sync_server_sessions_def get_active_sessions_def quoted_def
      py_strip_def py_rstrip_def py_lstrip_def is_space_def py_splitlines_def is_line_break_def
      session_of_line_def numeral_2_eq_2 session_accounts_def newest_first_def
      delete_sessions_of_server_def Let_def)

lemma sync_sessions_effect_witness:
  "\<exists>t sess accs. sync_server_sessions demo_env demo_server demo_sys = (Inr (), t) \<and>
     sessions_stored accs sess (snd (delete_sessions_of_server 1 demo_db)) (db t)"
proof -
  obtain t where run: "sync_server_sessions demo_env demo_server demo_sys = (Inr (), t)"
    using returned_unit [OF demo_sessions] by blast
  from sync_sessions_effect [OF run] run show ?thesis by (auto simp: demo_sys_def demo_server_def)
qed


section \<open>The synchronisation jobs as a whole\<close>

text \<open>
  C20: \<open>sync_bandwidth_usage\<close> and \<open>sync_active_sessions\<close> return on every database and
  whatever the nodes answer, and what they leave behind is contained. The first writes
  accounts only: of an account that was active, on an active server whose address can be
  reached, it may change the usage, and suspend it when the usage it wrote is over the
  limit; every other account keeps its row. The second writes sessions only: those of
  accounts on active servers that can be reached; the others keep their rows and order.
\<close>

theorem sync_jobs_contained:
  assumes "db_wf (db s)"
  shows "(\<exists>t. sync_bandwidth_usage E s = (Inr (), t) \<and>
      metered_only (metered_ids E (db s)) (db s) (db t)) \<and>
    (\<exists>t. sync_active_sessions E s = (Inr (), t) \<and>
      sessions_only (in_service E (db s)) (db s) (db t))"
  using bandwidth_job [OF assms] session_job [OF assms] by blast

text \<open>In the example with the unreachable node the jobs change nothing.\<close>

lemma sync_jobs_contained_witness:
  "(\<exists>t. sync_bandwidth_usage down_env demo_sys = (Inr (), t) \<and> accounts (db t) = accounts demo_db) \<and>
   (\<exists>t. sync_active_sessions down_env demo_sys = (Inr (), t) \<and> accounts (db t) = accounts demo_db)"
proof -
  have "unreachable down_env ip" for ip by (simp add: unreachable_def down_env_def)
  then have none: "metered_ids down_env (db demo_sys) = {}" by (simp add: metered_ids_def in_service_def)
  have wf: "db_wf (db demo_sys)" using demo_wf by (simp add: demo_sys_def)
  have same: "accounts d' = accounts d" if "metered_only {} d d'" for d d'
    using that by (auto simp: metered_only_def list_all2_conv_all_nth intro: nth_equalityI)
  from sync_jobs_contained [OF wf, of down_env] same show ?thesis
    unfolding none by (fastforce simp: demo_sys_def sessions_only_def)
qed


section \<open>Health checks\<close>

text \<open>
  C13: one round of \<open>check_all_servers_health\<close>: a server that is down is left alone;
  for every other one either the failure is counted, and the third in a row takes it
  out of service, or the count starts again and the status is kept or goes from
  active to full. A server that cannot be reached counts as failed.
\<close>

theorem health_round_effect:
  assumes "db_wf (db s)" and "check_all_servers_health E s = (Inr (), t)"
    and "db_server (db s) i = Some r"
  shows "(srv_status r = SrvDown \<longrightarrow> health_view t i = health_view s i) \<and>
    (srv_status r \<noteq> SrvDown \<longrightarrow> health_outcome (health_view s i) (health_view t i)) \<and>
    (srv_status r \<noteq> SrvDown \<and> unreachable E (srv_ip_address r) \<longrightarrow>
       health_view t i = fail_step (health_view s i))"
  using check_all_view [OF assms] by blast

lemma demo_health_down: "\<not> isl (fst (check_all_servers_health down_env (demo_sys\<lparr>health_fails := hf\<rparr>)))"
  by (simp add: demo_defs run_defs ssh_defs check_all_servers_health_def by_name_def check_server_health_def
      health_failed_def fail_count_def set_fail_count_def save_server_status_check_def update_server_def
      server_violation_def split: option.split)

lemma demo_unreachable: "unreachable down_env ip"
  by (simp add: unreachable_def down_env_def)

lemma health_round_effect_witness:
  "\<exists>t. check_all_servers_health down_env demo_sys = (Inr (), t) \<and>
     health_view t 1 = (1, Some (''10.0.0.1'', SrvActive))"
proof -
  obtain t where run: "check_all_servers_health down_env demo_sys = (Inr (), t)"
    using returned [OF demo_health_down [of "health_fails demo_sys"]] by (simp add: demo_sys_def)
  have facts: "db_wf (db demo_sys)" "db_server (db demo_sys) 1 = Some demo_server"
    "srv_status demo_server \<noteq> SrvDown"
    using demo_wf by (simp_all add: demo_sys_def demo_db_def db_server_def demo_server_def)
  have "health_view demo_sys 1 = (0, Some (''10.0.0.1'', SrvActive))"
    by (simp add: health_view_def demo_sys_def demo_db_def db_server_def demo_server_def)
  with health_round_effect [OF facts(1) run facts(2)] facts(3) demo_unreachable run show ?thesis
    by (simp add: fail_step_def)
qed

text \<open>
  Three failures in a row, whatever else happens between the rounds as long as
  it leaves the count and the row of the server as they are: after the second the
  server is still in service, after the third it is down.
\<close>

theorem three_failures_take_down:
  assumes "db_wf (db s0)" "check_all_servers_health E s0 = (Inr (), t0)"
    and "db_wf (db s1)" "check_all_servers_health E s1 = (Inr (), t1)" "health_view s1 i = health_view t0 i"
    and "db_wf (db s2)" "check_all_servers_health E s2 = (Inr (), t2)" "health_view s2 i = health_view t1 i"
    and start: "health_view s0 i = (0, Some (ip, st))" "st \<noteq> SrvDown" and down: "unreachable E ip"
  shows "health_view t1 i = (2, Some (ip, st)) \<and> health_view t2 i = (3, Some (ip, SrvDown))"
proof -
  have step: "health_view t i = fail_step (n, Some (ip, st))"
    if "db_wf (db s)" "check_all_servers_health E s = (Inr (), t)" "health_view s i = (n, Some (ip, st))" for s t n
  proof -
    from that(3) obtain r where "db_server (db s) i = Some r" "srv_ip_address r = ip" "srv_status r = st"
      by (auto simp: health_view_def)
    with check_all_view(3) [OF that(1,2), of i r] start(2) down that(3) show ?thesis by simp
  qed
  have "health_view t0 i = (1, Some (ip, st))"
    using step [OF assms(1,2) start(1)] by (simp add: fail_step_def)
  then have "health_view t1 i = (2, Some (ip, st))"
    using step [OF assms(3,4), of 1] assms(5) by (simp add: fail_step_def)
  then show ?thesis
    using step [OF assms(6,7), of 2] assms(8) by (simp add: fail_step_def)
qed

section \<open>Moving accounts\<close>

text \<open>
  C21: \<open>rebalance_users\<close> moves only active accounts of the given server, each at most
  once and in the order of the table's default ordering; each goes to a server that
  had room at that moment, its row changes in nothing but the server, and the move is
  logged. It returns how many were moved.
\<close>

theorem rebalance_effect:
  assumes "rebalance_users E i s = (Inr n, t)"
  shows "\<exists>down ys. db_server (db s) i = Some down \<and> length ys = n \<and>
    subseq ys (newest_first (filter (\<lambda>a. acc_server a = i \<and> acc_status a = Active) (accounts (db s)))) \<and>
    chain (moved_step (srv_name down)) ys (db s) (db t)"
  using assms by (rule rebalance_chain)

lemma demo_rebalance: "\<exists>n t. rebalance_users demo_env 1 demo_sys = (Inr n, t)"
proof -
  have "\<exists>n t. best_effort m xs v = (Inr n, t)" for m :: "account \<Rightarrow> (nat sys, unit) py" and xs v
    by (rule best_effort_returns)
  then show ?thesis
    by (simp add: rebalance_users_def py_bind_def get_server_def query_def py_get_def found_def py_return_def
        demo_sys_def demo_db_def db_server_def demo_server_def)
qed

lemma rebalance_effect_witness:
  "\<exists>n t ys. rebalance_users demo_env 1 demo_sys = (Inr n, t) \<and> length ys = n \<and>
     chain (moved_step ''a'') ys demo_db (db t)"
proof -
  obtain n t where run: "rebalance_users demo_env 1 demo_sys = (Inr n, t)" using demo_rebalance by blast
  from rebalance_effect [OF run] run show ?thesis
    by (auto simp: demo_sys_def demo_db_def db_server_def demo_server_def)
qed

end
