(* ===== verification/ApiSerializers.thy ===== *)
theory ApiSerializers
  imports AccountServices
begin

text \<open>
  \<open>api/serializers.py\<close>.  The parsing of one JSON value into a Python value and the
  rendering of a date or a price belong to the REST framework: they are the
  functions of the record \<open>drf\<close>, of which nothing is assumed.  What the file
  declares is modelled: which fields there are, which are required, their
  patterns and bounds, and which columns a response shows.  The framework reports
  all invalid fields at once; here the exception names the first.
\<close>

section \<open>The framework\<close>

record user =
  usr_id :: nat
  usr_username :: string
  usr_email :: string
  usr_is_staff :: bool
  usr_is_superuser :: bool

text \<open>
  What a list view declares for the filter backends, and the parameters of a request's
  query. \<open>None\<close> stands for no \<open>ordering_fields\<close>, where the framework offers the columns
  of the serializer. Reading the parameters and selecting rows is the framework's: \<open>drf_select\<close>
  has the names of the backends, the declaration, the parameters and the database, and
  answers with positions in the view's queryset, in the order to show, or with a message.
\<close>

record listing =
  lst_view :: string
  lst_filterset_fields :: "string list"
  lst_search_fields :: "string list"
  lst_ordering_fields :: "string list option"

type_synonym query_params = "(string \<times> string) list"

record 'w drf =
  drf_int :: "json \<Rightarrow> int option"
  drf_char :: "json \<Rightarrow> string option"
  drf_char_blank :: "json \<Rightarrow> string option"
  drf_choice :: "json \<Rightarrow> string option"
  drf_datetime :: "json \<Rightarrow> datetime option"
  drf_decimal :: "json \<Rightarrow> int option"
  drf_show_datetime :: "datetime \<Rightarrow> json"
  drf_show_price :: "int \<Rightarrow> json"
  drf_username :: "nat \<Rightarrow> string option"
  drf_authenticate :: "string \<Rightarrow> string \<Rightarrow> 'w \<Rightarrow> user option \<times> 'w"
  drf_login :: "user \<Rightarrow> 'w \<Rightarrow> 'w"
  drf_logout :: "'w \<Rightarrow> 'w"
  drf_csrf :: "'w \<Rightarrow> string \<times> 'w"
  drf_select :: "string list \<Rightarrow> listing \<Rightarrow> query_params \<Rightarrow> database \<Rightarrow> string + nat list"
  drf_page_link :: "string \<Rightarrow> query_params \<Rightarrow> nat \<Rightarrow> string"

type_synonym request_data = "(string \<times> json) list"

definition check_value :: "string \<Rightarrow> (json \<Rightarrow> 'a option) \<Rightarrow> ('a \<Rightarrow> bool) \<Rightarrow> json \<Rightarrow> exn + 'a" where
  "check_value name parse valid j =
     (case parse j of
        None \<Rightarrow> Inl (ValidationError name)
      | Some v \<Rightarrow> if valid v then Inr v else Inl (ValidationError name))"

definition required :: "request_data \<Rightarrow> string \<Rightarrow> (json \<Rightarrow> 'a option) \<Rightarrow> ('a \<Rightarrow> bool) \<Rightarrow> exn + 'a" where
  "required d name parse valid =
     (case map_of d name of
        None \<Rightarrow> Inl (ValidationError name)
      | Some j \<Rightarrow> check_value name parse valid j)"

definition not_required ::
  "request_data \<Rightarrow> string \<Rightarrow> (json \<Rightarrow> 'a option) \<Rightarrow> ('a \<Rightarrow> bool) \<Rightarrow> exn + 'a option" where
  "not_required d name parse valid =
     (case map_of d name of
        None \<Rightarrow> Inr None
      | Some j \<Rightarrow> (case check_value name parse valid j of Inl e \<Rightarrow> Inl e | Inr v \<Rightarrow> Inr (Some v)))"

definition res_bind :: "exn + 'a \<Rightarrow> ('a \<Rightarrow> exn + 'b) \<Rightarrow> exn + 'b" where
  "res_bind r f = (case r of Inl e \<Rightarrow> Inl e | Inr x \<Rightarrow> f x)"

definition any :: "'a \<Rightarrow> bool" where
  "any x = True"

definition between :: "int \<Rightarrow> int \<Rightarrow> int \<Rightarrow> bool" where
  "between lo hi n \<longleftrightarrow> lo \<le> n \<and> n \<le> hi"


section \<open>Patterns\<close>

text \<open>
  \<open>re.search(r"^[a-z_][a-z0-9_-]{lo,hi}$", s)\<close>; the dollar sign also matches before a
  final line feed.
\<close>

definition name_start :: "char \<Rightarrow> bool" where
  "name_start c \<longleftrightarrow> (CHR ''a'' \<le> c \<and> c \<le> CHR ''z'') \<or> c = CHR ''_''"

definition name_char :: "char \<Rightarrow> bool" where
  "name_char c \<longleftrightarrow> name_start c \<or> (CHR ''0'' \<le> c \<and> c \<le> CHR ''9'') \<or> c = CHR ''-''"

fun is_name :: "nat \<Rightarrow> nat \<Rightarrow> string \<Rightarrow> bool" where
  "is_name lo hi [] = False"
| "is_name lo hi (c # cs) \<longleftrightarrow>
     name_start c \<and> list_all name_char cs \<and> lo \<le> length cs \<and> length cs \<le> hi"

definition search_name :: "nat \<Rightarrow> nat \<Rightarrow> string \<Rightarrow> bool" where
  "search_name lo hi s \<longleftrightarrow>
     is_name lo hi s \<or> (s \<noteq> [] \<and> last s = newline \<and> is_name lo hi (butlast s))"


section \<open>Requests\<close>

text \<open>\<open>CreateAccountSerializer\<close>.\<close>

record create_data =
  cd_username :: string
  cd_plan_id :: int
  cd_server_id :: "int option"
  cd_password :: "string option"
  cd_note :: string
  cd_duration_days :: "int option"
  cd_bandwidth_limit_gb :: "int option"
  cd_max_connections :: "int option"

definition validate_create :: "'w drf \<Rightarrow> request_data \<Rightarrow> exn + create_data" where
  "validate_create F d =
     res_bind (required d ''username'' (drf_char F) (search_name 2 31)) (\<lambda>username.
     res_bind (required d ''plan_id'' (drf_int F) any) (\<lambda>p.
     res_bind (not_required d ''server_id'' (drf_int F) any) (\<lambda>srv.
     res_bind (not_required d ''password'' (drf_char F) (\<lambda>s. length s \<le> 128)) (\<lambda>pw.
     res_bind (not_required d ''note'' (drf_char_blank F) any) (\<lambda>note.
     res_bind (not_required d ''duration_days'' (drf_int F) (between 1 3650)) (\<lambda>days.
     res_bind (not_required d ''bandwidth_limit_gb'' (drf_int F) (\<lambda>n. 0 \<le> n)) (\<lambda>bw.
     res_bind (not_required d ''max_connections'' (drf_int F) (between 1 100)) (\<lambda>conn.
       Inr \<lparr>cd_username = username, cd_plan_id = p, cd_server_id = srv, cd_password = pw,
            cd_note = default_to note '''', cd_duration_days = days, cd_bandwidth_limit_gb = bw,
            cd_max_connections = conn\<rparr>))))))))"

text \<open>\<open>CreateShadowLinkAccountSerializer\<close>: the same without password and traffic limit.\<close>

definition validate_create_shadowlink :: "'w drf \<Rightarrow> request_data \<Rightarrow> exn + create_data" where
  "validate_create_shadowlink F d =
     res_bind (required d ''username'' (drf_char F) (search_name 2 31)) (\<lambda>username.
     res_bind (required d ''plan_id'' (drf_int F) any) (\<lambda>p.
     res_bind (not_required d ''server_id'' (drf_int F) any) (\<lambda>srv.
     res_bind (not_required d ''note'' (drf_char_blank F) any) (\<lambda>note.
     res_bind (not_required d ''duration_days'' (drf_int F) (between 1 3650)) (\<lambda>days.
     res_bind (not_required d ''max_connections'' (drf_int F) (between 1 100)) (\<lambda>conn.
       Inr \<lparr>cd_username = username, cd_plan_id = p, cd_server_id = srv, cd_password = None,
            cd_note = default_to note '''', cd_duration_days = days, cd_bandwidth_limit_gb = None,
            cd_max_connections = conn\<rparr>))))))"

text \<open>\<open>AccountUpdateSerializer\<close>.\<close>

record update_data =
  ud_expire_date :: "datetime option"
  ud_duration_days :: "int option"
  ud_bandwidth_limit_gb :: "int option"
  ud_max_connections :: "int option"
  ud_note :: "string option"

definition validate_update :: "'w drf \<Rightarrow> request_data \<Rightarrow> exn + update_data" where
  "validate_update F d =
     res_bind (not_required d ''expire_date'' (drf_datetime F) any) (\<lambda>expire.
     res_bind (not_required d ''duration_days'' (drf_int F) (between 1 3650)) (\<lambda>days.
     res_bind (not_required d ''bandwidth_limit_gb'' (drf_int F) (\<lambda>n. 0 \<le> n)) (\<lambda>bw.
     res_bind (not_required d ''max_connections'' (drf_int F) (between 1 100)) (\<lambda>conn.
     res_bind (not_required d ''note'' (drf_char_blank F) any) (\<lambda>note.
       Inr \<lparr>ud_expire_date = expire, ud_duration_days = days, ud_bandwidth_limit_gb = bw,
            ud_max_connections = conn, ud_note = note\<rparr>)))))"

text \<open>\<open>BulkCreateSerializer\<close> and \<open>ExtendAccountSerializer\<close>.\<close>

record bulk_data =
  bd_prefix :: string
  bd_count :: int
  bd_plan_id :: int
  bd_server_id :: "int option"

definition validate_bulk :: "'w drf \<Rightarrow> request_data \<Rightarrow> exn + bulk_data" where
  "validate_bulk F d =
     res_bind (required d ''prefix'' (drf_char F) (search_name 1 25)) (\<lambda>prefix.
     res_bind (required d ''count'' (drf_int F) (between 1 500)) (\<lambda>n.
     res_bind (required d ''plan_id'' (drf_int F) any) (\<lambda>p.
     res_bind (not_required d ''server_id'' (drf_int F) any) (\<lambda>srv.
       Inr \<lparr>bd_prefix = prefix, bd_count = n, bd_plan_id = p, bd_server_id = srv\<rparr>))))"

definition validate_extend :: "'w drf \<Rightarrow> request_data \<Rightarrow> exn + int" where
  "validate_extend F d = required d ''days'' (drf_int F) (between 1 365)"

text \<open>\<open>PaymentWebhookSerializer\<close>: the user name is any text.\<close>

record payment_data =
  pd_order_id :: string
  pd_username :: string
  pd_plan_id :: int
  pd_amount_cents :: int
  pd_status :: string
  pd_signature :: string

definition validate_payment :: "'w drf \<Rightarrow> request_data \<Rightarrow> exn + payment_data" where
  "validate_payment F d =
     res_bind (required d ''order_id'' (drf_char F) any) (\<lambda>order.
     res_bind (required d ''username'' (drf_char F) any) (\<lambda>username.
     res_bind (required d ''plan_id'' (drf_int F) any) (\<lambda>p.
     res_bind (required d ''amount'' (drf_decimal F) (\<lambda>cents. \<bar>cents\<bar> < 10 ^ 10)) (\<lambda>amount.
     res_bind (required d ''status'' (drf_choice F) (\<lambda>s. s \<in> {''paid'', ''failed'', ''pending''})) (\<lambda>st.
     res_bind (required d ''signature'' (drf_char F) any) (\<lambda>sig.
       Inr \<lparr>pd_order_id = order, pd_username = username, pd_plan_id = p, pd_amount_cents = amount,
            pd_status = st, pd_signature = sig\<rparr>))))))"


section \<open>Responses\<close>

definition j_nat :: "nat \<Rightarrow> json" where
  "j_nat n = JInt (int n)"

definition j_opt :: "('a \<Rightarrow> json) \<Rightarrow> 'a option \<Rightarrow> json" where
  "j_opt f v = (case v of None \<Rightarrow> JNull | Some x \<Rightarrow> f x)"

definition plan_of :: "account \<Rightarrow> database \<Rightarrow> plan option" where
  "plan_of a d = (case acc_plan a of None \<Rightarrow> None | Some i \<Rightarrow> db_plan d i)"

text \<open>\<open>ServerSerializer\<close>; the address of the bridge and its key are not shown.\<close>

definition serialize_server :: "'w drf \<Rightarrow> server \<Rightarrow> ('w sys, json) py" where
  "serialize_server F srv =
     py_bind (query (\<lambda>d. (current_user_count d srv, is_available d srv))) (\<lambda>(users, available).
       py_return (JObj
         [(''id'', j_nat (srv_id srv)), (''name'', JStr (srv_name srv)),
          (''ip_address'', JStr (srv_ip_address srv)), (''ssh_port'', JInt (srv_ssh_port srv)),
          (''protocol_type'', JStr (protocol_value (srv_protocol_type srv))),
          (''status'', JStr (server_status_value (srv_status srv))), (''location'', JStr (srv_location srv)),
          (''max_users'', JInt (srv_max_users srv)), (''current_user_count'', j_nat users),
          (''is_available'', JBool available),
          (''shadowlink_port'', JInt (srv_shadowlink_port srv)),
          (''shadowlink_ws_path'', JStr (srv_shadowlink_ws_path srv)),
          (''shadowlink_domain'', JStr (srv_shadowlink_domain srv)),
          (''cpu_usage'', JNum (srv_cpu_usage srv)), (''ram_usage'', JNum (srv_ram_usage srv)),
          (''disk_usage'', JNum (srv_disk_usage srv)), (''uptime_seconds'', JInt (srv_uptime_seconds srv)),
          (''last_health_check'', j_opt (drf_show_datetime F) (srv_last_health_check srv)),
          (''created_at'', drf_show_datetime F (srv_created_at srv))]))"

definition serialize_plan :: "'w drf \<Rightarrow> plan \<Rightarrow> json" where
  "serialize_plan F p = JObj
     [(''id'', j_nat (plan_id p)), (''name'', JStr (plan_name p)),
      (''duration_days'', JInt (plan_duration_days p)), (''price'', drf_show_price F (plan_price_cents p)),
      (''currency'', JStr (plan_currency p)), (''max_connections'', JInt (plan_max_connections p)),
      (''bandwidth_limit_gb'', JInt (plan_bandwidth_limit_gb p)), (''is_active'', JBool (plan_is_active p)),
      (''description'', JStr (plan_description p)), (''created_at'', drf_show_datetime F (plan_created_at p))]"

text \<open>\<open>SSHAccountSerializer\<close>.\<close>

definition serialize_account :: "'w env \<Rightarrow> 'w drf \<Rightarrow> account \<Rightarrow> ('w sys, json) py" where
  "serialize_account E F a =
     py_bind (get_server (acc_server a)) (\<lambda>srv.
     py_bind (query (plan_of a)) (\<lambda>p.
     py_bind (now E) (\<lambda>t1.
     py_bind (now E) (\<lambda>t2.
       py_return (JObj
         [(''id'', j_nat (acc_id a)), (''username'', JStr (acc_username a)),
          (''password_display'', JStr (acc_password_display a)), (''server'', j_nat (acc_server a)),
          (''server_name'', JStr (srv_name srv)), (''server_ip'', JStr (srv_ip_address srv)),
          (''server_ssh_port'', JInt (srv_ssh_port srv)), (''plan'', j_opt j_nat (acc_plan a)),
          (''plan_name'', j_opt (\<lambda>p. JStr (plan_name p)) p),
          (''protocol_type'', JStr (protocol_value (acc_protocol_type a))),
          (''status'', JStr (account_status_value (acc_status a))),
          (''expire_date'', drf_show_datetime F (acc_expire_date a)),
          (''max_connections'', JInt (acc_max_connections a)),
          (''bandwidth_limit_gb'', JInt (acc_bandwidth_limit_gb a)),
          (''bandwidth_used_gb'', JNum (Fin (acc_bandwidth_used_gb a))),
          (''days_remaining'', JInt (days_remaining t1 a)), (''is_expired'', JBool (is_expired t2 a)),
          (''access_token'', JStr (uuid_str (acc_access_token a))),
          (''auth_token'', JStr (uuid_str (acc_auth_token a))), (''note'', JStr (acc_note a)),
          (''created_at'', drf_show_datetime F (acc_created_at a))])))))"

text \<open>\<open>PublicAccountStatusSerializer\<close>.\<close>

definition serialize_public :: "'w env \<Rightarrow> 'w drf \<Rightarrow> account \<Rightarrow> ('w sys, json) py" where
  "serialize_public E F a =
     py_bind (get_server (acc_server a)) (\<lambda>srv.
     py_bind (query (plan_of a)) (\<lambda>p.
     py_bind (now E) (\<lambda>t1.
     py_bind (now E) (\<lambda>t2.
       py_return (JObj
         [(''username'', JStr (acc_username a)), (''server_ip'', JStr (srv_ip_address srv)),
          (''server_ssh_port'', JInt (srv_ssh_port srv)), (''server_location'', JStr (srv_location srv)),
          (''plan_name'', j_opt (\<lambda>p. JStr (plan_name p)) p),
          (''status'', JStr (account_status_value (acc_status a))),
          (''expire_date'', drf_show_datetime F (acc_expire_date a)),
          (''max_connections'', JInt (acc_max_connections a)),
          (''bandwidth_limit_gb'', JInt (acc_bandwidth_limit_gb a)),
          (''bandwidth_used_gb'', JNum (Fin (acc_bandwidth_used_gb a))),
          (''days_remaining'', JInt (days_remaining t1 a)), (''is_expired'', JBool (is_expired t2 a)),
          (''created_at'', drf_show_datetime F (acc_created_at a))])))))"

text \<open>\<open>ShadowLinkAccountSerializer\<close>.\<close>

definition serialize_shadowlink :: "'w env \<Rightarrow> 'w drf \<Rightarrow> account \<Rightarrow> ('w sys, json) py" where
  "serialize_shadowlink E F a =
     py_bind (get_server (acc_server a)) (\<lambda>srv.
     py_bind (query (plan_of a)) (\<lambda>p.
     py_bind (now E) (\<lambda>t.
       py_return (JObj
         [(''id'', j_nat (acc_id a)), (''username'', JStr (acc_username a)), (''server'', j_nat (acc_server a)),
          (''server_name'', JStr (srv_name srv)), (''server_ip'', JStr (srv_ip_address srv)),
          (''server_domain'', JStr (srv_shadowlink_domain srv)), (''plan'', j_opt j_nat (acc_plan a)),
          (''plan_name'', j_opt (\<lambda>p. JStr (plan_name p)) p),
          (''protocol_type'', JStr (protocol_value (acc_protocol_type a))),
          (''status'', JStr (account_status_value (acc_status a))),
          (''expire_date'', drf_show_datetime F (acc_expire_date a)),
          (''max_connections'', JInt (acc_max_connections a)),
          (''bandwidth_limit_gb'', JInt (acc_bandwidth_limit_gb a)),
          (''bandwidth_used_gb'', JNum (Fin (acc_bandwidth_used_gb a))),
          (''days_remaining'', JInt (days_remaining t a)),
          (''auth_token'', JStr (uuid_str (acc_auth_token a))),
          (''access_token'', JStr (uuid_str (acc_access_token a))), (''note'', JStr (acc_note a)),
          (''created_at'', drf_show_datetime F (acc_created_at a))]))))"

text \<open>\<open>ActiveSessionSerializer\<close> and \<open>AuditLogSerializer\<close>.\<close>

definition serialize_session :: "'w drf \<Rightarrow> active_session \<Rightarrow> ('w sys, json) py" where
  "serialize_session F ses =
     py_bind (py_bind (query (\<lambda>d. db_account d (ses_account ses))) found) (\<lambda>a.
     py_bind (get_server (acc_server a)) (\<lambda>srv.
       py_return (JObj
         [(''id'', j_nat (ses_id ses)), (''username'', JStr (acc_username a)),
          (''server_ip'', JStr (srv_ip_address srv)), (''pid'', JInt (ses_pid ses)),
          (''client_ip'', j_opt JStr (ses_client_ip ses)),
          (''connected_since'', drf_show_datetime F (ses_connected_since ses))])))"

definition serialize_log :: "'w drf \<Rightarrow> database \<Rightarrow> audit_log \<Rightarrow> json" where
  "serialize_log F d l = JObj
     [(''id'', j_nat (log_id l)), (''action'', JStr (audit_action_value (log_action l))),
      (''account'', j_opt j_nat (log_account l)),
      (''account_username'', j_opt (\<lambda>a. JStr (acc_username a)) (Option.bind (log_account l) (db_account d))),
      (''admin_user'', j_opt j_nat (log_admin_user l)),
      (''admin_username'', j_opt JStr (Option.bind (log_admin_user l) (drf_username F))),
      (''detail'', JStr (log_detail l)), (''created_at'', drf_show_datetime F (log_created_at l))]"


section \<open>Serializing reads only\<close>

lemma serialize_same_db [steps_intro]:
  "steps same_db (serialize_server F srv)" "steps same_db (serialize_account E F a)"
  "steps same_db (serialize_public E F a)" "steps same_db (serialize_shadowlink E F a)"
  "steps same_db (serialize_session F ses)"
  unfolding serialize_server_def serialize_account_def serialize_public_def serialize_shadowlink_def
    serialize_session_def
  by (intro steps_intro)+

context statement_effect
begin

lemmas steps_serialize [steps_intro] = serialize_same_db [THEN steps_same_db]

end


section \<open>What validation guarantees\<close>

lemma res_bind_Inr: "res_bind r f = Inr y \<longleftrightarrow> (\<exists>x. r = Inr x \<and> f x = Inr y)"
  by (simp add: res_bind_def split: sum.split)

lemma required_Inr: "required d name parse valid = Inr v \<Longrightarrow> valid v"
  by (auto simp: required_def check_value_def split: option.splits if_splits)

lemma not_required_Inr: "not_required d name parse valid = Inr (Some v) \<Longrightarrow> valid v"
  by (auto simp: not_required_def check_value_def split: option.splits if_splits sum.splits)

end
