(* ===== verification/ApiViews.thy ===== *)
theory ApiViews
  imports ApiSerializers ServerTasks
begin

text \<open>
  \<open>api/views.py\<close> and \<open>api/urls.py\<close>.  A view takes what the framework hands it, the
  user, the number or token of the address and the data of the request, and
  returns a response; \<open>Http404\<close> and \<open>ValidationError\<close> leave it as exceptions, which
  the framework turns into 404 and 400, every other exception into 500.  The last
  section is the table of addresses with the permission each view declares.
\<close>

section \<open>Responses and lookups\<close>

datatype response = Response nat json

definition detail :: "string \<Rightarrow> json" where
  "detail msg = JObj [(''detail'', JStr msg)]"

definition get_object_or_404 :: "(database \<Rightarrow> 'a option) \<Rightarrow> ('w sys, 'a) py" where
  "get_object_or_404 f =
     py_bind (query f) (\<lambda>r. case r of None \<Rightarrow> py_raise (Http404 ''Not found.'') | Some x \<Rightarrow> py_return x)"

definition plan_or_404 :: "bool \<Rightarrow> int \<Rightarrow> ('w sys, plan) py" where
  "plan_or_404 only_active i =
     get_object_or_404 (\<lambda>d. find (\<lambda>p. int (plan_id p) = i \<and> (only_active \<longrightarrow> plan_is_active p)) (plans d))"

definition server_or_404 :: "int \<Rightarrow> ('w sys, server) py" where
  "server_or_404 i = get_object_or_404 (\<lambda>d. find (\<lambda>r. int (srv_id r) = i) (servers d))"

definition shadowlink_server_or_404 :: "nat \<Rightarrow> ('w sys, server) py" where
  "shadowlink_server_or_404 i =
     get_object_or_404 (\<lambda>d. find (\<lambda>r. srv_id r = i \<and> srv_protocol_type r = SHADOWLINK) (servers d))"

definition account_or_404 :: "nat \<Rightarrow> ('w sys, account) py" where
  "account_or_404 i = get_object_or_404 (\<lambda>d. db_account d i)"

definition optional_server :: "int option \<Rightarrow> ('w sys, server option) py" where
  "optional_server i =
     (case i of None \<Rightarrow> py_return None
      | Some i \<Rightarrow> py_bind (server_or_404 i) (\<lambda>srv. py_return (Some srv)))"

text \<open>\<open>try: x = m except AccountError as e: return Response(..., 400)\<close>, then \<open>k x\<close>.\<close>

definition catching_account_error ::
  "('w sys, 'a) py \<Rightarrow> ('a \<Rightarrow> ('w sys, response) py) \<Rightarrow> ('w sys, response) py" where
  "catching_account_error m k =
     py_bind (py_try (py_bind m (\<lambda>x. py_return (Inr x)))
               (\<lambda>e. case e of AccountError msg \<Rightarrow> py_return (Inl (Response 400 (detail msg))) | _ \<Rightarrow> py_raise e))
       (\<lambda>r. case r of Inl resp \<Rightarrow> py_return resp | Inr x \<Rightarrow> k x)"


section \<open>Servers\<close>

text \<open>The validated data of \<open>ServerCreateSerializer\<close>; the other columns take their defaults.\<close>

record server_data =
  sd_name :: string
  sd_ip_address :: string
  sd_ssh_port :: int
  sd_ssh_user :: string
  sd_ssh_key_path :: string
  sd_location :: string
  sd_max_users :: int

definition new_server_row :: "server_data \<Rightarrow> datetime \<Rightarrow> datetime \<Rightarrow> server" where
  "new_server_row d created updated =
     \<lparr>srv_id = 0, srv_name = sd_name d, srv_ip_address = sd_ip_address d, srv_ssh_port = sd_ssh_port d,
      srv_ssh_user = sd_ssh_user d, srv_ssh_key_path = sd_ssh_key_path d, srv_protocol_type = SSH,
      srv_status = SrvActive, srv_location = sd_location d, srv_max_users = sd_max_users d,
      srv_shadowlink_port = 8443, srv_shadowlink_ws_path = ''/ws'', srv_shadowlink_domain = '''',
      srv_shadowlink_bridge_port = 9090, srv_shadowlink_api_key = '''', srv_cpu_usage = Fin 0,
      srv_ram_usage = Fin 0, srv_disk_usage = Fin 0, srv_uptime_seconds = 0, srv_last_health_check = None,
      srv_created_at = created, srv_updated_at = updated\<rparr>"

definition create_server_row :: "'w env \<Rightarrow> server_data \<Rightarrow> ('w sys, server) py" where
  "create_server_row E d =
     py_bind (now E) (\<lambda>created.
     py_bind (now E) (\<lambda>updated.
       on_db (insert_server (new_server_row d created updated))))"

text \<open>\<open>Plan.objects.filter(is_active=True).order_by("duration_days").first()\<close>.\<close>

definition shortest_active_plan :: "database \<Rightarrow> plan option" where
  "shortest_active_plan d =
     (case sort_key plan_duration_days (filter plan_is_active (plans d)) of [] \<Rightarrow> None | p # _ \<Rightarrow> Some p)"

definition default_account :: "string \<Rightarrow> string \<Rightarrow> server \<Rightarrow> plan \<Rightarrow> datetime \<Rightarrow> int \<Rightarrow> int \<Rightarrow> string \<Rightarrow> account" where
  "default_account username password srv p expire_date max_conns bw_limit note =
     \<lparr>acc_id = 0, acc_username = username, acc_password_display = password, acc_server = srv_id srv,
      acc_plan = Some (plan_id p), acc_protocol_type = SSH, acc_status = Active,
      acc_expire_date = expire_date, acc_max_connections = max_conns, acc_bandwidth_limit_gb = bw_limit,
      acc_bandwidth_used_gb = 0, acc_access_token = 0, acc_auth_token = 0, acc_created_by = None,
      acc_note = note, acc_created_at = 0, acc_updated_at = 0\<rparr>"

definition provision_default_user :: "'w env \<Rightarrow> server \<Rightarrow> ('w sys, unit) py" where
  "provision_default_user E srv =
     (let username = ''default_user''
      in py_bind (generate_password E 12) (\<lambda>password.
         py_bind (now E) (\<lambda>t.
         py_bind (lift_result (add_days t 30)) (\<lambda>expire_date.
         py_bind (query shortest_active_plan) (\<lambda>p.
           case p of
             None \<Rightarrow> py_return ()
           | Some p \<Rightarrow>
               py_bind (py_try
                   (with_ssh E srv (\<lambda>ssh.
                      py_bind (user_exists E ssh username) (\<lambda>exists.
                      py_bind (if exists then py_return True
                               else py_bind (create_user E ssh username password) (\<lambda>r. py_return (ok r))) (\<lambda>go.
                        if \<not> go then py_return False
                        else
                          py_then (set_expiry E ssh username (strftime_ymd expire_date))
                         (py_then (set_max_logins E ssh username 1)
                            (py_return True))))))
                   (\<lambda>e. py_return False)) (\<lambda>provisioned.
                 py_when provisioned
                   (py_then (create_account_row E
                       (default_account username password srv p expire_date 1 0
                          ''Auto-created default user.''))
                      (py_return ()))))))))"

definition server_create_view :: "'w env \<Rightarrow> 'w drf \<Rightarrow> server_data \<Rightarrow> ('w sys, response) py" where
  "server_create_view E F d =
     py_bind (create_server_row E d) (\<lambda>srv.
     py_then (provision_default_user E srv)
       (py_return (Response 201 (JObj
          [(''id'', j_nat (srv_id srv)), (''name'', JStr (srv_name srv)),
           (''ip_address'', JStr (srv_ip_address srv)), (''ssh_port'', JInt (srv_ssh_port srv)),
           (''ssh_user'', JStr (srv_ssh_user srv)), (''ssh_key_path'', JStr (srv_ssh_key_path srv)),
           (''location'', JStr (srv_location srv)), (''max_users'', JInt (srv_max_users srv))]))))"

text \<open>\<open>ServerDetailView\<close> and \<open>PlanDetailView\<close>: what a \<open>DELETE\<close> does.\<close>

definition server_destroy_view :: "nat \<Rightarrow> ('w sys, response) py" where
  "server_destroy_view i =
     py_bind (server_or_404 (int i)) (\<lambda>srv.
     py_then (on_db (delete_server (srv_id srv))) (py_return (Response 204 JNull)))"

text \<open>What a \<open>GET\<close> shows; accounts have a view of their own for it.\<close>

definition server_detail_view :: "'w drf \<Rightarrow> nat \<Rightarrow> ('w sys, response) py" where
  "server_detail_view F i =
     py_bind (server_or_404 (int i)) (\<lambda>r. py_bind (serialize_server F r) (\<lambda>j. py_return (Response 200 j)))"

definition plan_detail_view :: "'w drf \<Rightarrow> nat \<Rightarrow> ('w sys, response) py" where
  "plan_detail_view F i =
     py_bind (plan_or_404 False (int i)) (\<lambda>p. py_return (Response 200 (serialize_plan F p)))"

definition account_detail_view :: "'w env \<Rightarrow> 'w drf \<Rightarrow> nat \<Rightarrow> ('w sys, response) py" where
  "account_detail_view E F i =
     py_bind (account_or_404 i) (\<lambda>a. py_bind (serialize_account E F a) (\<lambda>j. py_return (Response 200 j)))"

text \<open>
  What a \<open>PUT\<close> or \<open>PATCH\<close> writes: the fields of the serializer that are not read
  only, from the validated data, which is given here as a row; and the \<open>POST\<close> of a
  plan.
\<close>

definition write_server_fields :: "server \<Rightarrow> server \<Rightarrow> server" where
  "write_server_fields new r =
     r\<lparr>srv_name := srv_name new, srv_ip_address := srv_ip_address new, srv_ssh_port := srv_ssh_port new,
       srv_protocol_type := srv_protocol_type new, srv_status := srv_status new,
       srv_location := srv_location new, srv_max_users := srv_max_users new,
       srv_shadowlink_port := srv_shadowlink_port new,
       srv_shadowlink_ws_path := srv_shadowlink_ws_path new,
       srv_shadowlink_domain := srv_shadowlink_domain new\<rparr>"

definition server_update_view :: "'w env \<Rightarrow> 'w drf \<Rightarrow> nat \<Rightarrow> server \<Rightarrow> ('w sys, response) py" where
  "server_update_view E F i new =
     py_bind (server_or_404 (int i)) (\<lambda>srv.
     let srv' = write_server_fields new srv
     in py_then (save_server E srv')
       (py_bind (serialize_server F srv') (\<lambda>j. py_return (Response 200 j))))"

definition plan_create_view :: "'w env \<Rightarrow> 'w drf \<Rightarrow> plan \<Rightarrow> ('w sys, response) py" where
  "plan_create_view E F p =
     py_bind (now E) (\<lambda>t.
     py_bind (on_db (insert_plan (p\<lparr>plan_created_at := t\<rparr>))) (\<lambda>p'.
       py_return (Response 201 (serialize_plan F p'))))"

definition write_plan_fields :: "plan \<Rightarrow> plan \<Rightarrow> plan" where
  "write_plan_fields new r = new\<lparr>plan_id := plan_id r, plan_created_at := plan_created_at r\<rparr>"

definition plan_update_view :: "'w drf \<Rightarrow> nat \<Rightarrow> plan \<Rightarrow> ('w sys, response) py" where
  "plan_update_view F i new =
     py_bind (plan_or_404 False (int i)) (\<lambda>p.
     py_then (on_db (update_plan (plan_id p) (write_plan_fields new)))
       (py_return (Response 200 (serialize_plan F (write_plan_fields new p)))))"

definition plan_destroy_view :: "nat \<Rightarrow> ('w sys, response) py" where
  "plan_destroy_view i =
     py_bind (plan_or_404 False (int i)) (\<lambda>p.
     py_then (on_db (delete_plan (plan_id p))) (py_return (Response 204 JNull)))"

definition server_health_check_view :: "'w env \<Rightarrow> nat \<Rightarrow> ('w sys, response) py" where
  "server_health_check_view E i =
     py_bind (server_or_404 (int i)) (\<lambda>srv.
     py_then (call (Delay ''servers.tasks.check_single_server'' (srv_id srv))
                (\<lambda>w. (Inr (), env_delay E ''servers.tasks.check_single_server'' (srv_id srv) w)))
       (py_return (Response 200 (detail ''Health check dispatched.''))))"

definition server_statuses :: "server_status list" where
  "server_statuses = [SrvActive, SrvMaintenance, SrvFull, SrvDown]"

definition parse_server_status :: "json \<Rightarrow> server_status option" where
  "parse_server_status j =
     (case j of JStr s \<Rightarrow> find (\<lambda>st. server_status_value st = s) server_statuses | _ \<Rightarrow> None)"

definition server_set_status_view :: "'w env \<Rightarrow> nat \<Rightarrow> request_data \<Rightarrow> ('w sys, response) py" where
  "server_set_status_view E i data =
     py_bind (server_or_404 (int i)) (\<lambda>srv.
     let new_status = default_to (map_of data ''status'') (JStr ''active'')
     in case parse_server_status new_status of
          None \<Rightarrow> py_return (Response 400 (detail
            (quoted ''Invalid status. Choose from: [`active`, `maintenance`, `full`, `down`]'')))
        | Some st \<Rightarrow>
            py_then (save_server_status E (srv\<lparr>srv_status := st\<rparr>))
              (py_return (Response 200 (JObj
                 [(''detail'', JStr (''Server status set to '' @ server_status_value st @ ''.'')),
                  (''status'', JStr (server_status_value st))]))))"


section \<open>Accounts\<close>

text \<open>What the list views declare, and their querysets.\<close>

definition plain_listing :: "string \<Rightarrow> listing" where
  "plain_listing v =
     \<lparr>lst_view = v, lst_filterset_fields = [], lst_search_fields = [], lst_ordering_fields = None\<rparr>"

definition account_listing :: listing where
  "account_listing = (plain_listing ''AccountListView'')
     \<lparr>lst_filterset_fields := [''status'', ''server'', ''plan''],
      lst_search_fields := [''username'', ''note''],
      lst_ordering_fields := Some [''created_at'', ''expire_date'', ''username'']\<rparr>"

definition session_listing :: listing where
  "session_listing = (plain_listing ''ActiveSessionListView'')\<lparr>lst_filterset_fields := [''account__server'']\<rparr>"

definition log_listing :: listing where
  "log_listing = (plain_listing ''AuditLogListView'')
     \<lparr>lst_filterset_fields := [''action'', ''admin_user''],
      lst_search_fields := [''detail'', ''account__username'']\<rparr>"

definition server_list :: "'w env \<Rightarrow> database \<Rightarrow> server list" where
  "server_list E d = by_name E (servers d)"

definition active_plan_list :: "database \<Rightarrow> plan list" where
  "active_plan_list d =
     sort_key plan_duration_days (sort_key plan_price_cents (filter plan_is_active (plans d)))"

definition account_list :: "database \<Rightarrow> account list" where
  "account_list d = newest_first (filter (\<lambda>a. acc_status a \<noteq> Deleted) (accounts d))"

definition with_default :: "'a option \<Rightarrow> ('a \<Rightarrow> 'b \<Rightarrow> 'b) \<Rightarrow> 'b \<Rightarrow> 'b" where
  "with_default v f x = (case v of None \<Rightarrow> x | Some y \<Rightarrow> f y x)"

definition account_update_view :: "'w env \<Rightarrow> 'w drf \<Rightarrow> nat \<Rightarrow> request_data \<Rightarrow> ('w sys, response) py" where
  "account_update_view E F i data =
     py_bind (account_or_404 i) (\<lambda>acc.
     py_bind (lift_result (validate_update F data)) (\<lambda>d.
     py_bind (case ud_duration_days d of
                None \<Rightarrow> py_return acc
              | Some days \<Rightarrow>
                  py_bind (now E) (\<lambda>t.
                  py_bind (lift_result (add_days t days)) (\<lambda>x.
                    py_return (acc\<lparr>acc_expire_date := x\<rparr>)))) (\<lambda>acc1.
     let acc2 = with_default (ud_expire_date d) (\<lambda>x a. a\<lparr>acc_expire_date := x\<rparr>) acc1;
         acc3 = with_default (ud_bandwidth_limit_gb d) (\<lambda>x a. a\<lparr>acc_bandwidth_limit_gb := x\<rparr>) acc2;
         acc4 = with_default (ud_max_connections d) (\<lambda>x a. a\<lparr>acc_max_connections := x\<rparr>) acc3;
         acc5 = with_default (ud_note d) (\<lambda>x a. a\<lparr>acc_note := x\<rparr>) acc4
     in py_bind (save_account E acc5 all_account_fields) (\<lambda>acc6.
        py_then
          (py_try
            (py_bind (get_server (acc_server acc6)) (\<lambda>srv.
             with_ssh E srv (\<lambda>ssh.
               py_then
                 (py_when (ud_duration_days d \<noteq> None \<or> ud_expire_date d \<noteq> None)
                   (py_then (set_expiry E ssh (acc_username acc6) (strftime_ymd (acc_expire_date acc6)))
                      (py_return ())))
                 (py_when (ud_max_connections d \<noteq> None)
                   (py_then (set_max_logins E ssh (acc_username acc6) (acc_max_connections acc6))
                      (py_return ()))))))
            (\<lambda>e. py_return ()))
       (py_bind (serialize_account E F acc6) (\<lambda>j. py_return (Response 200 j)))))))"

definition create_account_view ::
  "'w env \<Rightarrow> 'w drf \<Rightarrow> nat option \<Rightarrow> request_data \<Rightarrow> ('w sys, response) py" where
  "create_account_view E F admin data =
     py_bind (lift_result (validate_create F data)) (\<lambda>d.
     py_bind (plan_or_404 True (cd_plan_id d)) (\<lambda>p.
     py_bind (optional_server (cd_server_id d)) (\<lambda>srv.
       catching_account_error
         (create_account E
            \<lparr>arg_username = cd_username d, arg_plan = p, arg_server = srv, arg_password = cd_password d,
             arg_admin_user = admin, arg_note = cd_note d, arg_duration_days = cd_duration_days d,
             arg_bandwidth_limit_gb = cd_bandwidth_limit_gb d, arg_max_connections = cd_max_connections d,
             arg_protocol_type = None\<rparr>)
         (\<lambda>acc. py_bind (serialize_account E F acc) (\<lambda>j. py_return (Response 201 j))))))"

fun serialize_all :: "'w env \<Rightarrow> 'w drf \<Rightarrow> account list \<Rightarrow> ('w sys, json list) py" where
  "serialize_all E F [] = py_return []"
| "serialize_all E F (a # as) =
     py_bind (serialize_account E F a) (\<lambda>j. py_bind (serialize_all E F as) (\<lambda>js. py_return (j # js)))"

definition bulk_create_view ::
  "'w env \<Rightarrow> 'w drf \<Rightarrow> nat option \<Rightarrow> request_data \<Rightarrow> ('w sys, response) py" where
  "bulk_create_view E F admin data =
     py_bind (lift_result (validate_bulk F data)) (\<lambda>d.
     py_bind (plan_or_404 True (bd_plan_id d)) (\<lambda>p.
     py_bind (optional_server (bd_server_id d)) (\<lambda>srv.
       catching_account_error
         (bulk_create_accounts E (bd_prefix d) (bd_count d) p srv admin)
         (\<lambda>accs. py_bind (serialize_all E F accs) (\<lambda>js. py_return (Response 201 (JList js)))))))"

definition delete_account_view :: "'w env \<Rightarrow> nat option \<Rightarrow> nat \<Rightarrow> ('w sys, response) py" where
  "delete_account_view E admin i =
     py_bind (account_or_404 i) (\<lambda>acc.
       catching_account_error (delete_account E acc admin)
         (\<lambda>_. py_return (Response 200 (detail ''Account deleted.''))))"

definition suspend_account_view :: "'w env \<Rightarrow> nat option \<Rightarrow> nat \<Rightarrow> ('w sys, response) py" where
  "suspend_account_view E admin i =
     py_bind (account_or_404 i) (\<lambda>acc.
       catching_account_error (suspend_account E acc admin)
         (\<lambda>_. py_return (Response 200 (detail ''Account suspended.''))))"

definition activate_account_view :: "'w env \<Rightarrow> nat option \<Rightarrow> nat \<Rightarrow> ('w sys, response) py" where
  "activate_account_view E admin i =
     py_bind (account_or_404 i) (\<lambda>acc.
       catching_account_error (activate_account E acc admin)
         (\<lambda>_. py_return (Response 200 (detail ''Account activated.''))))"

definition extend_account_view ::
  "'w env \<Rightarrow> 'w drf \<Rightarrow> nat option \<Rightarrow> nat \<Rightarrow> request_data \<Rightarrow> ('w sys, response) py" where
  "extend_account_view E F admin i data =
     py_bind (account_or_404 i) (\<lambda>acc.
     py_bind (lift_result (validate_extend F data)) (\<lambda>days.
       catching_account_error (extend_account E acc days admin)
         (\<lambda>acc'. py_bind (serialize_account E F acc') (\<lambda>j. py_return (Response 200 j)))))"

definition reset_password_view :: "'w env \<Rightarrow> nat option \<Rightarrow> nat \<Rightarrow> ('w sys, response) py" where
  "reset_password_view E admin i =
     py_bind (account_or_404 i) (\<lambda>acc.
       catching_account_error (reset_password E acc admin)
         (\<lambda>(acc', new_pw). py_return (Response 200 (JObj
            [(''username'', JStr (acc_username acc')), (''new_password'', JStr new_pw)]))))"


section \<open>The payment webhook\<close>

definition payable :: "string \<Rightarrow> database \<Rightarrow> account option" where
  "payable username d =
     (case newest_first (filter (\<lambda>a. acc_username a = username \<and> acc_status a \<in> {Active, Expired}) (accounts d)) of
        [] \<Rightarrow> None | a # _ \<Rightarrow> Some a)"

definition payment_webhook_view :: "'w env \<Rightarrow> 'w drf \<Rightarrow> request_data \<Rightarrow> ('w sys, response) py" where
  "payment_webhook_view E F data =
     py_bind (lift_result (validate_payment F data)) (\<lambda>d.
       if pd_status d \<noteq> ''paid'' then py_return (Response 200 (detail ''Payment not confirmed.''))
       else
         py_bind (plan_or_404 False (pd_plan_id d)) (\<lambda>p.
         py_bind (query (payable (pd_username d))) (\<lambda>existing.
           case existing of
             Some acc \<Rightarrow>
               py_then (extend_account E acc (plan_duration_days p) None)
                 (py_return (Response 200 (detail
                    (''Extended '' @ acc_username acc @ '' by '' @ show_int (plan_duration_days p) @ ''d.''))))
           | None \<Rightarrow>
               catching_account_error (create_account E (default_args (pd_username d) p))
                 (\<lambda>acc. py_bind (serialize_account E F acc) (\<lambda>j. py_return (Response 201 j))))))"


section \<open>Dashboard\<close>

definition count_status :: "account_status \<Rightarrow> database \<Rightarrow> nat" where
  "count_status st d = length (filter (\<lambda>a. acc_status a = st) (accounts d))"

definition newest_logs :: "nat \<Rightarrow> database \<Rightarrow> audit_log list" where
  "newest_logs n d = take n (sort_key (\<lambda>l. - log_created_at l) (logs d))"

definition dashboard_json :: "'w drf \<Rightarrow> database \<Rightarrow> json" where
  "dashboard_json F d = JObj
     [(''accounts'', JObj
        [(''total'', j_nat (length (filter (\<lambda>a. acc_status a \<noteq> Deleted) (accounts d)))),
         (''active'', j_nat (count_status Active d)), (''expired'', j_nat (count_status Expired d)),
         (''suspended'', j_nat (count_status Suspended d))]),
      (''active_sessions'', j_nat (length (sessions d))),
      (''servers'', JObj
        [(''total'', j_nat (length (servers d))),
         (''online'', j_nat (length (filter (\<lambda>r. srv_status r = SrvActive) (servers d)))),
         (''down'', j_nat (length (filter (\<lambda>r. srv_status r = SrvDown) (servers d))))]),
      (''recent_logs'', JList (map (serialize_log F d) (newest_logs 10 d)))]"

definition dashboard_view :: "'w drf \<Rightarrow> ('w sys, response) py" where
  "dashboard_view F = py_bind (query (dashboard_json F)) (\<lambda>j. py_return (Response 200 j))"


section \<open>Signing in\<close>

definition login_view :: "'w drf \<Rightarrow> string \<Rightarrow> string \<Rightarrow> ('w sys, response) py" where
  "login_view F username password =
     py_bind (ask (drf_authenticate F username password)) (\<lambda>u.
       case u of
         None \<Rightarrow> py_return (Response 401 (detail ''Invalid credentials.''))
       | Some u \<Rightarrow>
           if \<not> usr_is_staff u
           then py_return (Response 403 (detail ''Access denied. Admin privileges required.''))
           else
             py_then (ask (\<lambda>w. ((), drf_login F u w)))
            (py_bind (ask (drf_csrf F)) (\<lambda>token.
               py_return (Response 200 (JObj
                 [(''user'', JObj
                    [(''id'', j_nat (usr_id u)), (''username'', JStr (usr_username u)),
                     (''email'', JStr (usr_email u)), (''is_superuser'', JBool (usr_is_superuser u))]),
                  (''csrftoken'', JStr token)])))))"

definition logout_view :: "'w drf \<Rightarrow> ('w sys, response) py" where
  "logout_view F =
     py_then (ask (\<lambda>w. ((), drf_logout F w))) (py_return (Response 200 (detail ''Logged out.'')))"

definition me_view :: "user \<Rightarrow> ('w sys, response) py" where
  "me_view u = py_return (Response 200 (JObj
     [(''id'', j_nat (usr_id u)), (''username'', JStr (usr_username u)), (''email'', JStr (usr_email u)),
      (''is_staff'', JBool (usr_is_staff u)), (''is_superuser'', JBool (usr_is_superuser u))]))"


section \<open>Public views\<close>

definition public_status_view :: "'w env \<Rightarrow> 'w drf \<Rightarrow> uuid \<Rightarrow> ('w sys, response) py" where
  "public_status_view E F token =
     py_bind (get_object_or_404 (\<lambda>d. find (\<lambda>a. acc_access_token a = token) (accounts d))) (\<lambda>acc.
     py_bind (serialize_public E F acc) (\<lambda>j. py_return (Response 200 j)))"

definition public_plan_list_view :: "'w drf \<Rightarrow> ('w sys, response) py" where
  "public_plan_list_view F =
     py_bind (query active_plan_list) (\<lambda>ps.
       py_return (Response 200 (JList (map (serialize_plan F) ps))))"


section \<open>ShadowLink\<close>

definition shadowlink_account_list :: "database \<Rightarrow> account list" where
  "shadowlink_account_list d =
     newest_first (filter (\<lambda>a. acc_protocol_type a = SHADOWLINK \<and> acc_status a \<noteq> Deleted) (accounts d))"

definition create_shadowlink_account_view ::
  "'w env \<Rightarrow> 'w drf \<Rightarrow> nat option \<Rightarrow> request_data \<Rightarrow> ('w sys, response) py" where
  "create_shadowlink_account_view E F admin data =
     py_bind (lift_result (validate_create_shadowlink F data)) (\<lambda>d.
     py_bind (plan_or_404 True (cd_plan_id d)) (\<lambda>p.
     py_bind (optional_server (cd_server_id d)) (\<lambda>srv.
       catching_account_error
         (create_account E ((default_args (cd_username d) p)
            \<lparr>arg_server := srv, arg_admin_user := admin, arg_note := cd_note d,
             arg_duration_days := cd_duration_days d, arg_max_connections := cd_max_connections d,
             arg_protocol_type := Some SHADOWLINK\<rparr>))
         (\<lambda>acc. py_bind (serialize_shadowlink E F acc) (\<lambda>j. py_return (Response 201 j))))))"

definition shadowlink_client_config_view :: "uuid \<Rightarrow> ('w sys, response) py" where
  "shadowlink_client_config_view token =
     py_bind (get_object_or_404 (\<lambda>d.
         find (\<lambda>a. acc_auth_token a = token \<and> acc_protocol_type a = SHADOWLINK) (accounts d))) (\<lambda>acc.
       if acc_status acc \<noteq> Active then py_return (Response 403 (detail ''Account is not active.''))
       else py_bind (get_server (acc_server acc)) (\<lambda>srv.
              py_return (Response 200 (generate_client_config acc srv))))"

definition shadowlink_deploy_view :: "'w env \<Rightarrow> nat \<Rightarrow> string \<Rightarrow> ('w sys, response) py" where
  "shadowlink_deploy_view E i binary_path =
     py_bind (shadowlink_server_or_404 i) (\<lambda>srv.
       if binary_path = [] then py_return (Response 400 (detail ''binary_path is required.''))
       else
         py_try
           (py_then (full_deploy E srv binary_path)
              (py_return (Response 200 (detail ''ShadowLink deployed successfully.''))))
           (\<lambda>e. case e of ShadowLinkError m \<Rightarrow> py_return (Response 400 (detail m)) | _ \<Rightarrow> py_raise e))"

text \<open>An exception of the second \<open>service_status\<close>, inside the handler, is not caught.\<close>

definition shadowlink_status_view :: "'w env \<Rightarrow> nat \<Rightarrow> ('w sys, response) py" where
  "shadowlink_status_view E i =
     py_bind (shadowlink_server_or_404 i) (\<lambda>srv.
       py_try
         (py_bind (service_status E srv) (\<lambda>svc.
          py_bind (bridge_health_check E srv) (\<lambda>bridge.
            py_return (Response 200 (JObj [(''service'', svc), (''bridge'', bridge)])))))
         (\<lambda>e. case e of
            ShadowLinkError m \<Rightarrow>
              py_bind (service_status E srv) (\<lambda>svc.
                py_return (Response 200 (JObj
                  [(''service'', svc),
                   (''bridge'', JObj [(''status'', JStr ''unreachable''), (''error'', JStr m)])])))
          | _ \<Rightarrow> py_return (Response 500 (detail (''Status check failed: '' @ exn_str e)))))"


section \<open>Addresses and permissions\<close>

datatype permission = IsAdminUser | IsAuthenticated | AllowAny

datatype endpoint =
    AuthLogin | AuthLogout | AuthMe | Dashboard | ServerList | ServerDetail | ServerHealth
  | ServerSetStatus | PlanList | PlanDetail | AccountList | AccountDetail | AccountUpdate
  | CreateAccount | BulkCreate | DeleteAccount | SuspendAccount | ActivateAccount | ExtendAccount
  | ResetPassword | SessionList | LogList | PaymentWebhook | PublicStatus | PublicPlans
  | ShadowLinkAccounts | ShadowLinkCreate | ShadowLinkConfig | ShadowLinkDeploy | ShadowLinkStatus

definition urlpatterns :: "(string \<times> endpoint) list" where
  "urlpatterns =
     [(''auth/login/'', AuthLogin), (''auth/logout/'', AuthLogout), (''auth/me/'', AuthMe),
      (''dashboard/'', Dashboard), (''servers/'', ServerList), (''servers/<int:pk>/'', ServerDetail),
      (''servers/<int:pk>/health-check/'', ServerHealth), (''servers/<int:pk>/set-status/'', ServerSetStatus),
      (''plans/'', PlanList), (''plans/<int:pk>/'', PlanDetail),
      (''accounts/'', AccountList), (''accounts/<int:pk>/'', AccountDetail),
      (''accounts/<int:pk>/update/'', AccountUpdate), (''create-user/'', CreateAccount),
      (''bulk-create/'', BulkCreate), (''delete-user/<int:pk>/'', DeleteAccount),
      (''suspend-user/<int:pk>/'', SuspendAccount), (''activate-user/<int:pk>/'', ActivateAccount),
      (''extend-user/<int:pk>/'', ExtendAccount), (''reset-password/<int:pk>/'', ResetPassword),
      (''sessions/'', SessionList), (''logs/'', LogList), (''webhook/payment/'', PaymentWebhook),
      (''public/status/<uuid:token>/'', PublicStatus), (''public/plans/'', PublicPlans),
      (''shadowlink/accounts/'', ShadowLinkAccounts), (''shadowlink/accounts/create/'', ShadowLinkCreate),
      (''shadowlink/config/<uuid:token>/'', ShadowLinkConfig),
      (''shadowlink/servers/<int:pk>/deploy/'', ShadowLinkDeploy),
      (''shadowlink/servers/<int:pk>/status/'', ShadowLinkStatus)]"

text \<open>What a view declares; without a declaration, \<open>DEFAULT_PERMISSION_CLASSES\<close>.\<close>

fun declared_permission :: "endpoint \<Rightarrow> permission option" where
  "declared_permission AuthLogin = Some AllowAny"
| "declared_permission AuthLogout = Some IsAuthenticated"
| "declared_permission AuthMe = Some IsAuthenticated"
| "declared_permission Dashboard = Some IsAdminUser"
| "declared_permission ServerHealth = Some IsAdminUser"
| "declared_permission ServerSetStatus = Some IsAdminUser"
| "declared_permission DeleteAccount = Some IsAdminUser"
| "declared_permission SuspendAccount = Some IsAdminUser"
| "declared_permission ActivateAccount = Some IsAdminUser"
| "declared_permission ExtendAccount = Some IsAdminUser"
| "declared_permission ResetPassword = Some IsAdminUser"
| "declared_permission PaymentWebhook = Some AllowAny"
| "declared_permission PublicStatus = Some AllowAny"
| "declared_permission PublicPlans = Some AllowAny"
| "declared_permission ShadowLinkConfig = Some AllowAny"
| "declared_permission ShadowLinkDeploy = Some IsAdminUser"
| "declared_permission ShadowLinkStatus = Some IsAdminUser"
| "declared_permission _ = None"

definition default_permission :: permission where
  "default_permission = IsAdminUser"

definition endpoint_permission :: "endpoint \<Rightarrow> permission" where
  "endpoint_permission ep = default_to (declared_permission ep) default_permission"

definition admits :: "permission \<Rightarrow> user option \<Rightarrow> bool" where
  "admits p u =
     (case p of
        AllowAny \<Rightarrow> True
      | IsAuthenticated \<Rightarrow> u \<noteq> None
      | IsAdminUser \<Rightarrow> (case u of None \<Rightarrow> False | Some u \<Rightarrow> usr_is_staff u))"

section \<open>Effects on the database\<close>

lemma lookup_same_db [steps_intro]:
  "steps same_db (get_object_or_404 f)" "steps same_db (plan_or_404 b i)" "steps same_db (server_or_404 i)"
  "steps same_db (shadowlink_server_or_404 n)" "steps same_db (account_or_404 n)" "steps same_db (optional_server k)"
  unfolding get_object_or_404_def plan_or_404_def server_or_404_def shadowlink_server_or_404_def
    account_or_404_def optional_server_def
  by (intro steps_intro)+

lemma serialize_all_same_db [steps_intro]: "steps same_db (serialize_all E F as)"
  by (induction as) (auto intro!: steps_intro)

context effect
begin

lemma steps_case_account_error:
  "(\<And>m. steps R (f m)) \<Longrightarrow> steps R (case e of AccountError m \<Rightarrow> f m | _ \<Rightarrow> py_raise e)"
  by (cases e) (simp_all add: steps_raise)

lemma steps_case_shadowlink_error:
  "(\<And>m. steps R (f m)) \<Longrightarrow> steps R g \<Longrightarrow> steps R (case e of ShadowLinkError m \<Rightarrow> f m | _ \<Rightarrow> g)"
  by (cases e) simp_all

end

lemma public_views_same_db [steps_intro]:
  "steps same_db (dashboard_view F)" "steps same_db (login_view F u p)" "steps same_db (logout_view F)"
  "steps same_db (me_view usr)" "steps same_db (public_status_view E F token)"
  "steps same_db (public_plan_list_view F)" "steps same_db (shadowlink_client_config_view token)"
  "steps same_db (server_health_check_view E i)" "steps same_db (server_detail_view F i)"
  "steps same_db (plan_detail_view F i)" "steps same_db (account_detail_view E F i)"
  unfolding server_detail_view_def plan_detail_view_def account_detail_view_def dashboard_view_def login_view_def logout_view_def me_view_def public_status_view_def
    public_plan_list_view_def shadowlink_client_config_view_def server_health_check_view_def
  by (intro steps_intro)+

lemma shadowlink_views_same_db [steps_intro]:
  "steps same_db (shadowlink_deploy_view E i path)" "steps same_db (shadowlink_status_view E i)"
  unfolding shadowlink_deploy_view_def shadowlink_status_view_def
  by (intro steps_intro frame.steps_case_shadowlink_error)+

context statement_effect
begin

lemmas steps_views_reading [steps_intro] =
  lookup_same_db [THEN steps_same_db] serialize_all_same_db [THEN steps_same_db]
  public_views_same_db [THEN steps_same_db] shadowlink_views_same_db [THEN steps_same_db]

lemma steps_catching [steps_intro]:
  "steps (\<lambda>s t. D (db s) (db t)) m \<Longrightarrow> (\<And>x. steps (\<lambda>s t. D (db s) (db t)) (k x)) \<Longrightarrow>
   steps (\<lambda>s t. D (db s) (db t)) (catching_account_error m k)"
  unfolding catching_account_error_def
  by (intro steps_intro steps_case_account_error)

lemma steps_server_views [steps_intro]:
  "steps (\<lambda>s t. D (db s) (db t)) (provision_default_user E srv)"
  "steps (\<lambda>s t. D (db s) (db t)) (server_create_view E F d)"
  "steps (\<lambda>s t. D (db s) (db t)) (server_destroy_view i)"
  "steps (\<lambda>s t. D (db s) (db t)) (plan_destroy_view i)"
  "steps (\<lambda>s t. D (db s) (db t)) (server_set_status_view E i data)"
  "steps (\<lambda>s t. D (db s) (db t)) (server_update_view E F i new)"
  "steps (\<lambda>s t. D (db s) (db t)) (plan_create_view E F p)"
  "steps (\<lambda>s t. D (db s) (db t)) (plan_update_view F i newp)"
proof -
  show user: "steps (\<lambda>s t. D (db s) (db t)) (provision_default_user E srv)" for srv
    unfolding provision_default_user_def Let_def by (intro steps_intro)
  show "steps (\<lambda>s t. D (db s) (db t)) (server_create_view E F d)"
    unfolding server_create_view_def create_server_row_def
    by (intro steps_intro steps_on_db D_insert_server user)
  show "steps (\<lambda>s t. D (db s) (db t)) (server_destroy_view i)"
    unfolding server_destroy_view_def by (intro steps_intro steps_on_db D_delete_server)
  show "steps (\<lambda>s t. D (db s) (db t)) (plan_destroy_view i)"
    unfolding plan_destroy_view_def by (intro steps_intro steps_on_db D_delete_plan)
  show "steps (\<lambda>s t. D (db s) (db t)) (server_set_status_view E i data)"
    unfolding server_set_status_view_def by (intro steps_intro)
  show "steps (\<lambda>s t. D (db s) (db t)) (server_update_view E F i new)"
    unfolding server_update_view_def Let_def by (intro steps_intro)
  show "steps (\<lambda>s t. D (db s) (db t)) (plan_create_view E F p)"
    unfolding plan_create_view_def by (intro steps_intro steps_on_db D_insert_plan)
  show "steps (\<lambda>s t. D (db s) (db t)) (plan_update_view F i newp)"
    unfolding plan_update_view_def
    by (intro steps_intro steps_on_db D_update_plan) (simp add: write_plan_fields_def)
qed

lemma steps_account_views [steps_intro]:
  "steps (\<lambda>s t. D (db s) (db t)) (account_update_view E F i data)"
  "steps (\<lambda>s t. D (db s) (db t)) (create_account_view E F admin data)"
  "steps (\<lambda>s t. D (db s) (db t)) (create_shadowlink_account_view E F admin data)"
  "steps (\<lambda>s t. D (db s) (db t)) (bulk_create_view E F admin data)"
  "steps (\<lambda>s t. D (db s) (db t)) (delete_account_view E admin i)"
  "steps (\<lambda>s t. D (db s) (db t)) (suspend_account_view E admin i)"
  "steps (\<lambda>s t. D (db s) (db t)) (activate_account_view E admin i)"
  "steps (\<lambda>s t. D (db s) (db t)) (extend_account_view E F admin i data)"
  "steps (\<lambda>s t. D (db s) (db t)) (reset_password_view E admin i)"
  "steps (\<lambda>s t. D (db s) (db t)) (payment_webhook_view E F data)"
  unfolding account_update_view_def create_account_view_def create_shadowlink_account_view_def
    bulk_create_view_def delete_account_view_def suspend_account_view_def activate_account_view_def
    extend_account_view_def reset_password_view_def payment_webhook_view_def
  by (intro steps_intro)+

end

end
