(* ===== verification/Commands.thy ===== *)
theory Commands
  imports ApiViews
begin

text \<open>
  The management commands: \<open>setup_server\<close>, which enters a server and provisions a
  first user on it, and \<open>seedplans\<close>, with the lines they print.
\<close>

section \<open>\<open>setup_server\<close>\<close>

record setup_options =
  opt_name :: string
  opt_ip :: string
  opt_ssh_port :: int
  opt_ssh_user :: string
  opt_ssh_key :: string
  opt_location :: string
  opt_max_users :: int
  opt_default_username :: string
  opt_default_password :: string
  opt_default_days :: int
  opt_default_max_conns :: int
  opt_default_bandwidth_gb :: int
  opt_skip_ssh_test :: bool
  opt_skip_user :: bool

definition setup_server_data :: "setup_options \<Rightarrow> server_data" where
  "setup_server_data opts =
     \<lparr>sd_name = opt_name opts, sd_ip_address = opt_ip opts, sd_ssh_port = opt_ssh_port opts,
      sd_ssh_user = opt_ssh_user opts, sd_ssh_key_path = opt_ssh_key opts,
      sd_location = opt_location opts, sd_max_users = opt_max_users opts\<rparr>"

definition check_mark :: string where
  "check_mark = [CHR 0xE2, CHR 0x9C, CHR 0x93]"

definition warning_sign :: string where
  "warning_sign = [CHR 0xE2, CHR 0x9A, CHR 0xA0]"

text \<open>Step 1: \<open>get_or_create\<close> by address; a server that was there takes the new fields.\<close>

definition setup_server_row :: "'w env \<Rightarrow> setup_options \<Rightarrow> ('w sys, server) py" where
  "setup_server_row E opts =
     py_bind (query (\<lambda>d. find (\<lambda>r. srv_ip_address r = opt_ip opts) (servers d))) (\<lambda>existing.
       case existing of
         None \<Rightarrow>
           py_bind (create_server_row E (setup_server_data opts)) (\<lambda>srv.
           py_then (write_line SuccessStyle (check_mark @ '' Server created: '' @ server_str srv))
             (py_return srv))
       | Some srv \<Rightarrow>
           py_then (write_line WarningStyle (warning_sign @ '' Server already exists: '' @ server_str srv))
          (let srv' = srv\<lparr>srv_name := opt_name opts, srv_ssh_port := opt_ssh_port opts,
                          srv_ssh_user := opt_ssh_user opts, srv_ssh_key_path := opt_ssh_key opts,
                          srv_location := opt_location opts, srv_max_users := opt_max_users opts\<rparr>
           in py_then (save_server E srv')
             (py_then (write_line PlainStyle ''  Updated server fields.'') (py_return srv'))))"

text \<open>Step 2: one connection and one command.\<close>

definition test_connection :: "'w env \<Rightarrow> server \<Rightarrow> ('w sys, unit) py" where
  "test_connection E srv =
     py_then (write_line PlainStyle ''  Testing SSH connection...'')
     (py_try
       (py_bind (connect E (get_ssh_manager srv)) (\<lambda>ssh.
        py_bind (run E ssh ''echo ok'') (\<lambda>result.
          if \<not> ok result
          then py_raise (CommandError (''SSH connected but test command failed: '' @ stderr result))
          else py_then (write_line SuccessStyle (''  '' @ check_mark @ '' SSH connection successful.''))
              (py_then (disconnect E ssh) (py_return ())))))
       (\<lambda>e. py_raise (CommandError (''SSH connection failed: '' @ exn_str e))))"

definition default_plan_row :: "'w env \<Rightarrow> setup_options \<Rightarrow> ('w sys, plan) py" where
  "default_plan_row E opts =
     py_bind (query shortest_active_plan) (\<lambda>p.
       case p of
         Some p \<Rightarrow> py_return p
       | None \<Rightarrow>
           py_bind (now E) (\<lambda>t.
           py_bind (on_db (insert_plan
               \<lparr>plan_id = 0, plan_name = ''Default'', plan_duration_days = opt_default_days opts,
                plan_price_cents = 0, plan_currency = ''USD'',
                plan_max_connections = opt_default_max_conns opts,
                plan_bandwidth_limit_gb = opt_default_bandwidth_gb opts, plan_is_active = True,
                plan_description = '''', plan_created_at = t\<rparr>)) (\<lambda>p.
           py_then (write_line PlainStyle (''  Created default plan: '' @ plan_str_with ''0'' p))
             (py_return p))))"

text \<open>Step 3: the user on the node; a \<open>CommandError\<close> goes on as it is.\<close>

definition provision_setup_user :: "'w env \<Rightarrow> setup_options \<Rightarrow> server \<Rightarrow> string \<Rightarrow> datetime \<Rightarrow> ('w sys, unit) py" where
  "provision_setup_user E opts srv password expire_date =
     (let username = opt_default_username opts
      in py_then (write_line PlainStyle
           (''  Creating user '' @ [CHR 0x27] @ username @ [CHR 0x27] @ '' on '' @ srv_ip_address srv @ ''...''))
        (py_try
        (py_bind (connect E (get_ssh_manager srv)) (\<lambda>ssh.
         py_bind (user_exists E ssh username) (\<lambda>exists.
         py_then
           (if exists
            then write_line PlainStyle
                   (''  OS user '' @ [CHR 0x27] @ username @ [CHR 0x27] @
                    '' already exists on server, skipping useradd.'')
            else py_bind (create_user E ssh username password) (\<lambda>result.
                   py_when (\<not> ok result)
                     (py_raise (CommandError (''Failed to create OS user: '' @ stderr result)))))
        (py_then (set_expiry E ssh username (strftime_ymd expire_date))
        (py_then (set_max_logins E ssh username (opt_default_max_conns opts))
        (py_then (py_when (opt_default_bandwidth_gb opts > 0) (setup_traffic_accounting E ssh username))
        (py_then (disconnect E ssh) (py_return ()))))))))
        (\<lambda>e. case e of
           CommandError m \<Rightarrow> py_raise (CommandError m)
         | _ \<Rightarrow> py_raise (CommandError (''Remote provisioning failed: '' @ exn_str e)))))"

text \<open>The summary at the end.\<close>

definition write_summary ::
  "setup_options \<Rightarrow> server \<Rightarrow> account \<Rightarrow> string \<Rightarrow> datetime \<Rightarrow> ('w sys, unit) py" where
  "write_summary opts srv acc password expire_date =
     (let rule = replicate 50 (CHR ''='')
      in py_for
        [(SuccessStyle, newline # rule),
         (SuccessStyle, ''  SERVER + DEFAULT USER CREATED SUCCESSFULLY''),
         (SuccessStyle, rule),
         (PlainStyle, ''  Server:   '' @ srv_name srv @ '' ('' @ srv_ip_address srv @ '')''),
         (PlainStyle, ''  Username: '' @ acc_username acc),
         (PlainStyle, ''  Password: '' @ password),
         (PlainStyle, ''  Port:     '' @ show_int (srv_ssh_port srv)),
         (PlainStyle, ''  Expires:  '' @ strftime_ymd expire_date),
         (PlainStyle, ''  Max Conn: '' @ show_int (opt_default_max_conns opts)),
         (SuccessStyle, rule)]
        (\<lambda>(style, line). write_line style line))"

definition setup_server :: "'w env \<Rightarrow> setup_options \<Rightarrow> ('w sys, account option) py" where
  "setup_server E opts =
     py_bind (setup_server_row E opts) (\<lambda>srv.
     py_then (py_when (\<not> opt_skip_ssh_test opts) (test_connection E srv))
       (if opt_skip_user opts
        then py_then (write_line SuccessStyle ''Done (skipped user creation).'') (py_return None)
        else
          py_bind (if opt_default_password opts \<noteq> [] then py_return (opt_default_password opts)
                   else generate_password E 12) (\<lambda>password.
          py_bind (now E) (\<lambda>t.
          py_bind (lift_result (add_days t (opt_default_days opts))) (\<lambda>expire_date.
          py_bind (query (\<lambda>d. list_ex (\<lambda>a. acc_username a = opt_default_username opts \<and>
              acc_server a = srv_id srv \<and> acc_status a \<noteq> Deleted) (accounts d))) (\<lambda>exists.
            if exists
            then py_then (write_line WarningStyle
                   (warning_sign @ '' User '' @ [CHR 0x27] @ opt_default_username opts @ [CHR 0x27] @
                    '' already exists on '' @ srv_name srv @ ''. Skipping.''))
                (py_then (write_line SuccessStyle ''Done.'') (py_return None))
            else
              py_bind (default_plan_row E opts) (\<lambda>p.
              py_then (provision_setup_user E opts srv password expire_date)
             (py_bind (create_account_row E
                 (default_account (opt_default_username opts) password srv p expire_date
                    (opt_default_max_conns opts) (opt_default_bandwidth_gb opts)
                    ''Default account created by setup_server command.'')) (\<lambda>acc.
              py_then (write_summary opts srv acc password expire_date)
                (py_return (Some acc)))))))))))"


section \<open>\<open>seedplans\<close>\<close>

definition seed_plan :: "string \<Rightarrow> int \<Rightarrow> int \<Rightarrow> int \<Rightarrow> int \<Rightarrow> plan" where
  "seed_plan name days cents conns gb =
     \<lparr>plan_id = 0, plan_name = name, plan_duration_days = days, plan_price_cents = cents,
      plan_currency = ''USD'', plan_max_connections = conns, plan_bandwidth_limit_gb = gb,
      plan_is_active = True, plan_description = '''', plan_created_at = 0\<rparr>"

definition seed_defaults :: "plan list" where
  "seed_defaults =
     [seed_plan ''Trial'' 1 50 1 5, seed_plan ''Weekly'' 7 200 2 50,
      seed_plan ''Monthly'' 30 500 2 0, seed_plan ''Quarterly'' 90 1200 3 0]"

text \<open>
  \<open>get_or_create\<close>: the row, and whether it was created. The prices of the defaults are
  floats, which a new object prints with as few decimals as the float needs.
\<close>

definition float_price_str :: "int \<Rightarrow> string" where
  "float_price_str cents =
     show_int (cents div 100) @ ''.'' @
     (if cents mod 10 = 0 then show_int (cents mod 100 div 10) else zero_pad 2 (show_int (cents mod 100)))"

definition get_or_create_plan :: "'w env \<Rightarrow> plan \<Rightarrow> ('w sys, plan \<times> bool) py" where
  "get_or_create_plan E p =
     py_bind (query (\<lambda>d. find (\<lambda>r. plan_name r = plan_name p) (plans d))) (\<lambda>existing.
       case existing of
         Some r \<Rightarrow> py_return (r, False)
       | None \<Rightarrow>
           py_bind (now E) (\<lambda>t.
           py_bind (on_db (insert_plan (p\<lparr>plan_created_at := t\<rparr>))) (\<lambda>r. py_return (r, True))))"

definition seed_line :: "plan \<times> bool \<Rightarrow> string" where
  "seed_line = (\<lambda>(p, created).
     if created then ''  created: '' @ plan_str_with (float_price_str (plan_price_cents p)) p
     else ''  exists: '' @ plan_str p)"

definition seedplans :: "'w env \<Rightarrow> ('w sys, unit) py" where
  "seedplans E =
     py_then (py_for seed_defaults (\<lambda>p.
       py_bind (get_or_create_plan E p) (\<lambda>r. write_line PlainStyle (seed_line r))))
     (write_line SuccessStyle ''Done.'')"


section \<open>Effects on the database\<close>

context statement_effect
begin

lemma steps_setup_server [steps_intro]: "steps (\<lambda>s t. D (db s) (db t)) (setup_server E opts)"
proof -
  have err: "steps (\<lambda>s t. D (db s) (db t)) (case e of CommandError m \<Rightarrow> py_raise (f m) | _ \<Rightarrow> py_raise g)"
    for e f g
    by (cases e) (simp_all add: steps_raise)
  show ?thesis
    unfolding setup_server_def setup_server_row_def create_server_row_def test_connection_def
      default_plan_row_def provision_setup_user_def write_summary_def Let_def
    by (intro steps_intro steps_on_db D_insert_server D_insert_plan err)
qed

lemma steps_seedplans [steps_intro]: "steps (\<lambda>s t. D (db s) (db t)) (seedplans E)"
  unfolding seedplans_def get_or_create_plan_def
  by (intro steps_intro steps_on_db D_insert_plan)

end

end
