(* ===== verification/TelegramBot.thy ===== *)
theory TelegramBot
  imports ApiViews
begin

text \<open>
  The commands of \<open>bot/telegram_bot.py\<close>.  A handler takes the arguments of the
  command and returns the replies it sends.  The handlers are coroutines, and the
  ORM refuses to run under an event loop unless the process allows it with
  \<open>DJANGO_ALLOW_ASYNC_UNSAFE\<close>: the first argument says whether it does.
\<close>

section \<open>The ORM under an event loop\<close>

definition sync_only :: exn where
  "sync_only = OtherError ''You cannot call this from an async context - use a thread or sync_to_async.''"

definition orm :: "bool \<Rightarrow> ('w sys, 'a) py \<Rightarrow> ('w sys, 'a) py" where
  "orm async_unsafe m = (if async_unsafe then m else py_raise sync_only)"


section \<open>Commands\<close>

definition text_lines :: "string list \<Rightarrow> string" where
  "text_lines ls = concat (map (\<lambda>l. l @ [newline]) ls)"

definition em_dash :: string where
  "em_dash = [CHR 0xE2, CHR 0x80, CHR 0x94]"

definition start_cmd :: "('w sys, string list) py" where
  "start_cmd = py_return [py_join [newline]
     [''Welcome to SSH VPN Bot!'', '''', ''Commands:'', ''/plans - View available plans'',
      ''/buy <plan_id> <username> - Purchase an account'', ''/status <username> - Check account status'',
      ''/help - Show this message'']]"

definition help_cmd :: "('w sys, string list) py" where
  "help_cmd = start_cmd"

definition plan_lines :: "plan \<Rightarrow> string" where
  "plan_lines p =
     (let bw = (if plan_bandwidth_limit_gb p \<noteq> 0 then show_int (plan_bandwidth_limit_gb p) @ '' GB''
                else ''Unlimited'')
      in text_lines
        [''ID '' @ show_nat (plan_id p) @ '': '' @ plan_name p,
         ''  Duration: '' @ show_int (plan_duration_days p) @ '' days'',
         ''  Price: '' @ price_str (plan_price_cents p) @ '' '' @ plan_currency p,
         ''  Max connections: '' @ show_int (plan_max_connections p),
         ''  Bandwidth: '' @ bw])"

definition plans_cmd :: "bool \<Rightarrow> ('w sys, string list) py" where
  "plans_cmd async_unsafe =
     py_bind (orm async_unsafe (query active_plan_list)) (\<lambda>ps.
       if ps = [] then py_return [''No plans available at the moment.'']
       else py_return [py_join [newline] ((''Available Plans:'' @ [newline]) # map plan_lines ps)])"

definition buy_cmd :: "bool \<Rightarrow> 'w env \<Rightarrow> string list \<Rightarrow> ('w sys, string list) py" where
  "buy_cmd async_unsafe E args =
     (case args of
        arg0 # arg1 # _ \<Rightarrow>
          (case py_int arg0 of
             Inl _ \<Rightarrow> py_return [''Invalid arguments. Usage: /buy <plan_id> <username>'']
           | Inr i \<Rightarrow>
               let username = py_strip (py_lower arg1)
               in py_bind (orm async_unsafe
                      (query (\<lambda>d. find (\<lambda>p. int (plan_id p) = i \<and> plan_is_active p) (plans d)))) (\<lambda>p.
                  case p of
                    None \<Rightarrow> py_return [''Plan '' @ show_int i @ '' not found.'']
                  | Some p \<Rightarrow>
                      py_try
                        (py_bind (orm async_unsafe (create_account E (default_args username p))) (\<lambda>acc.
                         py_bind (get_server (acc_server acc)) (\<lambda>srv.
                           py_return [text_lines
                             [''Account created!'', '''', ''Host: '' @ srv_ip_address srv,
                              ''Port: '' @ show_int (srv_ssh_port srv), ''Username: '' @ acc_username acc,
                              ''Password: '' @ acc_password_display acc,
                              ''Expires: '' @ strftime_ymd_hm (acc_expire_date acc) @ '' UTC'', ''''] @
                             quoted ''Save this information '' @ em_dash @ quoted '' password won`t be shown again.''])))
                        (\<lambda>e. case e of
                           AccountError m \<Rightarrow> py_return [''Error: '' @ m]
                         | _ \<Rightarrow> py_raise e)))
      | _ \<Rightarrow> py_return [''Usage: /buy <plan_id> <username>''])"

definition status_line :: "datetime \<Rightarrow> server \<Rightarrow> account \<Rightarrow> string" where
  "status_line t srv acc =
     text_lines
       [''Account: '' @ acc_username acc,
        ''Server: '' @ srv_ip_address srv @ '':'' @ show_int (srv_ssh_port srv),
        ''Status: '' @ account_status_display (acc_status acc),
        ''Expires: '' @ strftime_ymd_hm (acc_expire_date acc) @ '' UTC'',
        ''Days remaining: '' @ show_int (days_remaining t acc)]"

definition status_accounts :: "string \<Rightarrow> database \<Rightarrow> account list" where
  "status_accounts username d =
     newest_first (filter (\<lambda>a. acc_username a = username \<and> acc_status a \<noteq> Deleted) (accounts d))"

definition status_cmd :: "bool \<Rightarrow> 'w env \<Rightarrow> string list \<Rightarrow> ('w sys, string list) py" where
  "status_cmd async_unsafe E args =
     (case args of
        [] \<Rightarrow> py_return [''Usage: /status <username>'']
      | arg0 # _ \<Rightarrow>
          let username = py_strip (py_lower arg0)
          in py_bind (orm async_unsafe (query (status_accounts username))) (\<lambda>accs.
             if accs = [] then py_return [quoted ''No account found for `'' @ username @ quoted ''`.'']
             else
               py_fold (\<lambda>replies acc.
                 py_bind (get_server (acc_server acc)) (\<lambda>srv.
                 py_bind (now E) (\<lambda>t.
                   py_return (replies @ [status_line t srv acc])))) [] accs))"


section \<open>Running the bot\<close>

text \<open>The commands \<open>run_bot\<close> registers; without a token it exits before anything runs.\<close>

definition bot_handlers :: "bool \<Rightarrow> 'w env \<Rightarrow> (string \<times> (string list \<Rightarrow> ('w sys, string list) py)) list" where
  "bot_handlers async_unsafe E =
     [(''start'', \<lambda>args. start_cmd), (''help'', \<lambda>args. help_cmd), (''plans'', \<lambda>args. plans_cmd async_unsafe),
      (''buy'', buy_cmd async_unsafe E), (''status'', status_cmd async_unsafe E)]"

definition run_bot ::
  "bool \<Rightarrow> 'w env \<Rightarrow> string \<Rightarrow>
   ((string \<times> (string list \<Rightarrow> ('w sys, string list) py)) list \<Rightarrow> ('w sys, unit) py) \<Rightarrow> ('w sys, unit) py" where
  "run_bot async_unsafe E token run_polling =
     (if token = [] then py_raise (OtherError ''SystemExit: 1'')
      else run_polling (bot_handlers async_unsafe E))"

text \<open>The management command \<open>runbot\<close>.\<close>

definition runbot ::
  "bool \<Rightarrow> 'w env \<Rightarrow> string \<Rightarrow>
   ((string \<times> (string list \<Rightarrow> ('w sys, string list) py)) list \<Rightarrow> ('w sys, unit) py) \<Rightarrow> ('w sys, unit) py" where
  "runbot async_unsafe E token run_polling = run_bot async_unsafe E token run_polling"

text \<open>
  \<open>send_admin_notification\<close>: the event loop of \<open>asyncio\<close>, which may be running, and what
  scheduling or running the message in it does, are arguments.
\<close>

definition send_admin_notification ::
  "('w sys, bool) py \<Rightarrow> (string \<Rightarrow> string \<Rightarrow> ('w sys, unit) py) \<Rightarrow> (string \<Rightarrow> string \<Rightarrow> ('w sys, unit) py) \<Rightarrow>
   string \<Rightarrow> string \<Rightarrow> string \<Rightarrow> ('w sys, unit) py" where
  "send_admin_notification loop_is_running create_task run_until_complete token chat_id message =
     (if token = [] \<or> chat_id = [] then py_return ()
      else py_try
        (py_bind loop_is_running (\<lambda>running.
           if running then create_task chat_id message else run_until_complete chat_id message))
        (\<lambda>e. py_return ()))"


section \<open>Effects on the database\<close>

lemma bot_reading_same_db [steps_intro]:
  "steps same_db start_cmd" "steps same_db help_cmd" "steps same_db (plans_cmd b)"
  "steps same_db (status_cmd b E args)"
  unfolding start_cmd_def help_cmd_def plans_cmd_def status_cmd_def orm_def Let_def
  by (intro steps_intro)+

context statement_effect
begin

lemmas steps_bot_reading [steps_intro] = bot_reading_same_db [THEN steps_same_db]

lemma steps_buy [steps_intro]: "steps (\<lambda>s t. D (db s) (db t)) (buy_cmd b E args)"
proof -
  have err: "steps (\<lambda>s t. D (db s) (db t)) (case e of AccountError m \<Rightarrow> py_return (f m) | _ \<Rightarrow> py_raise e)"
    for e and f :: "string \<Rightarrow> string list"
    by (cases e) (simp_all add: steps_return steps_raise)
  show ?thesis
    unfolding buy_cmd_def orm_def Let_def
    by (intro steps_intro err)
qed

end

end
