(* ===== verification/AdminActions.thy ===== *)
theory AdminActions
  imports AccountServices
begin

text \<open>
  The actions and the computed columns of \<open>accounts/admin.py\<close> and
  \<open>servers/admin.py\<close>.  An action gets the queryset the administrator selected, here
  a function that evaluates it on the database, and returns the message it shows.
\<close>

section \<open>Actions on accounts\<close>

definition action_message :: "string \<Rightarrow> nat \<Rightarrow> string" where
  "action_message verb count = verb @ '' '' @ show_nat count @ '' accounts.''"

definition action_suspend ::
  "'w env \<Rightarrow> nat option \<Rightarrow> (database \<Rightarrow> account list) \<Rightarrow> ('w sys, string) py" where
  "action_suspend E admin queryset =
     py_bind (query (\<lambda>d. filter (\<lambda>a. acc_status a = Active) (queryset d))) (\<lambda>accs.
     py_bind (best_effort (\<lambda>acc. py_then (suspend_account E acc admin) (py_return ())) accs) (\<lambda>count.
       py_return (action_message ''Suspended'' count)))"

definition action_activate ::
  "'w env \<Rightarrow> nat option \<Rightarrow> (database \<Rightarrow> account list) \<Rightarrow> ('w sys, string) py" where
  "action_activate E admin queryset =
     py_bind (query (\<lambda>d. filter (\<lambda>a. acc_status a = Suspended) (queryset d))) (\<lambda>accs.
     py_bind (best_effort (\<lambda>acc. py_then (activate_account E acc admin) (py_return ())) accs) (\<lambda>count.
       py_return (action_message ''Activated'' count)))"

definition action_delete_accounts ::
  "'w env \<Rightarrow> nat option \<Rightarrow> (database \<Rightarrow> account list) \<Rightarrow> ('w sys, string) py" where
  "action_delete_accounts E admin queryset =
     py_bind (query (\<lambda>d. filter (\<lambda>a. acc_status a \<noteq> Deleted) (queryset d))) (\<lambda>accs.
     py_bind (best_effort (\<lambda>acc. py_then (delete_account E acc admin) (py_return ())) accs) (\<lambda>count.
       py_return (action_message ''Deleted'' count)))"


section \<open>Columns\<close>

text \<open>\<open>format_html\<close> escapes its arguments.\<close>

definition html_escape :: "string \<Rightarrow> string" where
  "html_escape s = concat (map (\<lambda>c.
     if c = CHR ''&'' then ''&amp;'' else if c = CHR ''<'' then ''&lt;'' else if c = CHR ''>'' then ''&gt;''
     else if c = dquote then ''&quot;'' else if c = squote then ''&#x27;'' else [c]) s)"

definition server_link :: "nat \<Rightarrow> server \<Rightarrow> string" where
  "server_link server_id srv =
     quoted ''<a href=~/admin/servers/server/'' @ show_nat server_id @ quoted ''/change/~>'' @
     html_escape (server_str srv) @ ''</a>''"

definition badge :: "string \<Rightarrow> string \<Rightarrow> string" where
  "badge color label =
     quoted ''<span style=~background:'' @ color @
     quoted '';color:#fff;padding:3px 10px;border-radius:12px;font-size:11px;~>'' @ label @ ''</span>''"

fun protocol_badge :: "protocol \<Rightarrow> string" where
  "protocol_badge SSH = badge ''#17a2b8'' ''SSH''"
| "protocol_badge SHADOWLINK = badge ''#6f42c1'' ''ShadowLink''"

fun status_badge :: "account_status \<Rightarrow> string" where
  "status_badge Active = badge ''#28a745'' ''Active''"
| "status_badge Suspended = badge ''#ffc107'' ''Suspended''"
| "status_badge Expired = badge ''#dc3545'' ''Expired''"
| "status_badge Deleted = badge ''#6c757d'' ''Deleted''"

fun server_status_badge :: "server_status \<Rightarrow> string" where
  "server_status_badge SrvActive = badge ''#28a745'' ''Active''"
| "server_status_badge SrvMaintenance = badge ''#ffc107'' ''Maintenance''"
| "server_status_badge SrvFull = badge ''#fd7e14'' ''Full''"
| "server_status_badge SrvDown = badge ''#dc3545'' ''Down''"

definition user_count_display :: "database \<Rightarrow> server \<Rightarrow> string" where
  "user_count_display d srv = show_nat (current_user_count d srv) @ '' / '' @ show_int (srv_max_users srv)"

definition bar_color :: "pyfloat \<Rightarrow> string" where
  "bar_color v =
     (if float_gt v (Fin 80) then ''#dc3545'' else if float_gt v (Fin 60) then ''#ffc107'' else ''#28a745'')"

text \<open>\<open>int(value)\<close> raises on a value that is not finite.\<close>

definition progress_bar :: "pyfloat \<Rightarrow> exn + string" where
  "progress_bar v =
     (case float_int v of
        Inl e \<Rightarrow> Inl e
      | Inr pct \<Rightarrow> Inr
          (quoted ''<div style=~width:80px;background:#e9ecef;border-radius:4px;~><div style=~width:'' @
           show_int pct @ ''%;background:'' @ bar_color v @
           quoted '';height:14px;border-radius:4px;text-align:center;color:#fff;font-size:10px;line-height:14px;~>'' @
           show_int pct @ ''%</div></div>''))"

definition short_detail :: "string \<Rightarrow> string" where
  "short_detail detail = (if detail \<noteq> [] then take 80 detail else [CHR 0xE2, CHR 0x80, CHR 0x94])"


section \<open>Effects on the database\<close>

context statement_effect
begin

lemma steps_actions [steps_intro]:
  "steps (\<lambda>s t. D (db s) (db t)) (action_suspend E admin q)"
  "steps (\<lambda>s t. D (db s) (db t)) (action_activate E admin q)"
  "steps (\<lambda>s t. D (db s) (db t)) (action_delete_accounts E admin q)"
  unfolding action_suspend_def action_activate_def action_delete_accounts_def
  by (intro steps_intro)+

end

end
