(* ===== verification/Settings.thy ===== *)
theory Settings
  imports ApiViews
begin

text \<open>
  \<open>sshvpn/settings.py\<close>, and the entry points that select it.  The settings are
  computed when the module is imported, from the variables \<open>decouple\<close> finds in the
  environment or in \<open>.env\<close>, from the directory of the project and from what exists
  in it.  \<open>decouple\<close> is a library: how it finds a variable and how it casts one are
  the functions of the record \<open>decouple\<close>, of which nothing is assumed.
\<close>

section \<open>Variables\<close>

record decouple =
  dc_find :: "string \<Rightarrow> string option"
  dc_bool :: "string \<Rightarrow> exn + bool"
  dc_csv :: "string \<Rightarrow> string list"

definition config :: "decouple \<Rightarrow> string \<Rightarrow> string \<Rightarrow> string" where
  "config D name dflt = default_to (dc_find D name) dflt"

definition config_bool :: "decouple \<Rightarrow> string \<Rightarrow> bool \<Rightarrow> exn + bool" where
  "config_bool D name dflt = (case dc_find D name of None \<Rightarrow> Inr dflt | Some v \<Rightarrow> dc_bool D v)"

definition config_csv :: "decouple \<Rightarrow> string \<Rightarrow> string \<Rightarrow> string list" where
  "config_csv D name dflt = dc_csv D (config D name dflt)"


section \<open>The host names the panel answers to\<close>

definition allowed_hosts :: "decouple \<Rightarrow> string list" where
  "allowed_hosts D =
     (let hosts = config_csv D ''ALLOWED_HOSTS'' ''*''
      in if ''localhost'' \<notin> set hosts \<and> ''*'' \<notin> set hosts then hosts @ [''localhost'', ''127.0.0.1''] else hosts)"


section \<open>Applications and middleware\<close>

definition installed_apps :: "string list" where
  "installed_apps =
     [''django.contrib.admin'', ''django.contrib.auth'', ''django.contrib.contenttypes'',
      ''django.contrib.sessions'', ''django.contrib.messages'', ''django.contrib.staticfiles'',
      ''rest_framework'', ''django_filters'', ''corsheaders'', ''django_celery_beat'',
      ''drf_spectacular'', ''import_export'',
      ''accounts'', ''servers'', ''plans'', ''api'']"

definition middleware :: "string list" where
  "middleware =
     [''django.middleware.security.SecurityMiddleware'', ''whitenoise.middleware.WhiteNoiseMiddleware'',
      ''django.contrib.sessions.middleware.SessionMiddleware'', ''corsheaders.middleware.CorsMiddleware'',
      ''django.middleware.common.CommonMiddleware'', ''django.middleware.csrf.CsrfViewMiddleware'',
      ''django.contrib.auth.middleware.AuthenticationMiddleware'',
      ''django.contrib.messages.middleware.MessageMiddleware'',
      ''django.middleware.clickjacking.XFrameOptionsMiddleware'']"

text \<open>Paths are joined with a slash; \<open>base\<close> is \<open>BASE_DIR\<close>.\<close>

definition join_path :: "string \<Rightarrow> string \<Rightarrow> string" where
  "join_path base name = base @ ''/'' @ name"

record template_settings =
  tpl_backend :: string
  tpl_dirs :: "string list"
  tpl_app_dirs :: bool
  tpl_context_processors :: "string list"

definition templates :: "string \<Rightarrow> template_settings" where
  "templates base =
     \<lparr>tpl_backend = ''django.template.backends.django.DjangoTemplates'',
      tpl_dirs = [join_path base ''templates'', join_path base ''frontend/dist''],
      tpl_app_dirs = True,
      tpl_context_processors =
        [''django.template.context_processors.debug'', ''django.template.context_processors.request'',
         ''django.contrib.auth.context_processors.auth'',
         ''django.contrib.messages.context_processors.messages'']\<rparr>"

record static_settings =
  static_url :: string
  static_root :: string
  static_dirs :: "(string option \<times> string) list"
  static_backend :: string

text \<open>A directory that does not exist is left out; the second has the prefix \<open>assets\<close>.\<close>

definition static_files :: "string \<Rightarrow> (string \<Rightarrow> bool) \<Rightarrow> static_settings" where
  "static_files base exists =
     (let st = join_path base ''static''; assets = join_path base ''frontend/dist/assets''
      in \<lparr>static_url = ''static/'', static_root = join_path base ''staticfiles'',
          static_dirs = (if exists st then [(None, st)] else []) @
                        (if exists assets then [(Some ''assets'', assets)] else []),
          static_backend = ''whitenoise.storage.CompressedStaticFilesStorage''\<rparr>)"


section \<open>Database, cache and passwords\<close>

record database_settings =
  dbs_engine :: string
  dbs_name :: string
  dbs_user :: string
  dbs_password :: string
  dbs_host :: string
  dbs_port :: string

definition databases_default :: "decouple \<Rightarrow> database_settings" where
  "databases_default D =
     \<lparr>dbs_engine = ''django.db.backends.postgresql'', dbs_name = config D ''DB_NAME'' ''sshvpn'',
      dbs_user = config D ''DB_USER'' ''vpn'', dbs_password = config D ''DB_PASSWORD'' ''vpn'',
      dbs_host = config D ''DB_HOST'' ''localhost'', dbs_port = config D ''DB_PORT'' ''5432''\<rparr>"

definition caches_default :: "decouple \<Rightarrow> string \<times> string" where
  "caches_default D =
     (''django.core.cache.backends.redis.RedisCache'', config D ''REDIS_URL'' ''redis://localhost:6379/0'')"

definition password_validators :: "string list" where
  "password_validators =
     map (\<lambda>v. ''django.contrib.auth.password_validation.'' @ v)
       [''UserAttributeSimilarityValidator'', ''MinimumLengthValidator'', ''CommonPasswordValidator'',
        ''NumericPasswordValidator'']"


section \<open>The REST framework\<close>

record rest_settings =
  rest_authentication :: "string list"
  rest_permission :: "string list"
  rest_filter_backends :: "string list"
  rest_pagination :: string
  rest_page_size :: nat
  rest_throttle :: "string list"
  rest_throttle_rates :: "(string \<times> string) list"
  rest_schema :: string

definition rest_framework :: rest_settings where
  "rest_framework =
     \<lparr>rest_authentication = [''rest_framework.authentication.SessionAuthentication'',
                             ''rest_framework.authentication.TokenAuthentication''],
      rest_permission = [''rest_framework.permissions.IsAdminUser''],
      rest_filter_backends = [''django_filters.rest_framework.DjangoFilterBackend'',
                              ''rest_framework.filters.SearchFilter'', ''rest_framework.filters.OrderingFilter''],
      rest_pagination = ''rest_framework.pagination.PageNumberPagination'',
      rest_page_size = 25,
      rest_throttle = [''rest_framework.throttling.AnonRateThrottle'',
                       ''rest_framework.throttling.UserRateThrottle''],
      rest_throttle_rates = [(''anon'', ''30/minute''), (''user'', ''120/minute'')],
      rest_schema = ''drf_spectacular.openapi.AutoSchema''\<rparr>"

definition spectacular_settings :: "(string \<times> string) list" where
  "spectacular_settings =
     [(''TITLE'', ''SSH VPN Management API''),
      (''DESCRIPTION'', ''Production-grade SSH account provisioning and management.''),
      (''VERSION'', ''1.0.0'')]"


section \<open>Celery and Telegram\<close>

record celery_settings =
  cel_broker_url :: string
  cel_result_backend :: string
  cel_accept_content :: "string list"
  cel_task_serializer :: string
  cel_result_serializer :: string
  cel_timezone :: string
  cel_beat_scheduler :: string

definition celery_of :: "decouple \<Rightarrow> celery_settings" where
  "celery_of D =
     \<lparr>cel_broker_url = config D ''CELERY_BROKER_URL'' ''redis://localhost:6379/1'',
      cel_result_backend = config D ''CELERY_RESULT_BACKEND'' ''redis://localhost:6379/2'',
      cel_accept_content = [''json''], cel_task_serializer = ''json'', cel_result_serializer = ''json'',
      cel_timezone = ''UTC'', cel_beat_scheduler = ''celery.beat:PersistentScheduler''\<rparr>"

definition telegram_of :: "decouple \<Rightarrow> string \<times> string" where
  "telegram_of D = (config D ''TELEGRAM_BOT_TOKEN'' '''', config D ''TELEGRAM_ADMIN_CHAT_ID'' '''')"


section \<open>Security\<close>

text \<open>A setting that the module does not assign is \<open>None\<close>: Django's own default holds.\<close>

record security_settings =
  sec_use_ssl :: bool
  sec_ssl_redirect :: "bool option"
  sec_proxy_ssl_header :: "(string \<times> string) option"
  sec_session_cookie_secure :: "bool option"
  sec_csrf_cookie_secure :: "bool option"
  sec_hsts_seconds :: "nat option"
  sec_hsts_include_subdomains :: "bool option"
  sec_hsts_preload :: "bool option"

definition security_of :: "bool \<Rightarrow> bool \<Rightarrow> security_settings" where
  "security_of debug use_ssl =
     (let unset = \<lparr>sec_use_ssl = use_ssl, sec_ssl_redirect = None, sec_proxy_ssl_header = None,
                   sec_session_cookie_secure = None, sec_csrf_cookie_secure = None, sec_hsts_seconds = None,
                   sec_hsts_include_subdomains = None, sec_hsts_preload = None\<rparr>;
          production = unset\<lparr>sec_ssl_redirect := Some False,
                             sec_proxy_ssl_header := Some (''HTTP_X_FORWARDED_PROTO'', ''https''),
                             sec_session_cookie_secure := Some use_ssl,
                             sec_csrf_cookie_secure := Some use_ssl\<rparr>
      in if debug then unset
         else if use_ssl
         then production\<lparr>sec_hsts_seconds := Some 31536000, sec_hsts_include_subdomains := Some True,
                         sec_hsts_preload := Some True\<rparr>
         else production)"

record origin_settings =
  cors_allowed_origins :: "string list"
  cors_allow_credentials :: bool
  csrf_trusted_origins :: "string list"
  csrf_cookie_samesite :: string
  session_cookie_samesite :: string

definition default_origins :: string where
  "default_origins = ''http://localhost:8000,http://localhost:5173''"

definition origins_of :: "decouple \<Rightarrow> origin_settings" where
  "origins_of D =
     \<lparr>cors_allowed_origins = config_csv D ''CORS_ALLOWED_ORIGINS'' default_origins,
      cors_allow_credentials = True,
      csrf_trusted_origins = config_csv D ''CSRF_TRUSTED_ORIGINS'' default_origins,
      csrf_cookie_samesite = ''Lax'', session_cookie_samesite = ''Lax''\<rparr>"


section \<open>Logging\<close>

record log_settings =
  logs_disable_existing :: bool
  logs_format :: string
  logs_handlers :: "(string \<times> string) list"
  logs_file :: string
  logs_root_handlers :: "string list"
  logs_root_level :: string
  logs_loggers :: "(string \<times> string \<times> bool) list"

definition logging_of :: "string \<Rightarrow> log_settings" where
  "logging_of base =
     \<lparr>logs_disable_existing = False, logs_format = ''[{asctime}] {levelname} {name} {message}'',
      logs_handlers = [(''console'', ''logging.StreamHandler''), (''file'', ''logging.FileHandler'')],
      logs_file = join_path base ''logs/sshvpn.log'',
      logs_root_handlers = [''console'', ''file''], logs_root_level = ''INFO'',
      logs_loggers = [(''accounts'', ''DEBUG'', True), (''servers'', ''DEBUG'', True)]\<rparr>"


section \<open>The module\<close>

record settings =
  set_secret_key :: string
  set_debug :: bool
  set_allowed_hosts :: "string list"
  set_installed_apps :: "string list"
  set_middleware :: "string list"
  set_root_urlconf :: string
  set_templates :: template_settings
  set_wsgi_application :: string
  set_password_validators :: "string list"
  set_language_code :: string
  set_time_zone :: string
  set_use_i18n :: bool
  set_use_tz :: bool
  set_auto_field :: string
  set_database :: database_settings
  set_cache :: "string \<times> string"
  set_static :: static_settings
  set_rest_framework :: rest_settings
  set_spectacular :: "(string \<times> string) list"
  set_celery :: celery_settings
  set_telegram :: "string \<times> string"
  set_security :: security_settings
  set_origins :: origin_settings
  set_logging :: log_settings

definition default_secret_key :: string where
  "default_secret_key = ''insecure-dev-key-change-me''"

text \<open>The two casts to a truth value are what can raise, in this order.\<close>

definition load_settings :: "decouple \<Rightarrow> string \<Rightarrow> (string \<Rightarrow> bool) \<Rightarrow> exn + settings" where
  "load_settings D base exists =
     res_bind (config_bool D ''DEBUG'' False) (\<lambda>debug.
     res_bind (config_bool D ''USE_SSL'' False) (\<lambda>use_ssl.
       Inr \<lparr>set_secret_key = config D ''SECRET_KEY'' default_secret_key, set_debug = debug,
            set_allowed_hosts = allowed_hosts D, set_installed_apps = installed_apps,
            set_middleware = middleware, set_root_urlconf = ''sshvpn.urls'', set_templates = templates base,
            set_wsgi_application = ''sshvpn.wsgi.application'', set_password_validators = password_validators,
            set_language_code = ''en-us'', set_time_zone = ''UTC'', set_use_i18n = True, set_use_tz = True,
            set_auto_field = ''django.db.models.BigAutoField'', set_database = databases_default D,
            set_cache = caches_default D, set_static = static_files base exists,
            set_rest_framework = rest_framework, set_spectacular = spectacular_settings,
            set_celery = celery_of D, set_telegram = telegram_of D,
            set_security = security_of debug use_ssl, set_origins = origins_of D,
            set_logging = logging_of base\<rparr>))"


section \<open>Entry points\<close>

text \<open>
  \<open>manage.py\<close>, \<open>wsgi.py\<close>, \<open>asgi.py\<close>, \<open>celery.py\<close> and the bot select the settings
  module unless the environment already names one.
\<close>

definition setdefault :: "string \<Rightarrow> string \<Rightarrow> (string \<Rightarrow> string option) \<Rightarrow> string \<Rightarrow> string option" where
  "setdefault k v env = (case env k of None \<Rightarrow> env(k \<mapsto> v) | Some _ \<Rightarrow> env)"

definition select_settings :: "(string \<Rightarrow> string option) \<Rightarrow> string \<Rightarrow> string option" where
  "select_settings = setdefault ''DJANGO_SETTINGS_MODULE'' ''sshvpn.settings''"

text \<open>\<open>sshvpn/celery.py\<close>: the application, which takes the settings that begin with its namespace.\<close>

record celery_app =
  cap_name :: string
  cap_settings :: string
  cap_namespace :: string

definition panel_celery_app :: celery_app where
  "panel_celery_app = \<lparr>cap_name = ''sshvpn'', cap_settings = ''django.conf:settings'', cap_namespace = ''CELERY''\<rparr>"

text \<open>
  \<open>manage.py\<close>: \<open>execute\<close> is Django's \<open>execute_from_command_line\<close>, \<open>None\<close> when it cannot
  be imported.
\<close>

definition manage_main ::
  "((string \<Rightarrow> string option) \<Rightarrow> string list \<Rightarrow> 'r) option \<Rightarrow> (string \<Rightarrow> string option) \<Rightarrow> string list \<Rightarrow>
   exn + 'r" where
  "manage_main execute env argv =
     (let env' = select_settings env
      in case execute of
           None \<Rightarrow> Inl (OtherError
             (''Couldn'' @ [squote] @ ''t import Django. Are you sure it'' @ [squote] @ ''s installed and '' @
              ''available on your PYTHONPATH environment variable? Did you '' @
              ''forget to activate a virtual environment?''))
         | Some ex \<Rightarrow> Inr (ex env' argv))"

text \<open>The \<open>AppConfig\<close> of each application.\<close>

record app_config =
  app_default_auto_field :: string
  app_name :: string

definition app_config_of :: "string \<Rightarrow> app_config" where
  "app_config_of name = \<lparr>app_default_auto_field = ''django.db.models.BigAutoField'', app_name = name\<rparr>"

definition accounts_app :: app_config where "accounts_app = app_config_of ''accounts''"
definition servers_app :: app_config where "servers_app = app_config_of ''servers''"
definition plans_app :: app_config where "plans_app = app_config_of ''plans''"
definition api_app :: app_config where "api_app = app_config_of ''api''"


section \<open>Facts\<close>

lemma security_of_use_ssl [simp]: "sec_use_ssl (security_of debug use_ssl) = use_ssl"
  by (simp add: security_of_def Let_def)

lemma load_settings_Inr:
  assumes "load_settings D base ex = Inr S"
  shows "config_bool D ''DEBUG'' False = Inr (set_debug S)"
    and "config_bool D ''USE_SSL'' False = Inr (sec_use_ssl (set_security S))"
    and "set_security S = security_of (set_debug S) (sec_use_ssl (set_security S))"
    and "set_allowed_hosts S = allowed_hosts D"
    and "set_secret_key S = config D ''SECRET_KEY'' default_secret_key"
  using assms by (auto simp: load_settings_def res_bind_Inr)

lemma allowed_hosts_local: "''*'' \<in> set (allowed_hosts D) \<or> ''localhost'' \<in> set (allowed_hosts D)"
  by (simp add: allowed_hosts_def Let_def)

lemma allowed_hosts_kept: "set (config_csv D ''ALLOWED_HOSTS'' ''*'') \<subseteq> set (allowed_hosts D)"
  by (auto simp: allowed_hosts_def Let_def)

text \<open>
  The default permission of the views is the one class the settings name; the token
  authentication is switched on while the application that stores tokens is not
  installed.
\<close>

definition permission_class :: "permission \<Rightarrow> string" where
  "permission_class p = ''rest_framework.permissions.'' @
     (case p of IsAdminUser \<Rightarrow> ''IsAdminUser'' | IsAuthenticated \<Rightarrow> ''IsAuthenticated'' | AllowAny \<Rightarrow> ''AllowAny'')"

lemma default_permission_class: "rest_permission rest_framework = [permission_class default_permission]"
  by (simp add: rest_framework_def permission_class_def default_permission_def)

lemma token_authentication_without_tokens:
  "''rest_framework.authentication.TokenAuthentication'' \<in> set (rest_authentication rest_framework)"
  "''rest_framework.authtoken'' \<notin> set installed_apps"
  by (simp_all add: rest_framework_def installed_apps_def)

lemma local_apps_installed:
  "app_name ` {accounts_app, servers_app, plans_app, api_app} \<subseteq> set installed_apps"
  by (simp add: accounts_app_def servers_app_def plans_app_def api_app_def app_config_of_def installed_apps_def)

end
