(* ===== verification/Panel.thy ===== *)
theory Panel
  imports AccountTasks Commands TelegramBot AdminActions Settings
begin

text \<open>
  The panel as one system: every way its code is entered, the requests to the API
  with the permission each address asks for, the jobs of the scheduler, the
  commands of the bot, the actions of the admin site and the management commands.
  \<open>perform\<close> runs one of them; \<open>panel_step\<close> and \<open>reachable\<close> are the states the
  system can be in.
\<close>

section \<open>Requests\<close>

text \<open>What the query of a request to a list view says: the page, 1 when it is not named, and the rest.\<close>

record list_query =
  lq_page :: nat
  lq_params :: query_params

datatype http_call =
    CallLogin string string
  | CallLogout
  | CallMe
  | CallDashboard
  | CallServerList list_query
  | CallServerCreate server_data
  | CallServerDetail nat
  | CallServerUpdate nat server
  | CallServerDestroy nat
  | CallServerHealth nat
  | CallServerSetStatus nat request_data
  | CallPlanList list_query
  | CallPlanCreate plan
  | CallPlanDetail nat
  | CallPlanUpdate nat plan
  | CallPlanDestroy nat
  | CallAccountList list_query
  | CallAccountDetail nat
  | CallAccountUpdate nat request_data
  | CallCreateAccount request_data
  | CallBulkCreate request_data
  | CallDeleteAccount nat
  | CallSuspendAccount nat
  | CallActivateAccount nat
  | CallExtendAccount nat request_data
  | CallResetPassword nat
  | CallSessionList list_query
  | CallLogList list_query
  | CallPaymentWebhook request_data
  | CallPublicStatus uuid
  | CallPublicPlans
  | CallShadowLinkAccounts list_query
  | CallShadowLinkCreate request_data
  | CallShadowLinkConfig uuid
  | CallShadowLinkDeploy nat string
  | CallShadowLinkStatus nat

fun endpoint_of :: "http_call \<Rightarrow> endpoint" where
  "endpoint_of (CallLogin _ _) = AuthLogin"
| "endpoint_of CallLogout = AuthLogout"
| "endpoint_of CallMe = AuthMe"
| "endpoint_of CallDashboard = Dashboard"
| "endpoint_of (CallServerList _) = ServerList"
| "endpoint_of (CallServerCreate _) = ServerList"
| "endpoint_of (CallServerDetail _) = ServerDetail"
| "endpoint_of (CallServerUpdate _ _) = ServerDetail"
| "endpoint_of (CallServerDestroy _) = ServerDetail"
| "endpoint_of (CallServerHealth _) = ServerHealth"
| "endpoint_of (CallServerSetStatus _ _) = ServerSetStatus"
| "endpoint_of (CallPlanList _) = PlanList"
| "endpoint_of (CallPlanCreate _) = PlanList"
| "endpoint_of (CallPlanDetail _) = PlanDetail"
| "endpoint_of (CallPlanUpdate _ _) = PlanDetail"
| "endpoint_of (CallPlanDestroy _) = PlanDetail"
| "endpoint_of (CallAccountList _) = AccountList"
| "endpoint_of (CallAccountDetail _) = AccountDetail"
| "endpoint_of (CallAccountUpdate _ _) = AccountUpdate"
| "endpoint_of (CallCreateAccount _) = CreateAccount"
| "endpoint_of (CallBulkCreate _) = BulkCreate"
| "endpoint_of (CallDeleteAccount _) = DeleteAccount"
| "endpoint_of (CallSuspendAccount _) = SuspendAccount"
| "endpoint_of (CallActivateAccount _) = ActivateAccount"
| "endpoint_of (CallExtendAccount _ _) = ExtendAccount"
| "endpoint_of (CallResetPassword _) = ResetPassword"
| "endpoint_of (CallSessionList _) = SessionList"
| "endpoint_of (CallLogList _) = LogList"
| "endpoint_of (CallPaymentWebhook _) = PaymentWebhook"
| "endpoint_of (CallPublicStatus _) = PublicStatus"
| "endpoint_of CallPublicPlans = PublicPlans"
| "endpoint_of (CallShadowLinkAccounts _) = ShadowLinkAccounts"
| "endpoint_of (CallShadowLinkCreate _) = ShadowLinkCreate"
| "endpoint_of (CallShadowLinkConfig _) = ShadowLinkConfig"
| "endpoint_of (CallShadowLinkDeploy _ _) = ShadowLinkDeploy"
| "endpoint_of (CallShadowLinkStatus _) = ShadowLinkStatus"

text \<open>
  The list views answer with one page, \<open>PAGE_SIZE\<close> rows of the settings, of the rows that the
  filter backends of the settings select from the queryset, and with the links to the
  pages around it. Page 1 always exists.
\<close>

definition page_size :: nat where
  "page_size = rest_page_size rest_framework"

definition page_count :: "'a list \<Rightarrow> nat" where
  "page_count xs = max 1 ((length xs + (page_size - 1)) div page_size)"

definition page_of :: "nat \<Rightarrow> 'a list \<Rightarrow> 'a list" where
  "page_of n xs = take page_size (drop ((n - 1) * page_size) xs)"

definition narrowed :: "nat list \<Rightarrow> 'a list \<Rightarrow> 'a list" where
  "narrowed is xs = map (\<lambda>i. xs ! i) (filter (\<lambda>i. i < length xs) is)"

definition page_response :: "'w drf \<Rightarrow> listing \<Rightarrow> list_query \<Rightarrow> 'a list \<Rightarrow> json list \<Rightarrow> response" where
  "page_response F l q xs js =
     (let n = lq_page q; link = drf_page_link F (lst_view l) (lq_params q)
      in Response 200 (JObj
           [(''count'', j_nat (length xs)),
            (''next'', if n < page_count xs then JStr (link (n + 1)) else JNull),
            (''previous'', if 1 < n then JStr (link (n - 1)) else JNull),
            (''results'', JList js)]))"

definition list_response ::
  "'w drf \<Rightarrow> listing \<Rightarrow> list_query \<Rightarrow> ('a \<Rightarrow> ('w sys, json) py) \<Rightarrow> (database \<Rightarrow> 'a list) \<Rightarrow>
   ('w sys, response) py" where
  "list_response F l q ser rows =
     py_bind (query rows) (\<lambda>all.
     py_bind (query (drf_select F (rest_filter_backends rest_framework) l (lq_params q))) (\<lambda>selection.
     py_bind (lift_result (map_sum ValidationError (\<lambda>is. narrowed is all) selection)) (\<lambda>xs.
       if lq_page q < 1 \<or> page_count xs < lq_page q then py_raise (Http404 ''Invalid page.'')
       else
         py_bind (py_fold (\<lambda>js x. py_bind (ser x) (\<lambda>j. py_return (js @ [j]))) [] (page_of (lq_page q) xs)) (\<lambda>js.
           py_return (page_response F l q xs js)))))"

text \<open>Going through the pages in order shows every row once.\<close>

lemma pages_cover:
  "concat (map (\<lambda>n. page_of n xs) [1..<Suc (page_count xs)]) = xs"
proof -
  have size: "page_size = 25" by (simp add: page_size_def rest_framework_def)
  have upto: "concat (map (\<lambda>n. page_of n xs) [1..<Suc k]) = take (k * page_size) xs" for k
    by (induction k) (simp_all add: page_of_def take_add [symmetric] add.commute)
  have "length xs \<le> page_count xs * page_size" by (simp add: page_count_def size)
  with upto show ?thesis by simp
qed

fun view :: "'w env \<Rightarrow> 'w drf \<Rightarrow> user option \<Rightarrow> http_call \<Rightarrow> ('w sys, response) py" where
  "view E F u (CallLogin name pw) = login_view F name pw"
| "view E F u CallLogout = logout_view F"
| "view E F u CallMe = (case u of Some usr \<Rightarrow> me_view usr | None \<Rightarrow> py_raise (OtherError ''AnonymousUser''))"
| "view E F u CallDashboard = dashboard_view F"
| "view E F u (CallServerList q) = list_response F (plain_listing ''ServerListView'') q (serialize_server F) (server_list E)"
| "view E F u (CallServerCreate d) = server_create_view E F d"
| "view E F u (CallServerDetail i) = server_detail_view F i"
| "view E F u (CallServerUpdate i new) = server_update_view E F i new"
| "view E F u (CallServerDestroy i) = server_destroy_view i"
| "view E F u (CallServerHealth i) = server_health_check_view E i"
| "view E F u (CallServerSetStatus i d) = server_set_status_view E i d"
| "view E F u (CallPlanList q) = list_response F (plain_listing ''PlanListView'') q (\<lambda>p. py_return (serialize_plan F p)) active_plan_list"
| "view E F u (CallPlanCreate p) = plan_create_view E F p"
| "view E F u (CallPlanDetail i) = plan_detail_view F i"
| "view E F u (CallPlanUpdate i p) = plan_update_view F i p"
| "view E F u (CallPlanDestroy i) = plan_destroy_view i"
| "view E F u (CallAccountList q) = list_response F account_listing q (serialize_account E F) account_list"
| "view E F u (CallAccountDetail i) = account_detail_view E F i"
| "view E F u (CallAccountUpdate i d) = account_update_view E F i d"
| "view E F u (CallCreateAccount d) = create_account_view E F (map_option usr_id u) d"
| "view E F u (CallBulkCreate d) = bulk_create_view E F (map_option usr_id u) d"
| "view E F u (CallDeleteAccount i) = delete_account_view E (map_option usr_id u) i"
| "view E F u (CallSuspendAccount i) = suspend_account_view E (map_option usr_id u) i"
| "view E F u (CallActivateAccount i) = activate_account_view E (map_option usr_id u) i"
| "view E F u (CallExtendAccount i d) = extend_account_view E F (map_option usr_id u) i d"
| "view E F u (CallResetPassword i) = reset_password_view E (map_option usr_id u) i"
| "view E F u (CallSessionList q) = list_response F session_listing q (serialize_session F) sessions"
| "view E F u (CallLogList q) =
     list_response F log_listing q (\<lambda>l. query (\<lambda>d. serialize_log F d l)) (\<lambda>d. newest_logs (length (logs d)) d)"
| "view E F u (CallPaymentWebhook d) = payment_webhook_view E F d"
| "view E F u (CallPublicStatus token) = public_status_view E F token"
| "view E F u CallPublicPlans = public_plan_list_view F"
| "view E F u (CallShadowLinkAccounts q) = list_response F (plain_listing ''ShadowLinkAccountListView'') q (serialize_shadowlink E F) shadowlink_account_list"
| "view E F u (CallShadowLinkCreate d) = create_shadowlink_account_view E F (map_option usr_id u) d"
| "view E F u (CallShadowLinkConfig token) = shadowlink_client_config_view token"
| "view E F u (CallShadowLinkDeploy i path) = shadowlink_deploy_view E i path"
| "view E F u (CallShadowLinkStatus i) = shadowlink_status_view E i"

definition denied :: response where
  "denied = Response 403 (detail ''You do not have permission to perform this action.'')"

definition serve :: "'w env \<Rightarrow> 'w drf \<Rightarrow> user option \<Rightarrow> http_call \<Rightarrow> ('w sys, response) py" where
  "serve E F u c =
     (if admits (endpoint_permission (endpoint_of c)) u then view E F u c else py_return denied)"


section \<open>Jobs\<close>

datatype job =
    ExpireUsers
  | CleanupExpired int
  | SyncBandwidth
  | SyncSessions
  | CheckAllHealth
  | CheckOneHealth nat
  | RebalanceUsers nat

fun run_job :: "'w env \<Rightarrow> job \<Rightarrow> ('w sys, unit) py" where
  "run_job E ExpireUsers = py_then (expire_users E) (py_return ())"
| "run_job E (CleanupExpired n) = py_then (cleanup_expired_accounts E n) (py_return ())"
| "run_job E SyncBandwidth = sync_bandwidth_usage E"
| "run_job E SyncSessions = sync_active_sessions E"
| "run_job E CheckAllHealth = check_all_servers_health E"
| "run_job E (CheckOneHealth i) = py_then (check_single_server E i) (py_return ())"
| "run_job E (RebalanceUsers i) = py_then (rebalance_users E i) (py_return ())"

text \<open>
  \<open>sshvpn/celery.py\<close>: the schedule, and the job a task name stands for when it is
  called without arguments (\<open>grace_days\<close> is 3 by default).
\<close>

datatype schedule = EveryMinutes nat | DailyAt nat nat | EverySeconds nat

definition beat_schedule :: "(string \<times> string \<times> schedule) list" where
  "beat_schedule =
     [(''expire-users-every-5-min'', ''accounts.tasks.expire_users'', EveryMinutes 5),
      (''cleanup-deleted-accounts-daily'', ''accounts.tasks.cleanup_expired_accounts'', DailyAt 3 0),
      (''server-health-check-every-minute'', ''servers.tasks.check_all_servers_health'', EveryMinutes 1),
      (''sync-active-sessions-every-30-sec'', ''accounts.tasks.sync_active_sessions'', EverySeconds 30),
      (''sync-bandwidth-every-5-min'', ''accounts.tasks.sync_bandwidth_usage'', EveryMinutes 5)]"

definition job_named :: "string \<Rightarrow> job option" where
  "job_named name =
     map_of [(''accounts.tasks.expire_users'', ExpireUsers),
             (''accounts.tasks.cleanup_expired_accounts'', CleanupExpired 3),
             (''accounts.tasks.sync_bandwidth_usage'', SyncBandwidth),
             (''accounts.tasks.sync_active_sessions'', SyncSessions),
             (''servers.tasks.check_all_servers_health'', CheckAllHealth)] name"


section \<open>The system\<close>

datatype activity =
    HttpCall "user option" http_call
  | RunJob job
  | BotPlans
  | BotBuy "string list"
  | BotStatus "string list"
  | AdminSuspend "nat option" "nat list"
  | AdminActivate "nat option" "nat list"
  | AdminDelete "nat option" "nat list"
  | SetupServer setup_options
  | SeedPlans

definition selected :: "nat list \<Rightarrow> database \<Rightarrow> account list" where
  "selected is d = newest_first (filter (\<lambda>a. acc_id a \<in> set is) (accounts d))"

fun perform :: "'w env \<Rightarrow> 'w drf \<Rightarrow> bool \<Rightarrow> activity \<Rightarrow> ('w sys, unit) py" where
  "perform E F b (HttpCall u c) = py_then (serve E F u c) (py_return ())"
| "perform E F b (RunJob j) = run_job E j"
| "perform E F b BotPlans = py_then (plans_cmd b) (py_return ())"
| "perform E F b (BotBuy args) = py_then (buy_cmd b E args) (py_return ())"
| "perform E F b (BotStatus args) = py_then (status_cmd b E args) (py_return ())"
| "perform E F b (AdminSuspend admin is) = py_then (action_suspend E admin (selected is)) (py_return ())"
| "perform E F b (AdminActivate admin is) = py_then (action_activate E admin (selected is)) (py_return ())"
| "perform E F b (AdminDelete admin is) = py_then (action_delete_accounts E admin (selected is)) (py_return ())"
| "perform E F b (SetupServer opts) = py_then (setup_server E opts) (py_return ())"
| "perform E F b SeedPlans = seedplans E"

text \<open>
  One step is one activity that runs to its end, normally or with an exception.
  Every activity may meet a new world: what happens outside the panel in between
  is any change of it.
\<close>

inductive panel_step :: "'w env \<Rightarrow> 'w drf \<Rightarrow> bool \<Rightarrow> 'w sys \<Rightarrow> 'w sys \<Rightarrow> bool" for E F b where
  perform_step: "panel_step E F b s (snd (perform E F b act s))"
| world_step: "panel_step E F b s (s\<lparr>world := w\<rparr>)"
| worker_restart: "panel_step E F b s (s\<lparr>health_fails := (\<lambda>i. None)\<rparr>)"

inductive reachable :: "'w env \<Rightarrow> 'w drf \<Rightarrow> bool \<Rightarrow> 'w sys \<Rightarrow> 'w sys \<Rightarrow> bool" for E F b where
  reach_start: "reachable E F b s s"
| reach_step: "reachable E F b s t \<Longrightarrow> panel_step E F b t u \<Longrightarrow> reachable E F b s u"

inductive_cases panel_stepE: "panel_step E F b s t"
inductive_simps reachable_iff: "reachable E F b s t"


section \<open>Effects on the database\<close>

lemma list_response_same_db [steps_intro]:
  "(\<And>x. steps same_db (ser x)) \<Longrightarrow> steps same_db (list_response F l q ser rows)"
  unfolding list_response_def by (intro steps_intro)

lemma list_views_same_db [steps_intro]:
  "steps same_db (list_response F l q (serialize_server F) r1)"
  "steps same_db (list_response F l q (serialize_account E F) r2)"
  "steps same_db (list_response F l q (serialize_shadowlink E F) r2)"
  "steps same_db (list_response F l q (serialize_session F) r3)"
  "steps same_db (list_response F l q (\<lambda>p. py_return (serialize_plan F p)) r4)"
  "steps same_db (list_response F l q (\<lambda>x. query (\<lambda>d. serialize_log F d x)) r5)"
  by (intro steps_intro)+

context statement_effect
begin

lemmas steps_list_views [steps_intro] = list_views_same_db [THEN steps_same_db]

lemma steps_view: "steps (\<lambda>s t. D (db s) (db t)) (view E F u c)"
  by (cases c) (simp_all only: view.simps, (intro steps_intro)+)

lemma steps_serve [steps_intro]: "steps (\<lambda>s t. D (db s) (db t)) (serve E F u c)"
  unfolding serve_def by (intro steps_intro steps_view)

lemma steps_run_job [steps_intro]: "steps (\<lambda>s t. D (db s) (db t)) (run_job E j)"
  by (cases j) (simp_all only: run_job.simps, (intro steps_intro)+)

lemma steps_perform: "steps (\<lambda>s t. D (db s) (db t)) (perform E F b act)"
  by (cases act) (simp_all only: perform.simps, (intro steps_intro)+)

lemma panel_step_effect: "panel_step E F b s t \<Longrightarrow> D (db s) (db t)"
  by (induction rule: panel_step.induct) (auto intro: stepsD [OF steps_perform] D_refl)

lemma reachable_effect: "reachable E F b s t \<Longrightarrow> D (db s) (db t)"
  by (induction rule: reachable.induct) (auto intro: D_refl D_trans panel_step_effect)

end

end
