(* ===== verification/ApiFacts.thy ===== *)
theory ApiFacts
  imports Panel TaskFacts
begin

text \<open>
  What the views of the API do, on top of the facts of the services they call: who can
  reach what, the payment webhook, the two public pages, the actions of the admin site
  and the seed command.
\<close>

section \<open>Views that only read\<close>

lemma lookup_quiet [steps_intro]:
  "steps quiet (get_object_or_404 f)" "steps quiet (plan_or_404 b i)" "steps quiet (server_or_404 i)"
  "steps quiet (shadowlink_server_or_404 n)" "steps quiet (account_or_404 n)" "steps quiet (optional_server k)"
  unfolding get_object_or_404_def plan_or_404_def server_or_404_def shadowlink_server_or_404_def
    account_or_404_def optional_server_def
  by (intro steps_intro)+

lemma open_views_quiet [steps_intro]:
  "steps quiet (login_view F u p)" "steps quiet (logout_view F)" "steps quiet (me_view usr)"
  "steps quiet (public_status_view E F token)" "steps quiet (public_plan_list_view F)"
  "steps quiet (shadowlink_client_config_view token)"
  unfolding login_view_def logout_view_def me_view_def public_status_view_def public_plan_list_view_def
    shadowlink_client_config_view_def serialize_public_def
  by (intro steps_intro)+

lemma serialize_account_quiet: "steps quiet (serialize_account E F a)"
  unfolding serialize_account_def by (intro steps_intro)

definition is_admin :: "user option \<Rightarrow> bool" where
  "is_admin u \<longleftrightarrow> (case u of None \<Rightarrow> False | Some usr \<Rightarrow> usr_is_staff usr)"

lemma admits_admin: "admits IsAdminUser u \<longleftrightarrow> is_admin u"
  by (simp add: admits_def is_admin_def)

lemma endpoint_permission_simps [simp]:
  "endpoint_permission ep = (case ep of
     AuthLogin \<Rightarrow> AllowAny | AuthLogout \<Rightarrow> IsAuthenticated | AuthMe \<Rightarrow> IsAuthenticated
   | PaymentWebhook \<Rightarrow> AllowAny | PublicStatus \<Rightarrow> AllowAny | PublicPlans \<Rightarrow> AllowAny
   | ShadowLinkConfig \<Rightarrow> AllowAny | _ \<Rightarrow> IsAdminUser)"
  by (cases ep) (simp_all add: endpoint_permission_def default_permission_def default_to_def)

lemma serve_not_admin:
  assumes "\<not> is_admin u" and "endpoint_of c \<noteq> PaymentWebhook"
  shows "steps quiet (serve E F u c)"
proof -
  have err: "steps quiet (case u of Some usr \<Rightarrow> me_view usr | None \<Rightarrow> py_raise e)" for e :: exn
    by (intro steps_intro)
  show ?thesis
    using assms
    by (cases c) (auto simp: serve_def admits_admin intro!: steps_intro err)
qed


section \<open>The payment webhook\<close>

lemma plan_or_404_Inr:
  "plan_or_404 b i s = (Inr p, t) \<Longrightarrow>
   t = s \<and> p \<in> set (plans (db s)) \<and> int (plan_id p) = i \<and> (b \<longrightarrow> plan_is_active p)"
  by (auto simp: plan_or_404_def get_object_or_404_def query_def py_bind_def py_get_def py_return_def py_raise_def
      split: option.splits dest: find_SomeD)

text \<open>What a paid request does: the account that is extended, or the account that is made.\<close>

definition paid_effect :: "'w env \<Rightarrow> string \<Rightarrow> plan \<Rightarrow> response \<Rightarrow> 'w sys \<Rightarrow> 'w sys \<Rightarrow> bool" where
  "paid_effect E username p resp s t \<longleftrightarrow>
     (case payable username (db s) of
        Some acc \<Rightarrow> (\<exists>acc'. extend_account E acc (plan_duration_days p) None s = (Inr acc', t)) \<and>
          resp = Response 200 (detail (''Extended '' @ acc_username acc @ '' by '' @ show_int (plan_duration_days p) @ ''d.''))
      | None \<Rightarrow>
          (\<exists>a u j. create_account E (default_args username p) s = (Inr a, u) \<and> quiet u t \<and> resp = Response 201 j) \<or>
          (\<exists>m. resp = Response 400 (detail m) \<and> same_tables (db s) (db t)))"

lemma catching_account_error_Inr:
  assumes "catching_account_error m k s = (Inr resp, t)"
  obtains (ran) x u where "m s = (Inr x, u)" "k x u = (Inr resp, t)"
  | (refused) msg where "m s = (Inl (AccountError msg), t)" "resp = Response 400 (detail msg)"
proof (cases "m s")
  case (Pair r u)
  show ?thesis
  proof (cases r)
    case (Inr x)
    with Pair assms have "k x u = (Inr resp, t)"
      by (simp add: catching_account_error_def py_bind_def py_try_def py_return_def)
    with Pair Inr show ?thesis by (intro ran) auto
  next
    case (Inl e)
    with Pair assms have "\<exists>msg. e = AccountError msg \<and> u = t \<and> resp = Response 400 (detail msg)"
      by (cases e) (auto simp: catching_account_error_def py_bind_def py_try_def py_return_def py_raise_def)
    with Pair Inl show ?thesis by (auto intro: refused)
  qed
qed

lemma payment_webhook_Inr:
  assumes run: "payment_webhook_view E F data s = (Inr resp, t)"
  obtains d where "validate_payment F data = Inr d"
    "pd_status d \<noteq> ''paid'' \<Longrightarrow> t = s \<and> resp = Response 200 (detail ''Payment not confirmed.'')"
    "pd_status d = ''paid'' \<Longrightarrow> \<exists>p. p \<in> set (plans (db s)) \<and> int (plan_id p) = pd_plan_id d \<and>
       paid_effect E (pd_username d) p resp s t"
proof -
  define paid where "paid = ''paid''"
  define ext where "ext acc p = Response 200 (detail
      (''Extended '' @ acc_username acc @ '' by '' @ show_int (plan_duration_days p) @ ''d.''))" for acc :: account and p :: plan
  define refusal where "refusal = ''Payment not confirmed.''"
  from run obtain d s1 where lift: "lift_result (validate_payment F data) s = (Inr d, s1)"
    and rest: "(if pd_status d \<noteq> paid then py_return (Response 200 (detail refusal))
       else
         py_bind (plan_or_404 False (pd_plan_id d)) (\<lambda>p.
         py_bind (query (payable (pd_username d))) (\<lambda>existing.
           case existing of
             Some acc \<Rightarrow>
               py_then (extend_account E acc (plan_duration_days p) None)
                 (py_return (ext acc p))
           | None \<Rightarrow>
               catching_account_error (create_account E (default_args (pd_username d) p))
                 (\<lambda>acc. py_bind (serialize_account E F acc) (\<lambda>j. py_return (Response 201 j)))))) s1 = (Inr resp, t)"
    unfolding payment_webhook_view_def paid_def refusal_def ext_def by (rule py_bind_InrE)
  have d: "validate_payment F data = Inr d" "s1 = s"
    using lift by (auto simp: lift_result_def py_return_def py_raise_def split: sum.splits)
  show ?thesis
  proof (rule that [OF d(1)])
    assume "pd_status d \<noteq> ''paid''"
    with rest show "t = s \<and> resp = Response 200 (detail ''Payment not confirmed.'')"
      unfolding paid_def [symmetric] refusal_def [symmetric] by (simp add: py_return_def d)
  next
    assume "pd_status d = ''paid''"
    with rest obtain p s2 acc s3 where plan: "plan_or_404 False (pd_plan_id d) s = (Inr p, s2)"
      and q: "query (payable (pd_username d)) s2 = (Inr acc, s3)"
      and more: "(case acc of
             Some acc \<Rightarrow>
               py_then (extend_account E acc (plan_duration_days p) None)
                 (py_return (ext acc p))
           | None \<Rightarrow>
               catching_account_error (create_account E (default_args (pd_username d) p))
                 (\<lambda>acc. py_bind (serialize_account E F acc) (\<lambda>j. py_return (Response 201 j)))) s3 = (Inr resp, t)"
      unfolding paid_def [symmetric] d(2) by (auto elim!: py_bind_InrE)
    have s2: "s2 = s" using plan_or_404_Inr [OF plan] by simp
    have s3: "s3 = s" "acc = payable (pd_username d) (db s)"
      using q by (auto simp: query_def py_get_def s2)
    have "paid_effect E (pd_username d) p resp s t"
    proof (cases acc)
      case (Some a)
      from more [unfolded Some option.case s3(1)] have "(\<exists>acc'. extend_account E a (plan_duration_days p) None s = (Inr acc', t)) \<and>
          resp = ext a p"
        by (rule py_then_InrE) (auto simp: py_return_def)
      then show ?thesis using Some s3(2) unfolding ext_def by (simp add: paid_effect_def)
    next
      case None
      from more [unfolded None option.case s3(1)] show ?thesis
      proof (cases rule: catching_account_error_Inr)
        case (ran a u)
        then have "quiet u t \<and> (\<exists>j. resp = Response 201 j)"
          by (auto elim!: py_bind_InrE simp: py_return_def dest!: steps_run [OF serialize_account_quiet])
        with ran show ?thesis using None s3(2) unfolding paid_effect_def by auto
      next
        case (refused msg)
        then have "same_tables (db s) (db t)" unfolding create_account_def by (auto dest: atomic_Inl)
        with refused show ?thesis using None s3(2) unfolding paid_effect_def by auto
      qed
    qed
    with plan_or_404_Inr [OF plan] show "\<exists>p. p \<in> set (plans (db s)) \<and> int (plan_id p) = pd_plan_id d \<and>
       paid_effect E (pd_username d) p resp s t" by blast
  qed
qed

lemma payment_webhook_ignores:
  assumes "validate_payment F data = Inr d" "validate_payment F data' = Inr d'"
    and "pd_username d' = pd_username d" "pd_plan_id d' = pd_plan_id d" "pd_status d' = pd_status d"
  shows "payment_webhook_view E F data' = payment_webhook_view E F data"
  using assms by (simp add: payment_webhook_view_def lift_result_def py_bind_def py_return_def fun_eq_iff)


section \<open>The public pages\<close>

lemma get_object_or_404_Inr: "get_object_or_404 f s = (Inr x, t) \<longleftrightarrow> t = s \<and> f (db s) = Some x"
  by (auto simp: get_object_or_404_def query_def py_bind_def py_get_def py_return_def py_raise_def
      split: option.splits)

text \<open>An account without what its public page must not show.\<close>

definition redact :: "account \<Rightarrow> account" where
  "redact a = a\<lparr>acc_password_display := '''', acc_auth_token := 0, acc_note := '''', acc_created_by := None\<rparr>"

definition redacted :: "'w sys \<Rightarrow> 'w sys" where
  "redacted s = s\<lparr>db := (db s)\<lparr>accounts := map redact (accounts (db s))\<rparr>\<rparr>"

lemma redact_simps [simp]:
  "acc_id (redact a) = acc_id a" "acc_username (redact a) = acc_username a" "acc_server (redact a) = acc_server a"
  "acc_plan (redact a) = acc_plan a" "acc_status (redact a) = acc_status a"
  "acc_expire_date (redact a) = acc_expire_date a" "acc_max_connections (redact a) = acc_max_connections a"
  "acc_bandwidth_limit_gb (redact a) = acc_bandwidth_limit_gb a"
  "acc_bandwidth_used_gb (redact a) = acc_bandwidth_used_gb a" "acc_access_token (redact a) = acc_access_token a"
  "acc_created_at (redact a) = acc_created_at a"
  by (simp_all add: redact_def)

lemma redacted_simps [simp]:
  "world (redacted s) = world s" "servers (db (redacted s)) = servers (db s)" "plans (db (redacted s)) = plans (db s)"
  "accounts (db (redacted s)) = map redact (accounts (db s))"
  "(redacted s)\<lparr>world := w\<rparr> = redacted (s\<lparr>world := w\<rparr>)"
  by (simp_all add: redacted_def)

lemma find_map: "find P (map f xs) = map_option f (find (\<lambda>x. P (f x)) xs)"
  by (induction xs) auto

lemma serialize_public_redacted:
  "serialize_public E F (redact a) (redacted s) =
     (fst (serialize_public E F a s), redacted (snd (serialize_public E F a s)))"
  by (simp add: serialize_public_def py_bind_def get_server_def query_def found_def py_get_def py_return_def
      py_raise_def now_def ask_def plan_of_def days_remaining_def is_expired_def db_server_def db_plan_def
      split: option.splits prod.splits)

lemma public_status_redacted:
  "public_status_view E F token (redacted s) =
     (fst (public_status_view E F token s), redacted (snd (public_status_view E F token s)))"
proof (cases "find (\<lambda>a. acc_access_token a = token) (accounts (db s))")
  case None
  then show ?thesis
    by (simp add: public_status_view_def get_object_or_404_def py_bind_def query_def py_get_def py_raise_def
        find_map)
next
  case (Some a)
  then have "public_status_view E F token v =
      py_bind (serialize_public E F b) (\<lambda>j. py_return (Response 200 j)) v"
    if "v = s \<and> b = a \<or> v = redacted s \<and> b = redact a" for v b
    using that
    by (auto simp: public_status_view_def get_object_or_404_def py_bind_def query_def py_get_def py_return_def
        find_map)
  from this [of s a] this [of "redacted s" "redact a"] show ?thesis
    by (auto simp: py_bind_def py_return_def serialize_public_redacted split: prod.splits sum.splits)
qed

lemma shadowlink_client_config_Inr:
  assumes "shadowlink_client_config_view token s = (Inr (Response st j), t)"
  shows "t = s \<and> (\<exists>acc. acc \<in> set (accounts (db s)) \<and> acc_auth_token acc = token \<and> acc_protocol_type acc = SHADOWLINK \<and>
    (if acc_status acc = Active
     then st = 200 \<and> (\<exists>srv. db_server (db s) (acc_server acc) = Some srv \<and> j = generate_client_config acc srv)
     else st = 403 \<and> j = detail ''Account is not active.''))"
proof -
  define msg where "msg = ''Account is not active.''"
  from assms obtain acc s1 where
    get: "get_object_or_404 (\<lambda>d. find (\<lambda>a. acc_auth_token a = token \<and> acc_protocol_type a = SHADOWLINK) (accounts d)) s
      = (Inr acc, s1)"
    and rest: "(if acc_status acc \<noteq> Active then py_return (Response 403 (detail msg))
       else py_bind (get_server (acc_server acc)) (\<lambda>srv.
              py_return (Response 200 (generate_client_config acc srv)))) s1 = (Inr (Response st j), t)"
    unfolding shadowlink_client_config_view_def msg_def by (rule py_bind_InrE)
  have acc: "s1 = s" "acc \<in> set (accounts (db s))" "acc_auth_token acc = token" "acc_protocol_type acc = SHADOWLINK"
    using get by (auto simp: get_object_or_404_Inr dest!: find_SomeD)
  have "t = s \<and> (if acc_status acc = Active
     then st = 200 \<and> (\<exists>srv. db_server (db s) (acc_server acc) = Some srv \<and> j = generate_client_config acc srv)
     else st = 403 \<and> j = detail msg)"
    using rest by (auto simp: py_return_def get_server_Inr acc elim!: py_bind_InrE split: if_splits)
  with acc show ?thesis unfolding msg_def by blast
qed


section \<open>Creating an account through the API\<close>

lemma validate_create_valid:
  "validate_create F data = Inr d \<Longrightarrow> search_name 2 31 (cd_username d)"
  by (auto simp: validate_create_def res_bind_Inr dest: required_Inr)

lemma create_account_view_Inr:
  assumes run: "create_account_view E F adm data s = (Inr (Response st j), t)"
  shows "(st = 400 \<and> same_tables (db s) (db t)) \<or>
    (st = 201 \<and> (\<exists>a. accounts (db t) = accounts (db s) @ [a] \<and> search_name 2 31 (acc_username a) \<and>
       acc_created_by a = adm \<and> acc_status a = Active \<and>
       (\<exists>p. p \<in> set (plans (db s)) \<and> plan_is_active p \<and> acc_plan a = Some (plan_id p)) \<and>
       (\<exists>det. audited CREATE (acc_id a) adm det (db s) (db t))))"
proof -
  from run obtain d s1 p s2 srv s3 where lift: "lift_result (validate_create F data) s = (Inr d, s1)"
    and plan: "plan_or_404 True (cd_plan_id d) s1 = (Inr p, s2)"
    and srv: "optional_server (cd_server_id d) s2 = (Inr srv, s3)"
    and rest: "catching_account_error
         (create_account E
            \<lparr>arg_username = cd_username d, arg_plan = p, arg_server = srv, arg_password = cd_password d,
             arg_admin_user = adm, arg_note = cd_note d, arg_duration_days = cd_duration_days d,
             arg_bandwidth_limit_gb = cd_bandwidth_limit_gb d, arg_max_connections = cd_max_connections d,
             arg_protocol_type = None\<rparr>)
         (\<lambda>acc. py_bind (serialize_account E F acc) (\<lambda>j. py_return (Response 201 j))) s3 = (Inr (Response st j), t)"
    unfolding create_account_view_def by (elim py_bind_InrE) blast
  have d: "validate_create F data = Inr d" "s1 = s"
    using lift by (auto simp: lift_result_def py_return_def py_raise_def split: sum.splits)
  have s2: "s2 = s" "p \<in> set (plans (db s))" "plan_is_active p" using plan_or_404_Inr [OF plan] by (simp_all add: d)
  have s3: "db s3 = db s" using steps_run [OF lookup_quiet(6) srv] by (simp add: s2)
  from rest show ?thesis
  proof (cases rule: catching_account_error_Inr)
    case (ran a u)
    from ran(2) have t: "db t = db u" "st = 201"
      by (auto elim!: py_bind_InrE simp: py_return_def dest!: steps_run [OF serialize_same_db(2)])
    from ran(1) show ?thesis
    proof (rule create_account_Inr, goal_cases)
      case (1 srv' w pw v1 v2)
      then show ?case
        using t s3 s2 validate_create_valid [OF d(1)] unfolding created_from_def by auto
    qed
  next
    case (refused msg)
    then have "same_tables (db s) (db t)" unfolding create_account_def by (auto dest!: atomic_Inl simp: s3)
    with refused show ?thesis by simp
  qed
qed


section \<open>The actions of the admin site\<close>

lemma selected_distinct: "db_wf d \<Longrightarrow> distinct (map acc_id (filter P (selected is d)))"
  unfolding selected_def by (intro distinct_map_filter distinct_newest_first wf_distinct_ids)

definition action_effect ::
  "account_status \<Rightarrow> audit_action \<Rightarrow> (account \<Rightarrow> bool) \<Rightarrow> nat list \<Rightarrow> nat \<Rightarrow> database \<Rightarrow> database \<Rightarrow> bool" where
  "action_effect st act P is n d d' \<longleftrightarrow>
     (\<exists>js. distinct js \<and> length js = n \<and> set js \<subseteq> acc_id ` set (filter P (selected is d)) \<and>
        rows_set st js d d' \<and> logged_each act js d d')"

context lifecycle
begin

lemma action_op:
  assumes wf: "db_wf (db s)"
    and run: "py_bind (query (\<lambda>d. filter P (selected is d))) (\<lambda>accs.
       py_bind (best_effort (\<lambda>acc. py_then (op E acc adm) (py_return ())) accs) (\<lambda>count. py_return (f count))) s
       = (r, t)"
  shows "\<exists>n. r = Inr (f n) \<and> action_effect st act P is n (db s) (db t)"
proof -
  let ?accs = "filter P (selected is (db s))"
  let ?body = "\<lambda>acc. py_then (op E acc adm) (py_return ())"
  obtain n u where loop: "best_effort ?body ?accs s = (Inr n, u)" using best_effort_returns [of ?body ?accs s] by blast
  with run have "r = Inr (f n)" "t = u" by (simp_all add: query_def py_bind_def py_get_def py_return_def)
  moreover have "action_effect st act P is n (db s) (db u)"
    using best_effort_op [OF loop selected_distinct [OF wf]] unfolding action_effect_def by blast
  ultimately show ?thesis by blast
qed

end

lemma action_suspend_run:
  assumes "db_wf (db s)" and "action_suspend E adm (selected is) s = (r, t)"
  shows "\<exists>n. r = Inr (action_message ''Suspended'' n) \<and>
    action_effect Suspended SUSPEND (\<lambda>a. acc_status a = Active) is n (db s) (db t)"
  by (rule sus.action_op [OF assms(1) assms(2) [unfolded action_suspend_def]])

lemma action_activate_run:
  assumes "db_wf (db s)" and "action_activate E adm (selected is) s = (r, t)"
  shows "\<exists>n. r = Inr (action_message ''Activated'' n) \<and>
    action_effect Active ACTIVATE (\<lambda>a. acc_status a = Suspended) is n (db s) (db t)"
  by (rule act.action_op [OF assms(1) assms(2) [unfolded action_activate_def]])

lemma action_delete_run:
  assumes "db_wf (db s)" and "action_delete_accounts E adm (selected is) s = (r, t)"
  shows "\<exists>n. r = Inr (action_message ''Deleted'' n) \<and>
    action_effect Deleted DELETE (\<lambda>a. acc_status a \<noteq> Deleted) is n (db s) (db t)"
  by (rule del.action_op [OF assms(1) assms(2) [unfolded action_delete_accounts_def]])


section \<open>Seeding the plans\<close>

definition plan_named :: "string \<Rightarrow> database \<Rightarrow> bool" where
  "plan_named name d \<longleftrightarrow> name \<in> plan_name ` set (plans d)"

lemma get_or_create_present:
  assumes "plan_named (plan_name p) (db s)"
  obtains r where "get_or_create_plan E p s = (Inr (r, False), s)"
proof -
  have "find (\<lambda>r. plan_name r = plan_name p) (plans (db s)) \<noteq> None"
    using assms unfolding plan_named_def find_None_iff by auto
  then show ?thesis
    by (auto simp: get_or_create_plan_def query_def py_bind_def py_get_def py_return_def intro: that)
qed

text \<open>Plans and their names are only added.\<close>

definition plans_added :: "database \<Rightarrow> database \<Rightarrow> bool" where
  "plans_added d d' \<longleftrightarrow>
     (\<exists>new. plans d' = plans d @ new) \<and> accounts d' = accounts d \<and> logs d' = logs d"

lemma plans_added_trans: "plans_added a b \<Longrightarrow> plans_added b c \<Longrightarrow> plans_added a c"
  by (auto simp: plans_added_def)

lemma plans_added_named: "plans_added d d' \<Longrightarrow> plan_named n d \<Longrightarrow> plan_named n d'"
  by (auto simp: plans_added_def plan_named_def)

lemma get_or_create_Inr:
  assumes "get_or_create_plan E p s = (Inr r, t)"
  shows "plan_named (plan_name p) (db t) \<and> plans_added (db s) (db t)"
proof (cases "find (\<lambda>r. plan_name r = plan_name p) (plans (db s))")
  case (Some q)
  then have "t = s" using assms by (auto simp: get_or_create_plan_def query_def py_bind_def py_get_def py_return_def)
  with find_SomeD [OF Some] show ?thesis
    by (auto simp: plan_named_def plans_added_def image_iff) (metis)
next
  case None
  with assms obtain u s1 q where now: "now E s = (Inr u, s1)"
    and ins: "on_db (insert_plan (p\<lparr>plan_created_at := u\<rparr>)) s1 = (Inr q, t)"
    by (auto simp: get_or_create_plan_def query_def py_get_def py_return_def elim!: py_bind_InrE)
  have "quiet s s1" using steps_run [OF now_quiet now] .
  with ins show ?thesis
    by (auto simp: on_db_def insert_plan_def Let_def plan_named_def plans_added_def
        split: prod.splits option.splits)
qed

definition seed_one :: "'w env \<Rightarrow> plan \<Rightarrow> ('w sys, unit) py" where
  "seed_one E p = py_bind (get_or_create_plan E p) (\<lambda>r. write_line PlainStyle (seed_line r))"

lemma seedplans_eq: "seedplans E = py_then (py_for seed_defaults (seed_one E)) (write_line SuccessStyle ''Done.'')"
  by (simp add: seedplans_def seed_one_def [abs_def])

lemma seed_loop_Inr:
  "py_for ps (seed_one E) s = (Inr (), t) \<Longrightarrow>
   (\<forall>p \<in> set ps. plan_named (plan_name p) (db t)) \<and> plans_added (db s) (db t)"
proof (induction ps arbitrary: s)
  case Nil
  then show ?case by (simp add: py_return_def plans_added_def)
next
  case (Cons p ps)
  from Cons.prems obtain r s1 u s2 where first: "get_or_create_plan E p s = (Inr r, s1)"
    and line: "write_line PlainStyle (seed_line r) s1 = (Inr u, s2)"
    and rest: "py_for ps (seed_one E) s2 = (Inr (), t)"
    unfolding py_for.simps seed_one_def by (elim py_then_InrE py_bind_InrE)
  have "db s2 = db s1" using steps_run [OF write_line_same_db line] .
  with get_or_create_Inr [OF first] Cons.IH [OF rest] show ?case
    by (auto intro: plans_added_trans plans_added_named)
qed

lemma seed_loop_present:
  "\<forall>p \<in> set ps. plan_named (plan_name p) (db s) \<Longrightarrow>
   \<exists>lines. py_for ps (seed_one E) s = (Inr (), s\<lparr>io := io s @ map (Stdout PlainStyle) lines\<rparr>)"
proof (induction ps arbitrary: s)
  case Nil
  show ?case by (intro exI [of _ "[]"]) (simp add: py_return_def)
next
  case (Cons p ps)
  then have "plan_named (plan_name p) (db s)" by simp
  then obtain r where r: "get_or_create_plan E p s = (Inr (r, False), s)" by (rule get_or_create_present)
  let ?s = "s\<lparr>io := io s @ [Stdout PlainStyle (seed_line (r, False))]\<rparr>"
  from Cons.IH [of ?s] Cons.prems obtain lines where
    "py_for ps (seed_one E) ?s = (Inr (), ?s\<lparr>io := io ?s @ map (Stdout PlainStyle) lines\<rparr>)" by auto
  moreover have "seed_one E p s = (Inr (), ?s)"
    using r by (simp add: seed_one_def py_bind_def write_line_def)
  ultimately show ?case
    by (intro exI [of _ "seed_line (r, False) # lines"]) (simp add: py_then_def py_bind_def)
qed


section \<open>Lists\<close>

lemma narrowed_rows: "set (narrowed is xs) \<subseteq> set xs"
  by (auto simp: narrowed_def)

lemma page_rows: "set (page_of n xs) \<subseteq> set xs \<and> length (page_of n xs) \<le> page_size"
  by (auto simp: page_of_def dest!: in_set_takeD in_set_dropD)

lemma fold_serialized:
  "py_fold (\<lambda>js x. py_bind (ser x) (\<lambda>j. py_return (js @ [j]))) js xs s = (Inr r, t) \<Longrightarrow>
     \<exists>new. r = js @ new \<and> list_all2 (\<lambda>x j. \<exists>v w. ser x v = (Inr j, w)) xs new"
proof (induction xs arbitrary: js s)
  case Nil
  then show ?case by (simp add: py_return_def)
next
  case (Cons x xs)
  from Cons.prems obtain js' u where one: "py_bind (ser x) (\<lambda>j. py_return (js @ [j])) s = (Inr js', u)"
    and rest: "py_fold (\<lambda>js x. py_bind (ser x) (\<lambda>j. py_return (js @ [j]))) js' xs u = (Inr r, t)"
    unfolding py_fold.simps by (rule py_bind_InrE)
  from one obtain j v where "ser x s = (Inr j, v)" "js' = js @ [j]"
    by (rule py_bind_InrE) (auto simp: py_return_def)
  with Cons.IH [OF rest] show ?case by auto
qed

text \<open>
  A list view answers 200 with the serialised rows of one page of what was selected, and
  these are rows of its queryset, whatever the parameters of the request are.
\<close>

lemma list_response_Inr:
  assumes "list_response F l q ser rows s = (Inr r, t)"
  obtains xs js where "r = page_response F l q xs js" "set xs \<subseteq> set (rows (db s))"
    "list_all2 (\<lambda>x j. \<exists>v w. ser x v = (Inr j, w)) (page_of (lq_page q) xs) js"
    "1 \<le> lq_page q" "lq_page q \<le> page_count xs"
proof -
  from assms obtain all s1 selection s2 xs s3 where all: "query rows s = (Inr all, s1)"
    and sel: "lift_result (map_sum ValidationError (\<lambda>is. narrowed is all) selection) s2 = (Inr xs, s3)"
    and page: "(if lq_page q < 1 \<or> page_count xs < lq_page q then py_raise (Http404 ''Invalid page.'')
       else
         py_bind (py_fold (\<lambda>js x. py_bind (ser x) (\<lambda>j. py_return (js @ [j]))) [] (page_of (lq_page q) xs)) (\<lambda>js.
           py_return (page_response F l q xs js))) s3 = (Inr r, t)"
    unfolding list_response_def by (elim py_bind_InrE) blast
  from all have "all = rows (db s)" by (auto simp: query_def py_get_def)
  with sel have xs: "set xs \<subseteq> set (rows (db s))"
    using subsetD [OF narrowed_rows] by (cases selection) (auto simp: lift_result_def py_return_def py_raise_def)
  from page have n: "1 \<le> lq_page q" "lq_page q \<le> page_count xs"
    by (auto simp: py_raise_def split: if_splits)
  with page obtain js s4 where "py_fold (\<lambda>js x. py_bind (ser x) (\<lambda>j. py_return (js @ [j]))) []
      (page_of (lq_page q) xs) s3 = (Inr js, s4)" and "r = page_response F l q xs js"
    by (auto simp: py_return_def elim!: py_bind_InrE)
  with fold_serialized xs n show ?thesis by (intro that) fastforce+
qed


section \<open>Tasks that never raise\<close>

lemma sync_tasks_return:
  "\<exists>t. sync_bandwidth_usage E s = (Inr (), t)" "\<exists>t. sync_active_sessions E s = (Inr (), t)"
  unfolding sync_bandwidth_usage_def sync_active_sessions_def
  by (simp_all add: py_bind_def query_def py_get_def guarded_loop [where I = "\<lambda>_. True", simplified])

end
