(* ===== verification/DemoApi.thy ===== *)
theory DemoApi
  imports Demo Panel CreateFacts
begin

text \<open>
  A concrete REST framework and two users, an administrator and an ordinary one, for
  the runs of the API and of the whole panel on the demonstration database.
\<close>

definition demo_drf :: "nat drf" where
  "demo_drf =
     \<lparr>drf_int = (\<lambda>j. case j of JInt n \<Rightarrow> Some n | _ \<Rightarrow> None),
      drf_char = (\<lambda>j. case j of JStr s \<Rightarrow> (if s = '''' then None else Some s) | _ \<Rightarrow> None),
      drf_char_blank = (\<lambda>j. case j of JStr s \<Rightarrow> Some s | _ \<Rightarrow> None),
      drf_choice = (\<lambda>j. case j of JStr s \<Rightarrow> Some s | _ \<Rightarrow> None),
      drf_datetime = (\<lambda>j. case j of JInt n \<Rightarrow> Some n | _ \<Rightarrow> None),
      drf_decimal = (\<lambda>j. case j of JInt n \<Rightarrow> Some n | _ \<Rightarrow> None),
      drf_show_datetime = (\<lambda>t. JInt t),
      drf_show_price = (\<lambda>n. JInt n),
      drf_username = (\<lambda>i. None),
      drf_authenticate = (\<lambda>u p w. (None, w)),
      drf_login = (\<lambda>u w. w),
      drf_logout = (\<lambda>w. w),
      drf_csrf = (\<lambda>w. (''token'', w)),
      drf_select = (\<lambda>backends l ps d. Inr [0..<100]),
      drf_page_link = (\<lambda>v ps n. ''?page='' @ show_nat n)\<rparr>"

definition demo_admin :: user where
  "demo_admin = \<lparr>usr_id = 1, usr_username = ''root'', usr_email = '''', usr_is_staff = True, usr_is_superuser = True\<rparr>"

definition demo_user :: user where
  "demo_user = \<lparr>usr_id = 2, usr_username = ''joe'', usr_email = '''', usr_is_staff = False, usr_is_superuser = False\<rparr>"

lemma demo_serialize:
  assumes "create_account demo_env args demo_sys = (Inr a, u)" "arg_server args = None"
  shows "\<exists>j w. serialize_account demo_env demo_drf a u = (Inr j, w)"
proof -
  from assms(1) have "get_server (acc_server a) u = (Inr demo_server, u)"
  proof (rule create_account_Inr, goal_cases)
    case (1 srv v password s1 s2)
    then have "srv = demo_server"
      using pick_best_server_Inr(3) [OF 1(1)] by (simp add: assms(2) demo_sys_def demo_db_def)
    with 1 show ?case
      by (simp add: created_from_def get_server_Inr demo_sys_def demo_db_def demo_server_def db_server_def)
  qed
  then show ?thesis
    by (simp add: serialize_account_def py_bind_def query_def py_get_def now_def ask_def py_return_def split: prod.splits)
qed

lemma demo_plan_1: "plan_or_404 b 1 demo_sys = (Inr demo_plan, demo_sys)"
  by (simp add: plan_or_404_def get_object_or_404_def run_defs demo_sys_def demo_db_def demo_plan_def)

end
