(* ===== verification/DeployFacts.thy ===== *)
theory DeployFacts
  imports CreateFacts
begin

text \<open>
  What a connection, a request to the bridge and the deployment of a ShadowLink node
  send, step by step.
\<close>

section \<open>Connections and requests\<close>

lemma connect_Inl_io:
  assumes "connect E (get_ssh_manager srv) s = (Inl e, t)"
  shows "db t = db s \<and> (io t = io s \<or> (\<exists>args. dials srv args \<and> io t = io s @ [Connect args]))"
proof -
  have "steps quiet (if srv_ssh_key_path srv \<noteq> []
    then py_bind (load_private_key E (srv_ssh_key_path srv)) (\<lambda>k. py_return (Some k)) else py_return None)"
    by (intro steps_intro)
  with assms show ?thesis
    unfolding connect_def get_ssh_manager_def Let_def ssh_manager.simps option.case
    by (elim py_bind_cases)
       (auto simp: call_def py_return_def dials_def split: prod.splits dest!: steps_run)
qed

lemma with_ssh_refused:
  assumes "with_ssh E srv body s = (r, t)" and "isl (fst (connect E (get_ssh_manager srv) s))"
  shows "isl r \<and> db t = db s \<and> (io t = io s \<or> (\<exists>args. dials srv args \<and> io t = io s @ [Connect args]))"
proof (cases "connect E (get_ssh_manager srv) s")
  case (Pair q u)
  with assms(2) obtain e where "q = Inl e" by (cases q) auto
  with Pair assms connect_Inl_io [of E srv s e u] show ?thesis
    by (auto simp: with_ssh_def py_bind_def)
qed

lemma with_ssh_opened:
  assumes "with_ssh E srv body s = (r, t)" and "\<not> isl (fst (connect E (get_ssh_manager srv) s))"
  shows "\<exists>c args s1 s2. dials srv args \<and> db s1 = db s \<and> io s1 = io s @ [Connect args] \<and>
       body (connected srv c) s1 = (r, s2) \<and> db t = db s2 \<and> io t = io s2 @ [Close c]"
proof (cases "connect E (get_ssh_manager srv) s")
  case (Pair q s1)
  with assms(2) obtain m where q: "q = Inr m" by (cases q) auto
  with Pair obtain c args where m: "m = connected srv c" "dials srv args" "db s1 = db s"
      "io s1 = io s @ [Connect args]"
    using connect_Inr by blast
  obtain r2 s2 where body: "body (connected srv c) s1 = (r2, s2)" by (cases "body (connected srv c) s1")
  obtain d u where dis: "disconnect E (connected srv c) s2 = (d, u)"
    by (cases "disconnect E (connected srv c) s2")
  note closed = disconnect_run [OF dis]
  have "r = r2" "t = u"
    using assms Pair q m body dis closed
    by (auto simp: with_ssh_def py_bind_def py_finally_def py_then_def py_return_def)
  with closed body m show ?thesis by blast
qed

lemma bridge_request_io:
  "bridge_request E srv meth path data s = (r, t) \<Longrightarrow>
   io t = io s @ [Http \<lparr>req_method = meth, req_url = bridge_url srv @ path, req_json = data,
                       req_headers = bridge_headers srv, req_timeout = 10\<rparr>]"
  unfolding bridge_request_def Let_def
  by (elim py_bind_cases)
     (auto simp: call_def py_raise_def py_return_def
       split: prod.splits http_outcome.splits if_splits option.splits)


section \<open>Deploying a node\<close>

lemma py_finally_InrE:
  assumes "py_finally m c s = (Inr x, t)"
  obtains u where "m s = (Inr x, u)" "c u = (Inr (), t)"
  using assms by (auto simp: py_finally_def split: prod.splits sum.splits)

lemma sftp_connected: "sftp E (connected srv c) op s = (r, t) \<Longrightarrow> db t = db s \<and> io t = io s @ [Sftp c op]"
  by (auto simp: sftp_def connected_def call_def split: prod.splits)

text \<open>The four connections of a deployment, and what each sends.\<close>

definition upload_trace :: "server \<Rightarrow> string \<Rightarrow> event list \<Rightarrow> bool" where
  "upload_trace srv path evs \<longleftrightarrow>
     (\<exists>args c. dials srv args \<and> evs =
        [Connect args, Exec c ''mkdir -p /opt/shadowlink'', Sftp c SftpOpen,
         Sftp c (SftpPut path binary_remote_path), Sftp c (SftpChmod binary_remote_path 493),
         Sftp c SftpClose, Close c])"

definition config_commands :: "'w env \<Rightarrow> server \<Rightarrow> string list" where
  "config_commands E srv = [''mkdir -p /opt/shadowlink'', heredoc config_remote_path (generate_config E srv)]"

definition unit_commands :: "string list" where
  "unit_commands =
     [heredoc ''/etc/systemd/system/shadowlink.service'' generate_systemd_unit,
      ''systemctl daemon-reload'', ''systemctl enable shadowlink'']"

lemma deploy_binary_Inr:
  assumes "deploy_binary E srv path s = (Inr (), t)"
  shows "\<exists>evs. upload_trace srv path evs \<and> io t = io s @ evs"
  using assms unfolding deploy_binary_def
proof (rule with_ssh_InrE, goal_cases)
  case (1 c args s1 s2)
  from this(4) have "io s2 = io s1 @ [Exec c ''mkdir -p /opt/shadowlink'', Sftp c SftpOpen,
         Sftp c (SftpPut path binary_remote_path), Sftp c (SftpChmod binary_remote_path 493), Sftp c SftpClose]"
    by (auto elim!: py_then_InrE py_finally_InrE dest!: run_connected sftp_connected)
  with 1 show ?case unfolding upload_trace_def by auto
qed

lemma deploy_config_Inr:
  "deploy_config E srv s = (Inr (), t) \<Longrightarrow>
   \<exists>evs. session_trace srv (config_commands E srv) evs \<and> io t = io s @ evs"
  unfolding deploy_config_def Let_def config_commands_def
  by (drule with_ssh_runs)
     (auto elim!: py_then_InrE dest!: run_connected simp: runs_def py_return_def)

lemma deploy_systemd_Inr:
  "deploy_systemd_service E srv s = (Inr (), t) \<Longrightarrow>
   \<exists>evs. session_trace srv unit_commands evs \<and> io t = io s @ evs"
  unfolding deploy_systemd_service_def unit_commands_def
  by (drule with_ssh_runs)
     (auto elim!: py_then_InrE dest!: run_connected simp: runs_def py_return_def)

lemma start_service_Inr:
  assumes "start_service E srv s = (Inr (), t)"
  shows "\<exists>args c. dials srv args \<and> exits_zero E c ''systemctl start shadowlink'' \<and>
     io t = io s @ [Connect args, Exec c ''systemctl start shadowlink'', Close c]"
  using assms unfolding start_service_def
proof (rule with_ssh_InrE, goal_cases)
  case (1 c args s1 s2)
  from this(4) have "exits_zero E c ''systemctl start shadowlink''"
      "io s2 = io s1 @ [Exec c ''systemctl start shadowlink'']"
    by (auto elim!: py_bind_InrE dest: run_connected run_ok_exits_zero
        simp: py_when_def py_raise_def py_return_def split: if_splits)
  with 1 show ?case by auto
qed

lemma full_deploy_Inr:
  assumes "full_deploy E srv path s = (Inr (), t)"
  shows "\<exists>up cf un args c. upload_trace srv path up \<and> session_trace srv (config_commands E srv) cf \<and>
     session_trace srv unit_commands un \<and> dials srv args \<and> exits_zero E c ''systemctl start shadowlink'' \<and>
     io t = io s @ up @ cf @ un @ [Connect args, Exec c ''systemctl start shadowlink'', Close c]"
proof -
  from assms obtain s1 s2 s3 where "deploy_binary E srv path s = (Inr (), s1)"
      "deploy_config E srv s1 = (Inr (), s2)" "deploy_systemd_service E srv s2 = (Inr (), s3)"
      "start_service E srv s3 = (Inr (), t)"
    unfolding full_deploy_def by (auto elim!: py_then_InrE)
  from deploy_binary_Inr [OF this(1)] deploy_config_Inr [OF this(2)] deploy_systemd_Inr [OF this(3)]
    start_service_Inr [OF this(4)]
  show ?thesis by auto metis
qed

end
