(* ===== verification/ApiProperties.thy ===== *)
theory ApiProperties
  imports ApiFacts DemoApi DeployFacts
begin

text \<open>
  The properties of the entries of the panel: the permissions of the API and its views,
  the payment webhook, the public pages, the connections to the nodes, the bot, the
  admin actions and the seed command.
\<close>

section \<open>Permissions\<close>

text \<open>
  C3: a request of a user who is not an administrator changes no row and sends
  nothing to any node, whatever address it goes to, except for the payment webhook; and
  the addresses of the API that are for administrators answer it with 403 before any
  code of the view runs.
\<close>

theorem only_admins_write:
  assumes "\<not> is_admin u" and "serve E F u c s = (r, t)"
  shows "(endpoint_of c \<noteq> PaymentWebhook \<longrightarrow> db t = db s \<and> io t = io s) \<and>
    (endpoint_permission (endpoint_of c) = IsAdminUser \<longrightarrow> r = Inr denied \<and> t = s)"
proof (intro conjI impI)
  assume "endpoint_of c \<noteq> PaymentWebhook"
  with assms show "db t = db s" "io t = io s"
    using steps_run [OF serve_not_admin [OF assms(1)] assms(2)] by simp_all
next
  assume "endpoint_permission (endpoint_of c) = IsAdminUser"
  with assms have "py_return denied s = (r, t)" by (simp add: serve_def admits_admin)
  then show "r = Inr denied" "t = s" by (simp_all add: py_return_def)
qed

lemma only_admins_write_witness:
  "serve demo_env demo_drf (Some demo_user) (CallDeleteAccount 1) demo_sys = (Inr denied, demo_sys)"
proof -
  have "\<not> is_admin (Some demo_user)" by (simp add: is_admin_def demo_user_def)
  from only_admins_write [OF this, of demo_env demo_drf "CallDeleteAccount 1" demo_sys] show ?thesis
    by (cases "serve demo_env demo_drf (Some demo_user) (CallDeleteAccount 1) demo_sys") simp
qed


section \<open>The payment webhook\<close>


definition demo_payment :: "string \<Rightarrow> int \<Rightarrow> request_data" where
  "demo_payment sig cents =
     [(''order_id'', JStr ''o1''), (''username'', JStr ''bob''), (''plan_id'', JInt 1),
      (''amount'', JInt cents), (''status'', JStr ''paid''), (''signature'', JStr sig)]"

lemma demo_payment_valid:
  "sig \<noteq> '''' \<Longrightarrow> \<bar>cents\<bar> < 10 ^ 10 \<Longrightarrow> validate_payment demo_drf (demo_payment sig cents) =
     Inr \<lparr>pd_order_id = ''o1'', pd_username = ''bob'', pd_plan_id = 1, pd_amount_cents = cents,
          pd_status = ''paid'', pd_signature = sig\<rparr>"
  by (simp add: validate_payment_def required_def demo_payment_def demo_drf_def res_bind_def any_def check_value_def)




text \<open>
  The webhook answers everyone alike and looks at neither the amount, the order
  number nor the signature of the call: two calls with valid data that agree in the user
  name, the plan and the status have the same answer and the same effect, whoever makes
  them.
\<close>

theorem webhook_ignores_signature:
  assumes "validate_payment F data = Inr d" and "validate_payment F data' = Inr d'"
    and "pd_username d' = pd_username d" and "pd_plan_id d' = pd_plan_id d" and "pd_status d' = pd_status d"
  shows "serve E F u' (CallPaymentWebhook data') s = serve E F u (CallPaymentWebhook data) s"
  using payment_webhook_ignores [OF assms] by (simp add: serve_def admits_def)

lemma webhook_ignores_signature_witness:
  "serve demo_env demo_drf None (CallPaymentWebhook (demo_payment ''forged'' 0)) demo_sys =
   serve demo_env demo_drf (Some demo_admin) (CallPaymentWebhook (demo_payment ''true'' 500)) demo_sys"
  by (rule webhook_ignores_signature [OF demo_payment_valid demo_payment_valid]) simp_all



section \<open>Public pages\<close>

text \<open>
  C26: the public status page shows nothing of the password, the tunnel token, the note
  or the creator of an account: with all four blanked in every row of the database, it
  answers every address token in the same way.
\<close>

theorem public_status_hides_secrets:
  "fst (public_status_view E F token (redacted s)) = fst (public_status_view E F token s)"
  by (simp add: public_status_redacted)

text \<open>
  The client configuration is handed out only for the tunnel token of a ShadowLink
  account, and with 200 only while that account is active; the configuration leads to
  the account's server and carries its token; nothing changes.
\<close>

theorem client_config_only_active:
  assumes "shadowlink_client_config_view token s = (Inr (Response st j), t)"
  shows "t = s \<and> (\<exists>acc. acc \<in> set (accounts (db s)) \<and> acc_auth_token acc = token \<and>
    acc_protocol_type acc = SHADOWLINK \<and>
    (if acc_status acc = Active
     then st = 200 \<and> (\<exists>srv. db_server (db s) (acc_server acc) = Some srv \<and> j = generate_client_config acc srv)
     else st = 403 \<and> j = detail ''Account is not active.''))"
  using assms by (rule shadowlink_client_config_Inr)

lemma client_config_only_active_witness:
  "\<exists>j. shadowlink_client_config_view 4 demo_sys = (Inr (Response 403 j), demo_sys) \<and>
     j = detail ''Account is not active.''"
proof -
  have run: "shadowlink_client_config_view 4 demo_sys =
      (Inr (Response 403 (detail ''Account is not active.'')), demo_sys)"
    by (simp add: shadowlink_client_config_view_def get_object_or_404_def run_defs demo_defs)
  from client_config_only_active [OF this] run show ?thesis
    by (auto split: if_splits)
qed


section \<open>Accounts\<close>

text \<open>
  C34: the creation view answers 400 and leaves every table as it was, or answers 201 and
  has added exactly one account, active, whose name matches the
  pattern of the serializer, made from an active plan by the administrator of the request, with
  one log entry.
\<close>

theorem create_view_outcome:
  assumes "create_account_view E F adm data s = (Inr (Response st j), t)"
  shows "(st = 400 \<and> same_tables (db s) (db t)) \<or>
    (st = 201 \<and> (\<exists>a. accounts (db t) = accounts (db s) @ [a] \<and> search_name 2 31 (acc_username a) \<and>
       acc_created_by a = adm \<and> acc_status a = Active \<and>
       (\<exists>p. p \<in> set (plans (db s)) \<and> plan_is_active p \<and> acc_plan a = Some (plan_id p)) \<and>
       (\<exists>det. audited CREATE (acc_id a) adm det (db s) (db t))))"
  using assms by (rule create_account_view_Inr)

definition demo_request :: request_data where
  "demo_request = [(''username'', JStr ''amy''), (''plan_id'', JInt 1), (''password'', JStr ''secret1'')]"

lemma demo_request_valid:
  "validate_create demo_drf demo_request =
     Inr \<lparr>cd_username = ''amy'', cd_plan_id = 1, cd_server_id = None, cd_password = Some ''secret1'',
          cd_note = '''', cd_duration_days = None, cd_bandwidth_limit_gb = None, cd_max_connections = None\<rparr>"
  by code_simp

lemma demo_create_view:
  "\<exists>j t. create_account_view demo_env demo_drf None demo_request demo_sys = (Inr (Response 201 j), t)"
proof -
  define args where "args = (default_args ''amy'' demo_plan)\<lparr>arg_password := Some ''secret1''\<rparr>"
  have "\<not> isl (fst (create_account demo_env args demo_sys))"
    by (simp add: args_def demo_defs run_defs ssh_defs create_account_def pick_best_server_def default_args_def
        default_to_def provision_ssh_account_def by_cpu_def is_available_def datetime_ok_def min_datetime_def
        max_datetime_def day_us_def epoch_ordinal_def current_user_count_def lift_result_def add_days_def Let_def)
  then obtain a u where run: "create_account demo_env args demo_sys = (Inr a, u)" using returned by blast
  then have "\<exists>j w. serialize_account demo_env demo_drf a u = (Inr j, w)"
    by (rule demo_serialize) (simp add: args_def default_args_def)
  moreover note run
  moreover note demo_plan_1
  ultimately show ?thesis
    by (auto simp: create_account_view_def demo_request_valid lift_result_def py_bind_def py_return_def py_try_def
        optional_server_def catching_account_error_def args_def default_args_def)
qed

lemma create_view_outcome_witness:
  "\<exists>j t a. create_account_view demo_env demo_drf None demo_request demo_sys = (Inr (Response 201 j), t) \<and>
     accounts (db t) = accounts demo_db @ [a] \<and> acc_status a = Active"
proof -
  obtain j t where run: "create_account_view demo_env demo_drf None demo_request demo_sys = (Inr (Response 201 j), t)"
    using demo_create_view by blast
  from create_view_outcome [OF run] run show ?thesis by (auto simp: demo_sys_def)
qed


text \<open>
  The list of accounts, whatever filters, search, ordering and page a request names, answers
  with at most 25 rows, each of an account that is in the table and not deleted.
\<close>

theorem account_list_rows:
  assumes "view E F u (CallAccountList q) s = (Inr r, t)"
  shows "\<exists>xs js. r = page_response F account_listing q xs js \<and> length js \<le> 25 \<and>
    list_all2 (\<lambda>a j. a \<in> set (accounts (db s)) \<and> acc_status a \<noteq> Deleted \<and>
      (\<exists>v w. serialize_account E F a v = (Inr j, w))) (page_of (lq_page q) xs) js"
proof -
  from assms have "list_response F account_listing q (serialize_account E F) account_list s = (Inr r, t)" by simp
  then obtain xs js where r: "r = page_response F account_listing q xs js"
    and rows: "set xs \<subseteq> set (account_list (db s))"
    and js: "list_all2 (\<lambda>a j. \<exists>v w. serialize_account E F a v = (Inr j, w)) (page_of (lq_page q) xs) js"
    by (rule list_response_Inr)
  have page: "set (page_of (lq_page q) xs) \<subseteq> set (account_list (db s))" "length (page_of (lq_page q) xs) \<le> 25"
    using rows page_rows [of "lq_page q" xs] by (auto simp: page_size_def rest_framework_def)
  from page(1) have live: "a \<in> set (accounts (db s)) \<and> acc_status a \<noteq> Deleted"
    if "a \<in> set (page_of (lq_page q) xs)" for a
    using that by (auto simp: account_list_def)
  have "length js \<le> 25" using page(2) list_all2_lengthD [OF js] by simp
  moreover have "list_all2 (\<lambda>a j. a \<in> set (accounts (db s)) \<and> acc_status a \<noteq> Deleted \<and>
      (\<exists>v w. serialize_account E F a v = (Inr j, w))) (page_of (lq_page q) xs) js"
    by (rule list.rel_mono_strong [OF js]) (use live in blast)
  ultimately show ?thesis using r by blast
qed


section \<open>The admin site\<close>

text \<open>
  C35: the three actions of the account list always return, whatever fails underneath,
  and act only on the selected rows in the status the action is for: suspending on
  active, activating on suspended, deleting on rows not deleted yet.  They set the new
  status of exactly as many of them as the message counts, and log each of these once.
\<close>

theorem admin_actions_exact:
  assumes "db_wf (db s)"
  shows "(\<forall>r t. action_suspend E adm (selected is) s = (r, t) \<longrightarrow> (\<exists>n. r = Inr (action_message ''Suspended'' n) \<and>
      action_effect Suspended SUSPEND (\<lambda>a. acc_status a = Active) is n (db s) (db t))) \<and>
    (\<forall>r t. action_activate E adm (selected is) s = (r, t) \<longrightarrow> (\<exists>n. r = Inr (action_message ''Activated'' n) \<and>
      action_effect Active ACTIVATE (\<lambda>a. acc_status a = Suspended) is n (db s) (db t))) \<and>
    (\<forall>r t. action_delete_accounts E adm (selected is) s = (r, t) \<longrightarrow> (\<exists>n. r = Inr (action_message ''Deleted'' n) \<and>
      action_effect Deleted DELETE (\<lambda>a. acc_status a \<noteq> Deleted) is n (db s) (db t)))"
  using action_suspend_run [OF assms] action_activate_run [OF assms] action_delete_run [OF assms] by blast

lemma admin_actions_exact_witness:
  "\<exists>n t. action_suspend demo_env None (selected [1, 2]) demo_sys = (Inr (action_message ''Suspended'' n), t) \<and>
     action_effect Suspended SUSPEND (\<lambda>a. acc_status a = Active) [1, 2] n demo_db (db t)"
proof (cases "action_suspend demo_env None (selected [1, 2]) demo_sys")
  case (Pair r t)
  have "db_wf (db demo_sys)" by (simp add: demo_sys_def demo_wf)
  from admin_actions_exact [OF this, of demo_env None "[1, 2]"] Pair show ?thesis
    by (auto simp: demo_sys_def)
qed



section \<open>Seeding the plans\<close>

text \<open>
  After \<open>seedplans\<close> every default plan is there, no plan that was there is lost or
  changed, and running it again changes nothing, it only prints.
\<close>

theorem seedplans_idempotent:
  assumes "seedplans E s = (Inr (), t)"
  shows "(\<exists>lines. seedplans E t = (Inr (), t\<lparr>io := io t @ map (Stdout PlainStyle) lines @ [Stdout SuccessStyle ''Done.'']\<rparr>)) \<and>
    (\<exists>new. plans (db t) = plans (db s) @ new) \<and>
    plan_name ` set seed_defaults \<subseteq> plan_name ` set (plans (db t)) \<and>
    accounts (db t) = accounts (db s) \<and> logs (db t) = logs (db s)"
proof -
  from assms obtain u s1 where loop: "py_for seed_defaults (seed_one E) s = (Inr u, s1)"
    and last: "write_line SuccessStyle ''Done.'' s1 = (Inr (), t)"
    unfolding seedplans_eq by (rule py_then_InrE)
  have db1: "db t = db s1" using steps_run [OF write_line_same_db last] .
  with seed_loop_Inr [of seed_defaults E s s1] loop
  have named: "\<forall>p \<in> set seed_defaults. plan_named (plan_name p) (db t)" and added: "plans_added (db s) (db t)"
    by simp_all
  from seed_loop_present [OF named, of E] obtain lines where
    "py_for seed_defaults (seed_one E) t = (Inr (), t\<lparr>io := io t @ map (Stdout PlainStyle) lines\<rparr>)" by blast
  then have "seedplans E t = (Inr (), t\<lparr>io := io t @ map (Stdout PlainStyle) lines @ [Stdout SuccessStyle ''Done.'']\<rparr>)"
    by (simp only: seedplans_eq py_then_def py_bind_def write_line_def prod.case sum.case) simp
  with named added show ?thesis by (auto simp: plans_added_def plan_named_def)
qed

lemma demo_seed: "\<exists>t. seedplans demo_env demo_sys = (Inr (), t)"
proof -
  have "\<not> isl (fst (seedplans demo_env demo_sys))" by code_simp
  from returned [OF this] show ?thesis by (metis old.unit.exhaust)
qed

lemma seedplans_idempotent_witness:
  "\<exists>t u. seedplans demo_env demo_sys = (Inr (), t) \<and> seedplans demo_env t = (Inr (), u) \<and> db u = db t"
  using demo_seed seedplans_idempotent by fastforce


section \<open>The bot\<close>

text \<open>
  The handlers of the bot are coroutines that call the ORM directly, and under an
  event loop the ORM refuses: unless the process sets \<open>DJANGO_ALLOW_ASYNC_UNSAFE\<close>,
  \<open>/plans\<close>, every well-formed \<open>/buy\<close> and every \<open>/status\<close> with a name end in that
  refusal, before they reply and with nothing done.
\<close>

theorem bot_needs_async_unsafe:
  "plans_cmd False s = (Inl sync_only, s) \<and>
   (\<forall>arg0 arg1 rest i. py_int arg0 = Inr i \<longrightarrow>
      buy_cmd False E (arg0 # arg1 # rest) s = (Inl sync_only, s)) \<and>
   (\<forall>arg0 rest. status_cmd False E (arg0 # rest) s = (Inl sync_only, s))"
  by (simp add: plans_cmd_def buy_cmd_def status_cmd_def orm_def py_bind_def py_raise_def Let_def)

lemma bot_needs_async_unsafe_witness:
  "buy_cmd False demo_env [''1'', ''amy''] demo_sys = (Inl sync_only, demo_sys)"
proof -
  have "py_int ''1'' = Inr 1" by code_simp
  with bot_needs_async_unsafe [of demo_sys demo_env] show ?thesis by blast
qed


section \<open>Nodes\<close>

text \<open>
  Every block \<open>with get_ssh_manager(server) as ssh\<close> of the code either fails to
  connect, with the database as it was and nothing sent but one attempt to connect, or
  opens one connection to the server's address, runs its body on it, and closes that
  connection last, whether the body returns or raises; its result is the body's.
\<close>

theorem with_ssh_always_closes:
  assumes "with_ssh E srv body s = (r, t)"
  shows "if isl (fst (connect E (get_ssh_manager srv) s))
     then isl r \<and> db t = db s \<and> (io t = io s \<or> (\<exists>args. dials srv args \<and> io t = io s @ [Connect args]))
     else (\<exists>c args s1 s2. dials srv args \<and> db s1 = db s \<and> io s1 = io s @ [Connect args] \<and>
       body (connected srv c) s1 = (r, s2) \<and> db t = db s2 \<and> io t = io s2 @ [Close c])"
  using with_ssh_refused [OF assms] with_ssh_opened [OF assms] by simp

lemma with_ssh_always_closes_witness:
  "\<exists>t. with_ssh demo_env demo_server (\<lambda>m. py_raise (AccountError ''no'')) demo_sys =
     (Inl (AccountError ''no'') :: exn + unit, t) \<and> (\<exists>c args. io t = [Connect args, Close c])"
proof -
  define msg where "msg = ''no''"
  let ?with = "with_ssh demo_env demo_server (\<lambda>m. py_raise (AccountError msg)) :: (nat sys, unit) py"
  have "\<exists>t. ?with demo_sys = (Inl (AccountError msg), t)"
    by (simp add: demo_defs run_defs ssh_defs)
  then obtain t where t: "?with demo_sys = (Inl (AccountError msg), t)" by blast
  have "\<not> isl (fst (connect demo_env (get_ssh_manager demo_server) demo_sys))"
    by (simp add: demo_defs run_defs ssh_defs)
  with with_ssh_always_closes [OF t] t show ?thesis
    unfolding msg_def [symmetric] by (auto simp: py_raise_def demo_sys_def)
qed

text \<open>
  A request to the bridge of a node sends exactly one HTTP request, changes no row,
  and ends in the decoded body of an answer that is no HTTP error, in a
  \<open>ShadowLinkError\<close>, or in one of the exceptions that \<open>_bridge_request\<close> lets through.
\<close>

theorem bridge_request_outcome:
  assumes "bridge_request E srv meth path data s = (r, t)"
  shows "db t = db s \<and>
    io t = io s @ [Http \<lparr>req_method = meth, req_url = bridge_url srv @ path, req_json = data,
                        req_headers = bridge_headers srv, req_timeout = 10\<rparr>] \<and>
    ((\<exists>status text j. r = Inr j \<and> \<not> is_http_error status \<and> env_parse_json E text = Some j) \<or>
     (\<exists>msg. r = Inl (ShadowLinkError msg)) \<or> (\<exists>msg. r = Inl (OtherError msg)))"
  using bridge_request_cases [OF assms] bridge_request_io [OF assms] steps_run [OF bridge_request_same_db assms]
  by blast

text \<open>
  C37: when \<open>full_deploy\<close> returns, the node has got the binary and its mode, then the
  configuration generated from the server's row, then the systemd unit, a reload and an
  enable, and only then the start of the service, which exited with 0; each of the four
  steps on a connection of its own that was closed before the next.
\<close>

theorem full_deploy_order:
  assumes "full_deploy E srv path s = (Inr (), t)"
  shows "\<exists>up cf un args c. upload_trace srv path up \<and> session_trace srv (config_commands E srv) cf \<and>
     session_trace srv unit_commands un \<and> dials srv args \<and> exits_zero E c ''systemctl start shadowlink'' \<and>
     io t = io s @ up @ cf @ un @ [Connect args, Exec c ''systemctl start shadowlink'', Close c]"
  using assms by (rule full_deploy_Inr)

lemma demo_deploy: "\<exists>t. full_deploy demo_env demo_server ''/b'' demo_sys = (Inr (), t)"
  by (simp add: full_deploy_def deploy_binary_def deploy_config_def deploy_systemd_service_def start_service_def
      sftp_def demo_defs run_defs ssh_defs Let_def)

lemma full_deploy_order_witness:
  "\<exists>t c evs. full_deploy demo_env demo_server ''/b'' demo_sys = (Inr (), t) \<and>
     io t = evs @ [Exec c ''systemctl start shadowlink'', Close c]"
proof -
  obtain t where run: "full_deploy demo_env demo_server ''/b'' demo_sys = (Inr (), t)" using demo_deploy by blast
  from full_deploy_order [OF run] obtain evs args c where
    "io t = (io demo_sys @ evs @ [Connect args]) @ [Exec c ''systemctl start shadowlink'', Close c]"
    by (metis append.assoc append_Cons append_Nil)
  with run show ?thesis by blast
qed

end
