(* ===== verification/TextFacts.thy ===== *)
theory TextFacts
  imports RunFacts ShadowLinkManager
begin

text \<open>
  The texts the panel exchanges with its nodes, each with the reader or the inverse it is
  measured against: the base 64 of the login script, the printed form of a token, the
  lines of \<open>ps\<close> and \<open>iptables\<close>, the date given to \<open>chage\<close>.
\<close>

section \<open>Base 64\<close>

text \<open>The decoder of \<open>base64 -d\<close>, the reference for the encoder (RFC 4648).\<close>

definition base64_alphabet :: string where
  "base64_alphabet = ''ABCDEFGHIJKLMNOPQRSTUVWXYZabcdefghijklmnopqrstuvwxyz0123456789+/''"

definition base64_value :: "char \<Rightarrow> nat" where
  "base64_value c = length (takeWhile (\<lambda>d. d \<noteq> c) base64_alphabet)"

fun base64_decode :: "string \<Rightarrow> string option" where
  "base64_decode [] = Some []"
| "base64_decode (a # b # c # d # cs) =
     (let u = base64_value a; v = base64_value b; w = base64_value c; x = base64_value d
      in if 64 \<le> u \<or> 64 \<le> v then None
         else if c = CHR ''='' then
           (if d = CHR ''='' \<and> cs = [] then Some [char_of (u * 4 + v div 16)] else None)
         else if 64 \<le> w then None
         else if d = CHR ''='' then
           (if cs = [] then Some [char_of (u * 4 + v div 16), char_of (v mod 16 * 16 + w div 4)] else None)
         else if 64 \<le> x then None
         else map_option (append [char_of (u * 4 + v div 16), char_of (v mod 16 * 16 + w div 4),
                                  char_of (w mod 4 * 64 + x)]) (base64_decode cs))"
| "base64_decode _ = None"

lemma base64_value_table: "map base64_value base64_alphabet = [0..<64]"
  by code_simp

lemma base64_char_in: "base64_char n = base64_alphabet ! (n mod 64)"
  by (simp add: base64_char_def base64_alphabet_def)

lemma base64_value_char [simp]: "base64_value (base64_char n) = n mod 64"
proof -
  have len: "length base64_alphabet = 64" by code_simp
  then have "base64_value (base64_alphabet ! (n mod 64)) = map base64_value base64_alphabet ! (n mod 64)"
    by (subst nth_map) simp_all
  then show ?thesis by (simp add: base64_char_in base64_value_table)
qed

lemma base64_char_not_pad [simp]: "base64_char n \<noteq> CHR ''=''"
proof
  assume "base64_char n = CHR ''=''"
  moreover have "base64_value CHR ''='' = 64" by code_simp
  ultimately show False using base64_value_char [of n] by simp
qed

lemma code_lt [simp]: "code c < 256"
  by simp

lemma char_of_code: "n = code c \<Longrightarrow> char_of n = c"
  by simp

text \<open>The sextets of bytes, and the bytes back from them.\<close>

lemma code_parts [simp]: "code c div 16 < 16" "code c div 64 < 4" "code c div 4 < 64"
proof -
  have "code c < 256" by simp
  then show "code c div 16 < 16" "code c div 64 < 4" "code c div 4 < 64" by linarith+
qed

lemma sextet_mod:
  fixes x y k j :: nat
  assumes "y < j" "k * j = 64"
  shows "(x * j + y) mod 64 = x mod k * j + y"
proof -
  have "x * j + y = x div k * 64 + (x mod k * j + y)"
    using assms(2) div_mult_mod_eq [of x k] by (metis add.assoc add_mult_distrib mult.assoc)
  moreover have "x mod k * j + y < 64"
  proof -
    have "0 < k" using assms(2) by (cases k) auto
    then have "x mod k + 1 \<le> k" by (simp add: Suc_leI)
    then have "(x mod k + 1) * j \<le> 64" using assms(2) mult_le_mono1 by metis
    with assms(1) show ?thesis by simp
  qed
  ultimately show ?thesis by (metis mod_mult_self3 mod_less)
qed

lemma byte_sextets:
  "code a * 16 mod 64 = code a mod 4 * 16"
  "(code a * 16 + code b div 16) mod 64 = code a mod 4 * 16 + code b div 16"
  "code b * 4 mod 64 = code b mod 16 * 4"
  "(code b * 4 + code c div 64) mod 64 = code b mod 16 * 4 + code c div 64"
  using sextet_mod [of 0 16 4 "code a"] sextet_mod [of "code b div 16" 16 4 "code a"]
    sextet_mod [of 0 4 16 "code b"] sextet_mod [of "code c div 64" 4 16 "code b"] by simp_all

lemma sextets_lt: "code a mod 4 * 16 + code b div 16 < 64" "code b mod 16 * 4 + code c div 64 < 64"
  using byte_sextets(2) [of a b] byte_sextets(4) [of b c] by (metis mod_less_divisor zero_less_numeral)+

lemma base64_roundtrip: "base64_decode (base64_encode s) = Some s"
proof (induction s rule: base64_encode.induct)
  case 1
  then show ?case by simp
next
  case (2 a)
  have "code a mod 4 * 16 < 64" using mod_less_divisor [of 4 "code a"] by simp
  then show ?case by (simp add: Let_def not_le byte_sextets)
next
  case (3 a b)
  have "code b mod 16 * 4 < 64" using mod_less_divisor [of 16 "code b"] by simp
  then show ?case using sextets_lt [of a b] by (simp add: Let_def not_le byte_sextets)
next
  case (4 a b c cs)
  then show ?case
    using sextets_lt [of a b] sextets_lt(2) [of b c] by (simp add: Let_def not_le byte_sextets)
qed


section \<open>Tokens\<close>

text \<open>\<open>uuid.UUID(s)\<close> reads back what \<open>str(uuid)\<close> printed.\<close>

definition hex_value :: "char \<Rightarrow> nat" where
  "hex_value c = length (takeWhile (\<lambda>d. d \<noteq> c) ''0123456789abcdef'')"

definition uuid_value :: "string \<Rightarrow> nat" where
  "uuid_value s = foldl (\<lambda>n c. 16 * n + hex_value c) 0 (filter (\<lambda>c. c \<noteq> CHR ''-'') s)"

lemma hex_value_digit: "hex_value (''0123456789abcdef'' ! (n mod 16)) = n mod 16"
proof -
  have "map hex_value ''0123456789abcdef'' = [0..<16]" by code_simp
  moreover have "hex_value (''0123456789abcdef'' ! (n mod 16)) = map hex_value ''0123456789abcdef'' ! (n mod 16)"
    by (subst nth_map) simp_all
  ultimately show ?thesis by simp
qed

lemma hex_digit_no_dash: "''0123456789abcdef'' ! (n mod 16) \<noteq> CHR ''-''"
proof
  assume "''0123456789abcdef'' ! (n mod 16) = CHR ''-''"
  moreover have "hex_value CHR ''-'' = 16" by code_simp
  ultimately show False using hex_value_digit [of n] by simp
qed

lemma hex_digits_no_dash: "filter (\<lambda>c. c \<noteq> CHR ''-'') (hex_digits k n) = hex_digits k n"
  by (induction k arbitrary: n) (simp_all add: hex_digit_no_dash)

lemma hex_digits_value: "foldl (\<lambda>n c. 16 * n + hex_value c) 0 (hex_digits k n) = n mod 16 ^ k"
proof (induction k arbitrary: n)
  case 0
  then show ?case by simp
next
  case (Suc k)
  show ?case
    using mod_mult2_eq [of n 16 "16 ^ k"] by (simp add: Suc.IH hex_value_digit)
qed

lemma length_hex_digits [simp]: "length (hex_digits k n) = k"
  by (induction k arbitrary: n) simp_all

lemma uuid_str_parts:
  assumes "length h = 32"
  shows "take 8 h @ take 4 (drop 8 h) @ take 4 (drop 12 h) @ take 4 (drop 16 h) @ drop 20 h = h"
proof -
  have "take 4 (drop 8 h) @ drop 12 h = drop 8 h" "take 4 (drop 12 h) @ drop 16 h = drop 12 h"
    "take 4 (drop 16 h) @ drop 20 h = drop 16 h"
    using append_take_drop_id [of 4 "drop 8 h"] append_take_drop_id [of 4 "drop 12 h"]
      append_take_drop_id [of 4 "drop 16 h"] by simp_all
  then show ?thesis by simp
qed

lemma uuid_str_value: "uuid_value (uuid_str u) = u mod 2 ^ 128"
proof -
  let ?h = "hex_digits 32 u"
  have dash: "filter (\<lambda>c. c \<noteq> CHR ''-'') (uuid_str u) = ?h"
  proof -
    have "filter (\<lambda>c. c \<noteq> CHR ''-'') (take i (drop j ?h)) = take i (drop j ?h)" for i j
      using hex_digits_no_dash [of 32 u]
      by (metis filter_id_conv in_set_dropD in_set_takeD)
    from this [of 8 0] this [of 4 8] this [of 4 12] this [of 4 16] this [of 32 20] show ?thesis
      using uuid_str_parts [of ?h] unfolding uuid_str_def Let_def by simp
  qed
  then show ?thesis by (simp add: uuid_value_def hex_digits_value)
qed


section \<open>Words of a line\<close>

definition blank_text :: "string \<Rightarrow> bool" where
  "blank_text s \<longleftrightarrow> list_all is_space s"

definition word_text :: "string \<Rightarrow> bool" where
  "word_text s \<longleftrightarrow> s \<noteq> [] \<and> list_all (\<lambda>c. \<not> is_space c) s"

lemma lstrip_blank [simp]: "blank_text b \<Longrightarrow> py_lstrip (b @ s) = py_lstrip s"
  by (induction b) (auto simp: blank_text_def py_lstrip_def)

lemma lstrip_word [simp]: "word_text w \<Longrightarrow> py_lstrip (w @ s) = w @ s"
  by (cases w) (auto simp: word_text_def py_lstrip_def)

lemma word_take:
  assumes "word_text w" "blank_text b" "b \<noteq> []"
  shows "takeWhile (\<lambda>c. \<not> is_space c) (w @ b @ s) = w" "dropWhile (\<lambda>c. \<not> is_space c) (w @ b @ s) = b @ s"
proof -
  obtain c cs where "b = c # cs" "is_space c" using assms by (cases b) (auto simp: blank_text_def)
  then show "takeWhile (\<lambda>c. \<not> is_space c) (w @ b @ s) = w" "dropWhile (\<lambda>c. \<not> is_space c) (w @ b @ s) = b @ s"
    using assms(1) by (auto simp: word_text_def list_all_iff)
qed

lemma split_max_word:
  assumes "word_text w" "blank_text b" "b \<noteq> []" "blank_text a"
  shows "py_split_max (Suc n) (a @ w @ b @ s) = w # py_split_max n (b @ s)"
proof -
  obtain c cs where cs: "w @ b @ s = c # cs" using assms(1) by (cases w) (auto simp: word_text_def)
  then have "py_lstrip (a @ w @ b @ s) = c # cs" using assms lstrip_word [OF assms(1), of "b @ s"] by simp
  then show ?thesis using word_take [OF assms(1-3), of s] by (simp add: cs)
qed

lemma split_word:
  assumes "word_text w" "blank_text b" "b \<noteq> []" "blank_text a"
  shows "py_split (a @ w @ b @ s) = w # py_split (b @ s)"
proof -
  obtain c cs where cs: "w @ b @ s = c # cs" using assms(1) by (cases w) (auto simp: word_text_def)
  then have "py_lstrip (a @ w @ b @ s) = c # cs" using assms lstrip_word [OF assms(1), of "b @ s"] by simp
  then show ?thesis using word_take [OF assms(1-3), of s] by (subst py_split.simps) (simp add: cs)
qed

lemma show_nat_word [simp]: "word_text (show_nat n)"
  using show_nat_decimal [of n] by (auto simp: word_text_def list_all_iff is_decimal_no_space)

lemma rstrip_id: "s \<noteq> [] \<Longrightarrow> \<not> is_space (last s) \<Longrightarrow> py_rstrip s = s"
  by (cases "rev s") (auto simp: py_rstrip_def last_rev hd_rev [symmetric] dest: arg_cong [where f = rev])

lemma rstrip_append: "s \<noteq> [] \<Longrightarrow> \<not> is_space (last s) \<Longrightarrow> py_rstrip (r @ s) = r @ s"
  by (rule rstrip_id) simp_all


section \<open>The counters of \<open>iptables\<close>\<close>

lemma isdigit_show_nat [simp]: "py_isdigit (show_nat n)"
  by (rule py_isdigit_decimal) (simp_all add: show_nat_decimal)

lemma py_int_show_nat: "length (show_nat n) \<le> 4300 \<Longrightarrow> py_int (show_nat n) = Inr (int n)"
  using py_int_show_int [of "int n"] by (simp add: show_int_def)

lemma parse_bandwidth_line:
  assumes "blank_text a" "word_text w" "blank_text b" "b \<noteq> []" "blank_text c" "c \<noteq> []"
    and "rest \<noteq> []" "\<not> is_space (last rest)" "length (show_nat n) \<le> 4300" "ok r"
    and "stdout r = a @ w @ b @ show_nat n @ c @ rest"
  shows "parse_bandwidth r = Inr (int n)"
proof -
  have "py_strip (stdout r) = w @ b @ show_nat n @ c @ rest"
    using assms(1,2) rstrip_append [OF assms(7,8), of "w @ b @ show_nat n @ c"]
    by (simp add: py_strip_def assms(11))
  moreover have "py_split (w @ b @ show_nat n @ c @ rest) = w # show_nat n # py_split (c @ rest)"
    using split_word [OF assms(2-4), of "[]"] split_word [OF show_nat_word assms(5,6,3)]
    by (simp add: blank_text_def)
  ultimately show ?thesis
    using assms(7,9,10) by (simp add: parse_bandwidth_def py_int_show_nat)
qed


section \<open>The lines of \<open>ps\<close>\<close>

lemma lazy_word_reads:
  "list_all (\<lambda>c. \<not> is_space c \<and> c \<noteq> CHR ''@'') u \<Longrightarrow> w \<noteq> [] \<or> u \<noteq> [] \<Longrightarrow>
   lazy_word w (u @ rest) = lazy_word (rev u @ w) rest"
proof (induction u arbitrary: w)
  case Nil
  then show ?case by simp
next
  case (Cons c u)
  then show ?case by (cases u) auto
qed

lemma match_sshd_reads:
  assumes "word_text u" "CHR ''@'' \<notin> set u"
  shows "match_sshd (''sshd: '' @ u) = Some u" "match_sshd (''sshd: '' @ u @ ''@'' @ tty) = Some u"
    and "is_space c \<Longrightarrow> match_sshd (''sshd: '' @ u @ c # tag) = None"
proof -
  have u: "list_all (\<lambda>c. \<not> is_space c \<and> c \<noteq> CHR ''@'') u" "u \<noteq> []"
    using assms by (auto simp: word_text_def list_all_iff)
  have sp: "is_space CHR '' ''" by (simp add: is_space_def)
  have strip: "py_lstrip (u @ s) = u @ s" for s using assms(1) by simp
  have at: "\<not> is_space CHR ''@''" by (simp add: is_space_def)
  have not_at: "is_space c \<Longrightarrow> c \<noteq> CHR ''@''" for c using at by auto
  show "match_sshd (''sshd: '' @ u) = Some u"
    using lazy_word_reads [OF u(1), of "[]" "[]"] strip [of "[]"] u(2) sp by (simp add: match_sshd_def)
  show "match_sshd (''sshd: '' @ u @ ''@'' @ tty) = Some u"
    using lazy_word_reads [OF u(1), of "[]" "CHR ''@'' # tty"] strip u(2) sp by (simp add: match_sshd_def)
  show "match_sshd (''sshd: '' @ u @ c # tag) = None" if "is_space c"
    using lazy_word_reads [OF u(1), of "[]" "c # tag"] strip u(2) sp not_at [OF that] that
    by (simp add: match_sshd_def)
qed

text \<open>A line of the listing: process id, the owner's name and the title of the process.\<close>

definition ps_line :: "string \<Rightarrow> nat \<Rightarrow> string \<Rightarrow> string \<Rightarrow> string" where
  "ps_line pad pid owner args = pad @ show_nat pid @ '' '' @ owner @ '' '' @ args"

lemma ps_line_split:
  assumes "blank_text pad" "word_text owner" "args \<noteq> []" "\<not> is_space (hd args)" "\<not> is_space (last args)"
  shows "py_split_max 2 (py_strip (ps_line pad pid owner args)) = [show_nat pid, owner, args]"
proof -
  have sp: "blank_text '' ''" by (simp add: blank_text_def is_space_def)
  have strip: "py_strip (ps_line pad pid owner args) = [] @ show_nat pid @ '' '' @ owner @ '' '' @ args"
    using assms(1) rstrip_append [OF assms(3,5), of "show_nat pid @ '' '' @ owner @ '' ''"]
      lstrip_word [OF show_nat_word, of pid "'' '' @ owner @ '' '' @ args"]
    by (simp add: py_strip_def ps_line_def)
  have "py_lstrip ('' '' @ args) = args"
    using assms(3,4) sp by (cases args) (auto simp: py_lstrip_def is_space_def)
  then have last: "py_split_max 0 ('' '' @ args) = [args]"
    using assms(3) rstrip_id [OF assms(3,5)] by (simp add: Let_def)
  show ?thesis
    unfolding strip numeral_2_eq_2
    using split_max_word [OF show_nat_word sp, of "[]" 1 pid "owner @ '' '' @ args"]
      split_max_word [OF assms(2) sp _ sp, of 0 args] last
    by (simp add: blank_text_def del: py_split_max.simps)
qed

lemma session_of_line_reads:
  assumes "blank_text pad" "word_text owner" "args \<noteq> []" "\<not> is_space (hd args)" "\<not> is_space (last args)"
    and run: "session_of_line E m acc (ps_line pad pid owner args) s = (Inr acc', t)"
    and "length (show_nat pid) \<le> 4300"
  shows "case match_sshd args of
       None \<Rightarrow> acc' = acc
     | Some u \<Rightarrow> if u \<in> {''root'', ''sshd'', ''priv''} then acc' = acc
                else \<exists>ip. acc' = acc @ [\<lparr>rs_user = u, rs_pid = int pid, rs_client_ip = ip\<rparr>]"
proof (cases "match_sshd args")
  case None
  with run show ?thesis
    by (simp add: session_of_line_def ps_line_split [OF assms(1-5)] py_return_def)
next
  case (Some u)
  define skip where "skip = {''root'', ''sshd'', ''priv''}"
  from run Some have "(if u \<in> skip then py_return acc
      else py_bind (session_ip E m (show_nat pid)) (\<lambda>ip.
           py_bind (lift_result (py_int (show_nat pid))) (\<lambda>n.
             py_return (acc @ [\<lparr>rs_user = u, rs_pid = n, rs_client_ip = ip\<rparr>])))) s = (Inr acc', t)"
    unfolding session_of_line_def ps_line_split [OF assms(1-5)] skip_def by simp
  then show ?thesis
    unfolding Some option.case skip_def [symmetric]
    by (auto elim!: py_bind_InrE simp: py_return_def lift_result_def py_int_show_nat [OF assms(7)] split: if_splits)
qed


section \<open>Dates as text\<close>

lemma digits_value_pad: "digits_value (zero_pad w s) = digits_value s"
proof -
  have "digits_value (replicate k (CHR ''0'') @ s) = digits_value s" for k
    by (induction k) (simp_all add: digits_value_def)
  then show ?thesis by (simp add: zero_pad_def)
qed

lemma two_digits_value: "0 \<le> n \<Longrightarrow> int (digits_value (two_digits n)) = n"
  by (simp add: two_digits_def digits_value_pad)

lemma two_digits_inj: "two_digits a = two_digits b \<Longrightarrow> 0 \<le> a \<Longrightarrow> 0 \<le> b \<Longrightarrow> a = b"
  by (metis two_digits_value)

lemma two_digits_no_dash: "CHR ''-'' \<notin> set (two_digits n)"
  using show_nat_decimal [of "nat n"]
  by (auto simp: two_digits_def zero_pad_def list_all_iff is_decimal_def)

lemma show_year_no_dash: "0 \<le> y \<Longrightarrow> CHR ''-'' \<notin> set (show_int y)"
  using show_nat_decimal [of "nat y"] by (auto simp: show_int_def list_all_iff is_decimal_def)

lemma split_at_eq:
  assumes "x \<notin> set a" "x \<notin> set b"
  shows "a @ x # s = b @ x # t \<longleftrightarrow> a = b \<and> s = t"
proof
  assume eq: "a @ x # s = b @ x # t"
  have "takeWhile (\<lambda>c. c \<noteq> x) (a @ x # s) = a" "takeWhile (\<lambda>c. c \<noteq> x) (b @ x # t) = b"
    using assms by (auto simp: takeWhile_append)
  with eq show "a = b \<and> s = t" by auto
qed simp

lemma show_int_inj:
  assumes "show_int i = show_int j" "0 \<le> i" "0 \<le> j"
  shows "i = j"
proof -
  from assms have "digits_value (show_nat (nat i)) = digits_value (show_nat (nat j))"
    by (simp only: show_int_def) simp
  with assms(2,3) show ?thesis by simp
qed

lemma ord2ymd_year:
  assumes "1 \<le> ord" "ord2ymd ord = (y, m, d)"
  shows "1 \<le> y"
proof -
  define a where "a = (ord - 1) div 146097"
  define n where "n = (ord - 1) mod 146097"
  define b where "b = n div 36524"
  define n' where "n' = n mod 36524"
  define c where "c = n' div 1461"
  define n3 where "n3 = n' mod 1461"
  define e where "e = n3 div 365"
  have pos: "0 \<le> a" "0 \<le> b" "0 \<le> c" "0 \<le> e"
    using assms(1) by (simp_all add: a_def n_def b_def n'_def c_def n3_def e_def pos_imp_zdiv_nonneg_iff)
  have "y = a * 400 + 1 + b * 100 + c * 4 + e - (if e = 4 \<or> b = 4 then 1 else 0)"
    using assms(2) unfolding ord2ymd_def Let_def a_def [symmetric] n_def [symmetric] b_def [symmetric]
      n'_def [symmetric] c_def [symmetric] n3_def [symmetric] e_def [symmetric]
    by (auto split: if_splits prod.splits)
  with pos show ?thesis by (cases "e = 4"; cases "b = 4") simp_all
qed

text \<open>What \<open>strftime\<close> prints names the day, and no other day.\<close>

lemma strftime_ymd_day:
  "\<exists>y m d. strftime_ymd t = show_int y @ ''-'' @ two_digits m @ ''-'' @ two_digits d \<and>
     ymd2ord (y, m, d) = ordinal_of t \<and> 1 \<le> m \<and> m \<le> 12 \<and> 1 \<le> d \<and> d \<le> days_in_month (is_leap y) m"
  using ord2ymd_inverse [of "ordinal_of t"] unfolding strftime_ymd_def by (auto split: prod.splits)

lemma ordinal_pos:
  assumes "datetime_ok t"
  shows "1 \<le> ordinal_of t"
proof -
  have "(1 - epoch_ordinal) * day_us div day_us \<le> t div day_us"
    using assms by (intro zdiv_mono1) (simp_all add: datetime_ok_def min_datetime_def)
  then show ?thesis by (simp add: ordinal_of_def day_us_def)
qed

lemma strftime_ymd_inj:
  assumes "datetime_ok t" "datetime_ok u" "strftime_ymd t = strftime_ymd u"
  shows "ordinal_of t = ordinal_of u"
proof -
  obtain y m d where t: "ord2ymd (ordinal_of t) = (y, m, d)" by (metis prod_cases3)
  obtain y' m' d' where u: "ord2ymd (ordinal_of u) = (y', m', d')" by (metis prod_cases3)
  have pos: "1 \<le> y" "1 \<le> y'" using ord2ymd_year ordinal_pos assms(1,2) t u by blast+
  then have y: "0 \<le> y" and y': "0 \<le> y'" by simp_all
  have mt: "ymd2ord (y, m, d) = ordinal_of t" "1 \<le> m" "1 \<le> d"
    using ord2ymd_inverse [of "ordinal_of t"] by (simp_all add: t)
  have mu: "ymd2ord (y', m', d') = ordinal_of u" "1 \<le> m'" "1 \<le> d'"
    using ord2ymd_inverse [of "ordinal_of u"] by (simp_all add: u)
  from assms(3) have "show_int y @ CHR ''-'' # two_digits m @ CHR ''-'' # two_digits d =
      show_int y' @ CHR ''-'' # two_digits m' @ CHR ''-'' # two_digits d'"
    by (simp add: strftime_ymd_def t u)
  then have texts: "show_int y = show_int y'" "two_digits m @ CHR ''-'' # two_digits d = two_digits m' @ CHR ''-'' # two_digits d'"
    unfolding split_at_eq [OF show_year_no_dash [OF y] show_year_no_dash [OF y']] by blast+
  from texts(2) have texts': "two_digits m = two_digits m'" "two_digits d = two_digits d'"
    unfolding split_at_eq [OF two_digits_no_dash two_digits_no_dash] by blast+
  have "y = y'" using show_int_inj [OF texts(1) y y'] .
  moreover have "m = m'" by (rule two_digits_inj [OF texts'(1)]) (use mt mu in linarith)+
  moreover have "d = d'" by (rule two_digits_inj [OF texts'(2)]) (use mt mu in linarith)+
  ultimately show ?thesis using mt(1) mu(1) by simp
qed

end
