(* ===== verification/Shell.thy ===== *)
theory Shell
  imports TextFacts ApiSerializers CreateFacts
begin

text \<open>
  How a POSIX shell splits a command line into words and operators, as far as the
  commands of \<open>servers/ssh.py\<close> go, and what the code's quoting achieves.  The splitter
  is the reference the quoting is measured against: blanks separate words, single quotes
  and a backslash quote (2.2.1 and 2.2.2 of the shell command language), the operator
  characters stand for themselves, and a line with any other unquoted special character
  is outside of it.
\<close>

section \<open>Words and operators\<close>

datatype sh_token = Word string | Op char

datatype sh_mode = Plain | Quoted | Escaped

definition sh_blank :: "char \<Rightarrow> bool" where
  "sh_blank c \<longleftrightarrow> c = CHR '' '' \<or> c = CHR 0x09"

definition sh_operator :: "char \<Rightarrow> bool" where
  "sh_operator c \<longleftrightarrow> c = newline \<or> c \<in> set '';&|<>()''"

definition sh_special :: "char \<Rightarrow> bool" where
  "sh_special c \<longleftrightarrow> c = dquote \<or> c = CHR ''`'' \<or> c \<in> set ''$*?[]#~{}!''"

definition sh_plain :: "char \<Rightarrow> bool" where
  "sh_plain c \<longleftrightarrow> c \<noteq> squote \<and> c \<noteq> backslash \<and> \<not> sh_blank c \<and> \<not> sh_operator c \<and> \<not> sh_special c"

definition flush :: "string option \<Rightarrow> sh_token list" where
  "flush cur = (case cur of None \<Rightarrow> [] | Some w \<Rightarrow> [Word w])"

definition word_so_far :: "string option \<Rightarrow> string" where
  "word_so_far cur = (case cur of None \<Rightarrow> [] | Some w \<Rightarrow> w)"

text \<open>\<open>cur\<close> is the word being read: \<open>None\<close> between words, since a word may be empty.\<close>

fun sh_scan :: "sh_mode \<Rightarrow> string option \<Rightarrow> string \<Rightarrow> sh_token list option" where
  "sh_scan mode cur [] = (if mode = Plain then Some (flush cur) else None)"
| "sh_scan Quoted cur (c # cs) =
     (if c = squote then sh_scan Plain cur cs else sh_scan Quoted (Some (word_so_far cur @ [c])) cs)"
| "sh_scan Escaped cur (c # cs) =
     (if c = newline then sh_scan Plain cur cs else sh_scan Plain (Some (word_so_far cur @ [c])) cs)"
| "sh_scan Plain cur (c # cs) =
     (if c = squote then sh_scan Quoted (Some (word_so_far cur)) cs
      else if c = backslash then sh_scan Escaped cur cs
      else if sh_blank c then map_option (append (flush cur)) (sh_scan Plain None cs)
      else if sh_operator c then map_option (append (flush cur @ [Op c])) (sh_scan Plain None cs)
      else if sh_special c then None
      else sh_scan Plain (Some (word_so_far cur @ [c])) cs)"

definition sh_words :: "string \<Rightarrow> sh_token list option" where
  "sh_words = sh_scan Plain None"


section \<open>Quoting\<close>

lemma word_so_far_simps [simp]: "word_so_far None = []" "word_so_far (Some w) = w"
  by (simp_all add: word_so_far_def)

lemma flush_simps [simp]: "flush None = []" "flush (Some w) = [Word w]"
  by (simp_all add: flush_def)

lemma scan_quoted:
  "squote \<notin> set v \<Longrightarrow>
   sh_scan Quoted (Some w) (v @ squote # rest) = sh_scan Plain (Some (w @ v)) rest"
  by (induction v arbitrary: w) auto

lemma scan_quote_body:
  "sh_scan Quoted (Some w) (py_replace_char squote [squote, backslash, squote, squote] v @ squote # rest) =
   sh_scan Plain (Some (w @ v)) rest"
  by (induction v arbitrary: w) (auto simp: py_replace_char_def sh_blank_def sh_operator_def)

text \<open>Whatever the value: \<open>_q\<close> adds it to the word being read, as it is.\<close>

lemma scan_shell_quote:
  "sh_scan Plain cur (shell_quote v @ rest) = sh_scan Plain (Some (word_so_far cur @ v)) rest"
  using scan_quote_body [of "word_so_far cur" v rest] by (simp add: shell_quote_def)

lemma scan_plain:
  "list_all sh_plain v \<Longrightarrow> v \<noteq> [] \<or> cur \<noteq> None \<Longrightarrow>
   sh_scan Plain cur (v @ rest) = sh_scan Plain (Some (word_so_far cur @ v)) rest"
proof (induction v arbitrary: cur)
  case Nil
  then show ?case by (cases cur) auto
next
  case (Cons c v)
  then show ?case by (auto simp: sh_plain_def)
qed

lemma scan_shell_quote_end:
  "sh_scan Plain cur (shell_quote v) = Some [Word (word_so_far cur @ v)]"
  using scan_shell_quote [of cur v "[]"] by simp

lemma scan_char:
  "sh_plain c \<Longrightarrow> sh_scan Plain cur (c # cs) = sh_scan Plain (Some (word_so_far cur @ [c])) cs"
  by (simp add: sh_plain_def)

lemma scan_space: "sh_scan Plain cur (CHR '' '' # cs) = map_option (append (flush cur)) (sh_scan Plain None cs)"
  by (simp add: sh_blank_def)

lemma scan_operator:
  "sh_operator c \<Longrightarrow> sh_scan Plain cur (c # cs) = map_option (append (flush cur @ [Op c])) (sh_scan Plain None cs)"
  by (auto simp: sh_blank_def sh_operator_def)

lemma scan_squote: "sh_scan Plain cur (squote # cs) = sh_scan Quoted (Some (word_so_far cur)) cs"
  by simp

lemmas sh_class_defs = sh_plain_def sh_blank_def sh_operator_def sh_special_def

text \<open>The commands of the user management, for every user name, date and password.\<close>

lemma useradd_words:
  "sh_words (''useradd -m -s /bin/false '' @ shell_quote u) =
   Some [Word ''useradd'', Word ''-m'', Word ''-s'', Word ''/bin/false'', Word u]"
  by (simp add: sh_words_def scan_shell_quote_end sh_class_defs)

lemma chpasswd_words:
  "sh_words (''echo '' @ shell_quote u @ '':'' @ shell_quote p @ '' | chpasswd'') =
   Some [Word ''echo'', Word (u @ '':'' @ p), Op CHR ''|'', Word ''chpasswd'']"
  by (simp add: sh_words_def scan_shell_quote sh_class_defs)

lemma delete_words:
  "sh_words (''pkill -u '' @ shell_quote u @ '' || true'') =
     Some [Word ''pkill'', Word ''-u'', Word u, Op CHR ''|'', Op CHR ''|'', Word ''true'']"
  "sh_words (''userdel -rf '' @ shell_quote u) = Some [Word ''userdel'', Word ''-rf'', Word u]"
  by (simp_all add: sh_words_def scan_shell_quote scan_shell_quote_end sh_class_defs)

lemma lock_words:
  "sh_words (''usermod -L '' @ shell_quote u) = Some [Word ''usermod'', Word ''-L'', Word u]"
  "sh_words (''usermod -U '' @ shell_quote u) = Some [Word ''usermod'', Word ''-U'', Word u]"
  by (simp_all add: sh_words_def scan_shell_quote_end sh_class_defs)

lemma chage_words:
  "sh_words (''chage -E '' @ shell_quote d @ '' '' @ shell_quote u) =
   Some [Word ''chage'', Word ''-E'', Word d, Word u]"
  by (simp add: sh_words_def scan_shell_quote scan_shell_quote_end sh_class_defs)

lemma id_words:
  "sh_words (''id '' @ shell_quote u) = Some [Word ''id'', Word u]"
  "sh_words (''id -u '' @ shell_quote u) = Some [Word ''id'', Word ''-u'', Word u]"
  by (simp_all add: sh_words_def scan_shell_quote_end sh_class_defs)


section \<open>What is not quoted\<close>

text \<open>
  The first command of \<open>set_max_logins\<close>.  The quotation marks around the pattern close
  at the first one \<open>_q\<close> puts, so that the user name stands outside of any quotes.
\<close>

definition limits_line :: "string \<Rightarrow> int \<Rightarrow> string" where
  "limits_line u n = u @ ''  hard  maxlogins  '' @ show_int n"

definition limits_command :: "string \<Rightarrow> int \<Rightarrow> string" where
  "limits_command u n =
     quoted ''grep -q `^'' @ shell_quote u @ quoted ''` /etc/security/limits.conf '' @
     quoted ''&& sed -i `/^'' @ shell_quote u @ ''/c'' @ [backslash] @ limits_line u n @
     quoted ''` /etc/security/limits.conf '' @
     quoted ''|| echo `'' @ limits_line u n @ quoted ''` >> /etc/security/limits.conf''"

lemma show_int_plain: "list_all sh_plain (show_int n)"
proof -
  have "sh_plain c" if "is_decimal c" for c
    using that by (auto simp: is_decimal_def sh_class_defs)
  then have "list_all sh_plain (show_nat k)" for k
    using show_nat_decimal [of k] by (auto simp: list_all_iff)
  then show ?thesis by (simp add: show_int_def sh_class_defs)
qed

lemma plain_no_squote: "list_all sh_plain u \<Longrightarrow> squote \<notin> set u"
  by (auto simp: list_all_iff sh_plain_def)

lemma limits_line_no_squote: "list_all sh_plain u \<Longrightarrow> squote \<notin> set (limits_line u n)"
  using plain_no_squote [of u] plain_no_squote [OF show_int_plain, of n] by (simp add: limits_line_def)

lemma shell_quote_plain: "list_all sh_plain u \<Longrightarrow> shell_quote u = squote # u @ [squote]"
  using plain_no_squote [of u]
  by (induction u) (auto simp: shell_quote_def py_replace_char_def)

lemma scan_quoted_line:
  "list_all sh_plain u \<Longrightarrow> sh_scan Quoted (Some w) (limits_line u n @ squote # rest) =
   sh_scan Plain (Some (w @ limits_line u n)) rest"
  by (rule scan_quoted [OF limits_line_no_squote])

lemma limits_words:
  assumes u: "list_all sh_plain u"
  shows "sh_words (limits_command u n) = Some
    [Word ''grep'', Word ''-q'', Word (''^'' @ u), Word ''/etc/security/limits.conf'',
     Op CHR ''&'', Op CHR ''&'', Word ''sed'', Word ''-i'', Word (''/^'' @ u @ ''/c'' @ [backslash] @ limits_line u n),
     Word ''/etc/security/limits.conf'', Op CHR ''|'', Op CHR ''|'', Word ''echo'', Word (limits_line u n),
     Op CHR ''>'', Op CHR ''>'', Word ''/etc/security/limits.conf'']"
  by (simp add: sh_words_def limits_command_def quoted_def shell_quote_plain [OF u] scan_plain [OF u]
      scan_quoted_line [OF u] sh_class_defs)

lemma chain_words:
  assumes u: "list_all sh_plain u"
  shows "sh_words (''iptables -L '' @ traffic_chain u @ '' -n 2>/dev/null'') = Some
    [Word ''iptables'', Word ''-L'', Word (''SSHVPN_'' @ u), Word ''-n'', Word ''2'', Op CHR ''>'', Word ''/dev/null'']"
  by (simp add: sh_words_def traffic_chain_def scan_plain [OF u] sh_class_defs)

lemma name_char_plain: "name_char c \<Longrightarrow> sh_plain c"
  by (auto simp: name_char_def name_start_def sh_class_defs)

lemma name_plain: "is_name lo hi u \<Longrightarrow> list_all sh_plain u"
  by (cases u) (auto simp: list_all_iff name_char_def intro: name_char_plain)

text \<open>A user name with a semicolon ends the command and starts another.\<close>

lemma limits_injection:
  "\<exists>rest. sh_words (limits_command ''a;reboot'' n) =
     Some ([Word ''grep'', Word ''-q'', Word ''^a'', Op CHR '';'', Word ''reboot''] @ rest)"
proof -
  have line: "squote \<notin> set (limits_line ''a;reboot'' n)"
    using plain_no_squote [OF show_int_plain, of n] by (simp add: limits_line_def)
  have quote: "shell_quote ''a;reboot'' = squote # ''a;reboot'' @ [squote]"
    by (simp add: shell_quote_def py_replace_char_def)
  show ?thesis
    by (simp add: sh_words_def limits_command_def quoted_def quote scan_quoted [OF line] sh_class_defs)
qed

lemma chain_injection:
  "sh_words (''iptables -L '' @ traffic_chain ''a;reboot'' @ '' -n 2>/dev/null'') =
     Some [Word ''iptables'', Word ''-L'', Word ''SSHVPN_a'', Op CHR '';'', Word ''reboot'', Word ''-n'',
           Word ''2'', Op CHR ''>'', Word ''/dev/null'']"
  by (simp add: sh_words_def traffic_chain_def sh_class_defs)


section \<open>What the operations send\<close>

lemma py_then_cases:
  assumes "py_then m k s = (r, u)"
  obtains (raised) e where "m s = (Inl e, u)" "r = Inl e"
  | (ran) x t where "m s = (Inr x, t)" "k t = (r, u)"
  using assms unfolding py_then_def by (rule py_bind_cases)

definition check_script_command :: string where
  "check_script_command =
     quoted ''test -f /etc/ssh/check_maxlogins.sh && grep -q `pgrep.*sshd` /etc/ssh/check_maxlogins.sh && echo ok''"

definition install_script_command :: string where
  "install_script_command =
     quoted ''echo `'' @ base64_encode maxlogin_script @ quoted ''` | base64 -d > /etc/ssh/check_maxlogins.sh''"

definition pam_command :: string where
  "pam_command =
     quoted (''grep -q `check_maxlogins` /etc/pam.d/sshd || '' @
       ''sed -i `/^@include common-auth/i auth required pam_exec.so quiet /etc/ssh/check_maxlogins.sh` /etc/pam.d/sshd'')"

definition script_commands :: "string list" where
  "script_commands = [check_script_command, install_script_command, ''chmod +x /etc/ssh/check_maxlogins.sh'', pam_command]"

text \<open>Commands one after another: those of a beginning of the list have been sent, all of them without an exception.\<close>

lemma run_sequence:
  assumes "foldr (\<lambda>cmd k. py_then (run E (connected srv c) cmd) k) cmds (py_return ()) s = (r, t)"
  shows "\<exists>k. io t = io s @ map (Exec c) (take k cmds) \<and> (r = Inr () \<longrightarrow> length cmds \<le> k)"
  using assms
proof (induction cmds arbitrary: s)
  case Nil
  then show ?case by (simp add: py_return_def)
next
  case (Cons cmd cmds)
  from Cons.prems have "py_then (run E (connected srv c) cmd)
      (foldr (\<lambda>cmd k. py_then (run E (connected srv c) cmd) k) cmds (py_return ())) s = (r, t)" by simp
  then show ?case
  proof (cases rule: py_then_cases)
    case (raised e)
    with run_connected [OF raised(1)] show ?thesis by (intro exI [of _ 1]) auto
  next
    case (ran x s1)
    from Cons.IH [OF ran(2)] obtain k where
      "io t = io s1 @ map (Exec c) (take k cmds)" "r = Inr () \<longrightarrow> length cmds \<le> k" by blast
    with run_connected [OF ran(1)] show ?thesis by (intro exI [of _ "Suc k"]) auto
  qed
qed

lemma ensure_script_run:
  assumes "ensure_maxlogin_script E (connected srv c) s = (r, t)"
  shows "\<exists>k. io t = io s @ map (Exec c) (take k script_commands) \<and> (r = Inr () \<longrightarrow> k = 1 \<or> 4 \<le> k)"
  using assms
  unfolding ensure_maxlogin_script_def Let_def check_script_command_def [symmetric]
    install_script_command_def [symmetric] pam_command_def [symmetric]
proof (cases rule: py_bind_cases)
  case (raised e)
  then show ?thesis by (intro exI [of _ 1]) (auto simp: script_commands_def dest!: run_connected)
next
  case (ran x s1)
  from run_connected [OF ran(1)] have io1: "io s1 = io s @ [Exec c check_script_command]" by simp
  show ?thesis
  proof (cases "contains ''ok'' (stdout x)")
    case True
    with ran(2) io1 show ?thesis
      by (intro exI [of _ 1]) (auto simp: script_commands_def py_return_def)
  next
    case False
    with ran(2) have "foldr (\<lambda>cmd k. py_then (run E (connected srv c) cmd) k) (tl script_commands)
        (py_return ()) s1 = (r, t)"
      by (simp add: script_commands_def)
    from run_sequence [OF this] obtain k where "io t = io s1 @ map (Exec c) (take k (tl script_commands))"
      "r = Inr () \<longrightarrow> length (tl script_commands) \<le> k" by blast
    with io1 show ?thesis
      by (intro exI [of _ "Suc k"]) (auto simp: script_commands_def)
  qed
qed

lemma set_max_logins_run:
  assumes "set_max_logins E (connected srv c) u n s = (r, t)"
  shows "\<exists>k. io t = io s @ map (Exec c) (limits_command u n # take k script_commands)"
  using assms unfolding set_max_logins_def Let_def limits_line_def [symmetric] limits_command_def [symmetric]
proof (cases rule: py_then_cases)
  case (raised e)
  from run_connected [OF raised(1)] show ?thesis by (intro exI [of _ 0]) simp
next
  case (ran x s1)
  from run_connected [OF ran(1)] have io1: "io s1 = io s @ [Exec c (limits_command u n)]" by simp
  from ran(2) obtain q s2 where "ensure_maxlogin_script E (connected srv c) s1 = (q, s2)" and "t = s2"
    by (auto elim!: py_then_cases simp: py_return_def)
  with ensure_script_run io1 show ?thesis by fastforce
qed

lemma sh_words_install:
  "sh_words install_script_command = Some
     [Word ''echo'', Word (base64_encode maxlogin_script), Op CHR ''|'', Word ''base64'', Word ''-d'',
      Op CHR ''>'', Word ''/etc/ssh/check_maxlogins.sh'']"
proof -
  have alphabet: "squote \<notin> set (base64_encode s)" for s
  proof -
    have pad: "base64_char n \<noteq> squote" for n
    proof
      assume "base64_char n = squote"
      moreover have "base64_value squote = 64" by code_simp
      ultimately show False using base64_value_char [of n] by simp
    qed
    show ?thesis by (induction s rule: base64_encode.induct) (auto simp: pad pad [symmetric])
  qed
  show ?thesis
    unfolding sh_words_def install_script_command_def
    by (simp add: quoted_def scan_quoted [OF alphabet] sh_class_defs del: base64_encode.simps)
qed


text \<open>The commands sent so far are a beginning of these, each split by the shell into exactly these words.\<close>

definition sends :: "nat \<Rightarrow> sh_token list list \<Rightarrow> 'w sys \<Rightarrow> 'w sys \<Rightarrow> bool" where
  "sends c argvs s t \<longleftrightarrow>
     (\<exists>cmds. io t = io s @ map (Exec c) cmds \<and> length cmds \<le> length argvs \<and>
        map sh_words cmds = map Some (take (length cmds) argvs))"

lemma sends_one:
  "run E (connected srv c) cmd s = (r, t) \<Longrightarrow> sh_words cmd = Some ws \<Longrightarrow> sends c [ws] s t"
  unfolding sends_def by (drule run_connected) (auto intro!: exI [of _ "[cmd]"])

lemma sends_then:
  assumes "py_then (run E (connected srv c) cmd1) (run E (connected srv c) cmd2) s = (r, t)"
    and "sh_words cmd1 = Some ws1" "sh_words cmd2 = Some ws2"
  shows "sends c [ws1, ws2] s t"
  using assms(1)
proof (cases rule: py_then_cases)
  case (raised e)
  from run_connected [OF raised(1)] assms show ?thesis
    unfolding sends_def by (intro exI [of _ "[cmd1]"]) simp
next
  case (ran x u)
  from run_connected [OF ran(1)] run_connected [OF ran(2)] assms show ?thesis
    unfolding sends_def by (intro exI [of _ "[cmd1, cmd2]"]) simp
qed

lemma user_commands_sent:
  "create_user E (connected srv c) u p s = (r, t) \<Longrightarrow>
     sends c [[Word ''useradd'', Word ''-m'', Word ''-s'', Word ''/bin/false'', Word u],
              [Word ''echo'', Word (u @ '':'' @ p), Op CHR ''|'', Word ''chpasswd'']] s t"
  "delete_user E (connected srv c) u s = (r, t) \<Longrightarrow>
     sends c [[Word ''pkill'', Word ''-u'', Word u, Op CHR ''|'', Op CHR ''|'', Word ''true''],
              [Word ''userdel'', Word ''-rf'', Word u]] s t"
  "lock_user E (connected srv c) u s = (r, t) \<Longrightarrow> sends c [[Word ''usermod'', Word ''-L'', Word u]] s t"
  "unlock_user E (connected srv c) u s = (r, t) \<Longrightarrow> sends c [[Word ''usermod'', Word ''-U'', Word u]] s t"
  "set_expiry E (connected srv c) u d s = (r, t) \<Longrightarrow>
     sends c [[Word ''chage'', Word ''-E'', Word d, Word u]] s t"
  "change_password E (connected srv c) u p s = (r, t) \<Longrightarrow>
     sends c [[Word ''echo'', Word (u @ '':'' @ p), Op CHR ''|'', Word ''chpasswd'']] s t"
  unfolding create_user_def delete_user_def lock_user_def unlock_user_def set_expiry_def change_password_def
  by (erule sends_then sends_one, rule useradd_words chpasswd_words delete_words lock_words chage_words,
      (rule chpasswd_words delete_words)?)+

lemma user_exists_sent:
  assumes "user_exists E (connected srv c) u s = (r, t)"
  shows "sends c [[Word ''id'', Word u]] s t"
  using assms unfolding user_exists_def
proof (cases rule: py_bind_cases)
  case (raised e)
  then show ?thesis using sends_one id_words(1) by blast
next
  case (ran x v)
  then have "t = v" by (simp add: py_return_def)
  with ran(1) show ?thesis using sends_one id_words(1) by blast
qed

text \<open>The name of every account that was provisioned over SSH has been in that command.\<close>

lemma provision_ssh_limits:
  assumes "provision_ssh_account E srv u pw expire n b s = (Inr (), t)"
  shows "\<exists>c. Exec c (limits_command u n) \<in> set (io t)"
  using assms unfolding provision_ssh_account_def
proof (rule with_ssh_InrE)
  fix c args s1 s2
  assume io2: "io t = io s2 @ [Close c]"
    and body: "py_bind (create_user E (connected srv c) u pw) (\<lambda>result.
         if \<not> ok result
         then py_raise (AccountError (''Remote user creation failed: '' @ stderr result))
         else
           py_then (set_expiry E (connected srv c) u (strftime_ymd expire))
          (py_then (set_max_logins E (connected srv c) u n)
             (py_when (b > 0) (setup_traffic_accounting E (connected srv c) u)))) s1 = (Inr (), s2)"
  from body obtain s3 s4 x where lim: "set_max_logins E (connected srv c) u n s3 = (Inr x, s4)"
    and rest: "py_when (b > 0) (setup_traffic_accounting E (connected srv c) u) s4 = (Inr (), s2)"
    by (auto elim!: py_bind_InrE py_then_InrE simp: py_raise_def split: if_splits)
  have "steps (execs c) (py_when (b > 0) (setup_traffic_accounting E (connected srv c) u))" by (intro steps_intro)
  then have "execs c s4 s2" using rest by (rule steps_run)
  then have "set (io s4) \<subseteq> set (io s2)" by (auto simp: execs_def)
  with set_max_logins_run [OF lim] io2 show ?thesis by fastforce
qed

lemma created_limits:
  assumes "create_account E args s = (Inr a, t)" "acc_protocol_type a = SSH"
  shows "\<exists>c. Exec c (limits_command (arg_username args) (acc_max_connections a)) \<in> set (io t)"
  using assms(1)
proof (rule create_account_Inr, goal_cases)
  case (1 srv u password s1 s2)
  then have "provision_ssh_account E srv (acc_username a) password (acc_expire_date a)
      (acc_max_connections a) (acc_bandwidth_limit_gb a) s1 = (Inr (), s2)"
    using assms(2) by simp
  from provision_ssh_limits [OF this] 1 show ?case by (simp add: created_from_def)
qed

end
