(* ===== verification/TextProperties.thy ===== *)
theory TextProperties
  imports Shell DemoApi ApiFacts
begin

text \<open>
  The properties of the texts exchanged with the nodes: what a shell makes of the
  commands, and what the panel reads back.
\<close>

section \<open>Commands\<close>

text \<open>
  C11: the commands that add, remove, lock and unlock a user, set the password and the
  expiry date, and look the user up, are read by the shell as exactly the intended words,
  the user name, the password and the date each inside one word as they are, whatever
  characters they have: no value can end a word or start another command.
\<close>

theorem user_commands_quoted:
  "(create_user E (connected srv c) u p s = (r1, t) \<longrightarrow>
      sends c [[Word ''useradd'', Word ''-m'', Word ''-s'', Word ''/bin/false'', Word u],
               [Word ''echo'', Word (u @ '':'' @ p), Op CHR ''|'', Word ''chpasswd'']] s t) \<and>
   (delete_user E (connected srv c) u s = (r1, t) \<longrightarrow> 
      sends c [[Word ''pkill'', Word ''-u'', Word u, Op CHR ''|'', Op CHR ''|'', Word ''true''],
               [Word ''userdel'', Word ''-rf'', Word u]] s t) \<and>
   (lock_user E (connected srv c) u s = (r1, t) \<longrightarrow> sends c [[Word ''usermod'', Word ''-L'', Word u]] s t) \<and>
   (unlock_user E (connected srv c) u s = (r1, t) \<longrightarrow> sends c [[Word ''usermod'', Word ''-U'', Word u]] s t) \<and>
   (set_expiry E (connected srv c) u d s = (r1, t) \<longrightarrow>
      sends c [[Word ''chage'', Word ''-E'', Word d, Word u]] s t) \<and>
   (change_password E (connected srv c) u p s = (r1, t) \<longrightarrow>
      sends c [[Word ''echo'', Word (u @ '':'' @ p), Op CHR ''|'', Word ''chpasswd'']] s t) \<and>
   (user_exists E (connected srv c) u s = (r2, t) \<longrightarrow> sends c [[Word ''id'', Word u]] s t)"
  by (intro conjI impI) (erule user_commands_sent user_exists_sent)+

lemma user_commands_quoted_witness:
  "\<exists>t. lock_user demo_env (connected demo_server 0) (''a'' @ [squote] @ ''; reboot'') demo_sys =
       (Inr \<lparr>exit_code = 0, stdout = ''ok'', stderr = ''''\<rparr>, t) \<and>
     sends 0 [[Word ''usermod'', Word ''-L'', Word (''a'' @ [squote] @ ''; reboot'')]] demo_sys t"
proof -
  define u where "u = ''a'' @ [squote] @ ''; reboot''"
  define out where "out = ''ok''"
  have strip: "py_strip ''ok'' = ''ok''" "py_strip '''' = ''''" by code_simp+
  have "\<exists>t. lock_user demo_env (connected demo_server 0) u demo_sys =
       (Inr \<lparr>exit_code = 0, stdout = ''ok'', stderr = ''''\<rparr>, t)"
    by (simp add: lock_user_def run_def connected_def py_bind_def py_return_def call_def demo_env_def strip
        get_ssh_manager_def)
  then obtain t where "lock_user demo_env (connected demo_server 0) u demo_sys =
       (Inr \<lparr>exit_code = 0, stdout = ''ok'', stderr = ''''\<rparr>, t)" by blast
  with user_commands_quoted [of demo_env demo_server 0 u _ demo_sys _ t] show ?thesis
    unfolding u_def by blast
qed


text \<open>
  The one quoted value that loses its quotes is the user name in the pattern of
  \<open>set_max_logins\<close>; for a name the serializers accept, its first command is still read
  as the intended words, and what follows are the commands that install the login
  script, or a beginning of them.
\<close>

theorem max_logins_words:
  assumes "set_max_logins E (connected srv c) u n s = (r, t)" and "is_name lo hi u"
  shows "\<exists>cmd k. io t = io s @ map (Exec c) (cmd # take k script_commands) \<and> sh_words cmd = Some
    [Word ''grep'', Word ''-q'', Word (''^'' @ u), Word ''/etc/security/limits.conf'', Op CHR ''&'', Op CHR ''&'',
     Word ''sed'', Word ''-i'', Word (''/^'' @ u @ ''/c'' @ [backslash] @ limits_line u n),
     Word ''/etc/security/limits.conf'', Op CHR ''|'', Op CHR ''|'', Word ''echo'', Word (limits_line u n),
     Op CHR ''>'', Op CHR ''>'', Word ''/etc/security/limits.conf'']"
  using set_max_logins_run [OF assms(1)] limits_words [OF name_plain [OF assms(2)]] by blast

text \<open>
  C12: the names of the payment webhook are not checked, and the shell of the node runs
  what they say: when a webhook call of anyone is answered with 201 for the name
  ``a;reboot'', on a panel whose servers are SSH servers, then a command was sent to the
  node that the shell reads as \<open>grep -q ^a\<close>, a semicolon and \<open>reboot\<close>.
\<close>

theorem webhook_reaches_shell:
  assumes "serve E F None (CallPaymentWebhook data) s = (Inr (Response 201 j), t)"
    and "validate_payment F data = Inr d" and "pd_username d = ''a;reboot''"
    and "\<forall>r \<in> set (servers (db s)). srv_protocol_type r = SSH"
  shows "\<exists>c cmd rest. Exec c cmd \<in> set (io t) \<and>
    sh_words cmd = Some ([Word ''grep'', Word ''-q'', Word ''^a'', Op CHR '';'', Word ''reboot''] @ rest)"
proof -
  have run: "payment_webhook_view E F data s = (Inr (Response 201 j), t)"
    using assms(1) by (simp add: serve_def admits_def)
  then obtain p where "paid_effect E ''a;reboot'' p (Response 201 j) s t"
    by (rule payment_webhook_Inr) (use assms(2,3) in \<open>auto split: if_splits\<close>)
  then obtain a u where made: "create_account E (default_args ''a;reboot'' p) s = (Inr a, u)" and io: "io t = io u"
    by (auto simp: paid_effect_def split: option.splits)
  from made have "acc_protocol_type a = SSH"
  proof (rule create_account_Inr, goal_cases)
    case (1 srv v password s1 s2)
    then have "srv \<in> set (servers (db s))"
      using pick_best_server_Inr(3) [OF 1(1)] by (simp add: default_args_def)
    with 1(2) assms(4) show ?case by (simp add: created_from_def default_args_def default_to_def)
  qed
  from created_limits [OF made this] io limits_injection show ?thesis by (metis default_args_username)
qed

definition demo_attack :: request_data where
  "demo_attack =
     [(''order_id'', JStr ''o''), (''username'', JStr ''a;reboot''), (''plan_id'', JInt 1),
      (''amount'', JInt 0), (''status'', JStr ''paid''), (''signature'', JStr ''x'')]"

lemma demo_attack_valid:
  "validate_payment demo_drf demo_attack =
     Inr \<lparr>pd_order_id = ''o'', pd_username = ''a;reboot'', pd_plan_id = 1, pd_amount_cents = 0,
          pd_status = ''paid'', pd_signature = ''x''\<rparr>"
  by code_simp

lemma demo_attack_create: "\<not> isl (fst (create_account demo_env (default_args ''a;reboot'' demo_plan) demo_sys))"
  by (simp add: demo_defs run_defs ssh_defs create_account_def pick_best_server_def default_args_def default_to_def
      generate_password_def upt_rec
      provision_ssh_account_def by_cpu_def is_available_def datetime_ok_def min_datetime_def max_datetime_def
      day_us_def epoch_ordinal_def current_user_count_def lift_result_def add_days_def Let_def)

lemma demo_attack_run:
  "\<exists>j t. serve demo_env demo_drf None (CallPaymentWebhook demo_attack) demo_sys = (Inr (Response 201 j), t)"
proof -
  obtain a u where made: "create_account demo_env (default_args ''a;reboot'' demo_plan) demo_sys = (Inr a, u)"
    using returned [OF demo_attack_create] by blast
  have "payable ''a;reboot'' demo_db = None" by code_simp
  then have "payable ''a;reboot'' (db demo_sys) = None" by (simp add: demo_sys_def)
  moreover obtain j w where "serialize_account demo_env demo_drf a u = (Inr j, w)"
    using demo_serialize [OF made] by (auto simp: default_args_def)
  ultimately show ?thesis
    using made
    by (auto simp: serve_def admits_def payment_webhook_view_def demo_attack_valid lift_result_def demo_plan_1
        catching_account_error_def query_def py_get_def py_bind_def py_return_def py_try_def)
qed

lemma webhook_reaches_shell_witness:
  "\<exists>j t c cmd rest. serve demo_env demo_drf None (CallPaymentWebhook demo_attack) demo_sys = (Inr (Response 201 j), t) \<and>
     Exec c cmd \<in> set (io t) \<and>
     sh_words cmd = Some ([Word ''grep'', Word ''-q'', Word ''^a'', Op CHR '';'', Word ''reboot''] @ rest)"
proof -
  obtain j t where run: "serve demo_env demo_drf None (CallPaymentWebhook demo_attack) demo_sys = (Inr (Response 201 j), t)"
    using demo_attack_run by blast
  have "\<forall>r \<in> set (servers (db demo_sys)). srv_protocol_type r = SSH"
    by (simp add: demo_sys_def demo_db_def demo_server_def)
  with webhook_reaches_shell [OF run demo_attack_valid] run show ?thesis by fastforce
qed


section \<open>The login script\<close>

text \<open>
  Installing the login script runs a beginning of four commands, and when it returns
  either the first alone, because the script was there, or all four; the second is read
  by the shell as a pipe of the encoded script into \<open>base64 -d\<close> and the file, and what
  \<open>base64 -d\<close> makes of it is the script, as it makes every text out of its encoding.
\<close>

theorem script_installed_intact:
  assumes "ensure_maxlogin_script E (connected srv c) s = (r, t)"
  shows "(\<exists>k. io t = io s @ map (Exec c) (take k script_commands) \<and> (r = Inr () \<longrightarrow> k = 1 \<or> 4 \<le> k)) \<and>
    sh_words (script_commands ! 1) = Some
      [Word ''echo'', Word (base64_encode maxlogin_script), Op CHR ''|'', Word ''base64'', Word ''-d'',
       Op CHR ''>'', Word ''/etc/ssh/check_maxlogins.sh''] \<and>
    (\<forall>text. base64_decode (base64_encode text) = Some text)"
  using ensure_script_run [OF assms] sh_words_install base64_roundtrip
  by (simp add: script_commands_def)

lemma script_installed_intact_witness:
  "\<exists>r t k. ensure_maxlogin_script demo_env (connected demo_server 0) demo_sys = (r, t) \<and>
     io t = map (Exec 0) (take k script_commands) \<and>
     base64_decode (base64_encode maxlogin_script) = Some maxlogin_script"
proof (cases "ensure_maxlogin_script demo_env (connected demo_server 0) demo_sys")
  case (Pair r t)
  with script_installed_intact [OF Pair] show ?thesis by (auto simp: demo_sys_def)
qed


section \<open>Reading back\<close>

text \<open>
  The printed form of a token has the 36 characters of a UUID and can be read back:
  two tokens below 2 to the 128 that are printed alike are equal, so no account is
  registered at a bridge under the token of another.
\<close>

theorem uuid_str_roundtrip:
  "length (uuid_str u) = 36 \<and> uuid_value (uuid_str u) = u mod 2 ^ 128 \<and>
   (u < 2 ^ 128 \<and> v < 2 ^ 128 \<and> uuid_str u = uuid_str v \<longrightarrow> u = v)"
proof -
  have "length (uuid_str u) = 36"
    using length_hex_digits [of 32 u] unfolding uuid_str_def Let_def by (simp del: length_hex_digits hex_digits.simps)
  moreover have "u = v" if "u < 2 ^ 128" "v < 2 ^ 128" "uuid_str u = uuid_str v"
    using uuid_str_value [of u] uuid_str_value [of v] that(3)
    unfolding mod_less [OF that(1)] mod_less [OF that(2)] by metis
  ultimately show ?thesis using uuid_str_value [of u] by blast
qed

text \<open>
  The traffic of a user is read off the listing of his chain: from a last line that
  has a word, the number of bytes and more, with any blanks around them, the panel
  gets that number.
\<close>

theorem counter_line_read:
  assumes "blank_text a" "word_text w" "blank_text b" "b \<noteq> []" "blank_text c" "c \<noteq> []"
    and "rest \<noteq> []" "\<not> is_space (last rest)" "length (show_nat n) \<le> 4300" "ok r"
    and "stdout r = a @ w @ b @ show_nat n @ c @ rest"
  shows "parse_bandwidth r = Inr (int n)"
  using assms by (rule parse_bandwidth_line)

text \<open>
  A line of the process listing becomes a session of the user that the title of the
  process names, with its process id, or nothing: titles the pattern does not match,
  which are those with a tag after the name, and the three names that are not users are
  left out.
\<close>

theorem ps_line_read:
  assumes "blank_text pad" "word_text owner" "word_text u" "CHR ''@'' \<notin> set u" "length (show_nat pid) \<le> 4300"
    and "args \<in> {''sshd: '' @ u, ''sshd: '' @ u @ ''@notty'', ''sshd: '' @ u @ '' [priv]''}"
    and "session_of_line E m acc (ps_line pad pid owner args) s = (Inr acc', t)"
  shows "if args = ''sshd: '' @ u @ '' [priv]'' \<or> u \<in> {''root'', ''sshd'', ''priv''} then acc' = acc
    else \<exists>ip. acc' = acc @ [\<lparr>rs_user = u, rs_pid = int pid, rs_client_ip = ip\<rparr>]"
proof -
  have u: "u \<noteq> []" "\<not> is_space (last u)" using assms(3) by (auto simp: word_text_def list_all_iff)
  have "args \<noteq> []" "\<not> is_space (hd args)" "\<not> is_space (last args)"
    using assms(6) u by (auto simp: is_space_def)
  note line = session_of_line_reads [OF assms(1,2) this assms(7,5)]
  note title = match_sshd_reads [OF assms(3,4)]
  have "match_sshd args = (if args = ''sshd: '' @ u @ '' [priv]'' then None else Some u)"
  proof -
    have "match_sshd (''sshd: '' @ u @ '' [priv]'') = None"
      using title(3) [of "CHR '' ''" "''[priv]''"] by (simp add: is_space_def)
    moreover have "match_sshd (''sshd: '' @ u @ ''@notty'') = Some u" using title(2) [of "''notty''"] by simp
    ultimately show ?thesis using assms(6) title(1) by auto
  qed
  with line show ?thesis by (auto split: if_splits)
qed


lemma demo_ps: "\<not> isl (fst (session_of_line demo_env (connected demo_server 0) []
    (ps_line ''  '' 77 ''root'' (''sshd: '' @ ''bob'' @ ''@notty'')) demo_sys))"
  by code_simp

lemma ps_line_read_witness:
  "\<exists>t ip. session_of_line demo_env (connected demo_server 0) []
      (ps_line ''  '' 77 ''root'' (''sshd: '' @ ''bob'' @ ''@notty'')) demo_sys =
    (Inr [\<lparr>rs_user = ''bob'', rs_pid = 77, rs_client_ip = ip\<rparr>], t)"
proof -
  define args where "args = ''sshd: '' @ ''bob'' @ ''@notty''"
  obtain acc t where run: "session_of_line demo_env (connected demo_server 0) []
      (ps_line ''  '' 77 ''root'' args) demo_sys = (Inr acc, t)"
    using returned [OF demo_ps] unfolding args_def by blast
  have "if args = ''sshd: '' @ ''bob'' @ '' [priv]'' \<or> ''bob'' \<in> {''root'', ''sshd'', ''priv''} then acc = []
    else \<exists>ip. acc = [] @ [\<lparr>rs_user = ''bob'', rs_pid = int 77, rs_client_ip = ip\<rparr>]"
    by (rule ps_line_read [OF _ _ _ _ _ _ run])
       (simp_all add: args_def blank_text_def word_text_def is_space_def show_nat.simps)
  then have "\<exists>ip. acc = [\<lparr>rs_user = ''bob'', rs_pid = 77, rs_client_ip = ip\<rparr>]" by (simp add: args_def)
  with run show ?thesis unfolding args_def by blast
qed

text \<open>
  C40: the date that \<open>set_expiry\<close> gives to \<open>chage\<close> is the UTC day of the account's
  expiry time, in the calendar, with month and day in range, and it says which day: two
  times whose dates are printed alike lie on the same day.
\<close>

theorem expiry_date_roundtrip:
  "(set_expiry E (connected srv c) user (strftime_ymd t) s = (r, s') \<longrightarrow>
      (\<exists>y m d. sends c [[Word ''chage'', Word ''-E'',
            Word (show_int y @ ''-'' @ two_digits m @ ''-'' @ two_digits d), Word user]] s s' \<and>
         ymd2ord (y, m, d) = ordinal_of t \<and> 1 \<le> m \<and> m \<le> 12 \<and> 1 \<le> d \<and> d \<le> days_in_month (is_leap y) m)) \<and>
   (datetime_ok t \<and> datetime_ok u \<and> strftime_ymd t = strftime_ymd u \<longrightarrow> ordinal_of t = ordinal_of u)"
proof (intro conjI impI)
  assume "set_expiry E (connected srv c) user (strftime_ymd t) s = (r, s')"
  then have "sends c [[Word ''chage'', Word ''-E'', Word (strftime_ymd t), Word user]] s s'"
    by (rule user_commands_sent)
  with strftime_ymd_day [of t] show "\<exists>y m d. sends c [[Word ''chage'', Word ''-E'',
            Word (show_int y @ ''-'' @ two_digits m @ ''-'' @ two_digits d), Word user]] s s' \<and>
         ymd2ord (y, m, d) = ordinal_of t \<and> 1 \<le> m \<and> m \<le> 12 \<and> 1 \<le> d \<and> d \<le> days_in_month (is_leap y) m"
    by metis
qed (use strftime_ymd_inj in blast)

lemma expiry_date_roundtrip_witness: "strftime_ymd demo_time \<noteq> strftime_ymd (demo_time + day_us)"
proof
  assume "strftime_ymd demo_time = strftime_ymd (demo_time + day_us)"
  moreover have "datetime_ok demo_time" "datetime_ok (demo_time + day_us)"
    by (simp_all add: datetime_ok_def min_datetime_def max_datetime_def demo_time_def day_us_def epoch_ordinal_def)
  ultimately have "ordinal_of demo_time = ordinal_of (demo_time + day_us)"
    using expiry_date_roundtrip [of demo_env demo_server 0 "[]" demo_time demo_sys _ _ "demo_time + day_us"] by blast
  then show False by (simp add: ordinal_of_def demo_time_def day_us_def)
qed

end
