(* ===== verification/Migrations.thy ===== *)
theory Migrations
  imports Prelude
begin

text \<open>
  The migrations of the three apps and the models they lead to.  The first half is the
  state Django keeps: models with their fields, and the operations that change them.
  The second half is what the hand-written migrations do to the tables of a database.
\<close>

section \<open>Models and fields\<close>

datatype deletion = CASCADE | PROTECT | SET_NULL

datatype field_type =
    BigAutoField
  | CharField nat
  | TextField
  | GenericIPAddressField
  | PositiveIntegerField
  | IntegerField
  | BigIntegerField
  | FloatField
  | BooleanField
  | DecimalField nat nat
  | DateTimeField
  | UUIDField
  | ForeignKey string deletion

datatype field_default = NoDefault | DefStr string | DefInt int | DefBool bool | DefUuid4 | AutoNow | AutoNowAdd

record model_field =
  fld_name :: string
  fld_type :: field_type
  fld_null :: bool
  fld_blank :: bool
  fld_unique :: bool
  fld_default :: field_default
  fld_choices :: "string list"
  fld_min :: "int option"
  fld_max :: "int option"

definition field :: "string \<Rightarrow> field_type \<Rightarrow> model_field" where
  "field name ty =
     \<lparr>fld_name = name, fld_type = ty, fld_null = False, fld_blank = False, fld_unique = False,
      fld_default = NoDefault, fld_choices = [], fld_min = None, fld_max = None\<rparr>"

definition optional :: "model_field \<Rightarrow> model_field" where
  "optional f = f\<lparr>fld_null := True, fld_blank := True\<rparr>"

definition id_field :: model_field where
  "id_field = field ''id'' BigAutoField"

definition port_field :: "string \<Rightarrow> int \<Rightarrow> model_field" where
  "port_field name port =
     (field name PositiveIntegerField)\<lparr>fld_default := DefInt port, fld_min := Some 1, fld_max := Some 65535\<rparr>"

record model_state =
  mod_fields :: "model_field list"
  mod_ordering :: "string list"
  mod_unique_together :: "string list list"

text \<open>The operations; what \<open>RunPython\<close> runs does not change the state.\<close>

datatype operation =
    CreateModel string model_state
  | AddField string model_field
  | AlterField string model_field
  | RunPython string

type_synonym project_state = "(string \<times> model_state) list"

definition map_model :: "string \<Rightarrow> (model_field list \<Rightarrow> model_field list) \<Rightarrow> project_state \<Rightarrow> project_state" where
  "map_model m f st = map (\<lambda>(n, ms). (n, if n = m then ms\<lparr>mod_fields := f (mod_fields ms)\<rparr> else ms)) st"

fun state_forwards :: "operation \<Rightarrow> project_state \<Rightarrow> project_state" where
  "state_forwards (CreateModel n ms) st = st @ [(n, ms)]"
| "state_forwards (AddField m f) st = map_model m (\<lambda>fs. fs @ [f]) st"
| "state_forwards (AlterField m f) st = map_model m (map (\<lambda>g. if fld_name g = fld_name f then f else g)) st"
| "state_forwards (RunPython code) st = st"

record migration =
  mig_label :: "string \<times> string"
  mig_dependencies :: "(string \<times> string) list"
  mig_operations :: "operation list"


section \<open>The migrations\<close>

definition server_statuses_choices :: "string list" where
  "server_statuses_choices = [''active'', ''maintenance'', ''full'', ''down'']"

definition servers_0001 :: migration where
  "servers_0001 =
     \<lparr>mig_label = (''servers'', ''0001_initial''), mig_dependencies = [],
      mig_operations =
        [CreateModel ''Server''
           \<lparr>mod_fields =
              [id_field,
               (field ''name'' (CharField 100))\<lparr>fld_unique := True\<rparr>,
               (field ''ip_address'' GenericIPAddressField)\<lparr>fld_unique := True\<rparr>,
               port_field ''ssh_port'' 22,
               (field ''ssh_user'' (CharField 64))\<lparr>fld_default := DefStr ''root''\<rparr>,
               field ''ssh_key_path'' (CharField 500),
               (field ''status'' (CharField 15))\<lparr>fld_default := DefStr ''active'', fld_choices := server_statuses_choices\<rparr>,
               (field ''location'' (CharField 120))\<lparr>fld_blank := True\<rparr>,
               (field ''max_users'' PositiveIntegerField)\<lparr>fld_default := DefInt 100\<rparr>,
               (field ''cpu_usage'' FloatField)\<lparr>fld_default := DefInt 0\<rparr>,
               (field ''ram_usage'' FloatField)\<lparr>fld_default := DefInt 0\<rparr>,
               (field ''disk_usage'' FloatField)\<lparr>fld_default := DefInt 0\<rparr>,
               (field ''uptime_seconds'' BigIntegerField)\<lparr>fld_default := DefInt 0\<rparr>,
               optional (field ''last_health_check'' DateTimeField),
               (field ''created_at'' DateTimeField)\<lparr>fld_default := AutoNowAdd\<rparr>,
               (field ''updated_at'' DateTimeField)\<lparr>fld_default := AutoNow\<rparr>],
            mod_ordering = [''name''], mod_unique_together = []\<rparr>]\<rparr>"

definition protocol_choices :: "string list" where
  "protocol_choices = [''ssh'', ''shadowlink'']"

definition servers_0002 :: migration where
  "servers_0002 =
     \<lparr>mig_label = (''servers'', ''0002_add_shadowlink_fields''),
      mig_dependencies = [(''servers'', ''0001_initial'')],
      mig_operations =
        [RunPython ''add_columns_if_missing'',
         AddField ''Server'' ((field ''protocol_type'' (CharField 20))
           \<lparr>fld_choices := protocol_choices, fld_default := DefStr ''ssh''\<rparr>),
         AddField ''Server'' ((field ''shadowlink_api_key'' (CharField 128))\<lparr>fld_blank := True\<rparr>),
         AddField ''Server'' (port_field ''shadowlink_bridge_port'' 9090),
         AddField ''Server'' ((field ''shadowlink_domain'' (CharField 255))\<lparr>fld_blank := True\<rparr>),
         AddField ''Server'' (port_field ''shadowlink_port'' 8443),
         AddField ''Server'' ((field ''shadowlink_ws_path'' (CharField 100))\<lparr>fld_default := DefStr ''/ws''\<rparr>)]\<rparr>"

definition plans_0001 :: migration where
  "plans_0001 =
     \<lparr>mig_label = (''plans'', ''0001_initial''), mig_dependencies = [],
      mig_operations =
        [CreateModel ''Plan''
           \<lparr>mod_fields =
              [id_field,
               (field ''name'' (CharField 100))\<lparr>fld_unique := True\<rparr>,
               (field ''duration_days'' PositiveIntegerField)\<lparr>fld_min := Some 1\<rparr>,
               (field ''price'' (DecimalField 10 2))\<lparr>fld_min := Some 0\<rparr>,
               (field ''currency'' (CharField 5))\<lparr>fld_default := DefStr ''USD''\<rparr>,
               (field ''max_connections'' PositiveIntegerField)\<lparr>fld_default := DefInt 1\<rparr>,
               (field ''bandwidth_limit_gb'' PositiveIntegerField)\<lparr>fld_default := DefInt 0\<rparr>,
               (field ''is_active'' BooleanField)\<lparr>fld_default := DefBool True\<rparr>,
               (field ''description'' TextField)\<lparr>fld_blank := True\<rparr>,
               (field ''created_at'' DateTimeField)\<lparr>fld_default := AutoNowAdd\<rparr>],
            mod_ordering = [''duration_days'', ''price''], mod_unique_together = []\<rparr>]\<rparr>"

definition account_statuses_choices :: "string list" where
  "account_statuses_choices = [''active'', ''suspended'', ''expired'', ''deleted'']"

definition audit_choices :: "string list" where
  "audit_choices =
     [''create'', ''delete'', ''suspend'', ''activate'', ''extend'', ''expire'', ''password_reset'', ''rebalance'']"

definition accounts_0001 :: migration where
  "accounts_0001 =
     \<lparr>mig_label = (''accounts'', ''0001_initial''),
      mig_dependencies = [(''plans'', ''0001_initial''), (''servers'', ''0001_initial''), (''auth'', ''__first__'')],
      mig_operations =
        [CreateModel ''SSHAccount''
           \<lparr>mod_fields =
              [id_field,
               field ''username'' (CharField 32),
               (field ''password_display'' (CharField 128))\<lparr>fld_blank := True\<rparr>,
               (field ''status'' (CharField 12))\<lparr>fld_choices := account_statuses_choices, fld_default := DefStr ''active''\<rparr>,
               field ''expire_date'' DateTimeField,
               (field ''max_connections'' PositiveIntegerField)\<lparr>fld_default := DefInt 1\<rparr>,
               (field ''bandwidth_limit_gb'' PositiveIntegerField)\<lparr>fld_default := DefInt 0\<rparr>,
               (field ''bandwidth_used_gb'' FloatField)\<lparr>fld_default := DefInt 0\<rparr>,
               (field ''note'' TextField)\<lparr>fld_blank := True\<rparr>,
               (field ''created_at'' DateTimeField)\<lparr>fld_default := AutoNowAdd\<rparr>,
               (field ''updated_at'' DateTimeField)\<lparr>fld_default := AutoNow\<rparr>,
               optional (field ''created_by'' (ForeignKey ''User'' SET_NULL)),
               optional (field ''plan'' (ForeignKey ''Plan'' SET_NULL)),
               field ''server'' (ForeignKey ''Server'' PROTECT)],
            mod_ordering = [''-created_at''], mod_unique_together = [[''username'', ''server'']]\<rparr>,
         CreateModel ''AuditLog''
           \<lparr>mod_fields =
              [id_field,
               (field ''action'' (CharField 20))\<lparr>fld_choices := audit_choices\<rparr>,
               (field ''detail'' TextField)\<lparr>fld_blank := True\<rparr>,
               (field ''created_at'' DateTimeField)\<lparr>fld_default := AutoNowAdd\<rparr>,
               optional (field ''admin_user'' (ForeignKey ''User'' SET_NULL)),
               optional (field ''account'' (ForeignKey ''SSHAccount'' SET_NULL))],
            mod_ordering = [''-created_at''], mod_unique_together = []\<rparr>,
         CreateModel ''ActiveSession''
           \<lparr>mod_fields =
              [id_field,
               field ''pid'' IntegerField,
               optional (field ''client_ip'' GenericIPAddressField),
               (field ''connected_since'' DateTimeField)\<lparr>fld_default := AutoNowAdd\<rparr>,
               field ''account'' (ForeignKey ''SSHAccount'' CASCADE)],
            mod_ordering = [], mod_unique_together = [[''account'', ''pid'']]\<rparr>]\<rparr>"

definition accounts_0002 :: migration where
  "accounts_0002 =
     \<lparr>mig_label = (''accounts'', ''0002_add_access_token''),
      mig_dependencies = [(''accounts'', ''0001_initial'')],
      mig_operations =
        [AddField ''SSHAccount'' ((field ''access_token'' UUIDField)\<lparr>fld_default := DefUuid4, fld_unique := True\<rparr>)]\<rparr>"

definition accounts_0003 :: migration where
  "accounts_0003 =
     \<lparr>mig_label = (''accounts'', ''0003_add_auth_token_protocol_type''),
      mig_dependencies = [(''accounts'', ''0002_add_access_token'')],
      mig_operations =
        [RunPython ''add_columns_if_missing'',
         AddField ''SSHAccount'' ((field ''auth_token'' UUIDField)\<lparr>fld_null := True\<rparr>),
         AddField ''SSHAccount'' ((field ''protocol_type'' (CharField 20))
           \<lparr>fld_choices := protocol_choices, fld_default := DefStr ''ssh''\<rparr>)]\<rparr>"

definition accounts_0004 :: migration where
  "accounts_0004 =
     \<lparr>mig_label = (''accounts'', ''0004_populate_auth_tokens''),
      mig_dependencies = [(''accounts'', ''0003_add_auth_token_protocol_type'')],
      mig_operations = [RunPython ''populate_unique_auth_tokens'']\<rparr>"

definition accounts_0005 :: migration where
  "accounts_0005 =
     \<lparr>mig_label = (''accounts'', ''0005_auth_token_unique''),
      mig_dependencies = [(''accounts'', ''0004_populate_auth_tokens'')],
      mig_operations =
        [AlterField ''SSHAccount'' ((field ''auth_token'' UUIDField)\<lparr>fld_default := DefUuid4, fld_unique := True\<rparr>)]\<rparr>"


text \<open>An order in which the dependencies allow them to run; the users are of \<open>django.contrib.auth\<close>.\<close>

definition migration_plan :: "migration list" where
  "migration_plan =
     [plans_0001, servers_0001, servers_0002, accounts_0001, accounts_0002, accounts_0003, accounts_0004,
      accounts_0005]"

fun respects_dependencies :: "(string \<times> string) list \<Rightarrow> migration list \<Rightarrow> bool" where
  "respects_dependencies done [] = True"
| "respects_dependencies done (m # ms) \<longleftrightarrow>
     set (mig_dependencies m) \<subseteq> set done \<and> respects_dependencies (mig_label m # done) ms"

definition migrate :: "migration list \<Rightarrow> project_state" where
  "migrate ms = fold state_forwards (concat (map mig_operations ms)) []"


section \<open>The models\<close>

definition model_Plan :: model_state where
  "model_Plan =
     \<lparr>mod_fields =
        [id_field,
         (field ''name'' (CharField 100))\<lparr>fld_unique := True\<rparr>,
         (field ''duration_days'' PositiveIntegerField)\<lparr>fld_min := Some 1\<rparr>,
         (field ''price'' (DecimalField 10 2))\<lparr>fld_min := Some 0\<rparr>,
         (field ''currency'' (CharField 5))\<lparr>fld_default := DefStr ''USD''\<rparr>,
         (field ''max_connections'' PositiveIntegerField)\<lparr>fld_default := DefInt 1\<rparr>,
         (field ''bandwidth_limit_gb'' PositiveIntegerField)\<lparr>fld_default := DefInt 0\<rparr>,
         (field ''is_active'' BooleanField)\<lparr>fld_default := DefBool True\<rparr>,
         (field ''description'' TextField)\<lparr>fld_blank := True\<rparr>,
         (field ''created_at'' DateTimeField)\<lparr>fld_default := AutoNowAdd\<rparr>],
      mod_ordering = [''duration_days'', ''price''], mod_unique_together = []\<rparr>"

definition model_Server :: model_state where
  "model_Server =
     \<lparr>mod_fields =
        [id_field,
         (field ''name'' (CharField 100))\<lparr>fld_unique := True\<rparr>,
         (field ''ip_address'' GenericIPAddressField)\<lparr>fld_unique := True\<rparr>,
         port_field ''ssh_port'' 22,
         (field ''ssh_user'' (CharField 64))\<lparr>fld_default := DefStr ''root''\<rparr>,
         field ''ssh_key_path'' (CharField 500),
         (field ''protocol_type'' (CharField 20))\<lparr>fld_choices := protocol_choices, fld_default := DefStr ''ssh''\<rparr>,
         (field ''status'' (CharField 15))\<lparr>fld_choices := server_statuses_choices, fld_default := DefStr ''active''\<rparr>,
         (field ''location'' (CharField 120))\<lparr>fld_blank := True\<rparr>,
         (field ''max_users'' PositiveIntegerField)\<lparr>fld_default := DefInt 100\<rparr>,
         port_field ''shadowlink_port'' 8443,
         (field ''shadowlink_ws_path'' (CharField 100))\<lparr>fld_default := DefStr ''/ws''\<rparr>,
         (field ''shadowlink_domain'' (CharField 255))\<lparr>fld_blank := True\<rparr>,
         port_field ''shadowlink_bridge_port'' 9090,
         (field ''shadowlink_api_key'' (CharField 128))\<lparr>fld_blank := True\<rparr>,
         (field ''cpu_usage'' FloatField)\<lparr>fld_default := DefInt 0\<rparr>,
         (field ''ram_usage'' FloatField)\<lparr>fld_default := DefInt 0\<rparr>,
         (field ''disk_usage'' FloatField)\<lparr>fld_default := DefInt 0\<rparr>,
         (field ''uptime_seconds'' BigIntegerField)\<lparr>fld_default := DefInt 0\<rparr>,
         optional (field ''last_health_check'' DateTimeField),
         (field ''created_at'' DateTimeField)\<lparr>fld_default := AutoNowAdd\<rparr>,
         (field ''updated_at'' DateTimeField)\<lparr>fld_default := AutoNow\<rparr>],
      mod_ordering = [''name''], mod_unique_together = []\<rparr>"

definition model_SSHAccount :: model_state where
  "model_SSHAccount =
     \<lparr>mod_fields =
        [id_field,
         field ''username'' (CharField 32),
         (field ''password_display'' (CharField 128))\<lparr>fld_blank := True\<rparr>,
         field ''server'' (ForeignKey ''Server'' PROTECT),
         optional (field ''plan'' (ForeignKey ''Plan'' SET_NULL)),
         (field ''protocol_type'' (CharField 20))\<lparr>fld_choices := protocol_choices, fld_default := DefStr ''ssh''\<rparr>,
         (field ''status'' (CharField 12))\<lparr>fld_choices := account_statuses_choices, fld_default := DefStr ''active''\<rparr>,
         field ''expire_date'' DateTimeField,
         (field ''max_connections'' PositiveIntegerField)\<lparr>fld_default := DefInt 1\<rparr>,
         (field ''bandwidth_limit_gb'' PositiveIntegerField)\<lparr>fld_default := DefInt 0\<rparr>,
         (field ''bandwidth_used_gb'' FloatField)\<lparr>fld_default := DefInt 0\<rparr>,
         (field ''access_token'' UUIDField)\<lparr>fld_default := DefUuid4, fld_unique := True\<rparr>,
         (field ''auth_token'' UUIDField)\<lparr>fld_default := DefUuid4, fld_unique := True\<rparr>,
         optional (field ''created_by'' (ForeignKey ''User'' SET_NULL)),
         (field ''note'' TextField)\<lparr>fld_blank := True\<rparr>,
         (field ''created_at'' DateTimeField)\<lparr>fld_default := AutoNowAdd\<rparr>,
         (field ''updated_at'' DateTimeField)\<lparr>fld_default := AutoNow\<rparr>],
      mod_ordering = [''-created_at''], mod_unique_together = [[''username'', ''server'']]\<rparr>"

definition model_ActiveSession :: model_state where
  "model_ActiveSession =
     \<lparr>mod_fields =
        [id_field,
         field ''account'' (ForeignKey ''SSHAccount'' CASCADE),
         field ''pid'' IntegerField,
         optional (field ''client_ip'' GenericIPAddressField),
         (field ''connected_since'' DateTimeField)\<lparr>fld_default := AutoNowAdd\<rparr>],
      mod_ordering = [], mod_unique_together = [[''account'', ''pid'']]\<rparr>"

definition model_AuditLog :: model_state where
  "model_AuditLog =
     \<lparr>mod_fields =
        [id_field,
         (field ''action'' (CharField 20))\<lparr>fld_choices := audit_choices\<rparr>,
         optional (field ''account'' (ForeignKey ''SSHAccount'' SET_NULL)),
         optional (field ''admin_user'' (ForeignKey ''User'' SET_NULL)),
         (field ''detail'' TextField)\<lparr>fld_blank := True\<rparr>,
         (field ''created_at'' DateTimeField)\<lparr>fld_default := AutoNowAdd\<rparr>],
      mod_ordering = [''-created_at''], mod_unique_together = []\<rparr>"

definition project_models :: project_state where
  "project_models =
     [(''Plan'', model_Plan), (''Server'', model_Server), (''SSHAccount'', model_SSHAccount),
      (''AuditLog'', model_AuditLog), (''ActiveSession'', model_ActiveSession)]"

text \<open>The same model up to the order in which its fields were added.\<close>

definition same_model :: "model_state \<Rightarrow> model_state \<Rightarrow> bool" where
  "same_model a b \<longleftrightarrow>
     set (mod_fields a) = set (mod_fields b) \<and> length (mod_fields a) = length (mod_fields b) \<and>
     mod_ordering a = mod_ordering b \<and> mod_unique_together a = mod_unique_together b"

lemma migrate_models: "list_all2 (\<lambda>(n, a) (m, b). n = m \<and> same_model a b) (migrate migration_plan) project_models"
  by code_simp

lemma plan_dependencies: "respects_dependencies [(''auth'', ''__first__'')] migration_plan"
  by code_simp

end
