(* ===== verification/Tables.thy ===== *)
theory Tables
  imports Migrations World
begin

text \<open>
  The hand-written steps of the migrations on the tables of a database that may have been
  migrated in part: adding the columns that are missing, filling the tokens, and the
  constraint at the end.  A table is its column names and its rows, a row the value of
  each column; of SQL there is what these statements use.
\<close>

section \<open>Tables\<close>

datatype sql_value = SqlNull | SqlText string | SqlInt int | SqlUuid nat

type_synonym sql_row = "(string \<times> sql_value) list"

record sql_table =
  tab_columns :: "string list"
  tab_rows :: "sql_row list"

definition table_ok :: "sql_table \<Rightarrow> bool" where
  "table_ok t \<longleftrightarrow> distinct (tab_columns t) \<and> (\<forall>r \<in> set (tab_rows t). map fst r = tab_columns t)"

definition column :: "string \<Rightarrow> sql_table \<Rightarrow> sql_value option list" where
  "column c t = map (\<lambda>r. map_of r c) (tab_rows t)"

text \<open>\<open>ALTER TABLE ... ADD COLUMN c ... DEFAULT v\<close>: a column of that name must not be there.\<close>

definition add_column :: "string \<times> sql_value \<Rightarrow> sql_table \<Rightarrow> exn + sql_table" where
  "add_column = (\<lambda>(c, v) t.
     if c \<in> set (tab_columns t) then Inl (OtherError ''DuplicateColumn'')
     else Inr \<lparr>tab_columns = tab_columns t @ [c], tab_rows = map (\<lambda>r. r @ [(c, v)]) (tab_rows t)\<rparr>)"

text \<open>\<open>UPDATE ... SET c = v\<close> of one row.\<close>

definition set_value :: "string \<Rightarrow> sql_value \<Rightarrow> sql_row \<Rightarrow> sql_row" where
  "set_value c v r = map (\<lambda>(k, x). (k, if k = c then v else x)) r"

text \<open>A unique constraint and \<open>NOT NULL\<close> on a column.\<close>

definition add_unique_not_null :: "string \<Rightarrow> sql_table \<Rightarrow> exn + sql_table" where
  "add_unique_not_null c t =
     (if Some SqlNull \<in> set (column c t) \<or> None \<in> set (column c t) \<or> \<not> distinct (column c t)
      then Inl (IntegrityError c) else Inr t)"


section \<open>The code of the migrations\<close>

fun add_missing :: "string list \<Rightarrow> (string \<times> sql_value) list \<Rightarrow> sql_table \<Rightarrow> exn + sql_table" where
  "add_missing existing [] t = Inr t"
| "add_missing existing (cv # cvs) t =
     (if fst cv \<notin> set existing
      then (case add_column cv t of Inl e \<Rightarrow> Inl e | Inr t' \<Rightarrow> add_missing existing cvs t')
      else add_missing existing cvs t)"

definition add_server_columns_if_missing :: "sql_table \<Rightarrow> exn + sql_table" where
  "add_server_columns_if_missing t =
     add_missing (tab_columns t)
       [(''protocol_type'', SqlText ''ssh''), (''shadowlink_api_key'', SqlText ''''),
        (''shadowlink_bridge_port'', SqlInt 9090), (''shadowlink_domain'', SqlText ''''),
        (''shadowlink_port'', SqlInt 8443), (''shadowlink_ws_path'', SqlText ''/ws'')] t"

definition add_account_columns_if_missing :: "sql_table \<Rightarrow> exn + sql_table" where
  "add_account_columns_if_missing t =
     add_missing (tab_columns t) [(''auth_token'', SqlNull), (''protocol_type'', SqlText ''ssh'')] t"

text \<open>\<open>AddField\<close> of a column with a default that is a function: Django calls it once for all rows.\<close>

definition add_access_token :: "'w env \<Rightarrow> sql_table \<Rightarrow> 'w \<Rightarrow> (exn + sql_table) \<times> 'w" where
  "add_access_token E t w =
     (case env_uuid4 E w of
        (u, w') \<Rightarrow>
          ((case add_column (''access_token'', SqlUuid u) t of
              Inl e \<Rightarrow> Inl e | Inr t' \<Rightarrow> add_unique_not_null ''access_token'' t'), w'))"

fun populate_rows :: "'w env \<Rightarrow> sql_row list \<Rightarrow> 'w \<Rightarrow> sql_row list \<times> 'w" where
  "populate_rows E [] w = ([], w)"
| "populate_rows E (r # rs) w =
     (case env_uuid4 E w of
        (u, w1) \<Rightarrow> case populate_rows E rs w1 of
          (rs', w2) \<Rightarrow> (set_value ''auth_token'' (SqlUuid u) r # rs', w2))"

definition populate_unique_auth_tokens :: "'w env \<Rightarrow> sql_table \<Rightarrow> 'w \<Rightarrow> sql_table \<times> 'w" where
  "populate_unique_auth_tokens E t w =
     (case populate_rows E (tab_rows t) w of (rs, w') \<Rightarrow> (t\<lparr>tab_rows := rs\<rparr>, w'))"

text \<open>The last three migrations of the accounts on a table.\<close>

definition migrate_auth_tokens :: "'w env \<Rightarrow> sql_table \<Rightarrow> 'w \<Rightarrow> (exn + sql_table) \<times> 'w" where
  "migrate_auth_tokens E t w =
     (case add_account_columns_if_missing t of
        Inl e \<Rightarrow> (Inl e, w)
      | Inr t1 \<Rightarrow>
          (case populate_unique_auth_tokens E t1 w of
             (t2, w') \<Rightarrow> (add_unique_not_null ''auth_token'' t2, w')))"


section \<open>Adding what is missing\<close>

definition missing :: "string list \<Rightarrow> (string \<times> sql_value) list \<Rightarrow> (string \<times> sql_value) list" where
  "missing existing cvs = filter (\<lambda>cv. fst cv \<notin> set existing) cvs"

lemma add_missing_total:
  assumes "distinct (map fst cvs)" and "set (map fst (missing existing cvs)) \<inter> set (tab_columns t) = {}"
  shows "add_missing existing cvs t =
    Inr \<lparr>tab_columns = tab_columns t @ map fst (missing existing cvs),
         tab_rows = map (\<lambda>r. r @ missing existing cvs) (tab_rows t)\<rparr>"
  using assms
proof (induction cvs arbitrary: t)
  case Nil
  then show ?case by (simp add: missing_def)
next
  case (Cons cv cvs)
  show ?case
  proof (cases "fst cv \<in> set existing")
    case True
    with Cons show ?thesis by (simp add: missing_def)
  next
    case False
    let ?t = "\<lparr>tab_columns = tab_columns t @ [fst cv], tab_rows = map (\<lambda>r. r @ [cv]) (tab_rows t)\<rparr>"
    have "add_column cv t = Inr ?t"
      using Cons.prems(2) False by (cases cv) (auto simp: add_column_def missing_def)
    moreover have "add_missing existing cvs ?t = Inr \<lparr>tab_columns = tab_columns ?t @ map fst (missing existing cvs),
         tab_rows = map (\<lambda>r. r @ missing existing cvs) (tab_rows ?t)\<rparr>"
    proof (rule Cons.IH)
      show "distinct (map fst cvs)" using Cons.prems(1) by simp
      show "set (map fst (missing existing cvs)) \<inter> set (tab_columns ?t) = {}"
        using Cons.prems False by (auto simp: missing_def image_iff)
    qed
    ultimately show ?thesis using False by (simp add: missing_def)
  qed
qed

lemma add_missing_existing:
  "distinct (map fst cvs) \<Longrightarrow> add_missing (tab_columns t) cvs t =
     Inr \<lparr>tab_columns = tab_columns t @ map fst (missing (tab_columns t) cvs),
          tab_rows = map (\<lambda>r. r @ missing (tab_columns t) cvs) (tab_rows t)\<rparr>"
  by (rule add_missing_total) (auto simp: missing_def)

lemma add_missing_nothing:
  "set (map fst cvs) \<subseteq> set existing \<Longrightarrow> add_missing existing cvs t = Inr t"
  by (induction cvs) auto

lemma missing_map_of: "c \<in> set existing \<Longrightarrow> map_of (missing existing cvs) c = None"
  by (induction cvs) (auto simp: missing_def)

lemma missing_map_of_new: "c \<notin> set existing \<Longrightarrow> map_of (missing existing cvs) c = map_of cvs c"
  by (induction cvs) (auto simp: missing_def)

lemma row_map_of: "map fst r = cs \<Longrightarrow> c \<notin> set cs \<Longrightarrow> map_of r c = None"
  by (metis map_of_eq_None_iff set_map)

text \<open>What adding the missing columns gives: all of them, the old values kept, the defaults elsewhere.\<close>

definition columns_added :: "(string \<times> sql_value) list \<Rightarrow> sql_table \<Rightarrow> sql_table \<Rightarrow> bool" where
  "columns_added cvs t t' \<longleftrightarrow>
     table_ok t' \<and> set (tab_columns t') = set (tab_columns t) \<union> set (map fst cvs) \<and>
     (\<forall>c \<in> set (tab_columns t). column c t' = column c t) \<and>
     (\<forall>c \<in> set (map fst cvs) - set (tab_columns t). column c t' = map (\<lambda>r. map_of cvs c) (tab_rows t))"

lemma add_missing_columns:
  assumes "table_ok t" "distinct (map fst cvs)"
  shows "\<exists>t'. add_missing (tab_columns t) cvs t = Inr t' \<and> columns_added cvs t t' \<and>
     add_missing (tab_columns t') cvs t' = Inr t'"
proof -
  let ?new = "missing (tab_columns t) cvs"
  let ?t = "\<lparr>tab_columns = tab_columns t @ map fst ?new, tab_rows = map (\<lambda>r. r @ ?new) (tab_rows t)\<rparr>"
  have new: "set (map fst ?new) = set (map fst cvs) - set (tab_columns t)"
    by (auto simp: missing_def)
  have "distinct (map fst ?new)" using assms(2) unfolding missing_def by (rule distinct_map_filter)
  then have "table_ok ?t" using assms(1) new by (auto simp: table_ok_def)
  moreover have "column c ?t = column c t" if "c \<in> set (tab_columns t)" for c
    using missing_map_of [OF that] by (auto simp: column_def map_add_def split: option.splits)
  moreover have "column c ?t = map (\<lambda>r. map_of cvs c) (tab_rows t)" if "c \<in> set (map fst cvs) - set (tab_columns t)" for c
  proof -
    have "map_of (r @ ?new) c = map_of cvs c" if r: "r \<in> set (tab_rows t)" for r
    proof -
      have "map_of r c = None" using r assms(1) that \<open>c \<in> _\<close> by (auto simp: table_ok_def intro: row_map_of)
      then show ?thesis using \<open>c \<in> _\<close> missing_map_of_new [of c "tab_columns t" cvs] by (simp add: map_add_def)
    qed
    then show ?thesis by (simp add: column_def)
  qed
  moreover have "set (tab_columns ?t) = set (tab_columns t) \<union> set (map fst cvs)" using new by auto
  ultimately have "columns_added cvs t ?t" by (simp add: columns_added_def)
  moreover have "add_missing (tab_columns ?t) cvs ?t = Inr ?t"
    by (rule add_missing_nothing) (use new in auto)
  ultimately show ?thesis using add_missing_existing [OF assms(2), of t] by blast
qed


lemma add_server_columns:
  assumes "table_ok t"
  shows "\<exists>t' cvs. add_server_columns_if_missing t = Inr t' \<and> columns_added cvs t t' \<and>
    map fst cvs = [''protocol_type'', ''shadowlink_api_key'', ''shadowlink_bridge_port'', ''shadowlink_domain'',
                   ''shadowlink_port'', ''shadowlink_ws_path''] \<and>
    add_server_columns_if_missing t' = Inr t'"
  using add_missing_columns [OF assms, of "[(''protocol_type'', SqlText ''ssh''), (''shadowlink_api_key'', SqlText ''''),
        (''shadowlink_bridge_port'', SqlInt 9090), (''shadowlink_domain'', SqlText ''''),
        (''shadowlink_port'', SqlInt 8443), (''shadowlink_ws_path'', SqlText ''/ws'')]"]
  unfolding add_server_columns_if_missing_def by fastforce

lemma add_account_columns:
  assumes "table_ok t"
  shows "\<exists>t'. add_account_columns_if_missing t = Inr t' \<and>
    columns_added [(''auth_token'', SqlNull), (''protocol_type'', SqlText ''ssh'')] t t' \<and>
    add_account_columns_if_missing t' = Inr t'"
  using add_missing_columns [OF assms, of "[(''auth_token'', SqlNull), (''protocol_type'', SqlText ''ssh'')]"]
  unfolding add_account_columns_if_missing_def by fastforce


section \<open>Filling the tokens\<close>

text \<open>The next tokens that the source of UUIDs gives.\<close>

fun uuids :: "'w env \<Rightarrow> nat \<Rightarrow> 'w \<Rightarrow> nat list" where
  "uuids E 0 w = []"
| "uuids E (Suc n) w = (case env_uuid4 E w of (u, w') \<Rightarrow> u # uuids E n w')"

lemma length_uuids [simp]: "length (uuids E n w) = n"
  by (induction n arbitrary: w) (auto split: prod.splits)

lemma map_of_set_value:
  "map_of (set_value c v r) k = (if k = c then map_option (\<lambda>_. v) (map_of r c) else map_of r k)"
  by (induction r) (auto simp: set_value_def)

lemma populate_rows_uuids:
  "fst (populate_rows E rs w) = map2 (\<lambda>r u. set_value ''auth_token'' (SqlUuid u) r) rs (uuids E (length rs) w)"
proof (induction rs arbitrary: w)
  case Nil
  then show ?case by simp
next
  case (Cons r rs)
  obtain u w1 where "env_uuid4 E w = (u, w1)" by (cases "env_uuid4 E w")
  moreover obtain rs' w2 where "populate_rows E rs w1 = (rs', w2)" by (cases "populate_rows E rs w1")
  ultimately show ?case using Cons.IH [of w1] by simp
qed

lemma populate_column:
  assumes "\<forall>r \<in> set (tab_rows t). map_of r ''auth_token'' \<noteq> None"
  shows "column ''auth_token'' (fst (populate_unique_auth_tokens E t w)) =
      map (\<lambda>u. Some (SqlUuid u)) (uuids E (length (tab_rows t)) w)"
    and "c \<noteq> ''auth_token'' \<Longrightarrow> column c (fst (populate_unique_auth_tokens E t w)) = column c t"
proof -
  let ?us = "uuids E (length (tab_rows t)) w"
  have rows: "tab_rows (fst (populate_unique_auth_tokens E t w)) =
      map2 (\<lambda>r u. set_value ''auth_token'' (SqlUuid u) r) (tab_rows t) ?us"
    using populate_rows_uuids [of E "tab_rows t" w]
    by (cases "populate_rows E (tab_rows t) w") (simp add: populate_unique_auth_tokens_def)
  have "map (\<lambda>x. map_of (set_value ''auth_token'' (SqlUuid (snd x)) (fst x)) ''auth_token'') (zip (tab_rows t) ?us) =
      map (\<lambda>x. Some (SqlUuid (snd x))) (zip (tab_rows t) ?us)"
    using assms by (intro map_cong refl) (auto simp: map_of_set_value dest: set_zip_leftD)
  also have "\<dots> = map (\<lambda>u. Some (SqlUuid u)) (map snd (zip (tab_rows t) ?us))"
    by (simp only: map_map comp_def)
  also have "map snd (zip (tab_rows t) ?us) = ?us" by simp
  finally show "column ''auth_token'' (fst (populate_unique_auth_tokens E t w)) = map (\<lambda>u. Some (SqlUuid u)) ?us"
    unfolding column_def rows by (simp add: case_prod_beta comp_def)
  show "column c (fst (populate_unique_auth_tokens E t w)) = column c t" if "c \<noteq> ''auth_token''"
  proof -
    have "map (\<lambda>x. map_of (set_value ''auth_token'' (SqlUuid (snd x)) (fst x)) c) (zip (tab_rows t) ?us) =
        map (\<lambda>r. map_of r c) (map fst (zip (tab_rows t) ?us))"
      using that by (simp only: map_of_set_value if_False map_map comp_def)
    also have "map fst (zip (tab_rows t) ?us) = tab_rows t" by simp
    finally show ?thesis unfolding column_def rows by (simp add: case_prod_beta comp_def)
  qed
qed

lemma auth_tokens_unique:
  assumes t: "table_ok t" and us: "distinct (uuids E (length (tab_rows t)) w)"
  shows "\<exists>t'. fst (migrate_auth_tokens E t w) = Inr t' \<and>
    column ''auth_token'' t' = map (\<lambda>u. Some (SqlUuid u)) (uuids E (length (tab_rows t)) w) \<and>
    (\<forall>c \<in> set (tab_columns t). c \<noteq> ''auth_token'' \<longrightarrow> column c t' = column c t)"
proof -
  from add_account_columns [OF t] obtain t1 where t1: "add_account_columns_if_missing t = Inr t1"
    and add: "columns_added [(''auth_token'', SqlNull), (''protocol_type'', SqlText ''ssh'')] t t1" by blast
  obtain t2 w2 where t2: "populate_unique_auth_tokens E t1 w = (t2, w2)"
    by (cases "populate_unique_auth_tokens E t1 w")
  have ok: "table_ok t1" and cols: "''auth_token'' \<in> set (tab_columns t1)"
    using add by (auto simp: columns_added_def)
  then have has: "\<forall>r \<in> set (tab_rows t1). map_of r ''auth_token'' \<noteq> None"
    by (metis map_of_eq_None_iff set_map table_ok_def)
  have len: "length (tab_rows t1) = length (tab_rows t)"
    using t1 t add_missing_existing [of "[(''auth_token'', SqlNull), (''protocol_type'', SqlText ''ssh'')]" t]
    by (auto simp: add_account_columns_if_missing_def)
  have token: "column ''auth_token'' t2 = map (\<lambda>u. Some (SqlUuid u)) (uuids E (length (tab_rows t)) w)"
    using populate_column(1) [OF has, of E w] by (simp add: t2 len)
  have other: "column c t2 = column c t1" if "c \<noteq> ''auth_token''" for c
    using populate_column(2) [OF has that, of E w] by (simp add: t2)
  have "add_unique_not_null ''auth_token'' t2 = Inr t2"
    using us by (auto simp: add_unique_not_null_def token distinct_map inj_on_def)
  with t1 t2 token other add show ?thesis
    by (auto simp: migrate_auth_tokens_def columns_added_def)
qed

lemma access_token_one_row:
  assumes "table_ok t" "''access_token'' \<notin> set (tab_columns t)"
  shows "isl (fst (add_access_token E t w)) \<longleftrightarrow> 2 \<le> length (tab_rows t)"
proof -
  obtain u w' where u: "env_uuid4 E w = (u, w')" by (cases "env_uuid4 E w")
  let ?t = "\<lparr>tab_columns = tab_columns t @ [''access_token''], tab_rows = map (\<lambda>r. r @ [(''access_token'', SqlUuid u)]) (tab_rows t)\<rparr>"
  have "map_of (r @ [(''access_token'', SqlUuid u)]) ''access_token'' = Some (SqlUuid u)" if "r \<in> set (tab_rows t)" for r
    using that assms row_map_of [of r "tab_columns t" "''access_token''"] by (auto simp: table_ok_def map_add_def)
  then have col: "column ''access_token'' ?t = map (\<lambda>r. Some (SqlUuid u)) (tab_rows t)"
    by (simp add: column_def)
  have "distinct (map (\<lambda>r. Some (SqlUuid u)) (tab_rows t)) \<longleftrightarrow> length (tab_rows t) < 2"
    by (cases "tab_rows t"; cases "tl (tab_rows t)") auto
  then show ?thesis
    using assms(2) by (auto simp: add_access_token_def u add_column_def add_unique_not_null_def col)
qed

end
