(* ===== verification/MigrationProperties.thy ===== *)
theory MigrationProperties
  imports Tables Demo
begin

text \<open>
  The properties of the migrations: where they lead, and what their hand-written steps do
  to the tables of a database that may have been migrated in part.
\<close>


text \<open>
  Adding the missing columns works on every table, whichever of them it has: it never
  asks for a column that is there, afterwards all are there, the values of the old columns
  are untouched and the new ones have their default in every row; doing it again changes
  nothing.
\<close>

theorem missing_columns_added:
  assumes "table_ok t"
  shows "(\<exists>t' cvs. add_server_columns_if_missing t = Inr t' \<and> columns_added cvs t t' \<and>
      map fst cvs = [''protocol_type'', ''shadowlink_api_key'', ''shadowlink_bridge_port'', ''shadowlink_domain'',
                     ''shadowlink_port'', ''shadowlink_ws_path''] \<and>
      add_server_columns_if_missing t' = Inr t') \<and>
    (\<exists>t'. add_account_columns_if_missing t = Inr t' \<and>
      columns_added [(''auth_token'', SqlNull), (''protocol_type'', SqlText ''ssh'')] t t' \<and>
      add_account_columns_if_missing t' = Inr t')"
  using add_server_columns [OF assms] add_account_columns [OF assms] by blast

definition demo_table :: sql_table where
  "demo_table =
     \<lparr>tab_columns = [''id'', ''auth_token''],
      tab_rows = [[(''id'', SqlInt 1), (''auth_token'', SqlUuid 5)], [(''id'', SqlInt 2), (''auth_token'', SqlNull)]]\<rparr>"

lemma demo_table_ok: "table_ok demo_table"
  by (simp add: table_ok_def demo_table_def)

lemma missing_columns_added_witness:
  "\<exists>t'. add_account_columns_if_missing demo_table = Inr t' \<and>
     set (tab_columns t') = {''id'', ''auth_token'', ''protocol_type''} \<and>
     column ''auth_token'' t' = [Some (SqlUuid 5), Some SqlNull]"
proof -
  from missing_columns_added [OF demo_table_ok] obtain t' where
    run: "add_account_columns_if_missing demo_table = Inr t'" and
    add: "columns_added [(''auth_token'', SqlNull), (''protocol_type'', SqlText ''ssh'')] demo_table t'" by blast
  have "''auth_token'' \<in> set (tab_columns demo_table)" by (simp add: demo_table_def)
  with add have "column ''auth_token'' t' = column ''auth_token'' demo_table" unfolding columns_added_def by blast
  moreover from add have "set (tab_columns t') = set (tab_columns demo_table) \<union> {''auth_token'', ''protocol_type''}"
    unfolding columns_added_def by simp
  ultimately show ?thesis using run by (auto simp: demo_table_def column_def)
qed

text \<open>
  C29: the tunnel tokens: as long as the source of UUIDs gives different tokens, the
  column is added, filled and made unique without an error on every table, with a new
  token in every row, a row that had one before included, and no other column changed.
  The address tokens are added with one default for all rows: that fails for every
  table with two rows or more.
\<close>

theorem tokens_migrated:
  assumes "table_ok t"
  shows "(distinct (uuids E (length (tab_rows t)) w) \<longrightarrow>
      (\<exists>t'. fst (migrate_auth_tokens E t w) = Inr t' \<and>
        column ''auth_token'' t' = map (\<lambda>u. Some (SqlUuid u)) (uuids E (length (tab_rows t)) w) \<and>
        (\<forall>c \<in> set (tab_columns t). c \<noteq> ''auth_token'' \<longrightarrow> column c t' = column c t))) \<and>
    (''access_token'' \<notin> set (tab_columns t) \<longrightarrow>
      (isl (fst (add_access_token E t w)) \<longleftrightarrow> 2 \<le> length (tab_rows t)))"
  using auth_tokens_unique [OF assms, of E w] access_token_one_row [OF assms, of E w] by (intro conjI impI)

lemma tokens_migrated_witness:
  "(\<exists>t'. fst (migrate_auth_tokens demo_env demo_table 0) = Inr t' \<and>
      column ''auth_token'' t' = [Some (SqlUuid 100), Some (SqlUuid 101)]) \<and>
   isl (fst (add_access_token demo_env demo_table 0))"
proof -
  have ids: "uuids demo_env (length (tab_rows demo_table)) 0 = [100, 101]"
    by (simp add: demo_table_def demo_env_def)
  have rows: "2 \<le> length (tab_rows demo_table)" "''access_token'' \<notin> set (tab_columns demo_table)"
    by (simp_all add: demo_table_def)
  note main = tokens_migrated [OF demo_table_ok, of demo_env 0, unfolded ids]
  have "distinct [100, 101 :: nat]" by simp
  with conjunct1 [OF main] obtain t' where "fst (migrate_auth_tokens demo_env demo_table 0) = Inr t'"
    "column ''auth_token'' t' = map (\<lambda>u. Some (SqlUuid u)) [100, 101]" by blast
  moreover have "isl (fst (add_access_token demo_env demo_table 0))" using conjunct2 [OF main] rows by blast
  ultimately show ?thesis by simp
qed

end
