(* ===== verification/AdminSite.thy ===== *)
theory AdminSite
  imports AdminActions TelegramBot
begin

text \<open>
  The administration site: \<open>accounts/admin.py\<close>, \<open>servers/admin.py\<close>, \<open>plans/admin.py\<close>.
  The files declare how Django's generic pages show the models, which the record
  \<open>model_admin\<close> collects; the rows of the lists and the rows of the export are
  computed from these declarations.  The last part is what the generic pages allow
  and what their built-in deletion does to the tables, with the \<open>on_delete\<close> rules of
  the models.
\<close>

section \<open>Declarations\<close>

record model_admin =
  adm_list_display :: "string list"
  adm_list_filter :: "string list"
  adm_search_fields :: "string list"
  adm_readonly :: "string list"
  adm_list_editable :: "string list"
  adm_raw_id :: "string list"
  adm_list_per_page :: nat
  adm_actions :: "string list"
  adm_fieldsets :: "(string \<times> bool \<times> string list) list"

definition plain_admin :: model_admin where
  "plain_admin =
     \<lparr>adm_list_display = [], adm_list_filter = [], adm_search_fields = [], adm_readonly = [],
      adm_list_editable = [], adm_raw_id = [], adm_list_per_page = 100, adm_actions = [], adm_fieldsets = []\<rparr>"

definition ssh_account_admin :: model_admin where
  "ssh_account_admin = plain_admin
     \<lparr>adm_list_display :=
        [''username'', ''server_link'', ''protocol_badge'', ''status_badge'', ''plan'',
         ''expire_date'', ''days_remaining'', ''max_connections'', ''created_at''],
      adm_list_filter := [''status'', ''protocol_type'', ''server'', ''plan'', ''created_at''],
      adm_search_fields := [''username'', ''note'', ''server__ip_address''],
      adm_readonly := [''password_display'', ''bandwidth_used_gb'', ''created_at'', ''updated_at''],
      adm_list_per_page := 50,
      adm_actions := [''action_suspend'', ''action_activate'', ''action_delete_accounts''],
      adm_raw_id := [''server'', ''plan'', ''created_by'']\<rparr>"

definition active_session_admin :: model_admin where
  "active_session_admin = plain_admin
     \<lparr>adm_list_display := [''account'', ''pid'', ''client_ip'', ''connected_since''],
      adm_list_filter := [''account__server''],
      adm_search_fields := [''account__username'', ''client_ip'']\<rparr>"

definition audit_log_admin :: model_admin where
  "audit_log_admin = plain_admin
     \<lparr>adm_list_display := [''created_at'', ''action'', ''account'', ''admin_user'', ''short_detail''],
      adm_list_filter := [''action'', ''created_at''],
      adm_search_fields := [''detail'', ''account__username''],
      adm_readonly := [''action'', ''account'', ''admin_user'', ''detail'', ''created_at'']\<rparr>"

definition server_admin :: model_admin where
  "server_admin = plain_admin
     \<lparr>adm_list_display :=
        [''name'', ''ip_address'', ''protocol_badge'', ''ssh_port'', ''status_badge'', ''location'',
         ''user_count_display'', ''cpu_bar'', ''ram_bar'', ''disk_bar'', ''last_health_check''],
      adm_list_filter := [''status'', ''location'', ''protocol_type''],
      adm_search_fields := [''name'', ''ip_address'', ''location''],
      adm_readonly :=
        [''cpu_usage'', ''ram_usage'', ''disk_usage'',
         ''uptime_seconds'', ''last_health_check'', ''created_at'', ''updated_at''],
      adm_fieldsets :=
        [('''', False, [''name'', ''ip_address'', ''protocol_type'', ''ssh_port'', ''ssh_user'', ''ssh_key_path'',
                     ''status'', ''location'', ''max_users'']),
         (''ShadowLink Settings'', True,
            [''shadowlink_port'', ''shadowlink_ws_path'', ''shadowlink_domain'', ''shadowlink_bridge_port'',
             ''shadowlink_api_key'']),
         (''Health (auto-updated)'', True,
            [''cpu_usage'', ''ram_usage'', ''disk_usage'', ''uptime_seconds'', ''last_health_check''])]\<rparr>"

definition plan_admin :: model_admin where
  "plan_admin = plain_admin
     \<lparr>adm_list_display :=
        [''name'', ''duration_days'', ''price'', ''currency'', ''max_connections'', ''bandwidth_limit_gb'', ''is_active''],
      adm_list_filter := [''is_active'', ''currency''],
      adm_search_fields := [''name''],
      adm_list_editable := [''price'', ''is_active'']\<rparr>"


section \<open>Rows of the lists\<close>

datatype cell = CellText string | CellHtml string | CellInt int | CellTime datetime | CellBool bool | CellNone

text \<open>\<open>ActiveSession.__str__\<close>, \<open>AuditLog.__str__\<close>.\<close>

definition session_str :: "account \<Rightarrow> active_session \<Rightarrow> string" where
  "session_str a ses = acc_username a @ '' pid='' @ show_int (ses_pid ses)"

definition log_str :: "string option \<Rightarrow> audit_log \<Rightarrow> string" where
  "log_str account l =
     ''['' @ strftime_ymd_hm (log_created_at l) @ ''] '' @ audit_action_value (log_action l) @ '' '' @ en_dash @ '' '' @
     default_to account ''None''"

definition account_row :: "'w env \<Rightarrow> account \<Rightarrow> ('w sys, (string \<times> cell) list) py" where
  "account_row E a =
     py_bind (get_server (acc_server a)) (\<lambda>srv.
     py_bind (query (plan_of a)) (\<lambda>p.
     py_bind (now E) (\<lambda>t.
       py_return
         [(''username'', CellText (acc_username a)),
          (''server_link'', CellHtml (server_link (acc_server a) srv)),
          (''protocol_badge'', CellHtml (protocol_badge (acc_protocol_type a))),
          (''status_badge'', CellHtml (status_badge (acc_status a))),
          (''plan'', case p of None \<Rightarrow> CellNone | Some q \<Rightarrow> CellText (plan_str q)),
          (''expire_date'', CellTime (acc_expire_date a)),
          (''days_remaining'', CellInt (days_remaining t a)),
          (''max_connections'', CellInt (acc_max_connections a)),
          (''created_at'', CellTime (acc_created_at a))])))"

definition bar :: "pyfloat \<Rightarrow> ('w sys, cell) py" where
  "bar v = py_bind (lift_result (progress_bar v)) (\<lambda>html. py_return (CellHtml html))"

definition server_row :: "server \<Rightarrow> ('w sys, (string \<times> cell) list) py" where
  "server_row srv =
     py_bind (query (\<lambda>d. user_count_display d srv)) (\<lambda>users.
     py_bind (bar (srv_cpu_usage srv)) (\<lambda>cpu.
     py_bind (bar (srv_ram_usage srv)) (\<lambda>ram.
     py_bind (bar (srv_disk_usage srv)) (\<lambda>disk.
       py_return
         [(''name'', CellText (srv_name srv)), (''ip_address'', CellText (srv_ip_address srv)),
          (''protocol_badge'', CellHtml (protocol_badge (srv_protocol_type srv))),
          (''ssh_port'', CellInt (srv_ssh_port srv)),
          (''status_badge'', CellHtml (server_status_badge (srv_status srv))),
          (''location'', CellText (srv_location srv)), (''user_count_display'', CellText users),
          (''cpu_bar'', cpu), (''ram_bar'', ram), (''disk_bar'', disk),
          (''last_health_check'', case srv_last_health_check srv of None \<Rightarrow> CellNone | Some t \<Rightarrow> CellTime t)]))))"

definition session_row :: "active_session \<Rightarrow> ('w sys, (string \<times> cell) list) py" where
  "session_row ses =
     py_bind (py_bind (query (\<lambda>d. db_account d (ses_account ses))) found) (\<lambda>a.
     py_bind (get_server (acc_server a)) (\<lambda>srv.
       py_return
         [(''account'', CellText (account_str srv a)), (''pid'', CellInt (ses_pid ses)),
          (''client_ip'', case ses_client_ip ses of None \<Rightarrow> CellNone | Some ip \<Rightarrow> CellText ip),
          (''connected_since'', CellTime (ses_connected_since ses))]))"

text \<open>A field with choices is shown by the label of its value.\<close>

fun audit_action_display :: "audit_action \<Rightarrow> string" where
  "audit_action_display CREATE = ''Create''"
| "audit_action_display DELETE = ''Delete''"
| "audit_action_display SUSPEND = ''Suspend''"
| "audit_action_display ACTIVATE = ''Activate''"
| "audit_action_display EXTEND = ''Extend''"
| "audit_action_display EXPIRE = ''Expire''"
| "audit_action_display PASSWORD_RESET = ''Password Reset''"
| "audit_action_display REBALANCE = ''Rebalance''"

text \<open>The user names of administrators belong to the framework: \<open>user\<close>.\<close>

definition log_row :: "(nat \<Rightarrow> string option) \<Rightarrow> audit_log \<Rightarrow> ('w sys, (string \<times> cell) list) py" where
  "log_row user l =
     py_bind (case log_account l of
                None \<Rightarrow> py_return CellNone
              | Some i \<Rightarrow> py_bind (py_bind (query (\<lambda>d. db_account d i)) found) (\<lambda>a.
                          py_bind (get_server (acc_server a)) (\<lambda>srv.
                            py_return (CellText (account_str srv a))))) (\<lambda>account.
       py_return
         [(''created_at'', CellTime (log_created_at l)),
          (''action'', CellText (audit_action_display (log_action l))), (''account'', account),
          (''admin_user'', case Option.bind (log_admin_user l) user of None \<Rightarrow> CellNone | Some n \<Rightarrow> CellText n),
          (''short_detail'', CellText (short_detail (log_detail l)))])"

definition plan_row :: "plan \<Rightarrow> (string \<times> cell) list" where
  "plan_row p =
     [(''name'', CellText (plan_name p)), (''duration_days'', CellInt (plan_duration_days p)),
      (''price'', CellText (price_str (plan_price_cents p))), (''currency'', CellText (plan_currency p)),
      (''max_connections'', CellInt (plan_max_connections p)),
      (''bandwidth_limit_gb'', CellInt (plan_bandwidth_limit_gb p)),
      (''is_active'', CellBool (plan_is_active p))]"

text \<open>\<open>SSHAccountResource\<close>: the columns of the export, in their order.\<close>

definition export_fields :: "string list" where
  "export_fields =
     [''id'', ''username'', ''server__ip_address'', ''plan__name'',
      ''status'', ''expire_date'', ''max_connections'', ''created_at'']"

definition export_row :: "account \<Rightarrow> ('w sys, (string \<times> cell) list) py" where
  "export_row a =
     py_bind (get_server (acc_server a)) (\<lambda>srv.
     py_bind (query (plan_of a)) (\<lambda>p.
       py_return
         [(''id'', CellInt (int (acc_id a))), (''username'', CellText (acc_username a)),
          (''server__ip_address'', CellText (srv_ip_address srv)),
          (''plan__name'', case p of None \<Rightarrow> CellNone | Some q \<Rightarrow> CellText (plan_name q)),
          (''status'', CellText (account_status_value (acc_status a))),
          (''expire_date'', CellTime (acc_expire_date a)),
          (''max_connections'', CellInt (acc_max_connections a)),
          (''created_at'', CellTime (acc_created_at a))]))"

lemma row_columns:
  "fst (account_row E a s) = Inr r \<Longrightarrow> map fst r = adm_list_display ssh_account_admin"
  "fst (server_row srv s) = Inr r \<Longrightarrow> map fst r = adm_list_display server_admin"
  "fst (session_row ses s) = Inr r \<Longrightarrow> map fst r = adm_list_display active_session_admin"
  "fst (log_row user l s) = Inr r \<Longrightarrow> map fst r = adm_list_display audit_log_admin"
  "map fst (plan_row p) = adm_list_display plan_admin"
  "fst (export_row a s) = Inr r \<Longrightarrow> map fst r = export_fields"
  unfolding account_row_def server_row_def session_row_def log_row_def plan_row_def export_row_def
    ssh_account_admin_def server_admin_def active_session_admin_def audit_log_admin_def plan_admin_def
    export_fields_def
  by (auto simp: py_return_def elim!: py_bind_InrE dest!: eq_fst_iff [THEN iffD1, OF sym])


section \<open>What the generic pages allow\<close>

datatype admin_model = AdmAccount | AdmSession | AdmLog | AdmServer | AdmPlan

datatype admin_op = OpView | OpAdd | OpChange | OpDelete

text \<open>
  \<open>granted\<close> is what Django's own permissions give the user, everything for a
  superuser.  Only the audit log overrides two of the four questions.
\<close>

definition site_allows :: "(admin_model \<Rightarrow> admin_op \<Rightarrow> bool) \<Rightarrow> admin_model \<Rightarrow> admin_op \<Rightarrow> bool" where
  "site_allows granted m op =
     (if m = AdmLog \<and> (op = OpAdd \<or> op = OpChange) then False else granted m op)"

text \<open>
  \<open>delete()\<close> of rows: the sessions of an account go with it (\<open>CASCADE\<close>), its log
  entries stay without it (\<open>SET_NULL\<close>).
\<close>

definition forget_account :: "nat set \<Rightarrow> audit_log \<Rightarrow> audit_log" where
  "forget_account is l =
     (case log_account l of
        None \<Rightarrow> l
      | Some i \<Rightarrow> if i \<in> is then l\<lparr>log_account := None\<rparr> else l)"

definition remove_accounts :: "nat list \<Rightarrow> (database, unit) py" where
  "remove_accounts is d =
     (Inr (), d\<lparr>accounts := filter (\<lambda>a. acc_id a \<notin> set is) (accounts d),
                sessions := filter (\<lambda>ses. ses_account ses \<notin> set is) (sessions d),
                logs := map (forget_account (set is)) (logs d)\<rparr>)"

definition remove_sessions :: "nat list \<Rightarrow> (database, unit) py" where
  "remove_sessions is d = (Inr (), d\<lparr>sessions := filter (\<lambda>ses. ses_id ses \<notin> set is) (sessions d)\<rparr>)"

definition remove_logs :: "nat list \<Rightarrow> (database, unit) py" where
  "remove_logs is d = (Inr (), d\<lparr>logs := filter (\<lambda>l. log_id l \<notin> set is) (logs d)\<rparr>)"

text \<open>
  The built-in action ``Delete selected'', which no admin class removes: all of the
  selected rows or, when one of them is protected, none.
\<close>

fun remove_selected :: "admin_model \<Rightarrow> nat list \<Rightarrow> ('w sys, unit) py" where
  "remove_selected AdmAccount is = on_db (remove_accounts is)"
| "remove_selected AdmSession is = on_db (remove_sessions is)"
| "remove_selected AdmLog is = on_db (remove_logs is)"
| "remove_selected AdmServer is = py_for is (\<lambda>i. on_db (delete_server i))"
| "remove_selected AdmPlan is = py_for is (\<lambda>i. on_db (delete_plan i))"

text \<open>
  The user needs the permission to delete the rows, and for an account with sessions
  the permission to delete those too.
\<close>

definition may_delete :: "(admin_model \<Rightarrow> admin_op \<Rightarrow> bool) \<Rightarrow> admin_model \<Rightarrow> nat list \<Rightarrow> database \<Rightarrow> bool" where
  "may_delete granted m is d \<longleftrightarrow>
     site_allows granted m OpDelete \<and>
     (m = AdmAccount \<and> list_ex (\<lambda>ses. ses_account ses \<in> set is) (sessions d) \<longrightarrow>
        site_allows granted AdmSession OpDelete)"

definition delete_selected ::
  "(admin_model \<Rightarrow> admin_op \<Rightarrow> bool) \<Rightarrow> admin_model \<Rightarrow> nat list \<Rightarrow> ('w sys, unit) py" where
  "delete_selected granted m is =
     py_bind (query (may_delete granted m is)) (\<lambda>allowed.
       if allowed then py_try (atomic (remove_selected m is)) (\<lambda>_. py_return ())
       else py_return ())"

section \<open>Deletion keeps the database consistent\<close>

lemma find_filter_set:
  "find (\<lambda>r. f r = j) (filter (\<lambda>r. f r \<notin> A) xs) = (if j \<in> A then None else find (\<lambda>r. f r = j) xs)"
  by (induction xs) auto

lemma forget_account_simps [simp]:
  "log_id (forget_account A l) = log_id l" "log_action (forget_account A l) = log_action l"
  "log_admin_user (forget_account A l) = log_admin_user l" "log_detail (forget_account A l) = log_detail l"
  "log_created_at (forget_account A l) = log_created_at l"
  by (simp_all add: forget_account_def split: option.split)

lemma forget_account_account: "log_account (forget_account A l) = Some i \<longleftrightarrow> log_account l = Some i \<and> i \<notin> A"
  by (auto simp: forget_account_def split: option.split)

lemma wf_remove_accounts:
  assumes wf: "db_wf d"
  shows "db_wf (snd (remove_accounts is d))"
proof -
  let ?d = "snd (remove_accounts is d)"
  have look: "db_account ?d j = (if j \<in> set is then None else db_account d j)" for j
    by (simp add: remove_accounts_def db_account_def find_filter_set)
  have rest: "servers_ok ?d" "plans_ok ?d"
    using wf by (simp_all add: db_wf_def servers_ok_def plans_ok_def remove_accounts_def)
  have account: "account_ok ?d a" if "account_ok d a" for a
    using that by (rule account_ok_mono) (simp_all add: remove_accounts_def db_server_def db_plan_def)
  have "accounts_ok ?d"
    using wf account
    by (simp add: db_wf_def accounts_ok_def remove_accounts_def ids_ok_filter distinct_map_filter_key)
  moreover have "sessions_ok ?d"
    using wf look
    by (auto simp: db_wf_def sessions_ok_def remove_accounts_def ids_ok_filter distinct_map_filter_key)
  moreover have "logs_ok ?d"
  proof -
    have "log_id \<circ> forget_account (set is) = log_id" by (simp add: fun_eq_iff)
    then have "ids_ok log_id (next_log ?d) (logs ?d)"
      using wf by (auto simp: db_wf_def logs_ok_def remove_accounts_def ids_ok_def)
    moreover have "db_account ?d i \<noteq> None" if "l \<in> set (logs d)" "log_account (forget_account (set is) l) = Some i" for l i
      using that wf look [of i] by (auto simp: db_wf_def logs_ok_def forget_account_account)
    ultimately show ?thesis
      unfolding logs_ok_def by (auto simp: remove_accounts_def split: option.split)
  qed
  ultimately show ?thesis using rest by (simp add: db_wf_def)
qed

lemma wf_remove_logs:
  assumes "db_wf d"
  shows "db_wf (snd (remove_logs is d))"
proof -
  let ?d = "d\<lparr>logs := filter (\<lambda>l. log_id l \<notin> set is) (logs d)\<rparr>"
  have same: "db_server ?d = db_server d" "db_plan ?d = db_plan d" "db_account ?d = db_account d"
    by (rule lookup_cong, simp)+
  have "account_ok ?d = account_ok d" unfolding account_ok_def same fun_eq_iff by simp
  with assms have "db_wf ?d"
    unfolding db_wf_def servers_ok_def plans_ok_def accounts_ok_def sessions_ok_def logs_ok_def same
    by (simp add: ids_ok_filter)
  then show ?thesis by (simp add: remove_logs_def)
qed

lemma steps_remove:
  "steps wf_step (remove_accounts is)" "steps wf_step (remove_sessions is)" "steps wf_step (remove_logs is)"
proof -
  show "steps wf_step (remove_accounts is)"
    by (rule stepsI)
       (use wf_remove_accounts [of _ "is"] in \<open>auto simp: wf_step_def sequences_le_def remove_accounts_def\<close>)
  show "steps wf_step (remove_sessions is)"
    by (rule stepsI) (simp add: wf_step_def sequences_le_def remove_sessions_def wf_delete_sessions)
  show "steps wf_step (remove_logs is)"
    by (rule stepsI)
       (use wf_remove_logs [of _ "is"] in \<open>auto simp: wf_step_def sequences_le_def remove_logs_def\<close>)
qed

lemma delete_selected_wf:
  assumes "db_wf (db s)"
  shows "db_wf (db (snd (delete_selected granted m is s)))"
proof -
  have "steps (\<lambda>s t. wf_step (db s) (db t)) (remove_selected m is)"
    by (cases m)
       (simp_all only: remove_selected.simps,
        (intro wf.steps_on_db steps_remove wf.D_delete_server wf.D_delete_plan steps_intro)+)
  then have "steps (\<lambda>s t. wf_step (db s) (db t)) (delete_selected granted m is)"
    unfolding delete_selected_def by (intro steps_intro)
  from stepsD [OF this, of s] assms show ?thesis by (simp add: wf_step_def)
qed

end
