(* ===== verification/Durations.thy ===== *)
theory Durations
  imports DeployFacts TaskFacts Panel
begin

text \<open>
  How long a job can take.  The panel waits for the nodes only in calls that carry a
  timeout: 10 seconds for a connection and for a request to a bridge, 30 for a command.
  \<open>waiting\<close> adds up the timeouts of the calls made so far, and \<open>waits k m\<close> says that
  \<open>m\<close> adds at most \<open>k\<close> to it, whatever the nodes answer and however \<open>m\<close> ends.  With
  that, a job over finitely many rows ends in a time the rows bound.
\<close>

section \<open>Timeouts\<close>

fun event_timeout :: "event \<Rightarrow> nat" where
  "event_timeout (Connect args) = nat (ca_timeout args)"
| "event_timeout (Exec c cmd) = 30"
| "event_timeout (Http req) = nat (req_timeout req)"
| "event_timeout _ = 0"

definition waiting :: "'w sys \<Rightarrow> nat" where
  "waiting s = sum_list (map event_timeout (io s))"

definition waits :: "nat \<Rightarrow> ('w sys, 'a) py \<Rightarrow> bool" where
  "waits k m \<longleftrightarrow> (\<forall>s. waiting (snd (m s)) \<le> waiting s + k)"

named_theorems waits_intro \<open>introduction rules for the time a computation can wait\<close>

lemma waitsI: "(\<And>s r t. m s = (r, t) \<Longrightarrow> waiting t \<le> waiting s + k) \<Longrightarrow> waits k m"
  unfolding waits_def by (metis prod.collapse)

lemma waitsD: "waits k m \<Longrightarrow> m s = (r, t) \<Longrightarrow> waiting t \<le> waiting s + k"
  unfolding waits_def by (metis snd_conv)

lemma waits_weaken: "waits j m \<Longrightarrow> j \<le> k \<Longrightarrow> waits k m"
  unfolding waits_def by (meson add_left_mono order_trans)

lemma waits_same_io: "steps same_io m \<Longrightarrow> waits 0 m"
  by (rule waitsI) (drule steps_run, assumption, simp add: waiting_def)

lemma waits_return [waits_intro]: "waits 0 (py_return x)"
  by (simp add: waits_def py_return_def)

lemma waits_raise [waits_intro]: "waits 0 (py_raise e)"
  by (simp add: waits_def py_raise_def)

lemma waits_bind [waits_intro]:
  assumes "waits j m" and "\<And>x. waits k (f x)"
  shows "waits (j + k) (py_bind m f)"
proof (rule waitsI)
  fix s r t assume run: "py_bind m f s = (r, t)"
  obtain q u where m: "m s = (q, u)" by (cases "m s")
  note first = waitsD [OF assms(1) m]
  show "waiting t \<le> waiting s + (j + k)"
    using run m first waitsD [OF assms(2)] by (cases q) (fastforce simp: py_bind_def)+
qed

lemma waits_then [waits_intro]: "waits j m \<Longrightarrow> waits k n \<Longrightarrow> waits (j + k) (py_then m n)"
  unfolding py_then_def by (rule waits_bind)

lemma waits_try [waits_intro]:
  assumes "waits j m" and "\<And>e. waits k (h e)"
  shows "waits (j + k) (py_try m h)"
proof (rule waitsI)
  fix s r t assume run: "py_try m h s = (r, t)"
  obtain q u where m: "m s = (q, u)" by (cases "m s")
  note first = waitsD [OF assms(1) m]
  show "waiting t \<le> waiting s + (j + k)"
    using run m first waitsD [OF assms(2)] by (cases q) (fastforce simp: py_try_def)+
qed

lemma waits_if [waits_intro]: "waits j m \<Longrightarrow> waits k n \<Longrightarrow> waits (max j k) (if b then m else n)"
  by (auto elim: waits_weaken)

lemma waits_when [waits_intro]: "waits k m \<Longrightarrow> waits k (py_when b m)"
  by (auto simp: py_when_def intro: waits_weaken [OF waits_return])

lemma waits_case_option [waits_intro]:
  "waits j m \<Longrightarrow> (\<And>x. waits k (f x)) \<Longrightarrow> waits (max j k) (case v of None \<Rightarrow> m | Some x \<Rightarrow> f x)"
  using waits_weaken [of j m "max j k"] waits_weaken [of k _ "max j k"] by (cases v) auto

lemma waits_let [waits_intro]: "waits k (f v) \<Longrightarrow> waits k (let x = v in f x)"
  by (simp add: Let_def)

lemma waits_fold: "(\<And>acc x. waits k (m acc x)) \<Longrightarrow> waits (length xs * k) (py_fold m acc xs)"
  by (induction xs arbitrary: acc) (auto simp: waits_return intro: waits_bind)

lemma waits_for: "(\<And>x. waits k (m x)) \<Longrightarrow> waits (length xs * k) (py_for xs m)"
  by (induction xs) (auto simp: waits_return intro: waits_then)

lemma waits_best_effort: "(\<And>x. waits k (m x)) \<Longrightarrow> waits (length xs * k) (best_effort m xs)"
  unfolding best_effort_def
  by (rule waits_fold) (rule waits_weaken, (rule waits_intro | assumption)+, simp)


section \<open>Connections and requests\<close>

lemma waits_call: "waits (event_timeout ev) (call ev f)"
  by (simp add: waits_def call_def waiting_def split: prod.splits)

lemma waits_connect: "waits 10 (connect E (get_ssh_manager srv))"
proof -
  let ?key = "if srv_ssh_key_path srv \<noteq> []
    then py_bind (load_private_key E (srv_ssh_key_path srv)) (\<lambda>k. py_return (Some k)) else py_return None"
  have "steps quiet ?key" by (intro steps_intro)
  then have key: "waits 0 ?key" by (rule waits_same_io [OF quiet_same_io])
  have "waits 10 (call (Connect \<lparr>ca_hostname = h, ca_port = p, ca_username = u, ca_pkey = k, ca_timeout = 10,
      ca_allow_agent = b\<rparr>) f)" for h p u k b f
    using waits_call [of "Connect \<lparr>ca_hostname = h, ca_port = p, ca_username = u, ca_pkey = k, ca_timeout = 10,
      ca_allow_agent = b\<rparr>" f] by simp
  then have "waits (0 + (10 + 0)) (connect E (get_ssh_manager srv))"
    unfolding connect_def get_ssh_manager_def Let_def ssh_manager.simps option.case
    by (intro waits_bind key waits_return)
  then show ?thesis by simp
qed

lemma waits_with_ssh:
  assumes "\<And>c. waits k (body (connected srv c))"
  shows "waits (10 + k) (with_ssh E srv body)"
proof (rule waitsI)
  fix s r t assume run: "with_ssh E srv body s = (r, t)"
  obtain q s1 where con: "connect E (get_ssh_manager srv) s = (q, s1)"
    by (cases "connect E (get_ssh_manager srv) s")
  note time = waitsD [OF waits_connect con]
  show "waiting t \<le> waiting s + (10 + k)"
  proof (cases q)
    case (Inl e)
    with run con time show ?thesis by (simp add: with_ssh_def py_bind_def)
  next
    case (Inr m)
    with con obtain c where m: "m = connected srv c" using connect_Inr by blast
    obtain p s2 where body: "body (connected srv c) s1 = (p, s2)" by (cases "body (connected srv c) s1")
    obtain z u where dis: "disconnect E (connected srv c) s2 = (z, u)"
      by (cases "disconnect E (connected srv c) s2")
    have "waiting u = waiting s2" using disconnect_run [OF dis] by (simp add: waiting_def)
    moreover have "t = u"
      using run con Inr m body dis disconnect_run [OF dis]
      by (auto simp: with_ssh_def py_bind_def py_finally_def py_then_def py_return_def)
    ultimately show ?thesis using time waitsD [OF assms body] by simp
  qed
qed

lemma waits_run [waits_intro]: "waits 30 (run E (connected srv c) cmd)"
  by (rule waitsI) (drule run_connected, simp add: waiting_def)

lemma waits_bridge [waits_intro]: "waits 10 (bridge_request E srv meth path data)"
  by (rule waitsI) (drule bridge_request_io, simp add: waiting_def)

lemmas waits_quiet [waits_intro] =
  waits_same_io [OF on_db_same_io] waits_same_io [OF now_same_io] waits_same_io [OF save_account_same_io]
  waits_same_io [OF create_log_same_io]
  waits_same_io [OF quiet_same_io [OF query_quiet]] waits_same_io [OF quiet_same_io [OF get_server_quiet]]
  waits_same_io [OF quiet_same_io [OF lift_result_quiet]] waits_same_io [OF quiet_same_io [OF generate_password_quiet]]
  waits_same_io [OF quiet_same_io [OF found_quiet]]

lemma waits_pick [waits_intro]: "waits 0 (pick_best_server pref)"
proof -
  have "steps quiet (pick_best_server pref)" unfolding pick_best_server_def by (intro steps_intro)
  then show ?thesis by (rule waits_same_io [OF quiet_same_io])
qed


section \<open>Operations\<close>

lemma waits_user_commands [waits_intro]:
  "waits 60 (create_user E (connected srv c) u pw)" "waits 60 (delete_user E (connected srv c) u)"
  "waits 30 (lock_user E (connected srv c) u)" "waits 30 (set_expiry E (connected srv c) u day)"
  "waits 150 (set_max_logins E (connected srv c) u n)" "waits 120 (get_health E (connected srv c))"
  "waits 150 (setup_traffic_accounting E (connected srv c) u)"
  "waits 30 (get_user_bandwidth_bytes E (connected srv c) u)"
  unfolding setup_traffic_accounting_def get_user_bandwidth_bytes_def
    create_user_def delete_user_def lock_user_def set_expiry_def set_max_logins_def
    ensure_maxlogin_script_def get_health_def Let_def
  by (rule waits_weaken, (rule waits_intro)+, simp)+

lemma waits_expire_one: "waits 40 (expire_one E acc)"
  unfolding expire_one_def
  by (rule waits_weaken, (rule waits_intro waits_with_ssh)+, simp)

lemma waits_delete_account: "waits 70 (delete_account E acc admin)"
  unfolding delete_account_def deregister_token_def
  by (rule waits_weaken, (rule waits_intro waits_with_ssh)+, simp)

lemma waits_move_account: "waits 250 (move_account E srv acc)"
  unfolding move_account_def generate_temp_password_def
  by (rule waits_weaken, (rule waits_intro waits_with_ssh)+, simp)

lemma waits_health_failed [waits_intro]: "waits 0 (health_failed E srv)"
  unfolding health_failed_def save_server_status_check_def
  by (intro waits_same_io steps_intro) (simp_all add: steps_def fail_count_def py_get_def set_fail_count_def py_modify_def)

lemma waits_save_server [waits_intro]: "waits 0 (save_server E srv)" "waits 0 (set_fail_count i n)"
  unfolding save_server_def
  by (intro waits_same_io steps_intro quiet_same_io [OF query_quiet];
      simp add: steps_def set_fail_count_def py_modify_def)+

lemma waits_check_server: "waits 130 (check_server_health E srv)"
  unfolding check_server_health_def
  by (rule waits_weaken, (rule waits_intro waits_with_ssh)+, simp)


lemma waits_sync_account: "waits 210 (sync_account_bandwidth E (connected srv c) acc)"
  unfolding sync_account_bandwidth_def
  by (rule waits_weaken, (rule waits_intro)+, simp)


section \<open>How many accounts there are\<close>

text \<open>Work that neither adds nor removes an account.\<close>

abbreviation same_count :: "'w sys \<Rightarrow> 'w sys \<Rightarrow> bool" where
  "same_count s t \<equiv> length (accounts (db t)) = length (accounts (db s))"

interpretation same_count: effect same_count
  by unfold_locales auto

lemma same_db_count: "steps same_db m \<Longrightarrow> steps same_count m"
  by (erule steps_mono) simp

lemma save_account_count: "steps same_count (save_account E a fs)"
proof -
  have "steps same_count (on_db (update_account i g))" for i g
    by (simp add: steps_def on_db_def update_account_def replace_key_def Let_def split: option.split)
  then show ?thesis
    unfolding save_account_def Let_def by (intro steps_intro same_db_count [OF now_same_db])
qed

lemma sync_server_count: "steps same_count (sync_server_bandwidth E srv)"
proof -
  have quiet: "steps same_db (setup_traffic_accounting E ssh u)" "steps same_db (get_user_bandwidth_bytes E ssh u)"
    "steps same_db (lift_result r)" "steps same_db (lock_user E ssh u)" "steps same_db (query q)"
    "steps same_db (connect E m)" "steps same_db (disconnect E m)" for ssh m u r q
    by (intro steps_intro)+
  show ?thesis
    unfolding sync_server_bandwidth_def sync_account_bandwidth_def with_ssh_def
    by (intro steps_intro quiet [THEN same_db_count] save_account_count)
qed

section \<open>Jobs\<close>

lemma length_newest_first [simp]: "length (newest_first xs) = length xs"
  by (simp add: newest_first_def)

lemma expire_users_waits:
  assumes "expire_users E s = (r, t)"
  shows "waiting t \<le> waiting s + 40 * length (due_accounts (fst (env_clock E (world s))) (db s))"
proof -
  obtain u s1 where now: "now E s = (Inr u, s1)" "quiet s s1" using now_returns by blast
  have u: "u = fst (env_clock E (world s))" using now_reads [OF now(1)] by blast
  have "waits (length (due_accounts u (db s)) * 40) (best_effort (expire_one E) (due_accounts u (db s)))"
    by (rule waits_best_effort) (rule waits_expire_one)
  moreover have "best_effort (expire_one E) (due_accounts u (db s)) s1 = (r, t)"
    using assms now by (simp add: expire_users_def py_bind_def query_def py_get_def)
  ultimately show ?thesis using now(2) by (auto dest: waitsD simp: waiting_def u mult.commute)
qed

lemma cleanup_waits:
  assumes "cleanup_expired_accounts E n s = (r, t)"
  shows "waiting t \<le> waiting s + 70 * length (accounts (db s))"
proof -
  obtain u s1 where now: "now E s = (Inr u, s1)" "quiet s s1" using now_returns by blast
  show ?thesis
  proof (cases "add_days u (- n)")
    case (Inl e)
    with assms now show ?thesis
      by (auto simp: cleanup_expired_accounts_def py_bind_def lift_result_def py_raise_def waiting_def)
  next
    case (Inr cutoff)
    let ?accs = "stale_accounts cutoff (db s)"
    have "waits (length ?accs * 70) (best_effort (\<lambda>acc. py_then (delete_account E acc None) (py_return ())) ?accs)"
      by (rule waits_best_effort)
         (rule waits_weaken, rule waits_then, rule waits_delete_account, rule waits_return, simp)
    moreover have "best_effort (\<lambda>acc. py_then (delete_account E acc None) (py_return ())) ?accs s1 = (r, t)"
      using assms now Inr
      by (simp add: cleanup_expired_accounts_def py_bind_def query_def py_get_def lift_result_def py_return_def)
    moreover have "length ?accs \<le> length (accounts (db s))" by (simp add: stale_accounts_def)
    ultimately show ?thesis
      using now(2) by (auto dest!: waitsD simp: waiting_def intro: order_trans)
  qed
qed

lemma check_all_waits:
  assumes "check_all_servers_health E s = (r, t)"
  shows "waiting t \<le> waiting s + 130 * length (servers (db s))"
proof -
  let ?srvs = "by_name E (filter (\<lambda>r. srv_status r \<noteq> SrvDown) (servers (db s)))"
  have "waits (length ?srvs * 130) (py_for ?srvs (check_server_health E))"
    by (rule waits_for) (rule waits_check_server)
  moreover have "py_for ?srvs (check_server_health E) s = (r, t)"
    using assms by (simp add: check_all_servers_health_def query_def py_bind_def py_get_def)
  moreover have "length ?srvs \<le> length (servers (db s))" by (simp add: by_name_def)
  ultimately show ?thesis by (auto dest!: waitsD intro: order_trans)
qed

lemma rebalance_waits:
  assumes "rebalance_users E i s = (r, t)"
  shows "waiting t \<le> waiting s + 250 * length (accounts (db s))"
proof (cases "db_server (db s) i")
  case None
  with assms show ?thesis
    by (auto simp: rebalance_users_def py_bind_def get_server_def query_def py_get_def found_def py_raise_def)
next
  case (Some srv)
  let ?accs = "newest_first (filter (\<lambda>a. acc_server a = srv_id srv \<and> acc_status a = Active) (accounts (db s)))"
  have "waits (length ?accs * 250) (best_effort (move_account E srv) ?accs)"
    by (rule waits_best_effort) (rule waits_move_account)
  moreover have "best_effort (move_account E srv) ?accs s = (r, t)"
    using assms Some
    by (simp add: rebalance_users_def py_bind_def get_server_def query_def py_get_def found_def py_return_def)
  moreover have "length ?accs \<le> length (accounts (db s))" by simp
  ultimately show ?thesis by (auto dest!: waitsD intro: order_trans)
qed

text \<open>The accounts a server is asked for are counted on the connection, among all there are.\<close>

lemma sync_server_waits:
  assumes "sync_server_bandwidth E srv s = (r, t)"
  shows "waiting t \<le> waiting s + (10 + 210 * length (accounts (db s)))"
proof (cases "active_accounts srv (db s) = []")
  case True
  with assms show ?thesis
    by (auto simp: sync_server_bandwidth_def query_def py_bind_def py_get_def py_return_def)
next
  case False
  let ?sync = "\<lambda>ssh. py_bind (query (active_accounts srv)) (\<lambda>accs. py_for accs (sync_account_bandwidth E ssh))"
  have run: "with_ssh E srv ?sync s = (r, t)"
    using assms False by (simp add: sync_server_bandwidth_def query_def py_bind_def py_get_def)
  obtain q s1 where con: "connect E (get_ssh_manager srv) s = (q, s1)"
    by (cases "connect E (get_ssh_manager srv) s")
  have start: "waiting s1 \<le> waiting s + 10" "db s1 = db s"
    using waitsD [OF waits_connect con] steps_run [OF connect_same_db con] by simp_all
  show ?thesis
  proof (cases q)
    case (Inl e)
    with run con start show ?thesis by (simp add: with_ssh_def py_bind_def)
  next
    case (Inr m)
    with con obtain c where m: "m = connected srv c" using connect_Inr by blast
    obtain p s2 where body: "?sync (connected srv c) s1 = (p, s2)" by (cases "?sync (connected srv c) s1")
    then have loop: "py_for (active_accounts srv (db s)) (sync_account_bandwidth E (connected srv c)) s1 = (p, s2)"
      using start by (simp add: query_def py_bind_def py_get_def)
    have "waiting s2 \<le> waiting s1 + length (active_accounts srv (db s)) * 210"
      using waitsD [OF waits_for loop] waits_sync_account by blast
    moreover have "length (active_accounts srv (db s)) \<le> length (accounts (db s))"
      by (simp add: active_accounts_def)
    moreover obtain z u where dis: "disconnect E (connected srv c) s2 = (z, u)"
      by (cases "disconnect E (connected srv c) s2")
    moreover have "waiting t = waiting s2"
      using run con Inr m body dis disconnect_run [OF dis]
      by (auto simp: with_ssh_def py_bind_def py_finally_def py_then_def py_return_def waiting_def)
    ultimately show ?thesis using start by linarith
  qed
qed

lemma sync_bandwidth_waits:
  assumes "sync_bandwidth_usage E s = (r, t)"
  shows "waiting t \<le> waiting s + length (servers (db s)) * (10 + 210 * length (accounts (db s)))"
proof -
  let ?one = "\<lambda>srv. py_try (sync_server_bandwidth E srv) (\<lambda>_. py_return ())"
  have one: "waiting v \<le> waiting u + (10 + 210 * length (accounts (db u))) \<and> same_count u v"
    if "?one srv u = (q, v)" for srv u q v
  proof -
    obtain p w where w: "sync_server_bandwidth E srv u = (p, w)" by (cases "sync_server_bandwidth E srv u")
    with that have "v = w" by (cases p) (simp_all add: py_try_def py_return_def)
    with sync_server_waits [OF w] steps_run [OF sync_server_count w] show ?thesis by simp
  qed
  have all: "waiting v \<le> waiting u + length srvs * (10 + 210 * length (accounts (db u)))"
    if "py_for srvs ?one u = (q, v)" for srvs u q v
    using that
  proof (induction srvs arbitrary: u)
    case (Cons x xs)
    obtain p w where w: "?one x u = (p, w)" by (cases "?one x u")
    show ?case
    proof (cases p)
      case (Inl e)
      with Cons.prems w one [OF w] show ?thesis by (simp add: py_then_def py_bind_def)
    next
      case (Inr y)
      with Cons.prems w have "py_for xs ?one w = (q, v)" by (simp add: py_then_def py_bind_def)
      from Cons.IH [OF this] one [OF w] show ?thesis by simp
    qed
  qed (simp add: py_return_def)
  have "py_for (active_servers E (db s)) ?one s = (r, t)"
    using assms by (simp add: sync_bandwidth_usage_def query_def py_bind_def py_get_def)
  moreover have "length (active_servers E (db s)) \<le> length (servers (db s))"
    by (simp add: active_servers_def by_name_def)
  ultimately show ?thesis using all by (meson add_left_mono mult_le_mono1 order_trans)
qed

lemma check_one_waits:
  assumes "check_single_server E i s = (r, t)"
  shows "waiting t \<le> waiting s + 130"
proof -
  have failed: "waits 0 (single_failed E srv)" for srv
    unfolding single_failed_def save_server_status_check_def
    by (rule waits_weaken, (rule waits_intro)+, simp)
  have "waits 130 (check_single_server E i)"
    unfolding check_single_server_def
    by (rule waits_weaken, (rule waits_intro waits_with_ssh failed)+, simp)
  then show ?thesis using assms by (auto dest: waitsD)
qed

text \<open>
  The seconds a job can wait, from the numbers of rows when it starts.  How long the synchronisation of a server's
  sessions takes depends on how many lines its node lists.
\<close>

fun job_limit :: "job \<Rightarrow> database \<Rightarrow> nat option" where
  "job_limit ExpireUsers d = Some (40 * length (accounts d))"
| "job_limit (CleanupExpired n) d = Some (70 * length (accounts d))"
| "job_limit CheckAllHealth d = Some (130 * length (servers d))"
| "job_limit SyncBandwidth d = Some (length (servers d) * (10 + 210 * length (accounts d)))"
| "job_limit (CheckOneHealth i) d = Some 130"
| "job_limit (RebalanceUsers i) d = Some (250 * length (accounts d))"
| "job_limit _ d = None"

lemma then_unit_run: "py_then m (py_return ()) s = (r, t) \<Longrightarrow> \<exists>q. m s = (q, t)"
  by (cases "m s"; cases "fst (m s)") (auto simp: py_then_def py_bind_def py_return_def)

lemma run_job_waits:
  assumes "run_job E j s = (r, t)" and "job_limit j (db s) = Some n"
  shows "waiting t \<le> waiting s + n"
proof (cases j)
  case ExpireUsers
  then obtain q where "expire_users E s = (q, t)" using assms(1) then_unit_run by fastforce
  moreover have "length (due_accounts u (db s)) \<le> length (accounts (db s))" for u by (simp add: due_accounts_def)
  ultimately show ?thesis
    using ExpireUsers assms(2) by (auto dest!: expire_users_waits intro: order_trans)
next
  case (CleanupExpired k)
  then obtain q where "cleanup_expired_accounts E k s = (q, t)" using assms(1) then_unit_run by fastforce
  with CleanupExpired assms(2) show ?thesis by (auto dest: cleanup_waits)
next
  case CheckAllHealth
  with assms show ?thesis by (auto dest: check_all_waits)
next
  case (CheckOneHealth i)
  then obtain q where "check_single_server E i s = (q, t)" using assms(1) then_unit_run by fastforce
  with CheckOneHealth assms(2) show ?thesis by (auto dest: check_one_waits)
next
  case (RebalanceUsers i)
  then obtain q where "rebalance_users E i s = (q, t)" using assms(1) then_unit_run by fastforce
  with RebalanceUsers assms(2) show ?thesis by (auto dest: rebalance_waits)
next
  case SyncBandwidth
  with assms show ?thesis by (auto dest: sync_bandwidth_waits)
qed (use assms(2) in simp_all)

end
