(* ===== verification/Frontend.thy ===== *)
theory Frontend
  imports DemoApi ApiFacts
begin

text \<open>
  What the web frontend expects of the API: the interfaces of
  \<open>frontend/src/lib/types.ts\<close> and the type parameters of the calls in
  \<open>frontend/src/api/endpoints.ts\<close>, as types of JSON values.  An interface asks for its
  fields; an object may have more.  A rule calculus, \<open>yields\<close>, carries what a
  computation returns through the combinators of the model, so that the type of every
  response follows from the serializers.
\<close>

section \<open>Types\<close>

datatype jtype =
    TNumber
  | TString
  | TBoolean
  | TLiteral "string list"
  | TOrNull jtype
  | TArray jtype
  | TObject "(string \<times> jtype) list"
  | TAny

fun has_type :: "jtype \<Rightarrow> json \<Rightarrow> bool"
  and has_fields :: "(string \<times> jtype) list \<Rightarrow> (string \<times> json) list \<Rightarrow> bool" where
  "has_type TNumber j = (case j of JInt _ \<Rightarrow> True | JNum _ \<Rightarrow> True | _ \<Rightarrow> False)"
| "has_type TString j = (case j of JStr _ \<Rightarrow> True | _ \<Rightarrow> False)"
| "has_type TBoolean j = (case j of JBool _ \<Rightarrow> True | _ \<Rightarrow> False)"
| "has_type (TLiteral ss) j = (case j of JStr s \<Rightarrow> s \<in> set ss | _ \<Rightarrow> False)"
| "has_type (TOrNull t) j \<longleftrightarrow> j = JNull \<or> has_type t j"
| "has_type (TArray t) j = (case j of JList js \<Rightarrow> list_all (has_type t) js | _ \<Rightarrow> False)"
| "has_type (TObject fs) j = (case j of JObj kvs \<Rightarrow> has_fields fs kvs | _ \<Rightarrow> False)"
| "has_type TAny j = True"
| "has_fields [] kvs = True"
| "has_fields ((k, t) # fs) kvs \<longleftrightarrow>
     (case map_of kvs k of None \<Rightarrow> False | Some j \<Rightarrow> has_type t j) \<and> has_fields fs kvs"

definition ts_server :: jtype where
  "ts_server = TObject
     [(''id'', TNumber), (''name'', TString), (''ip_address'', TString), (''ssh_port'', TNumber),
      (''status'', TLiteral [''active'', ''maintenance'', ''full'', ''down'']), (''location'', TString),
      (''max_users'', TNumber), (''current_user_count'', TNumber), (''is_available'', TBoolean),
      (''cpu_usage'', TNumber), (''ram_usage'', TNumber), (''disk_usage'', TNumber),
      (''uptime_seconds'', TNumber), (''last_health_check'', TOrNull TString), (''created_at'', TString)]"

definition ts_plan :: jtype where
  "ts_plan = TObject
     [(''id'', TNumber), (''name'', TString), (''duration_days'', TNumber), (''price'', TString),
      (''currency'', TString), (''max_connections'', TNumber), (''bandwidth_limit_gb'', TNumber),
      (''is_active'', TBoolean), (''description'', TString), (''created_at'', TString)]"

definition ts_account :: jtype where
  "ts_account = TObject
     [(''id'', TNumber), (''username'', TString), (''password_display'', TString), (''server'', TNumber),
      (''server_name'', TString), (''server_ip'', TString), (''server_ssh_port'', TNumber),
      (''plan'', TOrNull TNumber), (''plan_name'', TOrNull TString),
      (''status'', TLiteral [''active'', ''suspended'', ''expired'', ''deleted'']), (''expire_date'', TString),
      (''max_connections'', TNumber), (''bandwidth_limit_gb'', TNumber), (''bandwidth_used_gb'', TNumber),
      (''days_remaining'', TNumber), (''is_expired'', TBoolean), (''access_token'', TString),
      (''note'', TString), (''created_at'', TString)]"

definition ts_session :: jtype where
  "ts_session = TObject
     [(''id'', TNumber), (''username'', TString), (''server_ip'', TString), (''pid'', TNumber),
      (''client_ip'', TOrNull TString), (''connected_since'', TString)]"

definition ts_log :: jtype where
  "ts_log = TObject
     [(''id'', TNumber), (''action'', TString), (''account'', TOrNull TNumber),
      (''account_username'', TOrNull TString), (''admin_user'', TOrNull TNumber),
      (''admin_username'', TOrNull TString), (''detail'', TString), (''created_at'', TString)]"

definition ts_dashboard :: jtype where
  "ts_dashboard = TObject
     [(''accounts'', TObject
         [(''total'', TNumber), (''active'', TNumber), (''expired'', TNumber), (''suspended'', TNumber)]),
      (''active_sessions'', TNumber),
      (''servers'', TObject [(''total'', TNumber), (''online'', TNumber), (''down'', TNumber)]),
      (''recent_logs'', TArray ts_log)]"

definition ts_paginated :: "jtype \<Rightarrow> jtype" where
  "ts_paginated t = TObject
     [(''count'', TNumber), (''next'', TOrNull TString), (''previous'', TOrNull TString), (''results'', TArray t)]"

definition ts_user :: jtype where
  "ts_user = TObject
     [(''id'', TNumber), (''username'', TString), (''email'', TString), (''is_staff'', TBoolean),
      (''is_superuser'', TBoolean)]"

definition ts_public_status :: jtype where
  "ts_public_status = TObject
     [(''username'', TString), (''server_ip'', TString), (''server_ssh_port'', TNumber),
      (''server_location'', TString), (''plan_name'', TOrNull TString), (''status'', TString),
      (''expire_date'', TString), (''max_connections'', TNumber), (''bandwidth_limit_gb'', TNumber),
      (''bandwidth_used_gb'', TNumber), (''days_remaining'', TNumber), (''is_expired'', TBoolean),
      (''created_at'', TString)]"

text \<open>The type each call of \<open>endpoints.ts\<close> gives to a successful answer.\<close>

fun expected_type :: "http_call \<Rightarrow> jtype" where
  "expected_type (CallLogin _ _) = TObject [(''user'', ts_user), (''csrftoken'', TString)]"
| "expected_type CallMe = ts_user"
| "expected_type CallDashboard = ts_dashboard"
| "expected_type (CallServerList _) = ts_paginated ts_server"
| "expected_type (CallServerCreate _) = ts_server"
| "expected_type (CallServerDetail _) = ts_server"
| "expected_type (CallServerUpdate _ _) = ts_server"
| "expected_type (CallPlanList _) = ts_paginated ts_plan"
| "expected_type (CallPlanCreate _) = ts_plan"
| "expected_type (CallPlanDetail _) = ts_plan"
| "expected_type (CallPlanUpdate _ _) = ts_plan"
| "expected_type (CallAccountList _) = ts_paginated ts_account"
| "expected_type (CallAccountDetail _) = ts_account"
| "expected_type (CallCreateAccount _) = ts_account"
| "expected_type (CallAccountUpdate _ _) = ts_account"
| "expected_type (CallBulkCreate _) = TArray ts_account"
| "expected_type (CallResetPassword _) = TObject [(''username'', TString), (''new_password'', TString)]"
| "expected_type (CallSessionList _) = ts_paginated ts_session"
| "expected_type (CallLogList _) = ts_paginated ts_log"
| "expected_type (CallPublicStatus _) = ts_public_status"
| "expected_type CallPublicPlans = TArray ts_plan"
| "expected_type _ = TAny"

lemmas ts_defs = ts_server_def ts_plan_def ts_account_def ts_session_def ts_log_def ts_dashboard_def
  ts_paginated_def ts_user_def ts_public_status_def

text \<open>The two calls whose answers lack fields of their type.\<close>

fun mistyped :: "http_call \<Rightarrow> bool" where
  "mistyped (CallLogin _ _) = True"
| "mistyped (CallServerCreate _) = True"
| "mistyped _ = False"

fun answer_ok :: "jtype \<Rightarrow> response \<Rightarrow> bool" where
  "answer_ok t (Response st j) \<longleftrightarrow> (st < 400 \<longrightarrow> has_type t j)"

text \<open>The REST framework renders dates and decimals as strings.\<close>

definition renders_strings :: "'w drf \<Rightarrow> bool" where
  "renders_strings F \<longleftrightarrow>
     (\<forall>t. \<exists>s. drf_show_datetime F t = JStr s) \<and> (\<forall>p. \<exists>s. drf_show_price F p = JStr s)"


section \<open>What a computation returns\<close>

definition yields :: "('a \<Rightarrow> bool) \<Rightarrow> ('s, 'a) py \<Rightarrow> bool" where
  "yields P m \<longleftrightarrow> (\<forall>s x t. m s = (Inr x, t) \<longrightarrow> P x)"

named_theorems yields_intro \<open>introduction rules for what a computation returns\<close>

lemma yields_return [yields_intro]: "P x \<Longrightarrow> yields P (py_return x)"
  by (simp add: yields_def py_return_def)

lemma yields_raise [yields_intro]: "yields P (py_raise e)"
  by (simp add: yields_def py_raise_def)

lemma yields_bind [yields_intro]: "(\<And>x. yields P (f x)) \<Longrightarrow> yields P (py_bind m f)"
  unfolding yields_def by (blast elim: py_bind_InrE)

lemma yields_bind_result: "yields Q m \<Longrightarrow> (\<And>x. Q x \<Longrightarrow> yields P (f x)) \<Longrightarrow> yields P (py_bind m f)"
  unfolding yields_def by (blast elim: py_bind_InrE)

lemma yields_then [yields_intro]: "yields P k \<Longrightarrow> yields P (py_then m k)"
  unfolding yields_def by (blast elim: py_then_InrE)

lemma yields_if [yields_intro]: "(b \<Longrightarrow> yields P m) \<Longrightarrow> (\<not> b \<Longrightarrow> yields P k) \<Longrightarrow> yields P (if b then m else k)"
  by simp

lemma yields_case_option [yields_intro]:
  "yields P m \<Longrightarrow> (\<And>x. yields P (f x)) \<Longrightarrow> yields P (case v of None \<Rightarrow> m | Some x \<Rightarrow> f x)"
  by (cases v) simp_all

lemma yields_case_prod [yields_intro]: "(\<And>a b. yields P (f a b)) \<Longrightarrow> yields P (case v of (a, b) \<Rightarrow> f a b)"
  by (cases v) simp

lemma yields_let [yields_intro]: "yields P (f v) \<Longrightarrow> yields P (let x = v in f x)"
  by (simp add: Let_def)

lemma yields_query: "(\<And>d. P (f d)) \<Longrightarrow> yields P (query f)"
  by (simp add: yields_def query_def py_get_def)

lemma yields_catching [yields_intro]:
  "(\<And>x. yields (answer_ok T) (k x)) \<Longrightarrow> yields (answer_ok T) (catching_account_error m k)"
  unfolding yields_def by (auto elim!: catching_account_error_Inr)

lemma yields_case_shadowlink_error [yields_intro]:
  "(\<And>m. yields P (f m)) \<Longrightarrow> yields P g \<Longrightarrow> yields P (case e of ShadowLinkError m \<Rightarrow> f m | _ \<Rightarrow> g)"
  by (cases e) simp_all

section \<open>The serializers\<close>

declare has_type.simps [simp del]

lemma typed_values [simp]:
  "has_type TNumber (JInt i)" "has_type TNumber (JNum x)" "has_type TNumber (j_nat n)"
  "has_type TString (JStr s)" "has_type TBoolean (JBool b)" "has_type (TLiteral ss) (JStr s) \<longleftrightarrow> s \<in> set ss"
  "has_type (TOrNull t) JNull" "has_type t j \<Longrightarrow> has_type (TOrNull t) j"
  "has_type (TArray t) (JList js) \<longleftrightarrow> list_all (has_type t) js"
  "has_type (TObject fs) (JObj kvs) \<longleftrightarrow> has_fields fs kvs" "has_type TAny j"
  "has_type (TOrNull t) (j_opt f v) \<longleftrightarrow> (\<forall>x. v = Some x \<longrightarrow> f x = JNull \<or> has_type t (f x))"
  by (auto simp: has_type.simps j_nat_def j_opt_def split: option.split)

lemma status_literals:
  "server_status_value st \<in> {''active'', ''maintenance'', ''full'', ''down''}"
  "account_status_value ast \<in> {''active'', ''suspended'', ''expired'', ''deleted''}"
  by (cases st; simp) (cases ast; simp)

lemma shown [simp]:
  assumes "renders_strings F"
  shows "has_type TString (drf_show_datetime F t)" and "has_type TString (drf_show_price F p)"
proof -
  obtain x where "drf_show_datetime F t = JStr x" using assms by (auto simp: renders_strings_def)
  then show "has_type TString (drf_show_datetime F t)" by simp
  obtain y where "drf_show_price F p = JStr y" using assms by (auto simp: renders_strings_def)
  then show "has_type TString (drf_show_price F p)" by simp
qed

lemma serialized_plan: "renders_strings F \<Longrightarrow> has_type ts_plan (serialize_plan F p)"
  by (simp add: ts_plan_def serialize_plan_def)

lemma serialized_log: "renders_strings F \<Longrightarrow> has_type ts_log (serialize_log F d l)"
  by (simp add: ts_log_def serialize_log_def)

lemma serialized_server [yields_intro]:
  "renders_strings F \<Longrightarrow> yields (has_type ts_server) (serialize_server F srv)"
  unfolding serialize_server_def
  by (intro yields_intro) (use status_literals in \<open>simp add: ts_server_def\<close>)

lemma serialized_account [yields_intro]:
  "renders_strings F \<Longrightarrow> yields (has_type ts_account) (serialize_account E F a)"
  unfolding serialize_account_def
  by (intro yields_intro) (use status_literals in \<open>simp add: ts_account_def\<close>)

lemma serialized_public:
  "renders_strings F \<Longrightarrow> yields (has_type ts_public_status) (serialize_public E F a)"
  unfolding serialize_public_def
  by (intro yields_intro) (simp add: ts_public_status_def)

lemma serialized_session:
  "renders_strings F \<Longrightarrow> yields (has_type ts_session) (serialize_session F ses)"
  unfolding serialize_session_def
  by (intro yields_intro) (simp add: ts_session_def)

section \<open>The views\<close>

lemma answer_simps [simp]:
  "answer_ok TAny r" "\<not> st < 400 \<Longrightarrow> answer_ok t (Response st j)"
  by (cases r) simp_all

lemma yields_any: "(\<And>x. P x) \<Longrightarrow> yields P m"
  by (simp add: yields_def)

lemma yields_fold:
  assumes "\<And>x. yields P (ser x)" and "list_all P acc"
  shows "yields (list_all P) (py_fold (\<lambda>js x. py_bind (ser x) (\<lambda>j. py_return (js @ [j]))) acc xs)"
  using assms(2)
proof (induction xs arbitrary: acc)
  case Nil
  then show ?case by (simp add: yields_return)
next
  case (Cons x xs)
  have "yields (\<lambda>js. list_all P js) (py_bind (ser x) (\<lambda>j. py_return (acc @ [j])))"
    using Cons.prems by (intro yields_bind_result [OF assms(1)] yields_return) simp
  then show ?case
    unfolding py_fold.simps by (rule yields_bind_result) (rule Cons.IH)
qed

lemma typed_page: "list_all (has_type t) js \<Longrightarrow> answer_ok (ts_paginated t) (page_response F l q xs js)"
  by (simp add: ts_paginated_def page_response_def Let_def)

lemma yields_list_response [yields_intro]:
  "(\<And>x. yields (has_type t) (ser x)) \<Longrightarrow> yields (answer_ok (ts_paginated t)) (list_response F l q ser rows)"
  unfolding list_response_def
  by (intro yields_bind yields_if yields_raise yields_bind_result [OF yields_fold] yields_return typed_page) simp_all

lemma yields_serialize_all:
  "renders_strings F \<Longrightarrow> yields (list_all (has_type ts_account)) (serialize_all E F as)"
proof (induction as)
  case Nil
  then show ?case by (simp add: yields_return)
next
  case (Cons a as)
  then show ?case
    unfolding serialize_all.simps
    by (intro yields_bind_result [OF serialized_account] yields_bind_result [OF Cons.IH] yields_return) simp_all
qed

lemma yields_ok_response:
  "yields (has_type t) m \<Longrightarrow> yields (answer_ok t) (py_bind m (\<lambda>j. py_return (Response st j)))"
  by (erule yields_bind_result) (simp add: yields_return)

lemma typed_dashboard: "renders_strings F \<Longrightarrow> has_type ts_dashboard (dashboard_json F d)"
  by (simp add: ts_dashboard_def dashboard_json_def list_all_iff serialized_log)

lemma view_typed:
  assumes F: "renders_strings F" and "\<not> mistyped c"
  shows "yields (answer_ok (expected_type c)) (view E F u c)"
proof -
  note ser = serialized_account [OF F] serialized_server [OF F] serialized_public [OF F] serialized_session [OF F]
  note rules = yields_list_response ser yields_ok_response yields_intro yields_query
  show ?thesis
    using assms(2)
    by (cases c)
       (simp_all add: yields_any del: serialize_all.simps,
        (unfold server_detail_view_def plan_detail_view_def account_detail_view_def me_view_def dashboard_view_def server_update_view_def plan_create_view_def plan_update_view_def
          create_account_view_def account_update_view_def bulk_create_view_def reset_password_view_def
          public_status_view_def public_plan_list_view_def Let_def)?,
        (intro rules yields_bind_result [OF yields_serialize_all [OF F]];
          simp add: serialized_plan [OF F] serialized_log [OF F] typed_dashboard [OF F] ts_user_def list_all_iff)+)
qed

end
