(* ===== verification/Interleavings.thy ===== *)
theory Interleavings
  imports Demo CreateFacts
begin

text \<open>
  What several processes do to one database.  The web server and the worker of Celery
  run in several processes, and under PostgreSQL's default isolation a transaction
  sees what others have committed when it asks.  \<open>create_account\<close> asks for a server
  with room first and adds its row much later, after the node has answered: between
  the two, other processes go on.  Here a process is either idle or has chosen a
  server; choosing and the rest of the transaction, whose rows the others see at its
  end, are the two steps.  The last section is the same effect for the health check,
  which writes back a row it read before it asked the node.
\<close>

section \<open>The two halves of create_account\<close>

definition create_on :: "'w env \<Rightarrow> create_args \<Rightarrow> server \<Rightarrow> ('w sys, account) py" where
  "create_on E args srv =
     py_bind (if default_to (arg_password args) [] \<noteq> [] then py_return (default_to (arg_password args) [])
              else generate_password E 12) (\<lambda>password.
     let p = arg_plan args;
         days = default_to (arg_duration_days args) (plan_duration_days p)
     in py_bind (now E) (\<lambda>t.
     py_bind (lift_result (add_days t days)) (\<lambda>expire_date.
     let bw_limit = default_to (arg_bandwidth_limit_gb args) (plan_bandwidth_limit_gb p);
         max_conn = default_to (arg_max_connections args) (plan_max_connections p);
         proto = default_to (arg_protocol_type args) (srv_protocol_type srv)
     in py_bind (create_account_row E
           \<lparr>acc_id = 0, acc_username = arg_username args,
            acc_password_display = (if proto = SSH then password else ''''),
            acc_server = srv_id srv, acc_plan = Some (plan_id p), acc_protocol_type = proto,
            acc_status = Active, acc_expire_date = expire_date, acc_max_connections = max_conn,
            acc_bandwidth_limit_gb = bw_limit, acc_bandwidth_used_gb = 0, acc_access_token = 0,
            acc_auth_token = 0, acc_created_by = arg_admin_user args, acc_note = arg_note args,
            acc_created_at = 0, acc_updated_at = 0\<rparr>) (\<lambda>acc.
        py_then (if proto = SHADOWLINK then provision_shadowlink_account E acc srv max_conn
                 else provision_ssh_account E srv (arg_username args) password expire_date max_conn bw_limit)
       (py_then (create_log E CREATE (acc_id acc) (arg_admin_user args)
                   (''Plan='' @ plan_name p @ '', Server='' @ srv_name srv @
                    '', Protocol='' @ protocol_value proto))
          (py_return acc))))))"

lemma create_account_halves:
  "create_account E args = atomic (py_bind (pick_best_server (arg_server args)) (create_on E args))"
  by (simp only: create_account_def create_on_def [abs_def])

lemma create_on_Inr:
  assumes "create_on E args srv s = (Inr a, t)"
  shows "acc_server a = srv_id srv" and "acc_status a = Active"
    and "accounts (db t) = accounts (db s) @ [a]" and "servers (db t) = servers (db s)"
proof -
  have "acc_server a = srv_id srv \<and> acc_status a = Active \<and> accounts (db t) = accounts (db s) @ [a] \<and>
      servers (db t) = servers (db s)"
    using assms
    unfolding create_on_def Let_def
    apply (elim py_bind_InrE py_then_InrE)
    subgoal premises prems for password s1 u s2 expire s3 b s4 x s5 l s6
    proof -
      have "steps quiet (if default_to (arg_password args) [] \<noteq> [] then py_return (default_to (arg_password args) [])
              else generate_password E 12)" by (intro steps_intro)
      then have s1: "quiet s s1" using prems(1) by (rule steps_run)
      have s2: "quiet s1 s2" using now_quiet prems(2) by (rule steps_run)
      have s3: "quiet s2 s3" using lift_result_quiet prems(3) by (rule steps_run)
      have "steps same_db (if default_to (arg_protocol_type args) (srv_protocol_type srv) = SHADOWLINK
         then provision_shadowlink_account E b srv (default_to (arg_max_connections args) (plan_max_connections (arg_plan args)))
         else provision_ssh_account E srv (arg_username args) password expire
                (default_to (arg_max_connections args) (plan_max_connections (arg_plan args)))
                (default_to (arg_bandwidth_limit_gb args) (plan_bandwidth_limit_gb (arg_plan args))))"
        by (intro steps_intro)
      then have db5: "db s5 = db s4" using prems(5) by (rule steps_run)
      have same: "accounts (db s6) = accounts (db s5)" "servers (db s6) = servers (db s5)"
        by (rule create_log_Inr [OF prems(6)], simp)+
      show ?thesis
        by (rule create_account_row_Inr [OF prems(4)])
           (use s1 s2 s3 db5 same prems(7) in \<open>auto simp: py_return_def\<close>)
    qed
    done
  then show "acc_server a = srv_id srv" "acc_status a = Active"
    "accounts (db t) = accounts (db s) @ [a]" "servers (db t) = servers (db s)" by auto
qed


section \<open>Processes\<close>

record 'w pool =
  shared :: "'w sys"
  chosen :: "nat \<Rightarrow> (create_args \<times> server) option"

text \<open>The users of the server with number \<open>i\<close>: what \<open>current_user_count\<close> counts.\<close>

definition users :: "database \<Rightarrow> nat \<Rightarrow> nat" where
  "users d i = length (filter (\<lambda>a. acc_server a = i \<and> acc_status a \<noteq> Deleted) (accounts d))"

text \<open>
  \<open>n\<close> processes.  A preferred server is an object read just before.  The third rule
  is anything else that happens to the database as long as it gives no server
  another user and leaves the servers alone: deletions, suspensions, expiry, logs.
\<close>

inductive pool_step :: "'w env \<Rightarrow> nat \<Rightarrow> 'w pool \<Rightarrow> 'w pool \<Rightarrow> bool" for E n where
  choose: "i < n \<Longrightarrow> chosen p i = None \<Longrightarrow>
    (\<forall>srv. arg_server args = Some srv \<longrightarrow> db_server (db (shared p)) (srv_id srv) = Some srv) \<Longrightarrow>
    pick_best_server (arg_server args) (shared p) = (Inr srv, s) \<Longrightarrow>
    pool_step E n p (p\<lparr>shared := s, chosen := (chosen p)(i \<mapsto> (args, srv))\<rparr>)"
| complete: "i < n \<Longrightarrow> chosen p i = Some (args, srv) \<Longrightarrow>
    atomic (create_on E args srv) (shared p) = (r, s) \<Longrightarrow>
    pool_step E n p (p\<lparr>shared := s, chosen := (chosen p)(i := None)\<rparr>)"
| other: "servers (db s) = servers (db (shared p)) \<Longrightarrow>
    (\<forall>k. users (db s) k \<le> users (db (shared p)) k) \<Longrightarrow>
    pool_step E n p (p\<lparr>shared := s\<rparr>)"

inductive pool_reach :: "'w env \<Rightarrow> nat \<Rightarrow> 'w sys \<Rightarrow> 'w pool \<Rightarrow> bool" for E n s0 where
  pool_start: "pool_reach E n s0 \<lparr>shared = s0, chosen = (\<lambda>i. None)\<rparr>"
| pool_next: "pool_reach E n s0 p \<Longrightarrow> pool_step E n p q \<Longrightarrow> pool_reach E n s0 q"

inductive_cases pool_stepE: "pool_step E n p q"

definition choosing :: "nat \<Rightarrow> (nat \<Rightarrow> (create_args \<times> server) option) \<Rightarrow> nat \<Rightarrow> nat set" where
  "choosing n c k = {i. i < n \<and> (\<exists>args srv. c i = Some (args, srv) \<and> srv_id srv = k)}"

text \<open>
  The invariant: the users of a server and the processes that have chosen it are at
  most one less than \<open>max_users\<close> and all processes together, unless no process has
  chosen it; then they are within the bound that this allows.
\<close>

definition pool_ok :: "nat \<Rightarrow> server \<Rightarrow> 'w pool \<Rightarrow> bool" where
  "pool_ok n r p \<longleftrightarrow>
     db_server (db (shared p)) (srv_id r) = Some r \<and>
     int (users (db (shared p)) (srv_id r)) + int (card (choosing n (chosen p) (srv_id r))) \<le> srv_max_users r + int n - 1 \<and>
     0 < n"

lemma finite_choosing [simp]: "finite (choosing n c k)"
  by (simp add: choosing_def)

lemma choosing_choose:
  assumes "i < n" "c i = None"
  shows "choosing n (c(i \<mapsto> (args, srv))) k =
    (if srv_id srv = k then insert i (choosing n c k) else choosing n c k)"
    and "i \<notin> choosing n c k"
  using assms by (auto simp: choosing_def)

lemma choosing_complete: "choosing n (c(i := None)) k = choosing n c k - {i}"
  by (auto simp: choosing_def)

lemma choosing_bound:
  assumes "i < n" "i \<notin> choosing n c k"
  shows "int (card (choosing n c k)) + 1 \<le> int n"
proof -
  have "choosing n c k \<subseteq> {..<n} - {i}" using assms by (auto simp: choosing_def)
  then have "card (choosing n c k) \<le> n - 1" using card_mono [of "{..<n} - {i}"] assms(1) by fastforce
  with assms(1) show ?thesis by simp
qed

lemma users_count: "current_user_count d srv = users d (srv_id srv)"
  by (simp add: current_user_count_def users_def)

lemma pool_step_ok:
  assumes "pool_step E n p q" and "pool_ok n r p" and wf: "\<And>x. x \<in> set (servers (db (shared p))) \<Longrightarrow> srv_id x = srv_id r \<Longrightarrow> x = r"
  shows "pool_ok n r q \<and> servers (db (shared q)) = servers (db (shared p))"
  using assms(1)
proof cases
  case (choose i args srv s)
  note pick = pick_best_server_Inr [OF choose(5)]
  have s: "s = shared p" by (rule pick(1))
  show ?thesis
  proof (cases "srv_id srv = srv_id r")
    case True
    have "srv = r"
      using pick(3) choose(4) True assms(2) wf [of srv] by (auto simp: pool_ok_def)
    with pick(2) have "int (users (db (shared p)) (srv_id r)) < srv_max_users r"
      by (simp add: is_available_def users_count)
    moreover have "int (card (choosing n (chosen p) (srv_id r))) + 1 \<le> int n"
      using choosing_bound [of i n "chosen p"] choosing_choose(2) [of i n "chosen p"] choose(2,3) by blast
    ultimately show ?thesis
      using assms(2) choosing_choose [of i n "chosen p", where k = "srv_id r"] choose(2,3)
      by (simp add: choose(1) s pool_ok_def True)
  next
    case False
    with assms(2) choosing_choose(1) [of i n "chosen p" args srv "srv_id r"] choose(2,3) show ?thesis
      by (simp add: choose(1) s pool_ok_def)
  qed
next
  case (complete i args srv res s)
  have card: "card (choosing n (chosen p) (srv_id r) - {i}) =
      (if srv_id srv = srv_id r then card (choosing n (chosen p) (srv_id r)) - 1 else card (choosing n (chosen p) (srv_id r)))"
    using complete(2,3) by (auto simp: choosing_def card_Diff_singleton_if)
  have one: "srv_id srv = srv_id r \<Longrightarrow> 1 \<le> card (choosing n (chosen p) (srv_id r))"
    using complete(2,3) by (auto simp: choosing_def Suc_le_eq card_gt_0_iff)
  have "servers (db s) = servers (db (shared p)) \<and>
      users (db s) (srv_id r) \<le> users (db (shared p)) (srv_id r) + (if srv_id srv = srv_id r then 1 else 0)"
  proof (cases res)
    case (Inl e)
    with complete(4) have "same_tables (db (shared p)) (db s)" by (auto intro: atomic_Inl)
    then show ?thesis by (simp add: same_tables_def users_def)
  next
    case (Inr a)
    with complete(4) have "create_on E args srv (shared p) = (Inr a, s)" by (simp add: atomic_Inr)
    from create_on_Inr [OF this] show ?thesis by (simp add: users_def)
  qed
  with assms(2) card one show ?thesis
    by (auto simp: complete(1) pool_ok_def choosing_complete db_server_def split: if_splits)
next
  case (other s)
  then have "users (db s) (srv_id r) \<le> users (db (shared p)) (srv_id r)" by blast
  with other(1,2) assms(2) show ?thesis
    by (auto simp: pool_ok_def db_server_def)
qed

lemma pool_reach_ok:
  assumes "pool_reach E n s0 p" and wf: "db_wf (db s0)" and row: "db_server (db s0) (srv_id r) = Some r"
    and room: "int (users (db s0) (srv_id r)) \<le> srv_max_users r" and "0 < n"
  shows "pool_ok n r p \<and> servers (db (shared p)) = servers (db s0)"
  using assms(1)
proof induction
  case pool_start
  show ?case using row room \<open>0 < n\<close> by (simp add: pool_ok_def choosing_def)
next
  case (pool_next p q)
  have "x = r" if "x \<in> set (servers (db (shared p)))" "srv_id x = srv_id r" for x
  proof -
    have "x \<in> set (servers (db s0))" "r \<in> set (servers (db s0))"
      using that pool_next.IH row by (auto dest: db_server_Some)
    with that(2) wf show ?thesis by (auto simp: db_wf_def servers_ok_def ids_ok_def dest: distinct_map_eqD)
  qed
  with pool_step_ok [OF pool_next.hyps(2)] pool_next.IH show ?case by metis
qed


section \<open>A run that reaches the bound\<close>

text \<open>A server with one free place, and two processes that choose it one after the other.\<close>

definition room_server :: server where
  "room_server = demo_server\<lparr>srv_max_users := 3\<rparr>"

definition room_sys :: "nat sys" where
  "room_sys = demo_sys\<lparr>db := demo_db\<lparr>servers := [room_server]\<rparr>\<rparr>"

definition room_args :: "string \<Rightarrow> create_args" where
  "room_args name = (default_args name demo_plan)\<lparr>arg_password := Some ''x'', arg_protocol_type := Some SHADOWLINK\<rparr>"

definition room_first :: "nat sys" where
  "room_first = snd (atomic (create_on demo_env (room_args ''amy'') room_server) room_sys)"

definition room_second :: "nat sys" where
  "room_second = snd (atomic (create_on demo_env (room_args ''ann'') room_server) room_first)"

lemmas room_defs = demo_defs run_defs ssh_defs room_server_def room_sys_def room_args_def create_on_def
  default_args_def default_to_def provision_ssh_account_def datetime_ok_def min_datetime_def max_datetime_def
  day_us_def epoch_ordinal_def lift_result_def add_days_def Let_def

lemma room_pick: "pick_best_server None room_sys = (Inr room_server, room_sys)"
  by (simp add: pick_best_server_run eligible_def by_cpu_def is_available_def current_user_count_def room_sys_def
      room_server_def demo_defs)

definition room_account :: account where
  "room_account = demo_account\<lparr>acc_id := 3, acc_username := ''amy'', acc_password_display := '''',
     acc_protocol_type := SHADOWLINK, acc_expire_date := demo_time + 30 * day_us, acc_max_connections := 2,
     acc_bandwidth_limit_gb := 0, acc_access_token := 101, acc_auth_token := 102,
     acc_created_at := demo_time + 3, acc_updated_at := demo_time + 4\<rparr>"

lemmas link_defs = provision_shadowlink_account_def register_token_def bridge_request_def is_http_error_def

lemma room_first_run:
  "create_on demo_env (room_args ''amy'') room_server room_sys = (Inr room_account, room_first)"
  "accounts (db room_first) = [demo_account, demo_link, room_account]" "servers (db room_first) = [room_server]"
  "plans (db room_first) = [demo_plan]" "next_account (db room_first) = 4" "world room_first = 7"
proof -
  let ?run = "create_on demo_env (room_args ''amy'') room_server room_sys"
  have fst: "fst ?run = Inr room_account" by (simp add: room_defs link_defs room_account_def)
  then have run: "?run = (Inr room_account, snd ?run)" by (simp add: prod_eq_iff)
  then have "atomic (create_on demo_env (room_args ''amy'') room_server) room_sys = (Inr room_account, snd ?run)"
    by (rule atomic_Inr [THEN iffD2])
  then have snd: "room_first = snd ?run" by (simp add: room_first_def)
  show "?run = (Inr room_account, room_first)" unfolding snd by (rule run)
  show "accounts (db room_first) = [demo_account, demo_link, room_account]" "servers (db room_first) = [room_server]"
    "plans (db room_first) = [demo_plan]" "next_account (db room_first) = 4" "world room_first = 7"
    unfolding snd by (simp_all add: room_defs link_defs room_account_def)
qed

lemma room_second_run:
  obtains b where "create_on demo_env (room_args ''ann'') room_server room_first = (Inr b, room_second)"
proof -
  have "\<not> isl (fst (create_on demo_env (room_args ''ann'') room_server room_first))"
    by (simp add: room_defs link_defs room_account_def room_first_run(2-))
  then show ?thesis
    using that returned by (metis atomic_Inr room_second_def snd_conv)
qed

lemma room_users: "users (db room_second) 1 = 4"
proof -
  obtain b where b: "create_on demo_env (room_args ''ann'') room_server room_first = (Inr b, room_second)"
    by (rule room_second_run)
  have "accounts (db room_second) = [demo_account, demo_link, room_account, b]"
    using create_on_Inr(3) [OF b] by (simp add: room_first_run)
  with create_on_Inr(1,2) [OF b] show ?thesis
    by (simp add: users_def demo_account_def demo_link_def room_account_def room_server_def demo_server_def)
qed

lemma room_reach:
  "pool_reach demo_env 2 room_sys \<lparr>shared = room_second, chosen = (\<lambda>i. None)\<rparr>"
proof -
  let ?idle = "(\<lambda>i. None) :: nat \<Rightarrow> (create_args \<times> server) option"
  let ?amy = "?idle(0 \<mapsto> (room_args ''amy'', room_server))"
  let ?both = "?amy(1 \<mapsto> (room_args ''ann'', room_server))"
  have pick: "pick_best_server (arg_server (room_args u)) room_sys = (Inr room_server, room_sys)"
    and none: "\<forall>srv. arg_server (room_args u) = Some srv \<longrightarrow> P srv" for u P
    using room_pick by (simp_all add: room_args_def default_args_def)
  have p0: "pool_reach demo_env 2 room_sys \<lparr>shared = room_sys, chosen = ?idle\<rparr>" by (rule pool_start)
  have "pool_step demo_env 2 \<lparr>shared = room_sys, chosen = ?idle\<rparr> \<lparr>shared = room_sys, chosen = ?amy\<rparr>"
    using pool_step.choose [of 0 2 "\<lparr>shared = room_sys, chosen = ?idle\<rparr>", OF _ _ none, of "''amy''" room_server room_sys demo_env] pick
    by simp
  with p0 have p1: "pool_reach demo_env 2 room_sys \<lparr>shared = room_sys, chosen = ?amy\<rparr>" by (rule pool_next)
  have "pool_step demo_env 2 \<lparr>shared = room_sys, chosen = ?amy\<rparr> \<lparr>shared = room_sys, chosen = ?both\<rparr>"
    using pool_step.choose [of 1 2 "\<lparr>shared = room_sys, chosen = ?amy\<rparr>", OF _ _ none, of "''ann''" room_server room_sys demo_env] pick
    by simp
  with p1 have p2: "pool_reach demo_env 2 room_sys \<lparr>shared = room_sys, chosen = ?both\<rparr>" by (rule pool_next)
  have "pool_step demo_env 2 \<lparr>shared = room_sys, chosen = ?both\<rparr> \<lparr>shared = room_first, chosen = ?both(0 := None)\<rparr>"
    using pool_step.complete [of 0 2 "\<lparr>shared = room_sys, chosen = ?both\<rparr>" "room_args ''amy''" room_server
        demo_env "Inr room_account" room_first] room_first_run(1)
    by (simp add: atomic_Inr)
  with p2 have p3: "pool_reach demo_env 2 room_sys \<lparr>shared = room_first, chosen = ?both(0 := None)\<rparr>" by (rule pool_next)
  obtain b where b: "create_on demo_env (room_args ''ann'') room_server room_first = (Inr b, room_second)"
    by (rule room_second_run)
  have "pool_step demo_env 2 \<lparr>shared = room_first, chosen = ?both(0 := None)\<rparr>
      \<lparr>shared = room_second, chosen = (?both(0 := None))(1 := None)\<rparr>"
    using pool_step.complete [of 1 2 "\<lparr>shared = room_first, chosen = ?both(0 := None)\<rparr>" "room_args ''ann''" room_server
        demo_env "Inr b" room_second] b
    by (simp add: atomic_Inr)
  with p3 have "pool_reach demo_env 2 room_sys \<lparr>shared = room_second, chosen = (?both(0 := None))(1 := None)\<rparr>"
    by (rule pool_next)
  moreover have "(?both(0 := None))(1 := None) = ?idle" by (simp add: fun_eq_iff)
  ultimately show ?thesis by simp
qed


section \<open>A row written back late\<close>

text \<open>
  The periodic check reads the servers once and saves each row whole after its node
  has answered: whatever became of the row in between, its columns are those of the
  object again, but for the health and, when the CPU rule applies, the status.
\<close>

definition answered_health :: "'w env \<Rightarrow> server \<Rightarrow> 'w sys \<Rightarrow> health \<Rightarrow> bool" where
  "answered_health E srv s h \<longleftrightarrow> fst (with_ssh E srv (\<lambda>ssh. get_health E ssh) s) = Inr h"

definition checked :: "server \<Rightarrow> health \<Rightarrow> datetime \<Rightarrow> server" where
  "checked srv h u =
     (if cpu_overload (with_health srv h u) then (with_health srv h u)\<lparr>srv_status := SrvFull\<rparr>
      else with_health srv h u)"

lemma checked_fits:
  assumes "server_violation d srv = None" "- (2 ^ 63) \<le> h_uptime_seconds h" "h_uptime_seconds h < 2 ^ 63"
  shows "server_violation d (checked srv h u\<lparr>srv_created_at := c, srv_updated_at := v\<rparr>) = None"
  using assms
  by (simp add: server_violation_def first_violation_None Let_def checked_def with_health_def)

text \<open>What \<open>save()\<close> of a whole object does, also when its row is gone.\<close>

lemma save_server_row:
  assumes known: "srv_id srv < next_server (db s)"
    and free: "\<And>c v. server_violation (db s) (srv\<lparr>srv_created_at := c, srv_updated_at := v\<rparr>) = None"
  obtains t v c where "save_server E srv s = (Inr (), t)"
    "db_server (db t) (srv_id srv) = Some (srv\<lparr>srv_created_at := c, srv_updated_at := v\<rparr>)"
    "db_server (db s) (srv_id srv) \<noteq> None \<longrightarrow> c = srv_created_at srv"
proof -
  obtain u s1 where now1: "now E s = (Inr u, s1)" "quiet s s1" using now_returns by blast
  show ?thesis
  proof (cases "db_server (db s) (srv_id srv)")
    case (Some r)
    let ?g = "\<lambda>r :: server. srv\<lparr>srv_id := srv_id r, srv_updated_at := u\<rparr>"
    have "srv_id r = srv_id srv" using Some by (auto dest: db_server_Some)
    then have g: "?g r = srv\<lparr>srv_created_at := srv_created_at srv, srv_updated_at := u\<rparr>" by (cases srv) simp
    define d where "d = (db s)\<lparr>servers := replace_key srv_id (srv_id srv) ?g (servers (db s))\<rparr>"
    have "server_violation (db s) (?g r) = None" unfolding g by (rule free)
    then have "update_server (srv_id srv) ?g (db s) = (Inr (), d)"
      using Some by (simp add: update_server_def d_def)
    then have "save_server E srv s = (Inr (), s1\<lparr>db := d\<rparr>)"
      using now1 Some by (simp add: save_server_def py_bind_def query_def py_get_def on_db_def)
    moreover have "db_server d (srv_id srv) = Some (?g r)"
      unfolding d_def using Some by (intro db_server_update_same) simp_all
    ultimately show ?thesis
      by (intro that [of "s1\<lparr>db := d\<rparr>" u "srv_created_at srv"]) (simp_all add: g)
  next
    case None
    obtain c s2 where now2: "now E s1 = (Inr c, s2)" "quiet s1 s2" using now_returns by blast
    obtain v s3 where now3: "now E s2 = (Inr v, s3)" "quiet s2 s3" using now_returns by blast
    let ?new = "srv\<lparr>srv_created_at := c, srv_updated_at := v\<rparr>"
    define d where "d = (db s)\<lparr>servers := servers (db s) @ [?new]\<rparr>"
    have "restore_server ?new (db s) = (Inr (), d)"
      using None known free by (simp add: restore_server_def d_def)
    then have "save_server E srv s = (Inr (), s3\<lparr>db := d\<rparr>)"
      using now1 now2 now3 None by (simp add: save_server_def py_bind_def query_def py_get_def on_db_def)
    moreover have "db_server d (srv_id srv) = Some ?new"
      using None by (simp add: db_server_def d_def find_append)
    ultimately show ?thesis
      by (intro that [of "s3\<lparr>db := d\<rparr>" v c]) (simp_all add: None)
  qed
qed

lemma check_writes_back:
  assumes answer: "answered_health E srv s h" and known: "srv_id srv < next_server (db s)"
    and run: "check_server_health E srv s = (Inr (), t)"
    and fits: "server_violation (db s) srv = None" "- (2 ^ 63) \<le> h_uptime_seconds h" "h_uptime_seconds h < 2 ^ 63"
  obtains u v c where "db_server (db t) (srv_id srv) = Some (checked srv h u\<lparr>srv_created_at := c, srv_updated_at := v\<rparr>)"
    "db_server (db s) (srv_id srv) \<noteq> None \<longrightarrow> c = srv_created_at srv"
proof -
  let ?ssh = "with_ssh E srv (\<lambda>ssh. get_health E ssh)"
  obtain s1 where ssh: "?ssh s = (Inr h, s1)"
    using answer unfolding answered_health_def by (metis prod.collapse)
  have "steps remote ?ssh" by (intro steps_intro)
  then have s1: "remote s s1" using ssh by (rule steps_run)
  obtain u s2 where now1: "now E s1 = (Inr u, s2)" using now_returns by blast
  define s3 where "s3 = s2\<lparr>health_fails := (health_fails s2)(srv_id srv \<mapsto> 0)\<rparr>"
  have db3: "db s3 = db s"
    using s1 steps_run [OF now_remote now1] by (simp add: s3_def)
  have id: "srv_id (checked srv h u) = srv_id srv" "srv_created_at (checked srv h u) = srv_created_at srv"
    by (simp_all add: checked_def with_health_def)
  obtain t' v c where save: "save_server E (checked srv h u) s3 = (Inr (), t')"
    and row: "db_server (db t') (srv_id srv) = Some (checked srv h u\<lparr>srv_created_at := c, srv_updated_at := v\<rparr>)"
    and kept: "db_server (db s) (srv_id srv) \<noteq> None \<longrightarrow> c = srv_created_at srv"
    by (rule save_server_row [of "checked srv h u" s3 E])
       (use known checked_fits [OF fits] in \<open>simp_all add: db3 id\<close>)
  have "t = t'"
    using run save
    by (simp add: check_server_health_def py_bind_def py_try_def ssh py_return_def now1 Let_def py_then_def
        set_fail_count_def py_modify_def checked_def [symmetric] s3_def [symmetric])
  with row kept show ?thesis by (intro that [of v c u]) simp_all
qed

end
