(* ===== verification/Routes.thy ===== *)
theory Routes
  imports Panel TextFacts
begin

text \<open>
  The addresses: \<open>sshvpn/urls.py\<close> and, below \<open>api/\<close>, the table of \<open>api/urls.py\<close>, with
  the way Django reads them.  A pattern of \<open>path\<close> is literal text and converters:
  \<open><int:pk>\<close> takes decimal digits, \<open><uuid:token>\<close> the 36 characters of a token in
  lower case.  No converter of the tables is followed by a character it could take
  itself, so taking as much as possible is what the regular expression does.  The
  patterns are tried in order and the first that takes the whole address wins.
\<close>

section \<open>Patterns\<close>

datatype sym = Lit char | IntConv | UuidConv

datatype url_arg = UrlInt nat | UrlUuid uuid

definition converter :: "string \<Rightarrow> sym list" where
  "converter name =
     (if name = ''int:pk'' then [IntConv] else if name = ''uuid:token'' then [UuidConv]
      else map Lit (''<'' @ name @ ''>''))"

function syms :: "string \<Rightarrow> sym list" where
  "syms [] = []"
| "syms (c # cs) =
     (if c = CHR ''<''
      then converter (takeWhile (\<lambda>d. d \<noteq> CHR ''>'') cs) @ syms (drop 1 (dropWhile (\<lambda>d. d \<noteq> CHR ''>'') cs))
      else Lit c # syms cs)"
  by pat_completeness auto
termination by (relation "measure length") (auto simp: less_Suc_eq_le intro: le_trans [OF diff_le_self length_dropWhile_le])

definition uuid_template :: string where
  "uuid_template = ''xxxxxxxx-xxxx-xxxx-xxxx-xxxxxxxxxxxx''"

definition is_hex :: "char \<Rightarrow> bool" where
  "is_hex c \<longleftrightarrow> c \<in> set ''0123456789abcdef''"

definition uuid_shape :: "string \<Rightarrow> bool" where
  "uuid_shape s \<longleftrightarrow> list_all2 (\<lambda>p c. if p = CHR ''-'' then c = CHR ''-'' else is_hex c) uuid_template s"

fun match_syms :: "sym list \<Rightarrow> string \<Rightarrow> url_arg list option" where
  "match_syms [] s = (if s = [] then Some [] else None)"
| "match_syms (Lit c # ps) s =
     (case s of [] \<Rightarrow> None | x # xs \<Rightarrow> if x = c then match_syms ps xs else None)"
| "match_syms (IntConv # ps) s =
     (let ds = takeWhile is_decimal s
      in if ds = [] then None
         else map_option (\<lambda>as. UrlInt (digits_value ds) # as) (match_syms ps (dropWhile is_decimal s)))"
| "match_syms (UuidConv # ps) s =
     (let u = take 36 s
      in if uuid_shape u then map_option (\<lambda>as. UrlUuid (uuid_value u) # as) (match_syms ps (drop 36 s))
         else None)"


section \<open>The tables\<close>

fun resolve_api :: "(string \<times> endpoint) list \<Rightarrow> string \<Rightarrow> (endpoint \<times> url_arg list) option" where
  "resolve_api [] s = None"
| "resolve_api ((p, ep) # tbl) s =
     (case match_syms (syms p) s of Some as \<Rightarrow> Some (ep, as) | None \<Rightarrow> resolve_api tbl s)"

datatype page =
    HealthCheck
  | AdminPage string
  | ApiPage endpoint "url_arg list"
  | SchemaPage
  | DocsPage
  | SpaPage

datatype route = Path string page | AdminSite string | IncludeApi string | SpaFallback "string list"

definition root_urlpatterns :: "route list" where
  "root_urlpatterns =
     [Path ''api/health/'' HealthCheck, AdminSite ''admin/'', IncludeApi ''api/'',
      Path ''api/schema/'' SchemaPage, Path ''api/docs/'' DocsPage,
      SpaFallback [''admin'', ''api'', ''static'']]"

text \<open>
  The administration site takes every address below its own; \<open>^(?!admin|api|static).*$\<close>
  takes the texts of one line that begin with none of the three words.
\<close>

fun try_route :: "route \<Rightarrow> string \<Rightarrow> page option" where
  "try_route (Path p pg) s = (if s = p then Some pg else None)"
| "try_route (AdminSite p) s = (if starts_with p s then Some (AdminPage (drop (length p) s)) else None)"
| "try_route (IncludeApi p) s =
     (if starts_with p s
      then map_option (\<lambda>(ep, as). ApiPage ep as) (resolve_api urlpatterns (drop (length p) s)) else None)"
| "try_route (SpaFallback words) s =
     (if list_all (\<lambda>w. \<not> starts_with w s) words \<and> newline \<notin> set s then Some SpaPage else None)"

fun first_route :: "route list \<Rightarrow> string \<Rightarrow> page option" where
  "first_route [] s = None"
| "first_route (r # rs) s = (case try_route r s of Some pg \<Rightarrow> Some pg | None \<Rightarrow> first_route rs s)"

text \<open>\<open>None\<close> is Django's 404; the address is given without its first slash.\<close>

definition resolve :: "string \<Rightarrow> page option" where
  "resolve s = first_route root_urlpatterns s"

definition health_check :: response where
  "health_check = Response 200 (JObj [(''status'', JStr ''ok'')])"


section \<open>The address of a call\<close>

fun fill :: "sym list \<Rightarrow> url_arg list \<Rightarrow> string" where
  "fill (Lit c # ps) as = c # fill ps as"
| "fill (IntConv # ps) (UrlInt n # as) = show_nat n @ fill ps as"
| "fill (UuidConv # ps) (UrlUuid u # as) = uuid_str u @ fill ps as"
| "fill ps as = []"

fun fits :: "sym list \<Rightarrow> url_arg list \<Rightarrow> bool" where
  "fits [] as \<longleftrightarrow> as = []"
| "fits (Lit c # ps) as \<longleftrightarrow> fits ps as"
| "fits (IntConv # ps) (UrlInt n # as) \<longleftrightarrow> fits ps as"
| "fits (UuidConv # ps) (UrlUuid u # as) \<longleftrightarrow> u < 2 ^ 128 \<and> fits ps as"
| "fits ps as \<longleftrightarrow> False"

definition pattern_of :: "endpoint \<Rightarrow> string" where
  "pattern_of ep = default_to (map_option fst (find (\<lambda>(p, e). e = ep) urlpatterns)) []"

fun call_args :: "http_call \<Rightarrow> url_arg list" where
  "call_args (CallServerDetail i) = [UrlInt i]"
| "call_args (CallServerUpdate i _) = [UrlInt i]"
| "call_args (CallPlanDetail i) = [UrlInt i]"
| "call_args (CallServerDestroy i) = [UrlInt i]"
| "call_args (CallServerHealth i) = [UrlInt i]"
| "call_args (CallServerSetStatus i _) = [UrlInt i]"
| "call_args (CallPlanUpdate i _) = [UrlInt i]"
| "call_args (CallPlanDestroy i) = [UrlInt i]"
| "call_args (CallAccountDetail i) = [UrlInt i]"
| "call_args (CallAccountUpdate i _) = [UrlInt i]"
| "call_args (CallDeleteAccount i) = [UrlInt i]"
| "call_args (CallSuspendAccount i) = [UrlInt i]"
| "call_args (CallActivateAccount i) = [UrlInt i]"
| "call_args (CallExtendAccount i _) = [UrlInt i]"
| "call_args (CallResetPassword i) = [UrlInt i]"
| "call_args (CallPublicStatus u) = [UrlUuid u]"
| "call_args (CallShadowLinkConfig u) = [UrlUuid u]"
| "call_args (CallShadowLinkDeploy i _) = [UrlInt i]"
| "call_args (CallShadowLinkStatus i) = [UrlInt i]"
| "call_args c = []"

definition call_path :: "http_call \<Rightarrow> string" where
  "call_path c = ''api/'' @ fill (syms (pattern_of (endpoint_of c))) (call_args c)"

fun token_ok :: "http_call \<Rightarrow> bool" where
  "token_ok (CallPublicStatus u) \<longleftrightarrow> u < 2 ^ 128"
| "token_ok (CallShadowLinkConfig u) \<longleftrightarrow> u < 2 ^ 128"
| "token_ok c \<longleftrightarrow> True"


section \<open>Reading back an address\<close>

text \<open>A converter for numbers must end where the digits end.\<close>

fun separated :: "sym list \<Rightarrow> bool" where
  "separated [] = True"
| "separated (IntConv # ps) \<longleftrightarrow>
     (case ps of [] \<Rightarrow> True | Lit c # _ \<Rightarrow> \<not> is_decimal c | _ \<Rightarrow> False) \<and> separated ps"
| "separated (_ # ps) = separated ps"

text \<open>\<open>clash ps qs\<close>: no address made from \<open>qs\<close> is taken by \<open>ps\<close>.\<close>

fun clash :: "sym list \<Rightarrow> sym list \<Rightarrow> bool" where
  "clash [] [] = False"
| "clash [] (q # qs) = True"
| "clash (p # ps) [] = True"
| "clash (Lit a # ps) (Lit b # qs) \<longleftrightarrow> a \<noteq> b \<or> clash ps qs"
| "clash (IntConv # ps) (IntConv # qs) = clash ps qs"
| "clash (UuidConv # ps) (UuidConv # qs) = clash ps qs"
| "clash (IntConv # ps) (Lit b # qs) \<longleftrightarrow> \<not> is_decimal b"
| "clash (Lit a # ps) (IntConv # qs) \<longleftrightarrow> \<not> is_decimal a"
| "clash ps qs = False"

lemma take_digits:
  assumes "case s of [] \<Rightarrow> True | c # _ \<Rightarrow> \<not> is_decimal c"
  shows "takeWhile is_decimal (show_nat n @ s) = show_nat n" "dropWhile is_decimal (show_nat n @ s) = s"
proof -
  have dec: "\<forall>c\<in>set (show_nat n). is_decimal c"
    using show_nat_decimal [of n] by (simp add: list_all_iff)
  have "takeWhile is_decimal s = []" "dropWhile is_decimal s = s"
    using assms by (cases s; simp)+
  with dec show "takeWhile is_decimal (show_nat n @ s) = show_nat n" "dropWhile is_decimal (show_nat n @ s) = s"
    by (simp_all add: takeWhile_append dropWhile_append)
qed

lemma fill_separated:
  "separated (IntConv # ps) \<Longrightarrow> fits ps as \<Longrightarrow> case fill ps as of [] \<Rightarrow> True | c # _ \<Rightarrow> \<not> is_decimal c"
  by (cases ps; cases "hd ps") auto

lemma is_hex_digits: "list_all is_hex (hex_digits k n)"
proof -
  have "is_hex (''0123456789abcdef'' ! (m mod 16))" for m :: nat
    unfolding is_hex_def by (rule nth_mem) simp
  then show ?thesis by (induction k arbitrary: n) simp_all
qed

lemma length_uuid_str: "length (uuid_str u) = 36"
  by (simp add: uuid_str_def Let_def del: hex_digits.simps)

lemma uuid_shape_str: "uuid_shape (uuid_str u)"
proof -
  let ?ok = "\<lambda>p c. if p = CHR ''-'' then c = CHR ''-'' else is_hex c"
  let ?h = "hex_digits 32 u"
  have hex: "list_all2 ?ok (replicate n CHR ''x'') s" if "set s \<subseteq> set ?h" "length s = n" for s n
    using that is_hex_digits [of 32 u]
    by (auto simp: list_all2_conv_all_nth list_all_iff subset_iff simp del: hex_digits.simps)
  have part: "set (take i (drop j ?h)) \<subseteq> set ?h" for i j
    by (meson set_drop_subset set_take_subset subset_trans)
  have template: "uuid_template = replicate 8 CHR ''x'' @ CHR ''-'' # replicate 4 CHR ''x'' @ CHR ''-'' #
      replicate 4 CHR ''x'' @ CHR ''-'' # replicate 4 CHR ''x'' @ CHR ''-'' # replicate 12 CHR ''x''"
    by (simp add: uuid_template_def numeral_eq_Suc)
  have str: "uuid_str u = take 8 ?h @ CHR ''-'' # take 4 (drop 8 ?h) @ CHR ''-'' # take 4 (drop 12 ?h) @
      CHR ''-'' # take 4 (drop 16 ?h) @ CHR ''-'' # drop 20 ?h"
    unfolding uuid_str_def Let_def by (simp del: hex_digits.simps)
  have "list_all2 ?ok uuid_template (uuid_str u)"
    unfolding template str
    using part [of 8 0] part [of 4 8] part [of 4 12] part [of 4 16] part [of 12 20]
    by (intro list_all2_appendI list_all2_Cons [THEN iffD2] conjI hex) (simp_all del: hex_digits.simps)
  then show ?thesis by (simp add: uuid_shape_def)
qed

lemma match_fill:
  "fits ps as \<Longrightarrow> separated ps \<Longrightarrow> match_syms ps (fill ps as) = Some as"
proof (induction ps as rule: fits.induct)
  case (3 ps n as)
  moreover from 3(2,3) have "case fill ps as of [] \<Rightarrow> True | c # _ \<Rightarrow> \<not> is_decimal c"
    by (intro fill_separated) simp_all
  ultimately show ?case by (simp add: Let_def take_digits show_nat_nonempty)
next
  case (4 ps u as)
  then have "uuid_value (uuid_str u) = u" by (simp only: uuid_str_value fits.simps mod_less)
  with 4 show ?case by (simp add: Let_def length_uuid_str uuid_shape_str)
qed simp_all

lemma show_nat_first: "\<exists>c cs. show_nat n = c # cs \<and> is_decimal c"
  using show_nat_decimal [of n] show_nat_nonempty [of n] by (cases "show_nat n") auto

lemma clash_none:
  "clash ps qs \<Longrightarrow> fits qs as \<Longrightarrow> separated qs \<Longrightarrow> match_syms ps (fill qs as) = None"
proof (induction ps qs arbitrary: as rule: clash.induct)
  case (2 q qs)
  then show ?case
    using show_nat_nonempty length_uuid_str
    by (cases q; cases as rule: list.exhaust; cases "hd as") (auto simp: length_uuid_str dest: arg_cong [of _ _ length])
next
  case (3 p ps)
  then show ?case by (cases p) (simp_all add: uuid_shape_def uuid_template_def)
next
  case (5 ps qs)
  then obtain n bs where as: "as = UrlInt n # bs" "fits qs bs"
    by (cases as; cases "hd as") auto
  then have "case fill qs bs of [] \<Rightarrow> True | c # _ \<Rightarrow> \<not> is_decimal c"
    using 5(4) by (intro fill_separated) simp_all
  with 5 as show ?case by (simp add: Let_def take_digits)
next
  case (6 ps qs)
  then obtain u bs where "as = UrlUuid u # bs" "fits qs bs"
    by (cases as; cases "hd as") auto
  with 6 show ?case by (simp add: Let_def length_uuid_str uuid_shape_str)
next
  case (8 a ps qs)
  then obtain n bs where "as = UrlInt n # bs" by (cases as; cases "hd as") auto
  with 8 show ?case using show_nat_first [of n] by auto
qed (auto split: list.splits)

fun unambiguous :: "(string \<times> endpoint) list \<Rightarrow> bool" where
  "unambiguous [] = True"
| "unambiguous ((p, ep) # tbl) \<longleftrightarrow>
     separated (syms p) \<and> list_all (\<lambda>(q, _). clash (syms p) (syms q)) tbl \<and> unambiguous tbl"

lemma resolve_unambiguous:
  assumes "unambiguous tbl" and "(p, ep) \<in> set tbl" and "fits (syms p) as"
  shows "resolve_api tbl (fill (syms p) as) = Some (ep, as)"
  using assms
proof (induction tbl)
  case (Cons x tbl)
  obtain q e where x: "x = (q, e)" by (cases x)
  have sep: "separated (syms r)" if "(r, f) \<in> set tbl'" "unambiguous tbl'" for r f tbl'
    using that by (induction tbl') auto
  show ?case
  proof (cases "(p, ep) = x")
    case True
    with Cons.prems x show ?thesis by (simp add: match_fill)
  next
    case False
    with Cons.prems x have "(p, ep) \<in> set tbl" "clash (syms q) (syms p)" "unambiguous tbl"
      by (auto simp: list_all_iff)
    then show ?thesis
      using Cons x sep [of p ep tbl] by (simp add: clash_none)
  qed
qed simp

lemma urlpatterns_unambiguous: "unambiguous urlpatterns"
  by code_simp

lemma pattern_of_mem: "(pattern_of ep, ep) \<in> set urlpatterns"
proof -
  have "ep \<in> snd ` set urlpatterns"
    unfolding urlpatterns_def by (cases ep) simp_all
  then obtain p where "(p, ep) \<in> set urlpatterns" by auto
  then have "find (\<lambda>(p, e). e = ep) urlpatterns \<noteq> None" by (auto simp: find_None_iff)
  then obtain q where q: "find (\<lambda>(p, e). e = ep) urlpatterns = Some q" by auto
  from find_SomeD [OF q] show ?thesis
    by (auto simp: pattern_of_def q default_to_def)
qed

lemma patterns [simp]:
  "pattern_of AuthLogin = ''auth/login/''"
  "pattern_of AuthLogout = ''auth/logout/''"
  "pattern_of AuthMe = ''auth/me/''"
  "pattern_of Dashboard = ''dashboard/''"
  "pattern_of ServerList = ''servers/''"
  "pattern_of ServerDetail = ''servers/<int:pk>/''"
  "pattern_of ServerHealth = ''servers/<int:pk>/health-check/''"
  "pattern_of ServerSetStatus = ''servers/<int:pk>/set-status/''"
  "pattern_of PlanList = ''plans/''"
  "pattern_of PlanDetail = ''plans/<int:pk>/''"
  "pattern_of AccountList = ''accounts/''"
  "pattern_of AccountDetail = ''accounts/<int:pk>/''"
  "pattern_of AccountUpdate = ''accounts/<int:pk>/update/''"
  "pattern_of CreateAccount = ''create-user/''"
  "pattern_of BulkCreate = ''bulk-create/''"
  "pattern_of DeleteAccount = ''delete-user/<int:pk>/''"
  "pattern_of SuspendAccount = ''suspend-user/<int:pk>/''"
  "pattern_of ActivateAccount = ''activate-user/<int:pk>/''"
  "pattern_of ExtendAccount = ''extend-user/<int:pk>/''"
  "pattern_of ResetPassword = ''reset-password/<int:pk>/''"
  "pattern_of SessionList = ''sessions/''"
  "pattern_of LogList = ''logs/''"
  "pattern_of PaymentWebhook = ''webhook/payment/''"
  "pattern_of PublicStatus = ''public/status/<uuid:token>/''"
  "pattern_of PublicPlans = ''public/plans/''"
  "pattern_of ShadowLinkAccounts = ''shadowlink/accounts/''"
  "pattern_of ShadowLinkCreate = ''shadowlink/accounts/create/''"
  "pattern_of ShadowLinkConfig = ''shadowlink/config/<uuid:token>/''"
  "pattern_of ShadowLinkDeploy = ''shadowlink/servers/<int:pk>/deploy/''"
  "pattern_of ShadowLinkStatus = ''shadowlink/servers/<int:pk>/status/''"
  by code_simp+

lemma pattern_fits: "token_ok c \<Longrightarrow> fits (syms (pattern_of (endpoint_of c))) (call_args c)"
  by (cases c) (simp_all add: converter_def)

lemma call_resolves:
  assumes "token_ok c"
  shows "resolve_api urlpatterns (fill (syms (pattern_of (endpoint_of c))) (call_args c)) =
    Some (endpoint_of c, call_args c)"
  using resolve_unambiguous [OF urlpatterns_unambiguous pattern_of_mem pattern_fits [OF assms]] .


section \<open>The addresses the web frontend asks for\<close>

text \<open>
  \<open>api/client.ts\<close> and \<open>api/endpoints.ts\<close> of the frontend: the base address, and the
  address each of its calls writes; it has none for the webhook and for ShadowLink.
\<close>

definition base_url :: string where
  "base_url = ''/api''"

fun client_path :: "http_call \<Rightarrow> string option" where
  "client_path (CallLogin _ _) = Some ''/auth/login/''"
| "client_path CallLogout = Some ''/auth/logout/''"
| "client_path CallMe = Some ''/auth/me/''"
| "client_path CallDashboard = Some ''/dashboard/''"
| "client_path (CallServerList _) = Some ''/servers/''"
| "client_path (CallServerCreate _) = Some ''/servers/''"
| "client_path (CallServerDetail i) = Some (''/servers/'' @ show_nat i @ ''/'')"
| "client_path (CallServerUpdate i _) = Some (''/servers/'' @ show_nat i @ ''/'')"
| "client_path (CallServerDestroy i) = Some (''/servers/'' @ show_nat i @ ''/'')"
| "client_path (CallServerHealth i) = Some (''/servers/'' @ show_nat i @ ''/health-check/'')"
| "client_path (CallServerSetStatus i _) = Some (''/servers/'' @ show_nat i @ ''/set-status/'')"
| "client_path (CallPlanList _) = Some ''/plans/''"
| "client_path (CallPlanCreate _) = Some ''/plans/''"
| "client_path (CallPlanDetail i) = Some (''/plans/'' @ show_nat i @ ''/'')"
| "client_path (CallPlanUpdate i _) = Some (''/plans/'' @ show_nat i @ ''/'')"
| "client_path (CallPlanDestroy i) = Some (''/plans/'' @ show_nat i @ ''/'')"
| "client_path (CallAccountList _) = Some ''/accounts/''"
| "client_path (CallAccountDetail i) = Some (''/accounts/'' @ show_nat i @ ''/'')"
| "client_path (CallCreateAccount _) = Some ''/create-user/''"
| "client_path (CallAccountUpdate i _) = Some (''/accounts/'' @ show_nat i @ ''/update/'')"
| "client_path (CallBulkCreate _) = Some ''/bulk-create/''"
| "client_path (CallDeleteAccount i) = Some (''/delete-user/'' @ show_nat i @ ''/'')"
| "client_path (CallSuspendAccount i) = Some (''/suspend-user/'' @ show_nat i @ ''/'')"
| "client_path (CallActivateAccount i) = Some (''/activate-user/'' @ show_nat i @ ''/'')"
| "client_path (CallExtendAccount i _) = Some (''/extend-user/'' @ show_nat i @ ''/'')"
| "client_path (CallResetPassword i) = Some (''/reset-password/'' @ show_nat i @ ''/'')"
| "client_path (CallSessionList _) = Some ''/sessions/''"
| "client_path (CallLogList _) = Some ''/logs/''"
| "client_path (CallPublicStatus u) = Some (''/public/status/'' @ uuid_str u @ ''/'')"
| "client_path CallPublicPlans = Some ''/public/plans/''"
| "client_path _ = None"

lemma client_path_call:
  assumes "client_path c = Some p"
  shows "base_url @ p = ''/'' @ call_path c"
proof -
  have "case client_path c of None \<Rightarrow> True | Some q \<Rightarrow> base_url @ q = ''/'' @ call_path c"
    by (cases c)
       (simp_all add: base_url_def call_path_def converter_def)
  with assms show ?thesis by simp
qed

end
