(* ===== verification/SiteProperties.thy ===== *)
theory SiteProperties
  imports AdminSite Durations Frontend Interleavings Routes
begin

text \<open>
  The properties of the site around the services: the settings and the addresses, what
  the administration site can delete, the types the web frontend reads, processes that
  work on the database at the same time, how long jobs take, and what the bot sells.
\<close>

section \<open>Settings\<close>





section \<open>Addresses\<close>

text \<open>Only the address of the health check itself and the site's own begin otherwise.\<close>

lemma health_is_no_call: "resolve_api urlpatterns ''health/'' = None"
  by code_simp

text \<open>
  C25: the address that a call fills in leads back to the view of the call with the
  arguments it was filled with: no pattern of \<open>urls.py\<close> takes an address that is meant
  for another, numbers and tokens are read back as they were written, and neither the
  health check, the administration site nor the web frontend takes the address first;
  and the address the frontend asks for, where it has the call, is that one.
\<close>

theorem addresses_resolve:
  assumes "token_ok c"
  shows "resolve (call_path c) = Some (ApiPage (endpoint_of c) (call_args c)) \<and>
    (\<forall>p. client_path c = Some p \<longrightarrow> base_url @ p = ''/'' @ call_path c)"
proof -
  let ?s = "fill (syms (pattern_of (endpoint_of c))) (call_args c)"
  note api = call_resolves [OF assms]
  then have "?s \<noteq> ''health/''" using health_is_no_call by auto
  then show ?thesis
    using api client_path_call by (simp add: resolve_def root_urlpatterns_def call_path_def)
qed

lemma addresses_resolve_witness:
  "resolve (call_path (CallExtendAccount 42 [])) = Some (ApiPage ExtendAccount [UrlInt 42]) \<and>
   ''/api/extend-user/'' @ show_nat 42 @ ''/'' = ''/'' @ call_path (CallExtendAccount 42 [])"
  using addresses_resolve [of "CallExtendAccount 42 []"] by (simp add: base_url_def)


section \<open>Deletion on the administration site\<close>

lemma remove_selected_same_io: "steps same_io (remove_selected m is)"
  by (cases m) (simp_all only: remove_selected.simps, (intro steps_intro)+)

lemma atomic_same_io:
  assumes "steps same_io m"
  shows "steps same_io (atomic m)"
proof (rule stepsI)
  fix s
  obtain r t where "m s = (r, t)" by fastforce
  with steps_run [OF assms this] show "same_io s (snd (atomic m s))" by (cases r) (simp_all add: atomic_def)
qed

lemma delete_protected_server:
  assumes "i \<in> set is" "list_ex (\<lambda>a. acc_server a = i) (accounts (db s))"
  shows "isl (fst (py_for is (\<lambda>i. on_db (delete_server i)) s))"
  using assms
proof (induction "is" arbitrary: s)
  case (Cons j js)
  show ?case
  proof (cases "list_ex (\<lambda>a. acc_server a = j) (accounts (db s))")
    case True
    then show ?thesis by (simp add: py_then_def py_bind_def on_db_def delete_server_def)
  next
    case False
    with Cons show ?thesis
      by (auto simp: py_then_def py_bind_def on_db_def delete_server_def)
  qed
qed simp

text \<open>
  C36: ``Delete selected'' of the administration site, on any model and any rows, never
  fails and never reaches a node: deleted accounts go from the database with their
  sessions while their Linux users stay, their log entries stay without them, and no
  entry is written; a user without the permission deletes nothing; a server that still
  has accounts protects the whole selection; and the database stays consistent.
\<close>

theorem admin_deletion:
  assumes "delete_selected granted m is s = (r, t)"
  shows "r = Inr () \<and> io t = io s \<and> (db_wf (db s) \<longrightarrow> db_wf (db t)) \<and>
    (\<not> may_delete granted m is (db s) \<longrightarrow> same_tables (db s) (db t)) \<and>
    (m = AdmAccount \<and> may_delete granted m is (db s) \<longrightarrow>
       accounts (db t) = filter (\<lambda>a. acc_id a \<notin> set is) (accounts (db s)) \<and>
       sessions (db t) = filter (\<lambda>ses. ses_account ses \<notin> set is) (sessions (db s)) \<and>
       logs (db t) = map (forget_account (set is)) (logs (db s))) \<and>
    (m = AdmServer \<and> (\<exists>a \<in> set (accounts (db s)). acc_server a \<in> set is) \<longrightarrow> same_tables (db s) (db t))"
proof (intro conjI impI)
  have run: "(if may_delete granted m is (db s)
      then py_try (atomic (remove_selected m is)) (\<lambda>_. py_return ()) else py_return ()) s = (r, t)"
    using assms by (simp add: delete_selected_def py_bind_def query_def py_get_def)
  then show "r = Inr ()" by (auto simp: py_try_def py_return_def split: if_splits prod.splits sum.splits)
  have "steps same_io (delete_selected granted m is)"
    unfolding delete_selected_def
    by (intro steps_intro quiet_same_io [OF query_quiet] atomic_same_io remove_selected_same_io)
  then show "io t = io s" using assms by (rule steps_run)
  show "db_wf (db t)" if "db_wf (db s)"
    using delete_selected_wf [OF that, of granted m "is"] by (simp add: assms)
  show "same_tables (db s) (db t)" if "\<not> may_delete granted m is (db s)"
    using run that by (auto simp: py_return_def same_tables_def)
  { assume "m = AdmAccount \<and> may_delete granted m is (db s)"
    then have "m = AdmAccount" "may_delete granted m is (db s)" by blast+
    then have "t = s\<lparr>db := snd (remove_accounts is (db s))\<rparr>"
      using run by (auto simp: py_try_def atomic_def on_db_def remove_accounts_def)
    then show "accounts (db t) = filter (\<lambda>a. acc_id a \<notin> set is) (accounts (db s))"
      "sessions (db t) = filter (\<lambda>ses. ses_account ses \<notin> set is) (sessions (db s))"
      "logs (db t) = map (forget_account (set is)) (logs (db s))"
      by (simp_all add: remove_accounts_def) }
  assume "m = AdmServer \<and> (\<exists>a \<in> set (accounts (db s)). acc_server a \<in> set is)"
  then have m: "m = AdmServer" "isl (fst (py_for is (\<lambda>i. on_db (delete_server i)) s))"
    using delete_protected_server by (auto simp: list_ex_iff)
  show "same_tables (db s) (db t)"
  proof (cases "may_delete granted m is (db s)")
    case True
    obtain q u where at: "atomic (remove_selected m is) s = (q, u)" by (cases "atomic (remove_selected m is) s")
    with m have "isl q" by (auto simp: atomic_def split: prod.splits sum.splits)
    then obtain e where "q = Inl e" by (cases q) auto
    with at run True have "same_tables (db s) (db u)" "t = u"
      by (auto simp: py_try_def py_return_def dest: atomic_Inl)
    then show ?thesis by simp
  qed (use run in \<open>auto simp: py_return_def same_tables_def\<close>)
qed

lemma admin_deletion_witness:
  "\<exists>t. delete_selected (\<lambda>m op. True) AdmAccount [1] demo_sys = (Inr (), t) \<and>
     io t = [] \<and> accounts (db t) = [demo_link]"
proof -
  obtain r t where run: "delete_selected (\<lambda>m op. True) AdmAccount [1] demo_sys = (r, t)" by fastforce
  have "may_delete (\<lambda>m op. True) AdmAccount [1] (db demo_sys)"
    by (simp add: may_delete_def site_allows_def)
  with admin_deletion [OF run] run show ?thesis
    by (simp add: demo_sys_def demo_db_def demo_account_def demo_link_def)
qed


text \<open>
  The audit log is the exception to what the panel does: its pages refuse to add and to
  change an entry, to everyone, and delete the selected ones for who may delete.
\<close>

theorem log_deletion:
  assumes "granted AdmLog OpDelete"
  shows "\<not> site_allows granted AdmLog OpAdd \<and> \<not> site_allows granted AdmLog OpChange \<and>
    (\<exists>t. delete_selected granted AdmLog is s = (Inr (), t) \<and>
       logs (db t) = filter (\<lambda>l. log_id l \<notin> set is) (logs (db s)))"
  using assms
  by (simp add: site_allows_def delete_selected_def may_delete_def py_bind_def query_def py_get_def py_try_def
      atomic_def on_db_def remove_logs_def)


section \<open>Processes at the same time\<close>

text \<open>
  C8: \<open>n\<close> processes that create accounts at the same time, each first choosing a
  server and then adding its account, in any order of these steps and between any
  other work that gives no server another user, bring a server at most \<open>n - 1\<close> users
  above \<open>max_users\<close>; one process alone respects the limit.
\<close>

theorem concurrent_creates_bounded:
  assumes "pool_reach E n s0 p" and "db_wf (db s0)" and "db_server (db s0) i = Some r"
    and "int (current_user_count (db s0) r) \<le> srv_max_users r" and "0 < n"
  shows "db_server (db (shared p)) i = Some r \<and>
    int (current_user_count (db (shared p)) r) \<le> srv_max_users r + (int n - 1)"
proof -
  have i: "srv_id r = i" using assms(3) by (auto dest: db_server_Some)
  have "pool_ok n r p"
    using pool_reach_ok [OF assms(1,2) _ _ assms(5), of r] assms(3,4) by (simp add: i users_count)
  then show ?thesis by (simp add: pool_ok_def users_count i)
qed

lemma concurrent_creates_bounded_witness:
  "int (current_user_count (db room_second) room_server) \<le> srv_max_users room_server + 1 \<and>
   int (current_user_count (db room_second) room_server) = srv_max_users room_server + 1"
proof -
  have wf: "db_wf (db room_sys)"
    by code_simp
  have row: "db_server (db room_sys) 1 = Some room_server"
    by (simp add: room_sys_def db_server_def room_server_def demo_server_def)
  have room: "int (current_user_count (db room_sys) room_server) \<le> srv_max_users room_server"
    by (simp add: current_user_count_def room_sys_def room_server_def demo_defs)
  have "srv_id room_server = 1" "srv_max_users room_server = 3"
    by (simp_all add: room_server_def demo_server_def)
  with concurrent_creates_bounded [OF room_reach wf row room] room_users show ?thesis
    by (simp add: users_count)
qed

text \<open>
  C22: the periodic check of a server works on the row it read with its round: when
  the node answers, the row in the database, whatever an administrator made of it
  since, is again the one that was read, with the new health and, where the processor
  is overloaded, the status full; a row that was deleted since is there again.
\<close>

theorem check_overwrites_changes:
  assumes "answered_health E srv s h" and "srv_id srv < next_server (db s)"
    and "check_server_health E srv s = (Inr (), t)"
    and "server_violation (db s) srv = None" "- (2 ^ 63) \<le> h_uptime_seconds h" "h_uptime_seconds h < 2 ^ 63"
  shows "\<exists>u v c.
    db_server (db t) (srv_id srv) = Some (checked srv h u\<lparr>srv_created_at := c, srv_updated_at := v\<rparr>) \<and>
    (db_server (db s) (srv_id srv) \<noteq> None \<longrightarrow> c = srv_created_at srv)"
  using assms by (rule check_writes_back) blast

text \<open>The server was taken to maintenance after the round began.\<close>

definition maintained_sys :: "nat sys" where
  "maintained_sys = demo_sys\<lparr>db := demo_db\<lparr>servers := [demo_server\<lparr>srv_status := SrvMaintenance\<rparr>]\<rparr>\<rparr>"

lemma no_number: "parse_float (py_strip ''ok'') = Fin 0" "float_int (Fin 0) = Inr 0"
  by code_simp+

lemmas maintained_defs = maintained_sys_def demo_defs run_defs ssh_defs get_health_def no_number lift_result_def

lemma maintained_answer:
  "answered_health demo_env demo_server maintained_sys
     \<lparr>h_cpu_usage = Fin 0, h_ram_usage = Fin 0, h_disk_usage = Fin 0, h_uptime_seconds = 0\<rparr>"
  by (simp add: answered_health_def maintained_defs)

lemma maintained_check: "\<not> isl (fst (check_server_health demo_env demo_server maintained_sys))"
  by (simp add: maintained_defs check_server_health_def with_health_def cpu_overload_def save_server_def
      update_server_def server_violation_def set_fail_count_def fail_count_def)

lemma check_overwrites_changes_witness:
  "\<exists>t. check_server_health demo_env demo_server maintained_sys = (Inr (), t) \<and>
     map_option srv_status (db_server (db maintained_sys) 1) = Some SrvMaintenance \<and>
     map_option srv_status (db_server (db t) 1) = Some SrvActive"
proof -
  obtain t where run: "check_server_health demo_env demo_server maintained_sys = (Inr (), t)"
    using returned [OF maintained_check] by (metis old.unit.exhaust)
  have row: "db_server (db maintained_sys) (srv_id demo_server) = Some (demo_server\<lparr>srv_status := SrvMaintenance\<rparr>)"
    by (simp add: maintained_sys_def db_server_def demo_server_def)
  have known: "srv_id demo_server < next_server (db maintained_sys)"
    by (simp add: maintained_sys_def demo_db_def demo_server_def)
  have fits: "server_violation (db maintained_sys) demo_server = None"
    by (simp add: server_violation_def first_violation_def too_long_def maintained_sys_def demo_defs pg_int_max_def)
  obtain u v c where "db_server (db t) 1 =
      Some (checked demo_server
        \<lparr>h_cpu_usage = Fin 0, h_ram_usage = Fin 0, h_disk_usage = Fin 0, h_uptime_seconds = 0\<rparr> u
          \<lparr>srv_created_at := c, srv_updated_at := v\<rparr>)"
    using check_overwrites_changes [OF maintained_answer known run fits] by (auto simp: demo_server_def)
  then show ?thesis
    using run row by (simp add: checked_def with_health_def cpu_overload_def demo_server_def)
qed


section \<open>The web frontend\<close>

lemma yieldsD: "yields P m \<Longrightarrow> m s = (Inr x, t) \<Longrightarrow> P x"
  unfolding yields_def by blast

lemma view_mistyped:
  assumes "mistyped c"
  shows "yields (\<lambda>r. case r of Response st j \<Rightarrow> st < 400 \<longrightarrow> \<not> has_type (expected_type c) j) (view E F u c)"
proof (cases c)
  case (CallLogin name pw)
  show ?thesis
    unfolding CallLogin view.simps login_view_def
    by (intro yields_intro) (simp_all add: ts_user_def)
next
  case (CallServerCreate d)
  show ?thesis
    unfolding CallServerCreate view.simps server_create_view_def
    by (intro yields_intro) (simp add: ts_server_def)
qed (use assms in simp_all)

text \<open>
  C24: every successful answer of the API, whoever asks and whatever the nodes do, has
  the type that the calls of the web frontend give to it, with two exceptions whose
  answers never have it: logging in, which leaves out \<open>is_staff\<close>, and adding a server,
  which answers with the fields of the form only.
\<close>

theorem responses_typed:
  assumes "renders_strings F" and "serve E F u c s = (Inr (Response st j), t)" and "st < 400"
  shows "has_type (expected_type c) j \<longleftrightarrow> \<not> mistyped c"
proof -
  have run: "view E F u c s = (Inr (Response st j), t)"
    using assms(2,3) by (auto simp: serve_def denied_def py_return_def split: if_splits)
  show ?thesis
  proof (cases "mistyped c")
    case True
    from yieldsD [OF view_mistyped [OF this] run] True assms(3) show ?thesis by simp
  next
    case False
    from yieldsD [OF view_typed [OF assms(1) this] run] False assms(3) show ?thesis by simp
  qed
qed

text \<open>A framework that writes times and prices as texts.\<close>

definition text_drf :: "nat drf" where
  "text_drf = demo_drf\<lparr>drf_show_datetime := (\<lambda>t. JStr (show_int t)), drf_show_price := (\<lambda>p. JStr (price_str p))\<rparr>"

lemma responses_typed_witness:
  "\<exists>j t. serve demo_env text_drf (Some demo_admin) (CallPlanDetail 1) demo_sys = (Inr (Response 200 j), t) \<and>
     has_type ts_plan j"
proof -
  have texts: "renders_strings text_drf" by (simp add: renders_strings_def text_drf_def)
  have "\<exists>j t. serve demo_env text_drf (Some demo_admin) (CallPlanDetail 1) demo_sys = (Inr (Response 200 j), t)"
    by (simp add: serve_def admits_def plan_detail_view_def demo_admin_def demo_plan_1 py_bind_def py_return_def)
  then obtain j t where run: "serve demo_env text_drf (Some demo_admin) (CallPlanDetail 1) demo_sys = (Inr (Response 200 j), t)"
    by blast
  from responses_typed [OF texts run] run show ?thesis by auto
qed


section \<open>Jobs\<close>




section \<open>What the bot sells\<close>

text \<open>The account that \<open>/buy\<close> with these two words creates.\<close>

definition bought :: "string \<Rightarrow> string \<Rightarrow> database \<Rightarrow> database \<Rightarrow> bool" where
  "bought arg0 arg1 d d' \<longleftrightarrow>
     (\<exists>p a. p \<in> set (plans d) \<and> plan_is_active p \<and> py_int arg0 = Inr (int (plan_id p)) \<and>
        accounts d' = accounts d @ [a] \<and> acc_username a = py_strip (py_lower arg1) \<and>
        acc_plan a = Some (plan_id p) \<and> acc_status a = Active \<and> acc_created_by a = None \<and>
        servers d' = servers d \<and> plans d' = plans d \<and> sessions d' = sessions d)"

lemma bot_sale:
  assumes "py_try (py_bind (create_account E (default_args name p)) (\<lambda>acc.
      py_bind (get_server (acc_server acc)) (\<lambda>srv. py_return (f acc srv)))) h s = (r, t)"
    and h: "\<And>e u r v. h e u = (r, v) \<Longrightarrow> v = u"
  shows "same_tables (db s) (db t) \<or>
    (\<exists>a. accounts (db t) = accounts (db s) @ [a] \<and> acc_username a = name \<and> acc_plan a = Some (plan_id p) \<and>
       acc_status a = Active \<and> acc_created_by a = None \<and>
       servers (db t) = servers (db s) \<and> plans (db t) = plans (db s) \<and> sessions (db t) = sessions (db s))"
proof -
  obtain q u where run: "create_account E (default_args name p) s = (q, u)"
    by (cases "create_account E (default_args name p) s")
  show ?thesis
  proof (cases q)
    case (Inl e)
    with run have "same_tables (db s) (db u)" unfolding create_account_def by (auto dest: atomic_Inl)
    moreover have "t = u"
      using assms(1) run Inl by (auto simp: py_try_def py_bind_def dest: h)
    ultimately show ?thesis by simp
  next
    case (Inr a)
    have "t = u"
      using assms(1) run Inr
      by (auto simp: py_try_def py_bind_def py_return_def get_server_def query_def py_get_def found_def
          py_raise_def dest: h split: option.splits)
    with run Inr show ?thesis
      by (auto simp: created_from_def default_args_def elim!: create_account_Inr)
  qed
qed

lemma buy_found:
  assumes "py_int arg0 = Inr i" "find (\<lambda>p. int (plan_id p) = i \<and> plan_is_active p) (plans (db s)) = Some p"
  shows "\<exists>f. buy_cmd True E (arg0 # arg1 # rest) s =
    py_try (py_bind (create_account E (default_args (py_strip (py_lower arg1)) p)) (\<lambda>acc.
      py_bind (get_server (acc_server acc)) (\<lambda>srv. py_return (f acc srv))))
     (\<lambda>e. case e of AccountError m \<Rightarrow> py_return [''Error: '' @ m] | _ \<Rightarrow> py_raise e) s"
  by (rule exI, simp only: buy_cmd_def list.case assms sum.case Let_def orm_def if_True query_def
      py_bind_def [of "py_get _"] py_get_def prod.case option.case, (rule refl)?)

text \<open>
  C38: \<open>/buy\<close> answers anyone and asks for no payment: with the number of an active plan
  and a name it adds one account of that plan, in use at once and without a creator,
  or nothing, whatever the nodes answer and however it ends; and where the ORM refuses
  to run under the event loop it changes nothing and sends nothing.
\<close>

theorem bot_buy_outcome:
  assumes "buy_cmd b E args s = (r, t)"
  shows "(same_tables (db s) (db t) \<or>
      (\<exists>arg0 arg1 rest. args = arg0 # arg1 # rest \<and> bought arg0 arg1 (db s) (db t))) \<and>
    (\<not> b \<longrightarrow> t = s)"
proof (cases "\<exists>arg0 arg1 rest i. args = arg0 # arg1 # rest \<and> py_int arg0 = Inr i")
  case False
  then have "t = s"
    using assms by (auto simp: buy_cmd_def py_return_def split: list.splits sum.splits)
  then show ?thesis by (simp add: same_tables_def)
next
  case True
  then obtain arg0 arg1 rest i where args: "args = arg0 # arg1 # rest" "py_int arg0 = Inr i" by blast
  let ?found = "find (\<lambda>p. int (plan_id p) = i \<and> plan_is_active p) (plans (db s))"
  show ?thesis
  proof (cases "b \<and> ?found \<noteq> None")
    case False
    have "t = s"
    proof (cases b)
      case True
      with False have "?found = None" by simp
      with True assms args show ?thesis
        by (simp add: buy_cmd_def orm_def query_def py_get_def py_bind_def py_return_def Let_def)
    qed (use assms args in \<open>simp add: buy_cmd_def orm_def py_bind_def py_raise_def Let_def\<close>)
    then show ?thesis by (simp add: same_tables_def)
  next
    case True
    then obtain p where p: "?found = Some p" by auto
    then have plan: "p \<in> set (plans (db s))" "plan_is_active p" "int (plan_id p) = i"
      using find_SomeD [OF p] by auto
    obtain f where run: "py_try (py_bind (create_account E (default_args (py_strip (py_lower arg1)) p)) (\<lambda>acc.
        py_bind (get_server (acc_server acc)) (\<lambda>srv. py_return (f acc srv))))
       (\<lambda>e. case e of AccountError m \<Rightarrow> py_return [''Error: '' @ m] | _ \<Rightarrow> py_raise e) s = (r, t)"
      using buy_found [OF args(2) p, of E arg1 rest] assms True by (auto simp only: args)
    have "v = u" if "(case e of AccountError m \<Rightarrow> py_return [''Error: '' @ m] | _ \<Rightarrow> py_raise e) u = (r, v)"
      for e u v and r :: "exn + string list"
      using that by (cases e) (simp_all add: py_return_def py_raise_def)
    then have "same_tables (db s) (db t) \<or> (\<exists>a. accounts (db t) = accounts (db s) @ [a] \<and>
        acc_username a = py_strip (py_lower arg1) \<and> acc_plan a = Some (plan_id p) \<and> acc_status a = Active \<and>
        acc_created_by a = None \<and> servers (db t) = servers (db s) \<and> plans (db t) = plans (db s) \<and>
        sessions (db t) = sessions (db s))"
      by (rule bot_sale [OF run])
    then have "same_tables (db s) (db t) \<or> bought arg0 arg1 (db s) (db t)"
    proof (elim disjE exE)
      fix a assume "accounts (db t) = accounts (db s) @ [a] \<and>
        acc_username a = py_strip (py_lower arg1) \<and> acc_plan a = Some (plan_id p) \<and> acc_status a = Active \<and>
        acc_created_by a = None \<and> servers (db t) = servers (db s) \<and> plans (db t) = plans (db s) \<and>
        sessions (db t) = sessions (db s)"
      then have "bought arg0 arg1 (db s) (db t)"
        unfolding bought_def using plan args(2) by (intro exI [of _ p] exI [of _ a]) simp
      then show ?thesis ..
    qed simp
    with args(1) True show ?thesis by blast
  qed
qed

lemma demo_sale:
  "\<not> isl (fst (create_account demo_env (default_args ''amy'' demo_plan) demo_sys))"
  by (simp add: demo_defs run_defs ssh_defs create_account_def pick_best_server_def default_args_def default_to_def
   provision_ssh_account_def by_cpu_def is_available_def datetime_ok_def min_datetime_def max_datetime_def day_us_def
   epoch_ordinal_def current_user_count_def lift_result_def add_days_def generate_password_def upt_rec
   password_alphabet_def Let_def)

lemma bot_buy_outcome_witness:
  "\<exists>r t. buy_cmd True demo_env [''1'', ''amy''] demo_sys = (r, t) \<and> bought ''1'' ''amy'' demo_db (db t)"
proof -
  have int: "py_int ''1'' = Inr 1" and name: "py_strip (py_lower ''amy'') = ''amy''" by code_simp+
  have "find (\<lambda>p. int (plan_id p) = 1 \<and> plan_is_active p) (plans (db demo_sys)) = Some demo_plan"
    by (simp add: demo_sys_def demo_db_def demo_plan_def)
  from buy_found [OF int this, of demo_env "''amy''" "[]"] obtain f where
    sale: "buy_cmd True demo_env [''1'', ''amy''] demo_sys =
      py_try (py_bind (create_account demo_env (default_args ''amy'' demo_plan)) (\<lambda>acc.
        py_bind (get_server (acc_server acc)) (\<lambda>srv. py_return (f acc srv))))
       (\<lambda>e. case e of AccountError m \<Rightarrow> py_return [''Error: '' @ m] | _ \<Rightarrow> py_raise e) demo_sys"
    unfolding name by blast
  obtain a u where made: "create_account demo_env (default_args ''amy'' demo_plan) demo_sys = (Inr a, u)"
    using returned [OF demo_sale] by blast
  have accs: "accounts (db u) = accounts (db demo_sys) @ [a]" "servers (db u) = servers (db demo_sys)" "acc_server a = 1"
    using made by (auto simp: created_from_def default_args_def demo_sys_def demo_db_def demo_server_def
        elim!: create_account_Inr dest!: pick_best_server_Inr(3))
  then have "get_server (acc_server a) u = (Inr demo_server, u)"
    by (simp add: get_server_Inr demo_sys_def demo_db_def db_server_def demo_server_def)
  with made sale have run: "buy_cmd True demo_env [''1'', ''amy''] demo_sys = (Inr (f a demo_server), u)"
    by (simp add: py_try_def py_bind_def py_return_def)
  have "\<not> same_tables (db demo_sys) (db u)" using accs by (simp add: same_tables_def)
  with bot_buy_outcome [OF run] show ?thesis using run by (auto simp: demo_sys_def)
qed

end
