(* ===== verification/Ledger.thy ===== *)
theory Ledger
  imports Panel
begin

text \<open>
  What the panel promises of its accounts, as a machine that knows nothing of SSH, of
  requests or of tables: a ledger of numbered accounts, each with a name on one server,
  two tokens and at most one plan. Every step of the machine is one change of the
  ledger, with the condition it needs. The panel refines it: seen through
  \<open>ledger_of\<close>, whatever an activity does is a sequence of steps of the ledger.
\<close>

section \<open>The abstract machine\<close>

record entry =
  ent_name :: string
  ent_server :: nat
  ent_plan :: "nat option"
  ent_protocol :: protocol
  ent_access :: uuid
  ent_auth :: uuid
  ent_created_by :: "nat option"
  ent_created_at :: int

record ledger =
  led_servers :: "nat set"
  led_plans :: "nat set"
  led_accounts :: "nat \<rightharpoonup> entry"
  led_next :: nat

text \<open>
  An entry is admissible under a number when its plan and server are on the books and it
  shares no key with an entry of another number.
\<close>

definition shared_key :: "entry \<Rightarrow> entry \<Rightarrow> bool" where
  "shared_key e e' \<longleftrightarrow>
     ent_name e = ent_name e' \<and> ent_server e = ent_server e' \<or>
     ent_access e = ent_access e' \<or> ent_auth e = ent_auth e'"

definition admissible :: "ledger \<Rightarrow> nat \<Rightarrow> entry \<Rightarrow> bool" where
  "admissible L i e \<longleftrightarrow>
     ent_server e \<in> led_servers L \<and> set_option (ent_plan e) \<subseteq> led_plans L \<and>
     (\<forall>j e'. led_accounts L j = Some e' \<longrightarrow> j \<noteq> i \<longrightarrow> \<not> shared_key e e')"

definition without_plan :: "nat \<Rightarrow> entry \<Rightarrow> entry" where
  "without_plan p e = (if ent_plan e = Some p then e\<lparr>ent_plan := None\<rparr> else e)"

inductive ledger_step :: "ledger \<Rightarrow> ledger \<Rightarrow> bool" where
  add_server: "k \<notin> led_servers L \<Longrightarrow> ledger_step L (L\<lparr>led_servers := insert k (led_servers L)\<rparr>)"
| drop_server: "(\<forall>e \<in> ran (led_accounts L). ent_server e \<noteq> k) \<Longrightarrow>
    ledger_step L (L\<lparr>led_servers := led_servers L - {k}\<rparr>)"
| add_plan: "p \<notin> led_plans L \<Longrightarrow> ledger_step L (L\<lparr>led_plans := insert p (led_plans L)\<rparr>)"
| drop_plan: "ledger_step L (L\<lparr>led_plans := led_plans L - {p},
    led_accounts := map_option (without_plan p) \<circ> led_accounts L\<rparr>)"
| skip_number: "ledger_step L (L\<lparr>led_next := Suc (led_next L)\<rparr>)"
| open_account: "admissible L (led_next L) e \<Longrightarrow>
    ledger_step L (L\<lparr>led_next := Suc (led_next L), led_accounts := (led_accounts L)(led_next L \<mapsto> e)\<rparr>)"
| move_account: "led_accounts L i = Some e \<Longrightarrow> admissible L i (e\<lparr>ent_server := k\<rparr>) \<Longrightarrow>
    ledger_step L (L\<lparr>led_accounts := (led_accounts L)(i \<mapsto> e\<lparr>ent_server := k\<rparr>)\<rparr>)"
| leave_plan: "led_accounts L i = Some e \<Longrightarrow>
    ledger_step L (L\<lparr>led_accounts := (led_accounts L)(i \<mapsto> e\<lparr>ent_plan := None\<rparr>)\<rparr>)"

inductive_cases ledger_stepE: "ledger_step L L'"

definition ledger_ok :: "ledger \<Rightarrow> bool" where
  "ledger_ok L \<longleftrightarrow> (\<forall>i e. led_accounts L i = Some e \<longrightarrow> i < led_next L \<and> admissible L i e)"

text \<open>What two entries of the same number have in common over time.\<close>

definition same_entry :: "entry \<Rightarrow> entry \<Rightarrow> bool" where
  "same_entry e e' \<longleftrightarrow> ent_plan e' \<in> {ent_plan e, None} \<and>
     e' = e\<lparr>ent_server := ent_server e', ent_plan := ent_plan e'\<rparr>"


section \<open>What the machine guarantees\<close>

lemma shared_key_sym: "shared_key e e' \<longleftrightarrow> shared_key e' e"
  by (auto simp: shared_key_def)

lemma without_plan_simps [simp]:
  "ent_name (without_plan p e) = ent_name e" "ent_server (without_plan p e) = ent_server e"
  "ent_access (without_plan p e) = ent_access e" "ent_auth (without_plan p e) = ent_auth e"
  by (simp_all add: without_plan_def)

text \<open>Entries that keep their keys, and whose references are still on the books, stay admissible.\<close>

lemma ledger_ok_keys:
  assumes ok: "ledger_ok L" and le: "led_next L \<le> led_next L'"
    and from_L: "\<And>i e'. led_accounts L' i = Some e' \<Longrightarrow> \<exists>e. led_accounts L i = Some e \<and>
      ent_name e' = ent_name e \<and> ent_server e' = ent_server e \<and>
      ent_access e' = ent_access e \<and> ent_auth e' = ent_auth e"
    and refs: "\<And>i e e'. led_accounts L i = Some e \<Longrightarrow> led_accounts L' i = Some e' \<Longrightarrow>
      ent_server e \<in> led_servers L \<Longrightarrow> set_option (ent_plan e) \<subseteq> led_plans L \<Longrightarrow>
      ent_server e' \<in> led_servers L' \<and> set_option (ent_plan e') \<subseteq> led_plans L'"
  shows "ledger_ok L'"
  unfolding ledger_ok_def admissible_def
proof (intro allI impI conjI)
  fix i e' assume i: "led_accounts L' i = Some e'"
  from from_L [OF i] obtain e where e: "led_accounts L i = Some e"
    and same: "ent_name e' = ent_name e" "ent_server e' = ent_server e"
      "ent_access e' = ent_access e" "ent_auth e' = ent_auth e" by blast
  from ok e have adm: "admissible L i e" and "i < led_next L" by (simp_all add: ledger_ok_def)
  with le show "i < led_next L'" by simp
  from adm refs [OF e i] show "ent_server e' \<in> led_servers L'" "set_option (ent_plan e') \<subseteq> led_plans L'"
    by (simp_all add: admissible_def)
  fix j f' assume j: "led_accounts L' j = Some f'" and ij: "j \<noteq> i"
  from from_L [OF j] obtain f where f: "led_accounts L j = Some f"
    and same': "ent_name f' = ent_name f" "ent_server f' = ent_server f"
      "ent_access f' = ent_access f" "ent_auth f' = ent_auth f" by blast
  from adm f ij have "\<not> shared_key e f" unfolding admissible_def by blast
  with same same' show "\<not> shared_key e' f'" by (simp add: shared_key_def)
qed

text \<open>So does every entry beside one that is written and admissible.\<close>

lemma ledger_ok_write:
  assumes ok: "ledger_ok L" and e: "admissible L i e" and i: "i < n" and n: "led_next L \<le> n"
  shows "ledger_ok (L\<lparr>led_next := n, led_accounts := (led_accounts L)(i \<mapsto> e)\<rparr>)"
  unfolding ledger_ok_def
proof (intro allI impI conjI)
  fix j f assume "led_accounts (L\<lparr>led_next := n, led_accounts := (led_accounts L)(i \<mapsto> e)\<rparr>) j = Some f"
  then have f: "if j = i then f = e else led_accounts L j = Some f" by (simp split: if_splits)
  show "j < led_next (L\<lparr>led_next := n, led_accounts := (led_accounts L)(i \<mapsto> e)\<rparr>)"
  proof (cases "j = i")
    case False
    with f ok have "j < led_next L" by (simp add: ledger_ok_def)
    with n show ?thesis by simp
  qed (use i in simp)
  have "admissible L j f" using f ok e by (cases "j = i") (simp_all add: ledger_ok_def)
  moreover have "\<not> shared_key f e" if "j \<noteq> i"
    using that f e by (simp add: admissible_def shared_key_sym [of f e])
  ultimately show "admissible (L\<lparr>led_next := n, led_accounts := (led_accounts L)(i \<mapsto> e)\<rparr>) j f"
    by (auto simp: admissible_def)
qed

lemma ledger_ok_entry:
  "ledger_ok L \<Longrightarrow> led_accounts L i = Some e \<Longrightarrow>
     i < led_next L \<and> ent_server e \<in> led_servers L \<and> set_option (ent_plan e) \<subseteq> led_plans L"
  by (simp add: ledger_ok_def admissible_def)

lemma ledger_ok_step:
  assumes "ledger_step L L'" and "ledger_ok L"
  shows "ledger_ok L'"
  using assms
proof (induction rule: ledger_step.induct)
  case (add_server k L)
  show ?case by (rule ledger_ok_keys [of L]) (use add_server in \<open>auto\<close>)
next
  case (drop_server L k)
  show ?case by (rule ledger_ok_keys [of L]) (use drop_server in \<open>auto intro: ranI\<close>)
next
  case (add_plan p L)
  show ?case by (rule ledger_ok_keys [of L]) (use add_plan in \<open>auto\<close>)
next
  case (drop_plan L p)
  show ?case by (rule ledger_ok_keys [of L]) (use drop_plan in \<open>auto simp: without_plan_def split: if_splits\<close>)
next
  case (skip_number L)
  show ?case by (rule ledger_ok_keys [of L]) (use skip_number in \<open>auto\<close>)
next
  case (open_account L e)
  then show ?case using ledger_ok_write [of L "led_next L" e "Suc (led_next L)"] by simp
next
  case (move_account L i e k)
  then show ?case
    using ledger_ok_write [of L i "e\<lparr>ent_server := k\<rparr>" "led_next L"] ledger_ok_entry [of L i e] by simp
next
  case (leave_plan L i e)
  show ?case by (rule ledger_ok_keys [of L]) (use leave_plan in \<open>auto split: if_splits\<close>)
qed

lemma ledger_ok_run: "ledger_step\<^sup>*\<^sup>* L L' \<Longrightarrow> ledger_ok L \<Longrightarrow> ledger_ok L'"
  by (induction rule: rtranclp_induct) (auto intro: ledger_ok_step)

lemma same_entry_refl [simp]: "same_entry e e"
  by (simp add: same_entry_def)

lemma same_entry_trans: "same_entry e f \<Longrightarrow> same_entry f g \<Longrightarrow> same_entry e g"
  by (cases e; cases f; cases g) (auto simp: same_entry_def)

text \<open>
  A number below the next one is settled: it names the account it names now for ever, and
  if it names none now it never will.
\<close>

definition settled :: "ledger \<Rightarrow> ledger \<Rightarrow> bool" where
  "settled L L' \<longleftrightarrow> led_next L \<le> led_next L' \<and>
     (\<forall>i < led_next L. rel_option same_entry (led_accounts L i) (led_accounts L' i))"

lemma settled_step: "ledger_step L L' \<Longrightarrow> settled L L'"
  by (induction rule: ledger_step.induct)
     (auto simp: settled_def same_entry_def without_plan_def option.rel_map intro!: option.rel_refl)

lemma settled_run: "ledger_step\<^sup>*\<^sup>* L L' \<Longrightarrow> settled L L'"
proof (induction rule: rtranclp_induct)
  case base
  show ?case by (simp add: settled_def option.rel_refl)
next
  case (step M N)
  have "rel_option same_entry (led_accounts L i) (led_accounts N i)" if "i < led_next L" for i
  proof -
    from step.IH that have "rel_option same_entry (led_accounts L i) (led_accounts M i)"
      and "i < led_next M" by (auto simp: settled_def)
    moreover from this settled_step [OF step.hyps(2)]
    have "rel_option same_entry (led_accounts M i) (led_accounts N i)" by (simp add: settled_def)
    ultimately show ?thesis
      by (cases "led_accounts L i"; cases "led_accounts M i"; cases "led_accounts N i")
         (auto intro: same_entry_trans)
  qed
  then show ?case using step.IH settled_step [OF step.hyps(2)] by (simp add: settled_def)
qed


section \<open>The panel seen as a ledger\<close>

definition entry_of :: "account \<Rightarrow> entry" where
  "entry_of a =
     \<lparr>ent_name = acc_username a, ent_server = acc_server a, ent_plan = acc_plan a,
      ent_protocol = acc_protocol_type a, ent_access = acc_access_token a,
      ent_auth = acc_auth_token a, ent_created_by = acc_created_by a,
      ent_created_at = acc_created_at a\<rparr>"

definition ledger_of :: "database \<Rightarrow> ledger" where
  "ledger_of d =
     \<lparr>led_servers = set (map srv_id (servers d)), led_plans = set (map plan_id (plans d)),
      led_accounts = (\<lambda>i. map_option entry_of (db_account d i)), led_next = next_account d\<rparr>"

lemma entry_of_simps [simp]:
  "ent_name (entry_of a) = acc_username a" "ent_server (entry_of a) = acc_server a"
  "ent_plan (entry_of a) = acc_plan a" "ent_access (entry_of a) = acc_access_token a"
  "ent_auth (entry_of a) = acc_auth_token a"
  by (simp_all add: entry_of_def)

lemma ledger_of_simps [simp]:
  "led_servers (ledger_of d) = set (map srv_id (servers d))"
  "led_plans (ledger_of d) = set (map plan_id (plans d))"
  "led_accounts (ledger_of d) i = map_option entry_of (db_account d i)"
  "led_next (ledger_of d) = next_account d"
  by (simp_all add: ledger_of_def)

text \<open>Only these columns show in the ledger.\<close>

lemma ledger_of_eqI:
  "map srv_id (servers d) = map srv_id (servers d') \<Longrightarrow> map plan_id (plans d) = map plan_id (plans d') \<Longrightarrow>
     accounts d = accounts d' \<Longrightarrow> next_account d = next_account d' \<Longrightarrow> ledger_of d = ledger_of d'"
  by (simp add: ledger_of_def db_account_def flip: set_map)

lemma account_ok_entry:
  assumes "account_ok d a"
  shows "acc_server a \<in> srv_id ` set (servers d) \<and> set_option (acc_plan a) \<subseteq> plan_id ` set (plans d)"
  using assms by (auto simp: account_ok_def on_the_books [simplified] split: option.splits)

lemma shared_key_entry:
  assumes "account_violation d a = None" and "db_account d j = Some r" and "j \<noteq> acc_id a"
  shows "\<not> shared_key (entry_of a) (entry_of r)"
  using account_violation_None(2) [OF assms(1), of r] db_account_Some [OF assms(2)] assms(3)
  by (auto simp: shared_key_def)

lemma ledger_skip: "ledger_step\<^sup>*\<^sup>* L (L\<lparr>led_next := led_next L + k\<rparr>)"
proof (induction k)
  case (Suc k)
  have "ledger_step (L\<lparr>led_next := led_next L + k\<rparr>) (L\<lparr>led_next := led_next L + Suc k\<rparr>)"
    using skip_number [of "L\<lparr>led_next := led_next L + k\<rparr>"] by simp
  with Suc show ?case by simp
qed simp

section \<open>Every statement is a run of the ledger\<close>

definition ledger_refined :: "database \<Rightarrow> database \<Rightarrow> bool" where
  "ledger_refined d d' \<longleftrightarrow>
     wf_step d d' \<and> (db_wf d \<longrightarrow> ledger_step\<^sup>*\<^sup>* (ledger_of d) (ledger_of d'))"

lemma ledger_refinedI:
  assumes "steps wf_step m"
    and "\<And>d. db_wf d \<Longrightarrow> ledger_of (snd (m d)) = ledger_of d \<or> ledger_step (ledger_of d) (ledger_of (snd (m d)))"
  shows "steps ledger_refined m"
proof (rule stepsI)
  fix d
  have "ledger_step\<^sup>*\<^sup>* (ledger_of d) (ledger_of (snd (m d)))" if "db_wf d"
    using assms(2) [OF that] by auto
  then show "ledger_refined d (snd (m d))"
    using stepsD [OF assms(1)] by (simp add: ledger_refined_def)
qed

lemma wf_fresh:
  assumes "db_wf d"
  shows "next_server d \<notin> srv_id ` set (servers d)" "next_plan d \<notin> plan_id ` set (plans d)"
    "db_account d (next_account d) = None"
  using assms
  by (auto simp: db_wf_def servers_ok_def plans_ok_def accounts_ok_def ids_ok_def db_account_def find_None_iff)

lemma ledger_of_sequences [simp]:
  "ledger_of (d\<lparr>next_server := n\<rparr>) = ledger_of d" "ledger_of (d\<lparr>next_plan := n\<rparr>) = ledger_of d"
  by (rule ledger_of_eqI; simp)+

lemma ledger_new_server:
  assumes "srv_id r \<notin> srv_id ` set (servers d)"
  shows "ledger_step (ledger_of d) (ledger_of (d\<lparr>servers := servers d @ [r]\<rparr>))"
proof -
  have "ledger_of (d\<lparr>servers := servers d @ [r]\<rparr>) =
      (ledger_of d)\<lparr>led_servers := insert (srv_id r) (led_servers (ledger_of d))\<rparr>"
    by (simp add: ledger_of_def db_account_def)
  with add_server [of "srv_id r" "ledger_of d"] assms show ?thesis by simp
qed

lemma ledger_new_plan:
  assumes "plan_id r \<notin> plan_id ` set (plans d)"
  shows "ledger_step (ledger_of d) (ledger_of (d\<lparr>plans := plans d @ [r]\<rparr>))"
proof -
  have "ledger_of (d\<lparr>plans := plans d @ [r]\<rparr>) =
      (ledger_of d)\<lparr>led_plans := insert (plan_id r) (led_plans (ledger_of d))\<rparr>"
    by (simp add: ledger_of_def db_account_def)
  with add_plan [of "plan_id r" "ledger_of d"] assms show ?thesis by simp
qed

lemma ledger_insert_server:
  assumes "db_wf d"
  shows "ledger_of (snd (insert_server r d)) = ledger_of d \<or>
    ledger_step (ledger_of d) (ledger_of (snd (insert_server r d)))"
  using ledger_new_server [of "r\<lparr>srv_id := next_server d\<rparr>" "d\<lparr>next_server := Suc (next_server d)\<rparr>"]
    wf_fresh(1) [OF assms]
  by (simp add: insert_server_def Let_def split: option.split)

lemma ledger_restore_server:
  "ledger_of (snd (restore_server r d)) = ledger_of d \<or>
     ledger_step (ledger_of d) (ledger_of (snd (restore_server r d)))"
  using ledger_new_server [of r d] on_the_books(1) [of d "srv_id r"]
  by (simp add: restore_server_def split: option.split)

lemma ledger_insert_plan:
  assumes "db_wf d"
  shows "ledger_of (snd (insert_plan r d)) = ledger_of d \<or>
    ledger_step (ledger_of d) (ledger_of (snd (insert_plan r d)))"
  using ledger_new_plan [of "r\<lparr>plan_id := next_plan d\<rparr>" "d\<lparr>next_plan := Suc (next_plan d)\<rparr>"]
    wf_fresh(2) [OF assms]
  by (simp add: insert_plan_def Let_def split: option.split)

lemma ledger_delete_server:
  "ledger_of (snd (delete_server i d)) = ledger_of d \<or>
     ledger_step (ledger_of d) (ledger_of (snd (delete_server i d)))"
proof (cases "list_ex (\<lambda>a. acc_server a = i) (accounts d)")
  case False
  have "ledger_of (snd (delete_server i d)) =
      (ledger_of d)\<lparr>led_servers := led_servers (ledger_of d) - {i}\<rparr>"
    using False by (auto simp: delete_server_def ledger_of_def db_account_def)
  moreover have "\<forall>e \<in> ran (led_accounts (ledger_of d)). ent_server e \<noteq> i"
    using False by (auto simp: ran_def list_ex_iff dest: db_account_Some)
  ultimately show ?thesis using drop_server [of "ledger_of d" i] by simp
qed (simp add: delete_server_def)

lemma ledger_delete_plan:
  "ledger_step (ledger_of d) (ledger_of (snd (delete_plan i d)))"
proof -
  have "entry_of (forget_plan i a) = without_plan i (entry_of a)" for a
    by (simp add: entry_of_def forget_plan_def without_plan_def)
  then have "ledger_of (snd (delete_plan i d)) =
      (ledger_of d)\<lparr>led_plans := led_plans (ledger_of d) - {i},
        led_accounts := map_option (without_plan i) \<circ> led_accounts (ledger_of d)\<rparr>"
    by (auto simp: delete_plan_def ledger_of_def db_account_def find_map_key option.map_comp fun_eq_iff comp_def)
  then show ?thesis using drop_plan [of "ledger_of d" i] by simp
qed

lemma ledger_insert_account:
  assumes wf: "db_wf d"
  shows "ledger_of (snd (insert_account r d)) = ledger_of d \<or>
    ledger_step (ledger_of d) (ledger_of (snd (insert_account r d)))"
proof (cases "account_violation (d\<lparr>next_account := Suc (next_account d)\<rparr>) (r\<lparr>acc_id := next_account d\<rparr>)")
  case None
  let ?r = "r\<lparr>acc_id := next_account d\<rparr>" and ?d = "d\<lparr>next_account := Suc (next_account d)\<rparr>"
  have none: "db_account d (next_account d) = None" by (rule wf_fresh(3) [OF wf])
  have "ledger_of (?d\<lparr>accounts := accounts d @ [?r]\<rparr>) =
      (ledger_of d)\<lparr>led_next := Suc (led_next (ledger_of d)),
        led_accounts := (led_accounts (ledger_of d))(led_next (ledger_of d) \<mapsto> entry_of ?r)\<rparr>"
    using db_account_insert [of ?d ?r] none by (auto simp: ledger_of_def fun_eq_iff split: option.split)
  moreover have "admissible (ledger_of d) (next_account d) (entry_of ?r)"
    using account_ok_entry [OF account_violation_None(1) [OF None]] shared_key_entry [OF None]
    by (auto simp: admissible_def)
  ultimately show ?thesis
    using open_account [of "ledger_of d" "entry_of ?r"] None by (simp add: insert_account_def Let_def)
next
  case (Some e)
  have "ledger_of (d\<lparr>next_account := Suc (next_account d)\<rparr>) =
      (ledger_of d)\<lparr>led_next := Suc (led_next (ledger_of d))\<rparr>"
    by (simp add: ledger_of_def)
  then show ?thesis using skip_number [of "ledger_of d"] Some by (simp add: insert_account_def Let_def)
qed

text \<open>An update that keeps the identity moves the account, or takes it off its plan, or both.\<close>

lemma ledger_update_account:
  assumes wf: "db_wf d" and g: "\<And>a. same_identity a (g a)"
  shows "ledger_step\<^sup>*\<^sup>* (ledger_of d) (ledger_of (snd (update_account i g d)))"
proof (cases "db_account d i")
  case None
  then show ?thesis by (simp add: update_account_def)
next
  case (Some r)
  let ?L = "ledger_of d" and ?e = "entry_of r" and ?k = "acc_server (g r)"
  have ids: "acc_id (g a) = acc_id a" for a using g [of a] by (simp add: same_identity_def)
  show ?thesis
  proof (cases "account_violation d (g r)")
    case None
    let ?M = "?L\<lparr>led_accounts := (led_accounts ?L)(i \<mapsto> ?e\<lparr>ent_server := ?k\<rparr>)\<rparr>"
    have moved: "?e\<lparr>ent_server := ?k, ent_plan := acc_plan (g r)\<rparr> = entry_of (g r)"
      using g [of r] by (simp add: same_identity_def entry_of_def)
    have old: "account_ok d r"
      using wf db_account_Some [OF Some] by (simp add: db_wf_def accounts_ok_def)
    have "shared_key (?e\<lparr>ent_server := ?k\<rparr>) f \<longleftrightarrow> shared_key (entry_of (g r)) f" for f
      using g [of r] by (simp add: shared_key_def same_identity_def)
    moreover have "acc_id (g r) = i" using db_account_Some [OF Some] by (simp add: ids)
    ultimately have "\<not> shared_key (?e\<lparr>ent_server := ?k\<rparr>) (entry_of x)" if "db_account d j = Some x" "j \<noteq> i" for j x
      using shared_key_entry [OF None that(1)] that(2) by simp
    then have "admissible ?L i (?e\<lparr>ent_server := ?k\<rparr>)"
      using account_ok_entry [OF old] account_ok_entry [OF account_violation_None(1) [OF None]]
      by (auto simp: admissible_def)
    then have move: "ledger_step ?L ?M" using move_account [of ?L i ?e ?k] Some by simp
    have "map_option entry_of (db_account (d\<lparr>accounts := replace_key acc_id i g (accounts d)\<rparr>) j) =
        (if j = i then Some (entry_of (g r)) else map_option entry_of (db_account d j))" for j
      using Some db_account_Some [of d j] by (cases "db_account d j") (auto simp: db_account_update ids)
    then have result: "ledger_of (snd (update_account i g d)) =
        ?L\<lparr>led_accounts := (led_accounts ?L)(i \<mapsto> entry_of (g r))\<rparr>"
      using Some None by (simp add: update_account_def ledger_of_def fun_eq_iff)
    show ?thesis
    proof (cases "acc_plan (g r) = acc_plan r")
      case True
      with moved have "entry_of (g r) = ?e\<lparr>ent_server := ?k\<rparr>" by (simp flip: moved add: entry_of_def)
      with move result show ?thesis by simp
    next
      case False
      with g [of r] have "acc_plan (g r) = None" by (simp add: same_identity_def)
      with moved have "entry_of (g r) = ?e\<lparr>ent_server := ?k, ent_plan := None\<rparr>" by simp
      with leave_plan [of ?M i "?e\<lparr>ent_server := ?k\<rparr>"]
      have "ledger_step ?M (ledger_of (snd (update_account i g d)))" by (simp add: result)
      with move show ?thesis by (rule converse_rtranclp_into_rtranclp [OF _ r_into_rtranclp])
    qed
  qed (simp add: update_account_def Some)
qed

lemma ledger_rollback:
  assumes "sequences_le a b"
  shows "ledger_step\<^sup>*\<^sup>* (ledger_of a) (ledger_of (rollback a b))"
proof -
  have "ledger_of (rollback a b) =
      (ledger_of a)\<lparr>led_next := led_next (ledger_of a) + (next_account b - next_account a)\<rparr>"
    using assms by (simp add: ledger_of_def rollback_def sequences_le_def db_account_def)
  then show ?thesis using ledger_skip [of "ledger_of a"] by simp
qed

interpretation ledger: statement_effect ledger_refined
proof
  show "ledger_refined d d" for d by (simp add: ledger_refined_def wf.D_refl)
next
  show "ledger_refined a c" if "ledger_refined a b" "ledger_refined b c" for a b c
  proof -
    from that have "db_wf a \<longrightarrow> db_wf b" by (simp add: ledger_refined_def wf_step_def)
    with that show ?thesis unfolding ledger_refined_def by (meson wf.D_trans rtranclp_trans)
  qed
next
  show "steps ledger_refined (insert_server srv)" for srv
    by (rule ledger_refinedI [OF wf.D_insert_server ledger_insert_server])
next
  show "steps ledger_refined (insert_plan p)" for p
    by (rule ledger_refinedI [OF wf.D_insert_plan ledger_insert_plan])
next
  show "steps ledger_refined (insert_account acc)" for acc
    by (rule ledger_refinedI [OF wf.D_insert_account ledger_insert_account])
next
  show "steps ledger_refined (insert_session ok ses)" for ok ses
    by (rule ledger_refinedI [OF wf.D_insert_session])
       (auto simp: insert_session_def Let_def intro: ledger_of_eqI split: option.split)
next
  show "steps ledger_refined (insert_log l)" for l
    by (rule ledger_refinedI [OF wf.D_insert_log])
       (auto simp: insert_log_def Let_def intro: ledger_of_eqI split: option.split)
next
  show "steps ledger_refined (update_account i g)" if "\<And>a. same_identity a (g a)" for i g
    using wf.D_update_account [OF that] ledger_update_account [OF _ that]
    by (simp add: steps_def ledger_refined_def)
next
  show "steps ledger_refined (update_server i h)" if "\<And>r. srv_id (h r) = srv_id r" for i h
    by (rule ledger_refinedI [OF wf.D_update_server [OF that]])
       (auto simp: update_server_def keys_replace_key that intro!: ledger_of_eqI split: option.split)
next
  show "steps ledger_refined (restore_server srv)" for srv
    by (rule ledger_refinedI [OF wf.D_restore_server ledger_restore_server])
next
  show "steps ledger_refined (update_plan i k)" if "\<And>r. plan_id (k r) = plan_id r" for i k
    by (rule ledger_refinedI [OF wf.D_update_plan [OF that]])
       (auto simp: update_plan_def keys_replace_key that intro!: ledger_of_eqI split: option.split)
next
  show "steps ledger_refined (delete_server i)" for i
    by (rule ledger_refinedI [OF wf.D_delete_server ledger_delete_server])
next
  show "steps ledger_refined (delete_plan i)" for i
    by (rule ledger_refinedI [OF wf.D_delete_plan]) (simp add: ledger_delete_plan)
next
  show "steps ledger_refined (delete_sessions_of_server i)" for i
    by (rule ledger_refinedI [OF wf.D_delete_sessions])
       (auto simp: delete_sessions_of_server_def intro: ledger_of_eqI)
next
  show "ledger_refined a b \<Longrightarrow> ledger_refined a (rollback a b)" for a b
    using wf.D_rollback [of a b] ledger_rollback [of a b] by (simp add: ledger_refined_def wf_step_def)
qed


section \<open>Consequences for the panel\<close>

lemma ledger_of_ok: "db_wf d \<Longrightarrow> ledger_ok (ledger_of d)"
  unfolding ledger_ok_def admissible_def
proof (intro allI impI conjI)
  fix i e assume wf: "db_wf d" and i: "led_accounts (ledger_of d) i = Some e"
  then obtain a where a: "a \<in> set (accounts d)" "acc_id a = i" and e: "e = entry_of a"
    by (auto dest: db_account_Some)
  from wf a show "i < led_next (ledger_of d)" by (auto simp: db_wf_def accounts_ok_def ids_ok_def)
  from wf a(1) have "account_ok d a" by (simp add: db_wf_def accounts_ok_def)
  from account_ok_entry [OF this] e
  show "ent_server e \<in> led_servers (ledger_of d)" "set_option (ent_plan e) \<subseteq> led_plans (ledger_of d)" by auto
  fix j e' assume "led_accounts (ledger_of d) j = Some e'" and ij: "j \<noteq> i"
  then obtain b where b: "b \<in> set (accounts d)" "acc_id b = j" and e': "e' = entry_of b"
    by (auto dest: db_account_Some)
  have differ: "k a \<noteq> k b" if "distinct (map k (accounts d))" for k :: "account \<Rightarrow> 'k"
    using that a b ij by (metis distinct_map_eqD)
  from wf have "distinct (map (\<lambda>a. (acc_username a, acc_server a)) (accounts d))"
    "distinct (map acc_access_token (accounts d))" "distinct (map acc_auth_token (accounts d))"
    by (simp_all add: db_wf_def accounts_ok_def)
  from this [THEN differ] show "\<not> shared_key e e'" by (simp add: e e' shared_key_def)
qed

lemma reachable_ledger:
  "reachable E F b s t \<Longrightarrow> db_wf (db s) \<Longrightarrow> ledger_step\<^sup>*\<^sup>* (ledger_of (db s)) (ledger_of (db t))"
  using ledger.reachable_effect [of E F b s t] by (simp add: ledger_refined_def)

text \<open>
  A number below the sequence's next that names no account, because a creation took it and
  failed, never names one.
\<close>

lemma lost_numbers_stay_lost:
  assumes "reachable E F b s t" and "db_wf (db s)"
    and "i < next_account (db s)" and "db_account (db s) i = None"
  shows "db_account (db t) i = None"
  using settled_run [OF reachable_ledger [OF assms(1,2)]] assms(3,4)
  by (auto simp: settled_def dest!: spec [of _ i])

end
