(* ===== verification/Spec2Isabelle.thy ===== *)
theory Spec2Isabelle
  imports AccountProperties TaskProperties ApiProperties TextProperties MigrationProperties SiteProperties
    Ledger
begin

text \<open>
  A model of the management panel of an SSH and ShadowLink VPN, a Django project, and the
  theorems that say what it promises. The panel keeps servers, plans, accounts, sessions
  and an audit log in PostgreSQL; it creates and removes Linux users on remote nodes over
  SSH, registers tunnel tokens at the HTTP bridge of a ShadowLink node, and is entered
  through a REST API, periodic Celery jobs, a Telegram bot, the administration site and
  management commands. Sources are named relative to \<open>src/\<close>.

  \<^bold>\<open>How a program is modelled.\<close> A piece of code that touches state is a value of type
  \<open>('s, 'a) py\<close>: a function from a state to a result and a state, where the result is an
  exception (\<open>Inl e\<close>) or a value (\<open>Inr x\<close>), and the state is the one the exception leaves
  behind. \<open>py_bind\<close>, \<open>py_try\<close>, \<open>py_finally\<close>, \<open>py_for\<close> and \<open>py_fold\<close> are the statements.
  The state \<open>'w sys\<close> has the tables (\<open>db\<close>), the dictionary of health check failures of
  \<open>servers/tasks.py\<close>, an opaque world, and a list \<open>io\<close> of every connection, command,
  upload and request so far. What is not code of the repository is a field of the record
  \<open>env\<close> (the clock, the random sources, paramiko, requests, YAML, Celery's queue, the
  collation of the database), of \<open>drf\<close> (how the REST framework reads and prints a value)
  or of \<open>decouple\<close> (variables of the environment), each a function of which nothing is
  assumed, so a theorem holds whatever the nodes, the network and the clock do. A theorem
  that needs more, as \<open>unreachable\<close> or that the framework prints times as texts, names it
  as a hypothesis and has a witness where it holds.

  \<^bold>\<open>Numbers and texts.\<close> Python's integers are \<open>int\<close>; what the columns of the database can
  hold is a check of every write (\<open>account_violation\<close>, \<open>server_violation\<close>,
  \<open>plan_violation\<close>), whose failure is an exception as in PostgreSQL. A float is a
  rational number, an infinity or no number, and the roundings of a division and of
  \<open>round\<close> are written out. Times are microseconds since 1970 with the range of
  \<open>datetime\<close> checked. A text is a list of characters below 256.

  \<^bold>\<open>Termination.\<close> There is no fuel: every loop of the panel runs over a finite list or
  counts to a given number, so every definition is total; the one recursion that is not
  structural, reading a pattern of an address, has a measure. How long a loop can wait
  for the nodes is the subject of Durations.

  \<^bold>\<open>The theories.\<close>
  \<^item> Prelude: exceptions, computations, loops, and the two calculi of the proofs. \<open>steps R m\<close>
    relates the states before and after \<open>m\<close> on every exit; the locale \<open>effect\<close> has its
    rules for any reflexive and transitive \<open>R\<close> and is interpreted on frames (\<open>same_db\<close>,
    \<open>quiet\<close>, \<open>same_io\<close>, \<open>same_count\<close>) and traces.
  \<^item> PyText, PyFloat, PyTime: what the code uses of Python's \<open>str\<close>, \<open>float\<close>, \<open>datetime\<close>.
  \<^item> Models: the tables and rows of \<open>servers/models.py\<close>, \<open>plans/models.py\<close>,
    \<open>accounts/models.py\<close> with their constraints, orderings and \<open>on_delete\<close> rules.
    Integrity: \<open>db_wf\<close> and what each statement keeps of it; the locale \<open>statement_effect\<close>
    asks a relation on databases to hold of every statement and is interpreted on the
    integrity of the database, the growth of the log and the identity of accounts.
  \<^item> World: \<open>env\<close>, \<open>sys\<close>, and the part of the ORM the code uses, transactions included.
  \<^item> SshManager (\<open>servers/ssh.py\<close>), ShadowLinkManager (\<open>servers/shadowlink.py\<close>),
    AccountServices (\<open>accounts/services.py\<close>, \<open>accounts/utils.py\<close>), AccountTasks
    (\<open>accounts/tasks.py\<close>), ServerTasks (\<open>servers/tasks.py\<close>), one definition per method.
  \<^item> ApiSerializers (\<open>api/serializers.py\<close>), ApiViews (\<open>api/views.py\<close>, \<open>api/urls.py\<close>),
    AdminActions and AdminSite (\<open>admin.py\<close> of the three applications, and what Django's
    built-in deletion does with them), TelegramBot (\<open>bot/telegram_bot.py\<close>), Commands
    (\<open>setup_server\<close>, \<open>seedplans\<close>), Settings (\<open>sshvpn/settings.py\<close>, \<open>manage.py\<close>, the
    \<open>apps.py\<close> files), Routes (\<open>sshvpn/urls.py\<close> and how an address is resolved, with the
    addresses of \<open>frontend/src/api/endpoints.ts\<close>), Migrations and Tables (the eight
    migrations: the state of the models they build, and the hand-written steps on tables
    that may have been migrated in part).
  \<^item> Panel: every entry of the panel as an \<open>activity\<close>, \<open>perform\<close> which runs one, and the
    relation \<open>reachable\<close> of the states that activities, restarts of the worker and changes
    of the world lead to; \<open>sshvpn/celery.py\<close>.
  \<^item> AccountFacts, CreateFacts, Acceptance, RunFacts, NodeFacts, TaskFacts, TrafficFacts, JobFacts,
    HealthFacts, ApiFacts, DeployFacts, TextFacts, Shell: what these operations do, as lemmas the
    properties apply. The locale \<open>lifecycle\<close> of AccountFacts holds what suspending,
    activating and deleting share and is interpreted on the three. HealthFacts is the
    abstract machine of the health checks, Shell a POSIX shell's division into words, to
    measure the quoting against.
  \<^item> Interleavings: \<open>create_account\<close> divided where it reads from where it writes, and a pool
    of processes whose halves interleave in any order. Durations: the calculus
    \<open>waits k m\<close>. Frontend: the interfaces of \<open>frontend/src/lib/types.ts\<close> as types of JSON
    values, and the calculus \<open>yields P m\<close> for what a view returns.
  \<^item> Ledger: the abstract machine of what the panel promises of its accounts, its invariant,
    and the refinement: \<open>statement_effect\<close> interpreted a fourth time, on the relation that
    a change of the database is a run of the ledger.
  \<^item> Demo, DemoApi: a concrete database, nodes and users for the witnesses.
  \<^item> AccountProperties, TaskProperties, ApiProperties, TextProperties, MigrationProperties,
    SiteProperties and this theory: the properties, each with a run it applies to.

  \<^bold>\<open>What the properties show.\<close> Over every run of the panel the database stays consistent,
  the log only grows, and what happens to the accounts is a run of an abstract ledger, in
  which no account is lost, changes its identity or shares a key with another. Each service and
  each job has its exact effect on rows, log and nodes, on the normal exit and on an
  exception: creation is atomic and succeeds where it ought to, a lifecycle operation is all-or-nothing in the database,
  an expiry or clean-up touches only accounts that are due, a synchronisation only what is
  in service, the health checks refine a
  machine that takes a server down at the third failure in a row. Requests without
  administrator rights change nothing, the public page hides secrets, quoting keeps user
  names out of the shell, except for the one command that leaves them unquoted, which the
  webhook reaches. Addresses lead to their views, answers have the type the frontend
  gives them, with two exceptions that are stated, and jobs end in a time the rows bound.
  Some theorems show where the code does less than it means to; these are in the
  manifest's findings.

  \<^bold>\<open>Concurrency.\<close> In \<open>reachable\<close> activities run one after the other, each to its end; the
  world may change in between. Two properties are about processes at the same time: the
  overrun of a server's capacity by concurrent creations, and a health check that writes
  back a row read earlier, also one that was deleted since.

  \<^bold>\<open>Not modelled.\<close> The pages of the administration site apart from their lists, actions and
  deletion (forms, inline editing, the import); how the framework reads the filters, search
  and ordering of a list request (what the views declare for it is modelled, and its
  selection is the argument \<open>drf_select\<close>, which can only pick rows of the queryset); throttling,
  authentication, sessions and the CSRF protection, which the framework does from
  declarations; the printing of a float that is no number, which the framework refuses;
  log messages; the translation of the ordinary migrations into SQL; help texts and labels. The ShadowLink
  proxy (\<open>shadowlink/\<close>, Go) is another program; the panel only talks to its bridge. Of
  the web frontend the types and addresses of its calls are modelled, its pages are not.
\<close>

section \<open>Properties of the whole panel\<close>

text \<open>A state the panel reaches in two activities, for the witnesses.\<close>

definition demo_after :: "nat sys" where
  "demo_after =
     snd (perform demo_env demo_drf False SeedPlans
       (snd (perform demo_env demo_drf False (RunJob ExpireUsers) demo_sys)))"

lemma demo_reachable: "reachable demo_env demo_drf False demo_sys demo_after"
  unfolding demo_after_def by (rule reach_step, rule reach_step, rule reach_start, rule perform_step, rule perform_step)

text \<open>
  C1: whatever the panel does, requests of any user, jobs, bot and management commands,
  whatever the nodes and the world answer, and wherever an exception ends it, a
  consistent database stays consistent: keys are unique, user names are unique per
  server, tokens are unique, references lead to rows, columns keep their bounds.
\<close>

theorem panel_keeps_integrity:
  assumes "reachable E F b s t" and "db_wf (db s)"
  shows "db_wf (db t)"
  using wf.reachable_effect [OF assms(1)] assms(2) by (simp add: wf_step_def)

lemma panel_keeps_integrity_witness: "db_wf (db demo_after)"
  by (rule panel_keeps_integrity [OF demo_reachable]) (simp add: demo_sys_def demo_wf)





text \<open>
  No activity of the panel loses an account, and an account keeps its id, name, protocol,
  tokens, creator and time of creation; its plan is the one it had, or none once that
  plan was deleted.
\<close>

theorem accounts_keep_identity:
  assumes "reachable E F b s t" and "db_account (db s) i = Some a"
  shows "\<exists>a'. db_account (db t) i = Some a' \<and> same_identity a a'"
  using identity.reachable_effect [OF assms(1)] assms(2) by (simp add: identity_step_def)

lemma accounts_keep_identity_witness:
  "\<exists>a'. db_account (db demo_after) 1 = Some a' \<and> same_identity demo_account a'"
  by (rule accounts_keep_identity [OF demo_reachable])
     (simp add: demo_sys_def demo_db_def demo_account_def db_account_def)

end
